(* ===== verification/Go_Prelude.thy ===== *)
theory Go_Prelude
  imports Main "HOL-Library.Word" "HOL-Library.Finite_Map" "HOL-Library.List_Lexorder"
    "HOL-Library.Char_ord" "HOL-Library.State_Monad"
begin

text \<open>
  The part of Go and of its standard library that the operator's sources use, and the lemmas the
  component theories share.

  Go values.  \<open>int32\<close> and \<open>int64\<close> are machine words read as two's complement by \<^const>\<open>sint\<close>;
  a Go string is a string of bytes, so \<open>len\<close> is \<^const>\<open>length\<close> and the order of
  \<open>slices.Sort\<close> is the lexicographic order of bytes; a \<open>map[string]T\<close> is a finite map, in which
  a nil map and an empty map are the same value; a pointer that may be nil is an option.  An
  \<open>error\<close> that is not nil is a \<open>goerror\<close>, a pair \<open>(T, error)\<close> is a value of the sum
  \<open>goerror + T\<close> and a single \<open>error\<close> result is an option.

  Effects.  A function that has effects is a computation of the state monad of the library, over
  the state each component theory names.

  Fact collections: \<open>go_simps\<close> gathers the equations that evaluate library functions.
\<close>

named_theorems go_simps \<open>evaluation of the modelled Go library functions\<close>

section \<open>Types\<close>

type_synonym int32 = "32 word"
type_synonym int64 = "64 word"
type_synonym gomap = "(string, string) fmap"

text \<open>
  A \<open>metav1.Time\<close> is the number of nanoseconds of an instant, or the zero time.  The clock of the
  process is the sequence of the readings still to come: each reading takes the first of them.
\<close>

type_synonym instant = int
type_synonym go_time = "instant option"
type_synonym clock = "nat \<Rightarrow> instant"

definition IsZero :: "go_time option \<Rightarrow> bool" where
  "IsZero t = (case t of None \<Rightarrow> True | Some i \<Rightarrow> i = None)"

definition tick :: "clock \<Rightarrow> clock" where
  "tick c = (\<lambda>n. c (Suc n))"

section \<open>strconv, fmt and strings\<close>

definition digit :: "nat \<Rightarrow> char" where
  "digit n = ''0123456789'' ! n"

fun itoa_nat :: "nat \<Rightarrow> string" where
  "itoa_nat n = (if n < 10 then [digit n] else itoa_nat (n div 10) @ [digit (n mod 10)])"

declare itoa_nat.simps [simp del]

definition Itoa :: "int \<Rightarrow> string" where
  "Itoa i = (if i < 0 then ''-'' @ itoa_nat (nat (- i)) else itoa_nat (nat i))"

definition hexdigit :: "nat \<Rightarrow> char" where
  "hexdigit n = ''0123456789abcdef'' ! n"

text \<open>
  The verb \<open>%q\<close> on a string of ASCII bytes: printable characters stand for themselves, quotes and
  backslashes are escaped, the named control characters have their letter and every other byte
  is written \<open>\x\<close> with two hexadecimal digits.
\<close>

definition quote_byte :: "char \<Rightarrow> string" where
  "quote_byte c =
     (let n = of_char c :: nat; bs = char_of (92::nat) in
      if n = 34 \<or> n = 92 then [bs, c]
      else if 32 \<le> n \<and> n < 127 then [c]
      else if 7 \<le> n \<and> n \<le> 13 then [bs, ''abtnvfr'' ! (n - 7)]
      else [bs, CHR ''x'', hexdigit (n div 16), hexdigit (n mod 16)])"

definition Quote :: "string \<Rightarrow> string" where
  "Quote s = char_of (34::nat) # concat (map quote_byte s) @ [char_of (34::nat)]"

text \<open>A decimal reader, the inverse of \<^const>\<open>itoa_nat\<close> on the digits it writes.\<close>

definition digit_value :: "char \<Rightarrow> nat" where
  "digit_value c = of_char c - 48"

definition atoi_nat :: "string \<Rightarrow> nat" where
  "atoi_nat = foldl (\<lambda>n c. 10 * n + digit_value c) 0"

section \<open>errors\<close>

text \<open>
  The errors the operator meets: one that a library call returned (with the reason and the text the
  API machinery gives it), one wrapped by \<open>fmt.Errorf\<close> with the verb \<open>%w\<close> behind a prefix,
  and the \<open>errors.Join\<close> of two.
\<close>

datatype goerror =
    APIError string string
  | Wrapf string goerror
  | Joined goerror goerror

primrec Error :: "goerror \<Rightarrow> string" where
  "Error (APIError reason message) = message"
| "Error (Wrapf prefix err) = prefix @ Error err"
| "Error (Joined e f) = Error e @ char_of (10::nat) # Error f"

section \<open>maps and slices\<close>

text \<open>
  \<open>maps.Copy\<close> overwrites; ranging over a map visits its keys in an order Go does not specify,
  of which \<open>range_keys\<close> is one.
\<close>

definition maps_Copy :: "gomap \<Rightarrow> gomap \<Rightarrow> gomap" where
  "maps_Copy dst src = dst ++\<^sub>f src"

definition range_keys :: "(string, 'v) fmap \<Rightarrow> string list" where
  "range_keys m = sorted_list_of_fset (fmdom m)"

section \<open>Lemmas on strings and numbers\<close>

lemma digit_value_digit [simp]: "n < 10 \<Longrightarrow> digit_value (digit n) = n"
proof -
  assume "n < 10"
  then have "n \<in> {0, 1, 2, 3, 4, 5, 6, 7, 8, 9}" by auto
  then show ?thesis by (auto simp: digit_def digit_value_def)
qed

lemma digit_in_digits: "n < 10 \<Longrightarrow> digit n \<in> set ''0123456789''"
  unfolding digit_def by (rule nth_mem) simp

lemma atoi_append: "atoi_nat (xs @ [c]) = 10 * atoi_nat xs + digit_value c"
  by (simp add: atoi_nat_def)

lemma atoi_itoa [simp]: "atoi_nat (itoa_nat n) = n"
proof (induction n rule: itoa_nat.induct)
  case (1 n)
  show ?case
  proof (cases "n < 10")
    case True
    then show ?thesis
      by (subst itoa_nat.simps) (simp add: atoi_append [of "[]", simplified] atoi_nat_def)
  next
    case False
    with 1 show ?thesis by (subst itoa_nat.simps) (simp add: atoi_append)
  qed
qed

lemma itoa_nat_digits: "set (itoa_nat n) \<subseteq> set ''0123456789''"
proof (induction n rule: itoa_nat.induct)
  case (1 n)
  show ?case
  proof (cases "n < 10")
    case True
    then have "itoa_nat n = [digit n]" by (subst itoa_nat.simps) simp
    then show ?thesis
      using digit_in_digits [OF True] by (simp only: list.set insert_subset empty_subsetI simp_thms)
  next
    case False
    then have "set (itoa_nat (n div 10)) \<subseteq> set ''0123456789''" by (rule 1)
    moreover have "digit (n mod 10) \<in> set ''0123456789''"
      by (rule digit_in_digits) simp
    ultimately show ?thesis
      using False by (subst itoa_nat.simps) auto
  qed
qed

lemma colon_notin_itoa [simp]: "CHR '':'' \<notin> set (itoa_nat n)"
  using itoa_nat_digits [of n] by auto

lemma itoa_nat_inject [simp]: "itoa_nat m = itoa_nat n \<longleftrightarrow> m = n"
  by (metis atoi_itoa)

lemma Itoa_nonneg: "0 \<le> i \<Longrightarrow> Itoa i = itoa_nat (nat i)"
  by (simp add: Itoa_def)

lemma minus_notin_itoa: "CHR ''-'' \<notin> set (itoa_nat n)"
  using itoa_nat_digits [of n] by auto

lemma Itoa_inject [simp]: "Itoa i = Itoa j \<longleftrightarrow> i = j"
proof
  assume eq: "Itoa i = Itoa j"
  have neg: "CHR ''-'' \<in> set (Itoa k) \<longleftrightarrow> k < 0" for k
    by (simp add: Itoa_def minus_notin_itoa)
  have "i < 0 \<longleftrightarrow> j < 0" using neg [of i] neg [of j] eq by simp
  then show "i = j" using eq by (auto simp: Itoa_def split: if_splits)
qed simp

text \<open>Evaluation of the decimal printer on a numeral, digit by digit.\<close>

lemma itoa_nat_small [go_simps]: "n < 10 \<Longrightarrow> itoa_nat n = [digit n]"
  by (subst itoa_nat.simps) simp

lemma itoa_nat_big [go_simps]: "\<not> n < 10 \<Longrightarrow> itoa_nat n = itoa_nat (n div 10) @ [digit (n mod 10)]"
  by (subst itoa_nat.simps) simp

lemmas go_eval = go_simps Itoa_def digit_def

text \<open>Splitting a text at the first separator.\<close>

lemma split_at_separator:
  assumes "xs @ c # ys = xs' @ c # ys'" and "c \<notin> set xs" and "c \<notin> set xs'"
  shows "xs = xs' \<and> ys = ys'"
  using assms
proof (induction xs arbitrary: xs')
  case Nil
  then show ?case by (cases xs') auto
next
  case (Cons x xs)
  then show ?case by (cases xs') auto
qed

lemma takeWhile_separator: "c \<notin> set xs \<Longrightarrow> takeWhile (\<lambda>x. x \<noteq> c) (xs @ c # ys) = xs"
  by (induction xs) auto

lemma dropWhile_separator: "c \<notin> set xs \<Longrightarrow> dropWhile (\<lambda>x. x \<noteq> c) (xs @ c # ys) = c # ys"
  by (induction xs) auto

section \<open>Lemmas on maps and sorting\<close>

lemma set_range_keys [simp]: "set (range_keys m) = fset (fmdom m)"
  by (simp add: range_keys_def)

lemma sorted_range_keys [simp]: "sorted (range_keys m)"
  by (simp add: range_keys_def sorted_list_of_fset.rep_eq)

lemma distinct_range_keys [simp]: "distinct (range_keys m)"
  by (simp add: range_keys_def sorted_list_of_fset.rep_eq)

lemma fmlookup_maps_Copy [simp]:
  "fmlookup (maps_Copy dst src) k =
     (case fmlookup src k of None \<Rightarrow> fmlookup dst k | Some v \<Rightarrow> Some v)"
  by (auto simp: maps_Copy_def map_add_def split: option.splits)

text \<open>Whatever order a range loop visits the keys in, sorting them gives the same slice.\<close>

lemma sort_any_key_order:
  assumes "distinct ks" and "set ks = fset (fmdom m)"
  shows "sort ks = range_keys m"
proof (rule sorted_distinct_set_unique)
  show "sorted (sort ks)" by simp
  show "distinct (sort ks)" using assms(1) by simp
  show "sorted (range_keys m)" by simp
  show "distinct (range_keys m)" by simp
  show "set (sort ks) = set (range_keys m)" using assms(2) by simp
qed

section \<open>Machine integers\<close>

lemma sint_int32_bounds: "- (2 ^ 31) \<le> sint (w :: int32)" "sint (w :: int32) < 2 ^ 31"
  using sint_ge [of w] sint_lt [of w] by simp_all

text \<open>The conversion \<open>int64(x)\<close> of an \<open>int32\<close> keeps its value, and adding a small constant
  to it does not wrap around.\<close>

lemma sint_scast_int32: "sint (scast (w :: int32) :: int64) = sint w"
  by (rule sint_up_scast) (simp add: is_up_def target_size source_size)

lemma sint_widened_add:
  assumes "0 \<le> k" and "k < 2 ^ 31"
  shows "sint (scast (w :: int32) + (word_of_int k :: int64)) = sint w + k"
proof -
  have w: "- (2 ^ 31) \<le> sint w" "sint w < 2 ^ 31" by (rule sint_int32_bounds)+
  have "scast w + (word_of_int k :: int64) = word_of_int (sint w + k)"
    by (simp only: scast_eq wi_hom_add)
  also have "sint \<dots> = signed_take_bit 63 (sint w + k)"
    by (subst sint_sbintrunc') simp
  also have "\<dots> = sint w + k"
    using w assms by (intro signed_take_bit_int_eq_self) auto
  finally show ?thesis .
qed

end
