(* ===== verification/Kube_Types.thy ===== *)
theory Kube_Types
  imports Go_Prelude
begin

text \<open>
  The Kubernetes API objects the operator reads and builds (packages \<open>meta/v1\<close>, \<open>core/v1\<close>,
  \<open>apps/v1\<close>, \<open>policy/v1\<close>, \<open>networking/v1\<close>, \<open>autoscaling/v2\<close>), as records with the fields
  the operator's sources name.  They are data of a library: the operator's own types are in
  \<open>Api_Types\<close>.  A field that the sources never set is the zero value in every object they
  build, and is left out unless the operator is documented to keep it (the cluster address of a
  Service) or to reset it (the pause flag of a Deployment).

  A \<open>corev1.Affinity\<close> and a resource quantity are carried as opaque texts: the operator copies
  them and never looks inside.
\<close>

section \<open>meta/v1\<close>

record NamespacedName =
  Key_Namespace :: string
  Key_Name :: string

record OwnerReference =
  Owner_Kind :: string
  Owner_Name :: string
  Owner_UID :: string
  Owner_Controller :: bool

record ObjectMeta =
  Name :: string
  Namespace :: string
  UID :: string
  Generation :: int64
  Labels :: gomap
  Annotations :: gomap
  OwnerReferences :: "OwnerReference list"
  DeletionTimestamp :: "go_time option"

definition object_meta :: "string \<Rightarrow> string \<Rightarrow> gomap \<Rightarrow> ObjectMeta" where
  "object_meta name namespace labels =
     \<lparr>Name = name, Namespace = namespace, UID = '''', Generation = 0, Labels = labels,
      Annotations = fmempty, OwnerReferences = [], DeletionTimestamp = None\<rparr>"

definition ObjectKey :: "ObjectMeta \<Rightarrow> NamespacedName" where
  "ObjectKey m = \<lparr>Key_Namespace = Namespace m, Key_Name = Name m\<rparr>"

record LabelSelectorRequirement =
  Requirement_Key :: string
  Requirement_Operator :: string
  Requirement_Values :: "string list"

record LabelSelector =
  MatchLabels :: gomap
  MatchExpressions :: "LabelSelectorRequirement list"

definition match_labels :: "gomap \<Rightarrow> LabelSelector" where
  "match_labels m = \<lparr>MatchLabels = m, MatchExpressions = []\<rparr>"

record Condition =
  Condition_Type :: string
  Condition_Status :: string
  Condition_ObservedGeneration :: int64
  LastTransitionTime :: go_time
  Reason :: string
  Message :: string

abbreviation ConditionTrue :: string where "ConditionTrue \<equiv> ''True''"
abbreviation ConditionFalse :: string where "ConditionFalse \<equiv> ''False''"

datatype IntOrString = FromInt32 int32 | FromString string

section \<open>core/v1\<close>

record ConfigMap =
  ConfigMap_Meta :: ObjectMeta
  Data :: gomap

record ServiceAccount =
  ServiceAccount_Meta :: ObjectMeta
  SA_AutomountServiceAccountToken :: "bool option"
  SA_ImagePullSecrets :: "string list"

record ServicePort =
  ServicePort_Name :: string
  ServicePort_Protocol :: string
  ServicePort_Port :: int32
  TargetPort :: IntOrString
  NodePort :: int32

record ServiceSpec =
  ServiceSpec_Type :: string
  ServiceSpec_Selector :: gomap
  ServiceSpec_Ports :: "ServicePort list"
  ClusterIP :: string

record Service =
  Service_Meta :: ObjectMeta
  Service_Spec :: ServiceSpec

record Toleration =
  Toleration_Key :: string
  Toleration_Operator :: string
  Toleration_Value :: string
  Toleration_Effect :: string
  TolerationSeconds :: "int64 option"

datatype Affinity = Affinity string

record ResourceRequirements =
  Limits :: gomap
  Requests :: gomap
  Claims :: "string list"

record SecretKeySelector =
  Selector_Name :: string
  Selector_Key :: string

record EnvVar =
  EnvVar_Name :: string
  EnvVar_Value :: string
  SecretKeyRef :: "SecretKeySelector option"

record SecurityContext =
  AllowPrivilegeEscalation :: "bool option"
  ReadOnlyRootFilesystem :: "bool option"
  Drop :: "string list"

record ContainerPort =
  ContainerPort_Name :: string
  ContainerPort_ContainerPort :: int32
  ContainerPort_Protocol :: string

record Probe =
  HTTPGet_Path :: string
  HTTPGet_Port :: IntOrString
  PeriodSeconds :: int32
  TimeoutSeconds :: int32
  FailureThreshold :: int32

record Container =
  Container_Name :: string
  Container_Image :: string
  ImagePullPolicy :: string
  Container_SecurityContext :: "SecurityContext option"
  Container_Ports :: "ContainerPort list"
  StartupProbe :: "Probe option"
  LivenessProbe :: "Probe option"
  ReadinessProbe :: "Probe option"
  EnvFrom_ConfigMapRef :: "string list"
  Env :: "EnvVar list"
  Container_Resources :: ResourceRequirements

record PodSecurityContext =
  RunAsNonRoot :: "bool option"
  RunAsUser :: "int64 option"
  RunAsGroup :: "int64 option"
  SeccompProfile_Type :: "string option"

record TopologySpreadConstraint =
  MaxSkew :: int32
  TopologyKey :: string
  WhenUnsatisfiable :: string
  Topology_LabelSelector :: "LabelSelector option"

record PodSpec =
  ServiceAccountName :: string
  Pod_AutomountServiceAccountToken :: "bool option"
  EnableServiceLinks :: "bool option"
  TerminationGracePeriodSeconds :: "int64 option"
  Pod_SecurityContext :: "PodSecurityContext option"
  Pod_ImagePullSecrets :: "string list"
  Pod_NodeSelector :: gomap
  Pod_Tolerations :: "Toleration list"
  Pod_Affinity :: "Affinity option"
  TopologySpreadConstraints :: "TopologySpreadConstraint list"
  Containers :: "Container list"

record PodTemplateSpec =
  Template_Labels :: gomap
  Template_Annotations :: gomap
  Template_Spec :: PodSpec

section \<open>apps/v1\<close>

record RollingUpdateDeployment =
  Rolling_MaxUnavailable :: "IntOrString option"
  Rolling_MaxSurge :: "IntOrString option"

record DeploymentSpec =
  Replicas :: "int32 option"
  ProgressDeadlineSeconds :: "int32 option"
  Deployment_Selector :: "LabelSelector option"
  RevisionHistoryLimit :: "int32 option"
  Strategy_Type :: string
  Strategy_RollingUpdate :: "RollingUpdateDeployment option"
  Template :: PodTemplateSpec
  Paused :: bool

record DeploymentCondition =
  DC_Type :: string
  DC_Status :: string
  DC_Reason :: string
  DC_Message :: string

record DeploymentStatus =
  DS_ObservedGeneration :: int64
  DS_Replicas :: int32
  DS_UpdatedReplicas :: int32
  DS_ReadyReplicas :: int32
  DS_AvailableReplicas :: int32
  DS_UnavailableReplicas :: int32
  DS_Conditions :: "DeploymentCondition list"

record Deployment =
  Deployment_Meta :: ObjectMeta
  Deployment_Spec :: DeploymentSpec
  Deployment_Status :: DeploymentStatus

definition zero_deployment_status :: DeploymentStatus where
  "zero_deployment_status =
     \<lparr>DS_ObservedGeneration = 0, DS_Replicas = 0, DS_UpdatedReplicas = 0, DS_ReadyReplicas = 0,
      DS_AvailableReplicas = 0, DS_UnavailableReplicas = 0, DS_Conditions = []\<rparr>"

section \<open>policy/v1, networking/v1 and autoscaling/v2\<close>

record PodDisruptionBudgetSpec =
  PDB_MaxUnavailable :: "IntOrString option"
  PDB_Selector :: "LabelSelector option"

record PodDisruptionBudget =
  PDB_Meta :: ObjectMeta
  PDB_Spec :: PodDisruptionBudgetSpec

record NetworkPolicyPeer =
  Peer_NamespaceSelector :: "LabelSelector option"
  Peer_PodSelector :: "LabelSelector option"

record NetworkPolicyPort =
  NetworkPort_Protocol :: "string option"
  NetworkPort_Port :: "IntOrString option"

record NetworkPolicyIngressRule =
  From :: "NetworkPolicyPeer list"
  Ingress_Ports :: "NetworkPolicyPort list"

record NetworkPolicySpec =
  Policy_PodSelector :: LabelSelector
  PolicyTypes :: "string list"
  Policy_Ingress :: "NetworkPolicyIngressRule list"

record NetworkPolicy =
  NetworkPolicy_Meta :: ObjectMeta
  NetworkPolicy_Spec :: NetworkPolicySpec

record CrossVersionObjectReference =
  Ref_APIVersion :: string
  Ref_Kind :: string
  Ref_Name :: string

record MetricSpec =
  Metric_Type :: string
  Metric_ResourceName :: string
  Metric_TargetType :: string
  AverageUtilization :: "int32 option"

record HorizontalPodAutoscalerSpec =
  ScaleTargetRef :: CrossVersionObjectReference
  HPA_MinReplicas :: "int32 option"
  HPA_MaxReplicas :: int32
  Metrics :: "MetricSpec list"

record HorizontalPodAutoscaler =
  HPA_Meta :: ObjectMeta
  HPA_Spec :: HorizontalPodAutoscalerSpec

end
