(* ===== verification/Api_Types.thy ===== *)
theory Api_Types
  imports Kube_Types
begin

text \<open>
  The custom resource of the operator, \<open>api/v1alpha1/trussiumruntime_types.go\<close>: one record per
  struct, in the order of the file, and the schema the \<open>+kubebuilder\<close> markers of that file
  declare.  \<open>default_spec\<close> is what the API server fills in and \<open>admitted_spec\<close> what it then
  accepts; an integer or string that is absent in a manifest is the zero value of the Go
  struct.  The format check \<open>uri\<close> belongs to the API server and is the argument \<open>is_uri\<close>.

  The last section derives from the markers what the other theories rely on: bounds of the numbers
  and the alphabets of the image fields.
\<close>

section \<open>The custom resource\<close>

abbreviation ProviderTypeOpenAI :: string where "ProviderTypeOpenAI \<equiv> ''openai''"
abbreviation ProviderTypeOllama :: string where "ProviderTypeOllama \<equiv> ''ollama''"

record NamedReference =
  NamedReference_Name :: string

record SecretKeyReference =
  SecretKeyReference_Name :: string
  SecretKeyReference_Key :: string

record RuntimeImageSpec =
  Repository :: string
  Tag :: "string option"
  Digest :: "string option"
  PullPolicy :: string

record ProviderSpec =
  Provider_Type :: string
  Model :: string
  BaseURL :: "string option"
  CredentialsSecretRef :: "SecretKeyReference option"

record RuntimeSettingsSpec =
  ProviderRequestTimeoutSeconds :: "int32 option"
  StreamIdleTimeoutSeconds :: "int32 option"
  ShutdownDrainTimeoutSeconds :: "int32 option"

record RuntimeServiceSpec =
  RuntimeService_Type :: string
  RuntimeService_Port :: int32

record RuntimeNetworkPolicyIngressRule =
  Rule_NamespaceSelector :: LabelSelector
  Rule_PodSelector :: "LabelSelector option"

record RuntimeNetworkPolicySpec =
  NetworkPolicy_Enabled :: bool
  NetworkPolicy_Ingress :: "RuntimeNetworkPolicyIngressRule list"

record RuntimeAutoscalingSpec =
  Autoscaling_Enabled :: bool
  MinReplicas :: int32
  MaxReplicas :: int32
  TargetCPUUtilizationPercentage :: int32

record PodMetadataSpec =
  PodMetadata_Labels :: gomap
  PodMetadata_Annotations :: gomap

record SchedulingSpec =
  NodeSelector :: gomap
  Tolerations :: "Toleration list"
  Scheduling_Affinity :: "Affinity option"

record TrussiumRuntimeSpec =
  Image :: RuntimeImageSpec
  Spec_Replicas :: "int32 option"
  ImagePullSecrets :: "NamedReference list"
  Provider :: ProviderSpec
  Runtime :: "RuntimeSettingsSpec option"
  RuntimeService :: RuntimeServiceSpec
  RuntimeNetworkPolicy :: "RuntimeNetworkPolicySpec option"
  Autoscaling :: "RuntimeAutoscalingSpec option"
  Resources :: ResourceRequirements
  PodMetadata :: "PodMetadataSpec option"
  Scheduling :: "SchedulingSpec option"

record TrussiumRuntimeStatus =
  ObservedGeneration :: int64
  ReadyReplicas :: int32
  AvailableReplicas :: int32
  DesiredImage :: string
  CurrentImage :: string
  LastSuccessfulImage :: string
  Endpoint :: string
  Conditions :: "Condition list"

record TrussiumRuntime =
  Runtime_Meta :: ObjectMeta
  Spec :: TrussiumRuntimeSpec
  Status :: TrussiumRuntimeStatus

section \<open>The schema: defaults\<close>

definition default_image :: "RuntimeImageSpec \<Rightarrow> RuntimeImageSpec" where
  "default_image i = (if PullPolicy i = '''' then i\<lparr>PullPolicy := ''IfNotPresent''\<rparr> else i)"

definition default_service :: "RuntimeServiceSpec \<Rightarrow> RuntimeServiceSpec" where
  "default_service s =
     \<lparr>RuntimeService_Type =
        (if RuntimeService_Type s = '''' then ''ClusterIP'' else RuntimeService_Type s),
      RuntimeService_Port = (if RuntimeService_Port s = 0 then 9000 else RuntimeService_Port s)\<rparr>"

definition default_autoscaling :: "RuntimeAutoscalingSpec \<Rightarrow> RuntimeAutoscalingSpec" where
  "default_autoscaling a =
     a\<lparr>MinReplicas := (if MinReplicas a = 0 then 1 else MinReplicas a),
       MaxReplicas := (if MaxReplicas a = 0 then 10 else MaxReplicas a),
       TargetCPUUtilizationPercentage :=
         (if TargetCPUUtilizationPercentage a = 0 then 80 else TargetCPUUtilizationPercentage a)\<rparr>"

definition default_spec :: "TrussiumRuntimeSpec \<Rightarrow> TrussiumRuntimeSpec" where
  "default_spec s =
     s\<lparr>Image := default_image (Image s),
       Spec_Replicas := (case Spec_Replicas s of None \<Rightarrow> Some 1 | Some n \<Rightarrow> Some n),
       RuntimeService := default_service (RuntimeService s),
       Autoscaling := map_option default_autoscaling (Autoscaling s)\<rparr>"

definition default_runtime :: "TrussiumRuntime \<Rightarrow> TrussiumRuntime" where
  "default_runtime rt = rt\<lparr>Spec := default_spec (Spec rt)\<rparr>"

section \<open>The schema: validation\<close>

text \<open>\<open>MaxLength\<close> counts characters: the bytes of a UTF-8 text that do not continue one.\<close>

definition rune_count :: "string \<Rightarrow> nat" where
  "rune_count s = length (filter (\<lambda>c. (of_char c :: nat) div 64 \<noteq> 2) s)"

definition length_between :: "nat \<Rightarrow> nat \<Rightarrow> string \<Rightarrow> bool" where
  "length_between lo hi s \<longleftrightarrow> lo \<le> rune_count s \<and> rune_count s \<le> hi"

definition between :: "int \<Rightarrow> int \<Rightarrow> int32 \<Rightarrow> bool" where
  "between lo hi n \<longleftrightarrow> lo \<le> sint n \<and> sint n \<le> hi"

definition opt_all :: "('a \<Rightarrow> bool) \<Rightarrow> 'a option \<Rightarrow> bool" where
  "opt_all P x = (case x of None \<Rightarrow> True | Some a \<Rightarrow> P a)"

abbreviation lower_digits :: string where
  "lower_digits \<equiv> ''abcdefghijklmnopqrstuvwxyz0123456789''"

abbreviation alphanumerics :: string where
  "alphanumerics \<equiv> ''ABCDEFGHIJKLMNOPQRSTUVWXYZ'' @ lower_digits"

definition object_name_pattern :: "string \<Rightarrow> bool" where
  "object_name_pattern s \<longleftrightarrow>
     s \<noteq> [] \<and> hd s \<in> set lower_digits \<and> last s \<in> set lower_digits \<and>
     set s \<subseteq> set (''-.'' @ lower_digits)"

definition secret_key_pattern :: "string \<Rightarrow> bool" where
  "secret_key_pattern s \<longleftrightarrow> s \<noteq> [] \<and> set s \<subseteq> set (''._-'' @ alphanumerics)"

definition repository_pattern :: "string \<Rightarrow> bool" where
  "repository_pattern s \<longleftrightarrow>
     s \<noteq> [] \<and> hd s \<in> set alphanumerics \<and> set s \<subseteq> set (''._:/-'' @ alphanumerics)"

definition tag_pattern :: "string \<Rightarrow> bool" where
  "tag_pattern s \<longleftrightarrow>
     s \<noteq> [] \<and> hd s \<in> set (''_'' @ alphanumerics) \<and>
     set (tl s) \<subseteq> set (''._-'' @ alphanumerics) \<and> length s \<le> 128"

definition digest_pattern :: "string \<Rightarrow> bool" where
  "digest_pattern s \<longleftrightarrow>
     take 7 s = ''sha256:'' \<and> length s = 71 \<and> set (drop 7 s) \<subseteq> set ''abcdef0123456789''"

definition valid_named_reference :: "NamedReference \<Rightarrow> bool" where
  "valid_named_reference r \<longleftrightarrow>
     length_between 1 253 (NamedReference_Name r) \<and> object_name_pattern (NamedReference_Name r)"

definition valid_secret_key_reference :: "SecretKeyReference \<Rightarrow> bool" where
  "valid_secret_key_reference r \<longleftrightarrow>
     length_between 1 253 (SecretKeyReference_Name r) \<and>
     object_name_pattern (SecretKeyReference_Name r) \<and>
     length_between 1 253 (SecretKeyReference_Key r) \<and> secret_key_pattern (SecretKeyReference_Key r)"

definition valid_image :: "RuntimeImageSpec \<Rightarrow> bool" where
  "valid_image i \<longleftrightarrow>
     (Tag i \<noteq> None) \<noteq> (Digest i \<noteq> None) \<and>
     length_between 1 255 (Repository i) \<and> repository_pattern (Repository i) \<and>
     opt_all (\<lambda>t. length_between 1 128 t \<and> tag_pattern t) (Tag i) \<and>
     opt_all digest_pattern (Digest i) \<and>
     PullPolicy i \<in> set [''Always'', ''IfNotPresent'', ''Never'']"

definition valid_provider :: "(string \<Rightarrow> bool) \<Rightarrow> ProviderSpec \<Rightarrow> bool" where
  "valid_provider is_uri p \<longleftrightarrow>
     Provider_Type p \<in> set [ProviderTypeOpenAI, ProviderTypeOllama] \<and>
     length_between 1 255 (Model p) \<and>
     opt_all (\<lambda>u. is_uri u \<and> length_between 0 2048 u) (BaseURL p) \<and>
     opt_all valid_secret_key_reference (CredentialsSecretRef p)"

definition valid_runtime_settings :: "RuntimeSettingsSpec \<Rightarrow> bool" where
  "valid_runtime_settings r \<longleftrightarrow>
     opt_all (between 1 3600) (ProviderRequestTimeoutSeconds r) \<and>
     opt_all (between 1 3600) (StreamIdleTimeoutSeconds r) \<and>
     opt_all (between 1 3600) (ShutdownDrainTimeoutSeconds r)"

definition valid_service :: "RuntimeServiceSpec \<Rightarrow> bool" where
  "valid_service s \<longleftrightarrow>
     RuntimeService_Type s \<in> set [''ClusterIP'', ''NodePort'', ''LoadBalancer''] \<and>
     between 1 65535 (RuntimeService_Port s)"

definition valid_network_policy :: "RuntimeNetworkPolicySpec \<Rightarrow> bool" where
  "valid_network_policy n \<longleftrightarrow> \<not> NetworkPolicy_Enabled n \<or> NetworkPolicy_Ingress n \<noteq> []"

definition valid_autoscaling :: "RuntimeAutoscalingSpec \<Rightarrow> bool" where
  "valid_autoscaling a \<longleftrightarrow>
     sint (MinReplicas a) \<le> sint (MaxReplicas a) \<and>
     between 1 1000 (MinReplicas a) \<and> between 1 1000 (MaxReplicas a) \<and>
     between 1 100 (TargetCPUUtilizationPercentage a)"

definition valid_spec :: "(string \<Rightarrow> bool) \<Rightarrow> TrussiumRuntimeSpec \<Rightarrow> bool" where
  "valid_spec is_uri s \<longleftrightarrow>
     valid_image (Image s) \<and>
     opt_all (between 0 1000) (Spec_Replicas s) \<and>
     length (ImagePullSecrets s) \<le> 20 \<and>
     distinct (map NamedReference_Name (ImagePullSecrets s)) \<and>
     list_all valid_named_reference (ImagePullSecrets s) \<and>
     valid_provider is_uri (Provider s) \<and>
     opt_all valid_runtime_settings (Runtime s) \<and>
     valid_service (RuntimeService s) \<and>
     opt_all valid_network_policy (RuntimeNetworkPolicy s) \<and>
     opt_all valid_autoscaling (Autoscaling s)"

text \<open>The API server stores the defaulted specification when it is valid.\<close>

definition admitted_spec :: "(string \<Rightarrow> bool) \<Rightarrow> TrussiumRuntimeSpec \<Rightarrow> bool" where
  "admitted_spec is_uri s \<longleftrightarrow> default_spec s = s \<and> valid_spec is_uri s"

section \<open>What the schema guarantees\<close>

lemma opt_all_simps [simp]: "opt_all P None" "opt_all P (Some a) = P a"
  by (simp_all add: opt_all_def)

lemma opt_all_Some: "opt_all P x \<Longrightarrow> x = Some a \<Longrightarrow> P a"
  by (simp add: opt_all_def)

lemma default_spec_idem [simp]: "default_spec (default_spec s) = default_spec s"
  by (cases "Autoscaling s"; cases "Spec_Replicas s")
    (simp_all add: default_spec_def default_image_def default_service_def default_autoscaling_def)

lemma admitted_default: "valid_spec is_uri (default_spec s) \<Longrightarrow> admitted_spec is_uri (default_spec s)"
  by (simp add: admitted_spec_def)

lemma default_spec_replicas: "Spec_Replicas (default_spec s) \<noteq> None"
  by (simp add: default_spec_def split: option.split)

lemma admitted_replicas:
  assumes "admitted_spec is_uri s"
  shows "\<exists>n. Spec_Replicas s = Some n \<and> between 0 1000 n"
proof -
  from assms have d: "default_spec s = s" and v: "opt_all (between 0 1000) (Spec_Replicas s)"
    by (simp_all add: admitted_spec_def valid_spec_def)
  from default_spec_replicas [of s] obtain n where "Spec_Replicas s = Some n"
    unfolding d by auto
  with v show ?thesis by simp
qed

lemma admitted_autoscaling:
  "admitted_spec is_uri s \<Longrightarrow> Autoscaling s = Some a \<Longrightarrow> valid_autoscaling a"
  by (auto simp: admitted_spec_def valid_spec_def)

lemma admitted_runtime:
  "admitted_spec is_uri s \<Longrightarrow> Runtime s = Some r \<Longrightarrow> valid_runtime_settings r"
  by (auto simp: admitted_spec_def valid_spec_def)

lemma valid_tag_no_separator:
  assumes "tag_pattern t"
  shows "CHR '':'' \<notin> set t" and "CHR ''@'' \<notin> set t" and "CHR ''/'' \<notin> set t"
  using assms by (cases t; auto simp: tag_pattern_def)+

lemma valid_repository_no_at: "repository_pattern r \<Longrightarrow> CHR ''@'' \<notin> set r"
  by (auto simp: repository_pattern_def)

lemma admitted_image: "admitted_spec is_uri s \<Longrightarrow> valid_image (Image s)"
  by (simp add: admitted_spec_def valid_spec_def)

end
