(* ===== verification/Sha256.thy ===== *)
theory Sha256
  imports Go_Prelude
begin

text \<open>
  The functions \<open>sha256.Sum256\<close> and \<open>hex.EncodeToString\<close> of the Go standard library, which
  \<open>runtimeConfigChecksum\<close> applies to the configuration payload.  \<open>Sum256\<close> is the algorithm
  of FIPS 180-4 on 32-bit words: padding to blocks of 64 bytes, the message schedule of 64 words
  and the compression of one block after the other.  The lemmas fix the shape of the results: a
  digest has 32 bytes, its hexadecimal text has 64 characters, and equal texts come from equal
  digests; the published example is computed.
\<close>

unbundle bit_operations_syntax

type_synonym byte = "8 word"
type_synonym hash_state =
  "int32 \<times> int32 \<times> int32 \<times> int32 \<times> int32 \<times> int32 \<times> int32 \<times> int32"

section \<open>Definitions\<close>

text \<open>The first 32 bits of the fractional parts of the cube roots of the first 64 primes.\<close>

definition sha256_k :: "int32 list" where
  "sha256_k =
     [1116352408, 1899447441, 3049323471, 3921009573, 961987163, 1508970993,
      2453635748, 2870763221, 3624381080, 310598401, 607225278, 1426881987,
      1925078388, 2162078206, 2614888103, 3248222580, 3835390401, 4022224774,
      264347078, 604807628, 770255983, 1249150122, 1555081692, 1996064986,
      2554220882, 2821834349, 2952996808, 3210313671, 3336571891, 3584528711,
      113926993, 338241895, 666307205, 773529912, 1294757372, 1396182291,
      1695183700, 1986661051, 2177026350, 2456956037, 2730485921, 2820302411,
      3259730800, 3345764771, 3516065817, 3600352804, 4094571909, 275423344,
      430227734, 506948616, 659060556, 883997877, 958139571, 1322822218,
      1537002063, 1747873779, 1955562222, 2024104815, 2227730452, 2361852424,
      2428436474, 2756734187, 3204031479, 3329325298]"

definition sha256_init :: hash_state where
  "sha256_init =
     (0x6a09e667, 0xbb67ae85, 0x3c6ef372, 0xa54ff53a, 0x510e527f, 0x9b05688c, 0x1f83d9ab, 0x5be0cd19)"

definition Sigma0 :: "int32 \<Rightarrow> int32" where
  "Sigma0 x = word_rotr 2 x XOR word_rotr 13 x XOR word_rotr 22 x"

definition Sigma1 :: "int32 \<Rightarrow> int32" where
  "Sigma1 x = word_rotr 6 x XOR word_rotr 11 x XOR word_rotr 25 x"

definition sigma0 :: "int32 \<Rightarrow> int32" where
  "sigma0 x = word_rotr 7 x XOR word_rotr 18 x XOR drop_bit 3 x"

definition sigma1 :: "int32 \<Rightarrow> int32" where
  "sigma1 x = word_rotr 17 x XOR word_rotr 19 x XOR drop_bit 10 x"

definition Ch :: "int32 \<Rightarrow> int32 \<Rightarrow> int32 \<Rightarrow> int32" where
  "Ch x y z = (x AND y) XOR (NOT x AND z)"

definition Maj :: "int32 \<Rightarrow> int32 \<Rightarrow> int32 \<Rightarrow> int32" where
  "Maj x y z = (x AND y) XOR (x AND z) XOR (y AND z)"

text \<open>Big-endian bytes of a word, and the word of four bytes.\<close>

definition bytes_of_int32 :: "int32 \<Rightarrow> byte list" where
  "bytes_of_int32 w = map (\<lambda>i. ucast (drop_bit i w)) [24, 16, 8, 0]"

definition bytes_of_int64 :: "int64 \<Rightarrow> byte list" where
  "bytes_of_int64 w = map (\<lambda>i. ucast (drop_bit i w)) [56, 48, 40, 32, 24, 16, 8, 0]"

fun words_of_bytes :: "byte list \<Rightarrow> int32 list" where
  "words_of_bytes (a # b # c # d # bs) =
     (push_bit 24 (ucast a) OR push_bit 16 (ucast b) OR push_bit 8 (ucast c) OR ucast d) #
     words_of_bytes bs"
| "words_of_bytes bs = []"

definition pad :: "byte list \<Rightarrow> byte list" where
  "pad bs =
     bs @ 128 # replicate ((119 - length bs mod 64) mod 64) 0 @
     bytes_of_int64 (word_of_nat (8 * length bs))"

text \<open>The schedule grows by one word a step, from the 16 words of a block to 64.\<close>

primrec schedule :: "nat \<Rightarrow> int32 list \<Rightarrow> int32 list" where
  "schedule 0 ws = ws"
| "schedule (Suc n) ws =
     (let t = length ws in
      schedule n (ws @ [sigma1 (ws ! (t - 2)) + ws ! (t - 7) + sigma0 (ws ! (t - 15)) + ws ! (t - 16)]))"

fun sha256_round :: "int32 \<times> int32 \<Rightarrow> hash_state \<Rightarrow> hash_state" where
  "sha256_round (k, w) (a, b, c, d, e, f, g, h) =
     (let t1 = h + Sigma1 e + Ch e f g + k + w; t2 = Sigma0 a + Maj a b c
      in (t1 + t2, a, b, c, d + t1, e, f, g))"

fun add_state :: "hash_state \<Rightarrow> hash_state \<Rightarrow> hash_state" where
  "add_state (a, b, c, d, e, f, g, h) (a', b', c', d', e', f', g', h') =
     (a + a', b + b', c + c', d + d', e + e', f + f', g + g', h + h')"

definition compress_block :: "byte list \<Rightarrow> hash_state \<Rightarrow> hash_state" where
  "compress_block block s =
     add_state s (fold sha256_round (zip sha256_k (schedule 48 (words_of_bytes block))) s)"

fun compress_blocks :: "byte list \<Rightarrow> hash_state \<Rightarrow> hash_state" where
  "compress_blocks bs s =
     (if bs = [] then s else compress_blocks (drop 64 bs) (compress_block (take 64 bs) s))"

declare compress_blocks.simps [simp del]

fun state_words :: "hash_state \<Rightarrow> int32 list" where
  "state_words (a, b, c, d, e, f, g, h) = [a, b, c, d, e, f, g, h]"

definition Sum256 :: "byte list \<Rightarrow> byte list" where
  "Sum256 bs = concat (map bytes_of_int32 (state_words (compress_blocks (pad bs) sha256_init)))"

definition bytes_of_string :: "string \<Rightarrow> byte list" where
  "bytes_of_string s = map (\<lambda>c. word_of_nat (of_char c)) s"

definition EncodeToString :: "byte list \<Rightarrow> string" where
  "EncodeToString bs =
     concat (map (\<lambda>b. [hexdigit (unat b div 16), hexdigit (unat b mod 16)]) bs)"

section \<open>Shape of the results\<close>

lemma length_state_words [simp]: "length (state_words s) = 8"
  by (cases s rule: state_words.cases) simp

lemma length_concat_constant: "(\<And>x. length (f x) = k) \<Longrightarrow> length (concat (map f xs)) = k * length xs"
  by (induction xs) simp_all

lemma length_Sum256 [simp]: "length (Sum256 bs) = 32"
  by (simp add: Sum256_def length_concat_constant [of bytes_of_int32 4] bytes_of_int32_def)

lemma pad_fills_block: "(n + 1 + (119 - n mod 64) mod 64 + 8) mod (64 :: nat) = 0"
proof -
  define r where "r = n mod 64"
  have r: "r < 64" by (simp add: r_def)
  have fill: "(119 - r) mod 64 = (if r \<le> 55 then 55 - r else 119 - r)"
    using r by (auto simp: mod_if)
  have "(n + 1 + (119 - r) mod 64 + 8) mod 64 = (r + 1 + (119 - r) mod 64 + 8) mod 64"
    by (metis (no_types, lifting) add.assoc mod_add_left_eq r_def)
  also have "\<dots> = 0" using r by (auto simp: fill)
  finally show ?thesis by (simp add: r_def)
qed

lemma padded_blocks: "64 dvd length (pad bs)"
proof -
  have "length (pad bs) = length bs + 1 + (119 - length bs mod 64) mod 64 + 8"
    by (simp add: pad_def bytes_of_int64_def)
  then show ?thesis
    using pad_fills_block [of "length bs"] by (simp only: dvd_eq_mod_eq_0)
qed

lemma length_EncodeToString [simp]: "length (EncodeToString bs) = 2 * length bs"
  by (induction bs) (simp_all add: EncodeToString_def)

lemma hexdigit_inject:
  assumes "m < 16" and "n < 16" and "hexdigit m = hexdigit n"
  shows "m = n"
proof -
  have "distinct ''0123456789abcdef''" by simp
  then show ?thesis
    using assms unfolding hexdigit_def by (subst (asm) nth_eq_iff_index_eq) auto
qed

lemma hex_byte_inject:
  assumes "hexdigit (unat a div 16) = hexdigit (unat (b :: byte) div 16)"
    and "hexdigit (unat (a :: byte) mod 16) = hexdigit (unat b mod 16)"
  shows "a = b"
proof -
  have bound: "unat (w :: byte) < 256" for w using unsigned_less [of w, where ?'a = nat] by simp
  have "unat a div 16 = unat b div 16"
    using bound [of a] bound [of b] assms(1) by (intro hexdigit_inject) auto
  moreover have "unat a mod 16 = unat b mod 16"
    using assms(2) by (intro hexdigit_inject) auto
  ultimately have "unat a = unat b" by (metis div_mult_mod_eq)
  then show ?thesis by (rule word_unat_eq_iff [THEN iffD2])
qed

lemma EncodeToString_inject [simp]: "EncodeToString xs = EncodeToString ys \<longleftrightarrow> xs = ys"
proof
  assume "EncodeToString xs = EncodeToString ys"
  then show "xs = ys"
  proof (induction xs arbitrary: ys)
    case Nil
    then show ?case by (cases ys) (simp_all add: EncodeToString_def)
  next
    case (Cons x xs)
    then show ?case
      by (cases ys) (auto simp: EncodeToString_def dest: hex_byte_inject)
  qed
qed simp

lemma bytes_of_string_inject [simp]: "bytes_of_string s = bytes_of_string t \<longleftrightarrow> s = t"
proof
  assume "bytes_of_string s = bytes_of_string t"
  moreover have "inj (\<lambda>c. word_of_nat (of_char c) :: byte)"
  proof (rule injI)
    fix c d :: char
    assume "word_of_nat (of_char c) = (word_of_nat (of_char d) :: byte)"
    then have "unat (word_of_nat (of_char c) :: byte) = unat (word_of_nat (of_char d) :: byte)"
      by simp
    then have "(of_char c :: nat) mod 256 = of_char d mod 256"
      by (simp add: unat_of_nat)
    then show "c = d" by simp
  qed
  ultimately show "s = t" by (simp add: bytes_of_string_def inj_map_eq_map)
qed simp

text \<open>The example of one block that FIPS 180-4 is published with.\<close>

lemma sha256_abc:
  "EncodeToString (Sum256 (bytes_of_string ''abc'')) =
     ''ba7816bf8f01cfea414140de5dae2223b00361a396177a9cb410ff61f20015ad''"
  by code_simp

end
