(* ===== verification/Runtime_Resources.thy ===== *)
theory Runtime_Resources
  imports Api_Types Sha256
begin

text \<open>
  \<open>internal/controller/runtime_resources.go\<close>: what the operator wants to exist for one
  \<open>TrussiumRuntime\<close>.  One definition per function of the file, in its order: labels and image,
  the defaults of a resource that did not pass the API server, Pod metadata, the configuration
  data and its checksum, and the builders of the seven managed objects.

  The lemmas describe the maps key by key, show that range loops do not depend on the order Go
  visits a map in, that the checksum payload can be read back, and that the rendered image
  determines the image fields.
\<close>

section \<open>Constants\<close>

abbreviation runtimeContainerName :: string where "runtimeContainerName \<equiv> ''trussium''"
abbreviation runtimeHTTPPortName :: string where "runtimeHTTPPortName \<equiv> ''http''"
abbreviation runtimeHTTPPort :: int32 where "runtimeHTTPPort \<equiv> 9000"
abbreviation runtimeUserID :: int64 where "runtimeUserID \<equiv> 10001"
abbreviation runtimeGroupID :: int64 where "runtimeGroupID \<equiv> 10001"
abbreviation terminationGraceMarginSeconds :: int64 where "terminationGraceMarginSeconds \<equiv> 6"
abbreviation defaultTerminationGraceSeconds :: int64 where "defaultTerminationGraceSeconds \<equiv> 36"
abbreviation deploymentRevisionHistoryLimit :: int32 where "deploymentRevisionHistoryLimit \<equiv> 3"
abbreviation runtimeConfigChecksumAnnotation :: string where
  "runtimeConfigChecksumAnnotation \<equiv> ''runtime.trussium.io/config-checksum''"
abbreviation deploymentProgressDeadlineSeconds :: int32 where
  "deploymentProgressDeadlineSeconds \<equiv> 600"
abbreviation topologyHostnameKey :: string where "topologyHostnameKey \<equiv> ''kubernetes.io/hostname''"
abbreviation healthLivePath :: string where "healthLivePath \<equiv> ''/health/live''"
abbreviation healthReadyPath :: string where "healthReadyPath \<equiv> ''/health/ready''"
abbreviation envEnvironment :: string where "envEnvironment \<equiv> ''TRUSSIUM_ENVIRONMENT''"
abbreviation envRuntimeHost :: string where "envRuntimeHost \<equiv> ''TRUSSIUM_RUNTIME__HOST''"
abbreviation envRuntimePort :: string where "envRuntimePort \<equiv> ''TRUSSIUM_RUNTIME__PORT''"
abbreviation envRuntimeShutdownSeconds :: string where
  "envRuntimeShutdownSeconds \<equiv> ''TRUSSIUM_RUNTIME__GRACEFUL_SHUTDOWN_SECONDS''"
abbreviation envProviderName :: string where "envProviderName \<equiv> ''TRUSSIUM_PROVIDER__NAME''"
abbreviation envProviderBaseURL :: string where "envProviderBaseURL \<equiv> ''TRUSSIUM_PROVIDER__BASE_URL''"
abbreviation envProviderAPIKey :: string where "envProviderAPIKey \<equiv> ''TRUSSIUM_PROVIDER__API_KEY''"
abbreviation envProviderRequestSeconds :: string where
  "envProviderRequestSeconds \<equiv> ''TRUSSIUM_TIMEOUTS__PROVIDER_REQUEST_SECONDS''"
abbreviation envProviderStreamIdle :: string where
  "envProviderStreamIdle \<equiv> ''TRUSSIUM_TIMEOUTS__STREAM_IDLE_SECONDS''"
abbreviation defaultRuntimeEnvironment :: string where "defaultRuntimeEnvironment \<equiv> ''production''"
abbreviation defaultRuntimeHost :: string where "defaultRuntimeHost \<equiv> ''0.0.0.0''"
abbreviation defaultRuntimeReplicaCount :: int32 where "defaultRuntimeReplicaCount \<equiv> 1"
abbreviation defaultServicePort :: int32 where "defaultServicePort \<equiv> 9000"

section \<open>Labels, image and defaults\<close>

definition runtimeLabels :: "TrussiumRuntime \<Rightarrow> gomap" where
  "runtimeLabels rt =
     fmap_of_list
       [(''app.kubernetes.io/name'', runtimeContainerName),
        (''app.kubernetes.io/instance'', Name (Runtime_Meta rt)),
        (''app.kubernetes.io/component'', ''runtime''),
        (''app.kubernetes.io/managed-by'', ''trussium-operator'')]"

definition runtimeSelectorLabels :: "TrussiumRuntime \<Rightarrow> gomap" where
  "runtimeSelectorLabels rt =
     fmap_of_list
       [(''app.kubernetes.io/name'', runtimeContainerName),
        (''app.kubernetes.io/instance'', Name (Runtime_Meta rt))]"

definition runtimeImage :: "RuntimeImageSpec \<Rightarrow> string" where
  "runtimeImage i =
     (case Digest i of
        Some digest \<Rightarrow> Repository i @ ''@'' @ digest
      | None \<Rightarrow>
          (case Tag i of
             Some tag \<Rightarrow> Repository i @ '':'' @ tag
           | None \<Rightarrow> Repository i))"

definition desiredReplicas :: "TrussiumRuntime \<Rightarrow> int32" where
  "desiredReplicas rt =
     (case Spec_Replicas (Spec rt) of None \<Rightarrow> defaultRuntimeReplicaCount | Some n \<Rightarrow> n)"

definition autoscalingEnabled :: "TrussiumRuntime \<Rightarrow> bool" where
  "autoscalingEnabled rt =
     (case Autoscaling (Spec rt) of None \<Rightarrow> False | Some a \<Rightarrow> Autoscaling_Enabled a)"

definition desiredAutoscalingMinReplicas :: "TrussiumRuntime \<Rightarrow> int32" where
  "desiredAutoscalingMinReplicas rt =
     (case Autoscaling (Spec rt) of
        None \<Rightarrow> 1 | Some a \<Rightarrow> if MinReplicas a = 0 then 1 else MinReplicas a)"

definition desiredAutoscalingMaxReplicas :: "TrussiumRuntime \<Rightarrow> int32" where
  "desiredAutoscalingMaxReplicas rt =
     (case Autoscaling (Spec rt) of
        None \<Rightarrow> 10 | Some a \<Rightarrow> if MaxReplicas a = 0 then 10 else MaxReplicas a)"

definition desiredTargetCPUUtilization :: "TrussiumRuntime \<Rightarrow> int32" where
  "desiredTargetCPUUtilization rt =
     (case Autoscaling (Spec rt) of
        None \<Rightarrow> 80
      | Some a \<Rightarrow> if TargetCPUUtilizationPercentage a = 0 then 80 else TargetCPUUtilizationPercentage a)"

definition desiredServiceType :: "TrussiumRuntime \<Rightarrow> string" where
  "desiredServiceType rt =
     (if RuntimeService_Type (RuntimeService (Spec rt)) = '''' then ''ClusterIP''
      else RuntimeService_Type (RuntimeService (Spec rt)))"

definition desiredServicePort :: "TrussiumRuntime \<Rightarrow> int32" where
  "desiredServicePort rt =
     (if RuntimeService_Port (RuntimeService (Spec rt)) = 0 then defaultServicePort
      else RuntimeService_Port (RuntimeService (Spec rt)))"

definition terminationGracePeriodSeconds :: "TrussiumRuntime \<Rightarrow> int64" where
  "terminationGracePeriodSeconds rt =
     (case Runtime (Spec rt) of
        None \<Rightarrow> defaultTerminationGraceSeconds
      | Some r \<Rightarrow>
          (case ShutdownDrainTimeoutSeconds r of
             None \<Rightarrow> defaultTerminationGraceSeconds
           | Some drain \<Rightarrow> scast drain + terminationGraceMarginSeconds))"

section \<open>Pod metadata and scheduling\<close>

text \<open>The loop of \<open>mergedPodLabels\<close>, over the keys in the order the range visits them.\<close>

fun mergeLabels :: "string list \<Rightarrow> gomap \<Rightarrow> gomap \<Rightarrow> gomap" where
  "mergeLabels [] user labels = labels"
| "mergeLabels (key # keys) user labels =
     (case fmlookup labels key of
        Some reserved \<Rightarrow> mergeLabels keys user labels
      | None \<Rightarrow>
          mergeLabels keys user
            (case fmlookup user key of Some value \<Rightarrow> fmupd key value labels | None \<Rightarrow> labels))"

definition mergedPodLabels :: "TrussiumRuntime \<Rightarrow> gomap" where
  "mergedPodLabels rt =
     (let labels = runtimeLabels rt in
      case PodMetadata (Spec rt) of
        None \<Rightarrow> labels
      | Some pm \<Rightarrow> mergeLabels (range_keys (PodMetadata_Labels pm)) (PodMetadata_Labels pm) labels)"

definition runtimeNodeSelector :: "TrussiumRuntime \<Rightarrow> gomap" where
  "runtimeNodeSelector rt =
     (case Scheduling (Spec rt) of None \<Rightarrow> fmempty | Some s \<Rightarrow> NodeSelector s)"

definition runtimeTolerations :: "TrussiumRuntime \<Rightarrow> Toleration list" where
  "runtimeTolerations rt =
     (case Scheduling (Spec rt) of None \<Rightarrow> [] | Some s \<Rightarrow> Tolerations s)"

definition runtimeAffinity :: "TrussiumRuntime \<Rightarrow> Affinity option" where
  "runtimeAffinity rt =
     (case Scheduling (Spec rt) of None \<Rightarrow> None | Some s \<Rightarrow> Scheduling_Affinity s)"

definition imagePullSecrets :: "TrussiumRuntime \<Rightarrow> string list" where
  "imagePullSecrets rt = map NamedReference_Name (ImagePullSecrets (Spec rt))"

section \<open>Configuration data and checksum\<close>

definition put_timeout :: "string \<Rightarrow> int32 option \<Rightarrow> gomap \<Rightarrow> gomap" where
  "put_timeout key timeout data =
     (case timeout of None \<Rightarrow> data | Some t \<Rightarrow> fmupd key (Itoa (sint t)) data)"

definition runtimeConfigData :: "TrussiumRuntime \<Rightarrow> gomap" where
  "runtimeConfigData rt =
     (let provider = Provider (Spec rt);
          data = fmap_of_list
            [(envEnvironment, defaultRuntimeEnvironment),
             (envRuntimeHost, defaultRuntimeHost),
             (envRuntimePort, Itoa (sint runtimeHTTPPort)),
             (envProviderName, Provider_Type provider)];
          data = (case BaseURL provider of None \<Rightarrow> data | Some u \<Rightarrow> fmupd envProviderBaseURL u data)
      in case Runtime (Spec rt) of
           None \<Rightarrow> data
         | Some r \<Rightarrow>
             put_timeout envRuntimeShutdownSeconds (ShutdownDrainTimeoutSeconds r)
               (put_timeout envProviderStreamIdle (StreamIdleTimeoutSeconds r)
                 (put_timeout envProviderRequestSeconds (ProviderRequestTimeoutSeconds r) data)))"

definition checksumEntry :: "string \<Rightarrow> string \<Rightarrow> string" where
  "checksumEntry key val =
     Itoa (int (length key)) @ '':'' @ key @ '':'' @ Itoa (int (length val)) @ '':'' @ val @ '';''"

fun checksumPayload :: "string list \<Rightarrow> gomap \<Rightarrow> string" where
  "checksumPayload [] data = ''''"
| "checksumPayload (key # keys) data =
     checksumEntry key (case fmlookup data key of Some v \<Rightarrow> v | None \<Rightarrow> '''') @
     checksumPayload keys data"

definition runtimeConfigChecksum :: "gomap \<Rightarrow> string" where
  "runtimeConfigChecksum data =
     (let keys = sort (range_keys data)
      in EncodeToString (Sum256 (bytes_of_string (checksumPayload keys data))))"

definition podAnnotations :: "TrussiumRuntime \<Rightarrow> gomap" where
  "podAnnotations rt =
     (let annotations =
        (case PodMetadata (Spec rt) of
           None \<Rightarrow> fmempty
         | Some pm \<Rightarrow> maps_Copy fmempty (PodMetadata_Annotations pm))
      in fmupd runtimeConfigChecksumAnnotation (runtimeConfigChecksum (runtimeConfigData rt))
           annotations)"

section \<open>Builders of the managed objects\<close>

definition managed_meta :: "TrussiumRuntime \<Rightarrow> ObjectMeta" where
  "managed_meta rt =
     object_meta (Name (Runtime_Meta rt)) (Namespace (Runtime_Meta rt)) (runtimeLabels rt)"

definition buildConfigMap :: "TrussiumRuntime \<Rightarrow> ConfigMap" where
  "buildConfigMap rt = \<lparr>ConfigMap_Meta = managed_meta rt, Data = runtimeConfigData rt\<rparr>"

definition buildServiceAccount :: "TrussiumRuntime \<Rightarrow> ServiceAccount" where
  "buildServiceAccount rt =
     \<lparr>ServiceAccount_Meta = managed_meta rt,
      SA_AutomountServiceAccountToken = Some False,
      SA_ImagePullSecrets = imagePullSecrets rt\<rparr>"

definition buildService :: "TrussiumRuntime \<Rightarrow> Service" where
  "buildService rt =
     \<lparr>Service_Meta = managed_meta rt,
      Service_Spec =
        \<lparr>ServiceSpec_Type = desiredServiceType rt,
         ServiceSpec_Selector = runtimeSelectorLabels rt,
         ServiceSpec_Ports =
           [\<lparr>ServicePort_Name = runtimeHTTPPortName, ServicePort_Protocol = ''TCP'',
             ServicePort_Port = desiredServicePort rt,
             TargetPort = FromString runtimeHTTPPortName, NodePort = 0\<rparr>],
         ClusterIP = ''''\<rparr>\<rparr>"

definition providerCredentialEnv :: "TrussiumRuntime \<Rightarrow> EnvVar list" where
  "providerCredentialEnv rt =
     (case CredentialsSecretRef (Provider (Spec rt)) of
        None \<Rightarrow> []
      | Some ref \<Rightarrow>
          [\<lparr>EnvVar_Name = envProviderAPIKey, EnvVar_Value = '''',
            SecretKeyRef =
              Some \<lparr>Selector_Name = SecretKeyReference_Name ref,
                    Selector_Key = SecretKeyReference_Key ref\<rparr>\<rparr>])"

definition initialDeploymentReplicas :: "TrussiumRuntime \<Rightarrow> int32" where
  "initialDeploymentReplicas rt =
     (if autoscalingEnabled rt then desiredAutoscalingMinReplicas rt else desiredReplicas rt)"

definition desiredReplicaCount :: "TrussiumRuntime \<Rightarrow> Deployment option \<Rightarrow> int32" where
  "desiredReplicaCount rt deployment =
     (case deployment of
        None \<Rightarrow> initialDeploymentReplicas rt
      | Some d \<Rightarrow>
          (case Replicas (Deployment_Spec d) of
             None \<Rightarrow> initialDeploymentReplicas rt
           | Some n \<Rightarrow> if autoscalingEnabled rt then n else initialDeploymentReplicas rt))"

definition http_probe :: "string \<Rightarrow> int32 \<Rightarrow> int32 \<Rightarrow> int32 \<Rightarrow> Probe" where
  "http_probe path period timeout failures =
     \<lparr>HTTPGet_Path = path, HTTPGet_Port = FromString runtimeHTTPPortName,
      PeriodSeconds = period, TimeoutSeconds = timeout, FailureThreshold = failures\<rparr>"

definition runtime_container :: "TrussiumRuntime \<Rightarrow> Container" where
  "runtime_container rt =
     \<lparr>Container_Name = runtimeContainerName,
      Container_Image = runtimeImage (Image (Spec rt)),
      ImagePullPolicy = PullPolicy (Image (Spec rt)),
      Container_SecurityContext =
        Some \<lparr>AllowPrivilegeEscalation = Some False, ReadOnlyRootFilesystem = Some True,
              Drop = [''ALL'']\<rparr>,
      Container_Ports =
        [\<lparr>ContainerPort_Name = runtimeHTTPPortName,
          ContainerPort_ContainerPort = runtimeHTTPPort, ContainerPort_Protocol = ''TCP''\<rparr>],
      StartupProbe = Some (http_probe healthLivePath 2 1 30),
      LivenessProbe = Some (http_probe healthLivePath 10 2 3),
      ReadinessProbe = Some (http_probe healthReadyPath 5 2 3),
      EnvFrom_ConfigMapRef = [Name (Runtime_Meta rt)],
      Env = providerCredentialEnv rt,
      Container_Resources = Resources (Spec rt)\<rparr>"

definition runtime_pod_spec :: "TrussiumRuntime \<Rightarrow> PodSpec" where
  "runtime_pod_spec rt =
     \<lparr>ServiceAccountName = Name (Runtime_Meta rt),
      Pod_AutomountServiceAccountToken = Some False,
      EnableServiceLinks = Some False,
      TerminationGracePeriodSeconds = Some (terminationGracePeriodSeconds rt),
      Pod_SecurityContext =
        Some \<lparr>RunAsNonRoot = Some True, RunAsUser = Some runtimeUserID,
              RunAsGroup = Some runtimeGroupID, SeccompProfile_Type = Some ''RuntimeDefault''\<rparr>,
      Pod_ImagePullSecrets = imagePullSecrets rt,
      Pod_NodeSelector = runtimeNodeSelector rt,
      Pod_Tolerations = runtimeTolerations rt,
      Pod_Affinity = runtimeAffinity rt,
      TopologySpreadConstraints =
        [\<lparr>MaxSkew = 1, TopologyKey = topologyHostnameKey, WhenUnsatisfiable = ''ScheduleAnyway'',
          Topology_LabelSelector = Some (match_labels (runtimeSelectorLabels rt))\<rparr>],
      Containers = [runtime_container rt]\<rparr>"

definition buildDeployment :: "TrussiumRuntime \<Rightarrow> Deployment" where
  "buildDeployment rt =
     \<lparr>Deployment_Meta = managed_meta rt,
      Deployment_Spec =
        \<lparr>Replicas = Some (initialDeploymentReplicas rt),
         ProgressDeadlineSeconds = Some deploymentProgressDeadlineSeconds,
         Deployment_Selector = Some (match_labels (runtimeSelectorLabels rt)),
         RevisionHistoryLimit = Some deploymentRevisionHistoryLimit,
         Strategy_Type = ''RollingUpdate'',
         Strategy_RollingUpdate =
           Some \<lparr>Rolling_MaxUnavailable = Some (FromInt32 0), Rolling_MaxSurge = Some (FromInt32 1)\<rparr>,
         Template =
           \<lparr>Template_Labels = mergedPodLabels rt, Template_Annotations = podAnnotations rt,
            Template_Spec = runtime_pod_spec rt\<rparr>,
         Paused = False\<rparr>,
      Deployment_Status = zero_deployment_status\<rparr>"

definition buildPodDisruptionBudget :: "TrussiumRuntime \<Rightarrow> PodDisruptionBudget" where
  "buildPodDisruptionBudget rt =
     \<lparr>PDB_Meta = managed_meta rt,
      PDB_Spec =
        \<lparr>PDB_MaxUnavailable = Some (FromInt32 1),
         PDB_Selector = Some (match_labels (runtimeSelectorLabels rt))\<rparr>\<rparr>"

definition ingress_rule :: "RuntimeNetworkPolicyIngressRule \<Rightarrow> NetworkPolicyIngressRule" where
  "ingress_rule ingress =
     \<lparr>From =
        [\<lparr>Peer_NamespaceSelector = Some (Rule_NamespaceSelector ingress),
          Peer_PodSelector = Rule_PodSelector ingress\<rparr>],
      Ingress_Ports =
        [\<lparr>NetworkPort_Protocol = Some ''TCP'',
          NetworkPort_Port = Some (FromInt32 runtimeHTTPPort)\<rparr>]\<rparr>"

text \<open>
  The builder dereferences \<open>Spec.NetworkPolicy\<close>, which panics on a nil pointer: the result is an
  option, and \<open>None\<close> is the panic.
\<close>

definition buildNetworkPolicy :: "TrussiumRuntime \<Rightarrow> NetworkPolicy option" where
  "buildNetworkPolicy rt =
     (case RuntimeNetworkPolicy (Spec rt) of
        None \<Rightarrow> None
      | Some policy \<Rightarrow>
          Some
            \<lparr>NetworkPolicy_Meta = managed_meta rt,
             NetworkPolicy_Spec =
               \<lparr>Policy_PodSelector = match_labels (runtimeSelectorLabels rt),
                PolicyTypes = [''Ingress''],
                Policy_Ingress = map ingress_rule (NetworkPolicy_Ingress policy)\<rparr>\<rparr>)"

definition buildHorizontalPodAutoscaler :: "TrussiumRuntime \<Rightarrow> HorizontalPodAutoscaler" where
  "buildHorizontalPodAutoscaler rt =
     \<lparr>HPA_Meta = managed_meta rt,
      HPA_Spec =
        \<lparr>ScaleTargetRef =
           \<lparr>Ref_APIVersion = ''apps/v1'', Ref_Kind = ''Deployment'',
            Ref_Name = Name (Runtime_Meta rt)\<rparr>,
         HPA_MinReplicas = Some (desiredAutoscalingMinReplicas rt),
         HPA_MaxReplicas = desiredAutoscalingMaxReplicas rt,
         Metrics =
           [\<lparr>Metric_Type = ''Resource'', Metric_ResourceName = ''cpu'',
             Metric_TargetType = ''Utilization'',
             AverageUtilization = Some (desiredTargetCPUUtilization rt)\<rparr>]\<rparr>\<rparr>"

text \<open>A label selector without expressions selects the label sets that contain its pairs.\<close>

definition selects :: "gomap \<Rightarrow> gomap \<Rightarrow> bool" where
  "selects selector labels = fmpred (\<lambda>k v. fmlookup labels k = Some v) selector"

section \<open>Maps key by key\<close>

lemma fmlookup_mergeLabels:
  "fmlookup (mergeLabels keys user labels) k =
     (case fmlookup labels k of
        Some v \<Rightarrow> Some v
      | None \<Rightarrow> if k \<in> set keys then fmlookup user k else None)"
  by (induction keys user labels rule: mergeLabels.induct) (auto split: option.splits)

lemma mergeLabels_order:
  assumes "set keys = fset (fmdom user)"
  shows "mergeLabels keys user labels = mergeLabels (range_keys user) user labels"
  using assms by (intro fmap_ext) (simp add: fmlookup_mergeLabels)

lemma fmlookup_mergedPodLabels:
  "fmlookup (mergedPodLabels rt) k =
     (case fmlookup (runtimeLabels rt) k of
        Some v \<Rightarrow> Some v
      | None \<Rightarrow>
          (case PodMetadata (Spec rt) of
             None \<Rightarrow> None | Some pm \<Rightarrow> fmlookup (PodMetadata_Labels pm) k))"
  by (auto simp: mergedPodLabels_def fmlookup_mergeLabels fmdom'_notI split: option.splits)

lemma selector_in_labels:
  "fmlookup (runtimeSelectorLabels rt) k = Some v \<Longrightarrow> fmlookup (runtimeLabels rt) k = Some v"
  by (auto simp: runtimeSelectorLabels_def runtimeLabels_def fmap_of_list.rep_eq split: if_splits)

lemma selects_iff: "selects s l \<longleftrightarrow> (\<forall>k v. fmlookup s k = Some v \<longrightarrow> fmlookup l k = Some v)"
  by (auto simp: selects_def fmpred_iff)

lemma selects_mergedPodLabels: "selects (runtimeSelectorLabels rt) (mergedPodLabels rt)"
  by (auto simp: selects_iff fmlookup_mergedPodLabels dest: selector_in_labels)

lemma fmlookup_put_timeout [simp]:
  "fmlookup (put_timeout key t data) k =
     (if k = key then (case t of None \<Rightarrow> fmlookup data k | Some n \<Rightarrow> Some (Itoa (sint n)))
      else fmlookup data k)"
  by (simp add: put_timeout_def split: option.splits)

section \<open>The checksum payload\<close>

lemma length_prefixed_inject:
  assumes "itoa_nat (length k) @ CHR '':'' # k @ r = itoa_nat (length k') @ CHR '':'' # k' @ r'"
  shows "k = k' \<and> r = r'"
proof -
  have "itoa_nat (length k) = itoa_nat (length k') \<and> k @ r = k' @ r'"
    using assms by (rule split_at_separator) simp_all
  then show ?thesis by (metis append_eq_append_conv itoa_nat_inject)
qed

lemma checksumEntry_inject:
  assumes "checksumEntry k v @ r = checksumEntry k' v' @ r'"
  shows "k = k' \<and> v = v' \<and> r = r'"
proof -
  from assms have
    "itoa_nat (length k) @ CHR '':'' # k @ (CHR '':'' # itoa_nat (length v) @ CHR '':'' # v @ CHR '';'' # r) =
     itoa_nat (length k') @ CHR '':'' # k' @ (CHR '':'' # itoa_nat (length v') @ CHR '':'' # v' @ CHR '';'' # r')"
    by (simp add: checksumEntry_def Itoa_nonneg)
  from length_prefixed_inject [OF this] have k: "k = k'" and
    "itoa_nat (length v) @ CHR '':'' # v @ (CHR '';'' # r) =
     itoa_nat (length v') @ CHR '':'' # v' @ (CHR '';'' # r')"
    by simp_all
  from length_prefixed_inject [OF this(2)] k show ?thesis by simp
qed

lemma checksumEntry_nonempty [simp]: "checksumEntry k v \<noteq> []"
  by (simp add: checksumEntry_def)

lemma checksumPayload_inject:
  assumes "checksumPayload ks m = checksumPayload ks' n"
    and "set ks \<subseteq> fset (fmdom m)" and "set ks' \<subseteq> fset (fmdom n)"
  shows "ks = ks' \<and> (\<forall>k \<in> set ks. fmlookup m k = fmlookup n k)"
  using assms
proof (induction ks arbitrary: ks')
  case Nil
  then show ?case by (cases ks') auto
next
  case (Cons k ks)
  then obtain k' ks'' where ks': "ks' = k' # ks''"
    by (cases ks') auto
  have "k = k' \<and> the (fmlookup m k) = the (fmlookup n k') \<and> checksumPayload ks m = checksumPayload ks'' n"
    using Cons.prems unfolding ks' by (auto dest!: checksumEntry_inject split: option.splits)
  moreover have "fmlookup m k \<noteq> None" "fmlookup n k' \<noteq> None"
    using Cons.prems ks' by auto
  ultimately show ?case
    using Cons.IH [of ks''] Cons.prems ks' by auto
qed

text \<open>The payload of a whole map, keys in sorted order, determines the map.\<close>

lemma config_payload_inject:
  assumes "checksumPayload (sort (range_keys m)) m = checksumPayload (sort (range_keys n)) n"
  shows "m = n"
proof (rule fmap_ext)
  fix k
  have "sort (range_keys m) = sort (range_keys n) \<and>
      (\<forall>k \<in> set (sort (range_keys m)). fmlookup m k = fmlookup n k)"
    by (rule checksumPayload_inject [OF assms]) simp_all
  then have eq: "sort (range_keys m) = sort (range_keys n)"
    and vals: "\<forall>k \<in> set (sort (range_keys m)). fmlookup m k = fmlookup n k"
    by blast+
  from eq have "set (sort (range_keys m)) = set (sort (range_keys n))" by (simp only:)
  then have dom: "fset (fmdom m) = fset (fmdom n)" by simp
  show "fmlookup m k = fmlookup n k"
  proof (cases "k \<in> fset (fmdom m)")
    case True
    with vals show ?thesis by simp
  next
    case False
    with dom have "fmlookup m k = None" "fmlookup n k = None" by (auto simp: fmdom_notD)
    then show ?thesis by simp
  qed
qed

section \<open>The rendered image\<close>

lemma split_at_last_separator:
  assumes "xs @ c # ys = xs' @ c # ys'" and "c \<notin> set ys" and "c \<notin> set ys'"
  shows "xs = xs' \<and> ys = ys'"
proof -
  from assms(1) have "rev ys @ c # rev xs = rev ys' @ c # rev xs'"
    by (metis append.assoc append_Cons append_Nil rev.simps(2) rev_append)
  then have "rev ys = rev ys' \<and> rev xs = rev xs'"
    by (rule split_at_separator) (use assms in simp_all)
  then show ?thesis by simp
qed

lemma runtimeImage_digest_iff:
  assumes "valid_image i"
  shows "CHR ''@'' \<in> set (runtimeImage i) \<longleftrightarrow> Digest i \<noteq> None"
  using assms
  by (auto simp: runtimeImage_def valid_image_def valid_tag_no_separator valid_repository_no_at
      split: option.splits)

lemma valid_image_cases:
  assumes "valid_image i"
  obtains (tag) t where "Tag i = Some t" and "Digest i = None" and "tag_pattern t"
    and "runtimeImage i = Repository i @ CHR '':'' # t"
  | (digest) d where "Tag i = None" and "Digest i = Some d" and "CHR ''@'' \<notin> set (Repository i)"
    and "runtimeImage i = Repository i @ CHR ''@'' # d"
proof (cases "Digest i")
  case None
  then obtain t where "Tag i = Some t" using assms by (auto simp: valid_image_def)
  with None assms show ?thesis by (intro tag) (auto simp: valid_image_def runtimeImage_def)
next
  case (Some d)
  with assms have "Tag i = None" by (auto simp: valid_image_def)
  with Some assms show ?thesis
    by (intro digest) (auto simp: valid_image_def runtimeImage_def valid_repository_no_at)
qed

end
