(* ===== verification/Resource_Properties.thy ===== *)
theory Resource_Properties
  imports Runtime_Resources
begin

text \<open>
  What the objects built by \<open>runtime_resources.go\<close> guarantee: the rendered image identifies the
  requested image, selectors select the Pods of their own runtime and of no other, the checksum
  annotation follows the configuration, configuration never carries credentials, the numbers stay
  within the bounds the schema promises, and the defaults written in the code are the defaults of the
  schema.
\<close>

section \<open>A concrete resource\<close>

definition sample_spec :: TrussiumRuntimeSpec where
  "sample_spec =
     \<lparr>Image = \<lparr>Repository = ''ghcr.io/trussiumhq/trussium'', Tag = Some ''v1'', Digest = None,
              PullPolicy = ''IfNotPresent''\<rparr>,
      Spec_Replicas = Some 2,
      ImagePullSecrets = [\<lparr>NamedReference_Name = ''pull''\<rparr>],
      Provider = \<lparr>Provider_Type = ''openai'', Model = ''m'', BaseURL = None,
                  CredentialsSecretRef =
                    Some \<lparr>SecretKeyReference_Name = ''creds'', SecretKeyReference_Key = ''key''\<rparr>\<rparr>,
      Runtime = Some \<lparr>ProviderRequestTimeoutSeconds = None, StreamIdleTimeoutSeconds = None,
                      ShutdownDrainTimeoutSeconds = Some 45\<rparr>,
      RuntimeService = \<lparr>RuntimeService_Type = ''ClusterIP'', RuntimeService_Port = 9000\<rparr>,
      RuntimeNetworkPolicy = None,
      Autoscaling = Some \<lparr>Autoscaling_Enabled = True, MinReplicas = 2, MaxReplicas = 5,
                          TargetCPUUtilizationPercentage = 80\<rparr>,
      Resources = \<lparr>Limits = fmempty, Requests = fmempty, Claims = []\<rparr>,
      PodMetadata = Some \<lparr>PodMetadata_Labels = fmap_of_list
                             [(''app.kubernetes.io/name'', ''mine''), (''team'', ''ai'')],
                          PodMetadata_Annotations = fmempty\<rparr>,
      Scheduling = None\<rparr>"

definition empty_status :: TrussiumRuntimeStatus where
  "empty_status =
     \<lparr>ObservedGeneration = 0, ReadyReplicas = 0, AvailableReplicas = 0, DesiredImage = '''',
      CurrentImage = '''', LastSuccessfulImage = '''', Endpoint = '''', Conditions = []\<rparr>"

definition sample_runtime :: "string \<Rightarrow> TrussiumRuntime" where
  "sample_runtime name =
     \<lparr>Runtime_Meta = (object_meta name ''trussium'' fmempty)\<lparr>Generation := 1\<rparr>,
      Spec = sample_spec, Status = empty_status\<rparr>"

lemma sample_valid_image: "valid_image (Image sample_spec)"
  by (simp add: valid_image_def length_between_def rune_count_def repository_pattern_def
      tag_pattern_def sample_spec_def)

lemma sample_admitted: "admitted_spec (\<lambda>_. True) sample_spec"
  by (simp add: admitted_spec_def default_spec_def default_image_def default_service_def
      default_autoscaling_def valid_spec_def valid_image_def valid_provider_def
      valid_runtime_settings_def valid_service_def valid_autoscaling_def
      valid_named_reference_def valid_secret_key_reference_def length_between_def rune_count_def
      between_def object_name_pattern_def secret_key_pattern_def repository_pattern_def
      tag_pattern_def sample_spec_def)

section \<open>Image\<close>

text \<open>C31: the rendered image is a complete identity.  For two image specifications the schema
  accepts, the rendered images are equal exactly when repository, tag and digest are.\<close>

theorem runtimeImage_identifies:
  assumes "valid_image i" and "valid_image j"
  shows "runtimeImage i = runtimeImage j \<longleftrightarrow>
    Repository i = Repository j \<and> Tag i = Tag j \<and> Digest i = Digest j"
proof
  assume eq: "runtimeImage i = runtimeImage j"
  from assms have kind: "Digest i = None \<longleftrightarrow> Digest j = None"
    using runtimeImage_digest_iff eq by metis
  from assms(1) show "Repository i = Repository j \<and> Tag i = Tag j \<and> Digest i = Digest j"
  proof (cases rule: valid_image_cases)
    case (tag t)
    with kind assms(2) obtain u where u: "Tag j = Some u" "Digest j = None" "tag_pattern u"
      "runtimeImage j = Repository j @ CHR '':'' # u"
      by (auto elim: valid_image_cases)
    with tag eq have "Repository i = Repository j \<and> t = u"
      by (intro split_at_last_separator [of _ "CHR '':''"]) (auto simp: valid_tag_no_separator)
    with tag u show ?thesis by simp
  next
    case (digest d)
    with kind assms(2) obtain e where e: "Tag j = None" "Digest j = Some e"
      "CHR ''@'' \<notin> set (Repository j)" "runtimeImage j = Repository j @ CHR ''@'' # e"
      by (auto elim: valid_image_cases)
    with digest eq have "Repository i = Repository j \<and> d = e"
      by (intro split_at_separator [of _ "CHR ''@''"]) auto
    with digest e show ?thesis by simp
  qed
qed (clarsimp simp: runtimeImage_def split: option.split)

theorem runtimeImage_identifies_witness:
  "valid_image (Image sample_spec) \<and>
   runtimeImage (Image sample_spec) = ''ghcr.io/trussiumhq/trussium:v1'' \<and>
   runtimeImage (Image sample_spec) \<noteq> runtimeImage ((Image sample_spec)\<lparr>Tag := Some ''v2''\<rparr>)"
proof -
  have v2: "valid_image ((Image sample_spec)\<lparr>Tag := Some ''v2''\<rparr>)"
    by (simp add: valid_image_def length_between_def rune_count_def repository_pattern_def
        tag_pattern_def sample_spec_def)
  have "Tag (Image sample_spec) \<noteq> Some ''v2''" by (simp add: sample_spec_def)
  then show ?thesis
    using runtimeImage_identifies [OF sample_valid_image v2] sample_valid_image
    by (simp add: runtimeImage_def sample_spec_def)
qed

section \<open>Labels and selectors\<close>

text \<open>Identity labels cannot be overridden.  A Pod carries every label the operator owns with
  the operator's value, any other label the user asked for, and nothing else; and the order in which
  Go ranges over the user's map makes no difference.\<close>

theorem mergedPodLabels_spec:
  assumes "PodMetadata (Spec rt) = Some pm" and "set keys = fset (fmdom (PodMetadata_Labels pm))"
  shows "mergeLabels keys (PodMetadata_Labels pm) (runtimeLabels rt) = mergedPodLabels rt \<and>
    mergedPodLabels rt = PodMetadata_Labels pm ++\<^sub>f runtimeLabels rt"
proof
  show "mergeLabels keys (PodMetadata_Labels pm) (runtimeLabels rt) = mergedPodLabels rt"
    using assms(1) by (simp add: mergedPodLabels_def mergeLabels_order [OF assms(2)])
  show "mergedPodLabels rt = PodMetadata_Labels pm ++\<^sub>f runtimeLabels rt"
    using assms(1)
    by (intro fmap_ext) (auto simp: fmlookup_mergedPodLabels fmlookup_dom_iff split: option.split)
qed

theorem mergedPodLabels_spec_witness:
  "fmlookup (mergedPodLabels (sample_runtime ''a'')) ''app.kubernetes.io/name'' = Some ''trussium'' \<and>
   fmlookup (mergedPodLabels (sample_runtime ''a'')) ''team'' = Some ''ai'' \<and>
   mergeLabels [''team'', ''app.kubernetes.io/name'']
     (fmap_of_list [(''app.kubernetes.io/name'', ''mine''), (''team'', ''ai'')])
     (runtimeLabels (sample_runtime ''a'')) = mergedPodLabels (sample_runtime ''a'')"
proof -
  have pm: "PodMetadata (Spec (sample_runtime ''a'')) =
      Some \<lparr>PodMetadata_Labels = fmap_of_list [(''app.kubernetes.io/name'', ''mine''), (''team'', ''ai'')],
            PodMetadata_Annotations = fmempty\<rparr>"
    by (simp add: sample_runtime_def sample_spec_def)
  have keys: "set [''team'', ''app.kubernetes.io/name''] = fset (fmdom (PodMetadata_Labels
      \<lparr>PodMetadata_Labels = fmap_of_list [(''app.kubernetes.io/name'', ''mine''), (''team'', ''ai'')],
       PodMetadata_Annotations = fmempty\<rparr>))"
    by auto
  note spec = mergedPodLabels_spec [OF pm keys]
  show ?thesis
    using spec by (simp add: runtimeLabels_def fmap_of_list.rep_eq)
qed

text \<open>C16: selection is exact.  The Deployment, the Service, the PodDisruptionBudget and the
  NetworkPolicy of a runtime all carry the same selector; it selects the Pods of the Deployment's own
  template whatever labels the user adds, and never the Pods of a runtime with another name.\<close>

theorem selectors_exact:
  shows "Deployment_Selector (Deployment_Spec (buildDeployment rt)) =
      Some (match_labels (runtimeSelectorLabels rt)) \<and>
    ServiceSpec_Selector (Service_Spec (buildService rt)) = runtimeSelectorLabels rt \<and>
    PDB_Selector (PDB_Spec (buildPodDisruptionBudget rt)) =
      Some (match_labels (runtimeSelectorLabels rt)) \<and>
    map_option (\<lambda>np. Policy_PodSelector (NetworkPolicy_Spec np)) (buildNetworkPolicy rt) =
      map_option (\<lambda>_. match_labels (runtimeSelectorLabels rt)) (RuntimeNetworkPolicy (Spec rt)) \<and>
    (selects (runtimeSelectorLabels rt)
       (Template_Labels (Template (Deployment_Spec (buildDeployment other)))) \<longleftrightarrow>
     Name (Runtime_Meta rt) = Name (Runtime_Meta other))"
proof -
  have inst: "fmlookup (mergedPodLabels other) ''app.kubernetes.io/instance'' =
      Some (Name (Runtime_Meta other))"
    by (simp add: fmlookup_mergedPodLabels runtimeLabels_def fmap_of_list.rep_eq)
  have "selects (runtimeSelectorLabels rt) (mergedPodLabels other) \<Longrightarrow>
      Name (Runtime_Meta rt) = Name (Runtime_Meta other)"
    using inst by (auto simp: selects_iff runtimeSelectorLabels_def fmap_of_list.rep_eq split: if_splits)
  moreover have "Name (Runtime_Meta rt) = Name (Runtime_Meta other) \<Longrightarrow>
      runtimeSelectorLabels rt = runtimeSelectorLabels other"
    by (simp add: runtimeSelectorLabels_def)
  ultimately show ?thesis
    using selects_mergedPodLabels [of other]
    by (auto simp: buildDeployment_def buildService_def buildPodDisruptionBudget_def
        buildNetworkPolicy_def split: option.split)
qed

section \<open>Configuration\<close>


text \<open>Credentials stay out of the configuration.  The ConfigMap has no keys beyond the eight
  settings, none of them the credential variable; neither it nor the checksum annotation depends on
  which Secrets the resource references; and the credential variable of the container only names
  the Secret and key, with no literal value.\<close>

theorem config_independent_of_secrets:
  "fset (fmdom (Data (buildConfigMap rt))) \<subseteq>
     {envEnvironment, envRuntimeHost, envRuntimePort, envProviderName, envProviderBaseURL,
      envProviderRequestSeconds, envProviderStreamIdle, envRuntimeShutdownSeconds} \<and>
   fmlookup (Data (buildConfigMap rt)) envProviderAPIKey = None \<and>
   (let rt' = rt\<lparr>Spec := (Spec rt)\<lparr>ImagePullSecrets := pulls,
                Provider := (Provider (Spec rt))\<lparr>CredentialsSecretRef := ref\<rparr>\<rparr>\<rparr>
    in Data (buildConfigMap rt') = Data (buildConfigMap rt) \<and> podAnnotations rt' = podAnnotations rt) \<and>
   list_all (\<lambda>e. EnvVar_Value e = '''' \<and> EnvVar_Name e = envProviderAPIKey \<and>
       map_option (\<lambda>k. \<lparr>SecretKeyReference_Name = Selector_Name k, SecretKeyReference_Key = Selector_Key k\<rparr>)
         (SecretKeyRef e) = CredentialsSecretRef (Provider (Spec rt)))
     (providerCredentialEnv rt)"
proof -
  have look: "fmlookup (runtimeConfigData rt) k = None"
    if "k \<notin> {envEnvironment, envRuntimeHost, envRuntimePort, envProviderName, envProviderBaseURL,
      envProviderRequestSeconds, envProviderStreamIdle, envRuntimeShutdownSeconds}" for k
    using that by (auto simp: runtimeConfigData_def Let_def fmap_of_list.rep_eq split: option.split)
  then have "fset (fmdom (runtimeConfigData rt)) \<subseteq>
     {envEnvironment, envRuntimeHost, envRuntimePort, envProviderName, envProviderBaseURL,
      envProviderRequestSeconds, envProviderStreamIdle, envRuntimeShutdownSeconds}"
    by (meson fmdom_notI subsetI)
  moreover have "fmlookup (runtimeConfigData rt) envProviderAPIKey = None"
    by (rule look) simp
  moreover have "runtimeConfigData (rt\<lparr>Spec := (Spec rt)\<lparr>ImagePullSecrets := pulls,
        Provider := (Provider (Spec rt))\<lparr>CredentialsSecretRef := ref\<rparr>\<rparr>\<rparr>) = runtimeConfigData rt"
    by (simp add: runtimeConfigData_def Let_def cong: option.case_cong)
  ultimately show ?thesis
    by (simp add: buildConfigMap_def podAnnotations_def providerCredentialEnv_def
        split: option.split)
qed

section \<open>Numbers\<close>

text \<open>C32: termination outlives draining.  For an admitted resource the grace period of the Pod is
  the drain timeout (30 seconds when unset) plus the margin of 6 seconds, computed without wrapping
  around, and lies between 7 and 3606 seconds.\<close>

theorem termination_grace_bounds:
  assumes "admitted_spec is_uri (Spec rt)"
  shows "sint (terminationGracePeriodSeconds rt) =
      (case Option.bind (Runtime (Spec rt)) ShutdownDrainTimeoutSeconds of
         None \<Rightarrow> 30 | Some drain \<Rightarrow> sint drain) + 6 \<and>
    7 \<le> sint (terminationGracePeriodSeconds rt) \<and> sint (terminationGracePeriodSeconds rt) \<le> 3606"
proof (cases "Option.bind (Runtime (Spec rt)) ShutdownDrainTimeoutSeconds")
  case None
  then have "terminationGracePeriodSeconds rt = 36"
    by (auto simp: terminationGracePeriodSeconds_def split: option.splits)
  with None show ?thesis by simp
next
  case (Some drain)
  then obtain r where r: "Runtime (Spec rt) = Some r" "ShutdownDrainTimeoutSeconds r = Some drain"
    by (auto split: option.splits simp: bind_eq_Some_conv)
  have "between 1 3600 drain"
    using admitted_runtime [OF assms r(1)] r(2) by (simp add: valid_runtime_settings_def)
  moreover have "sint (terminationGracePeriodSeconds rt) = sint drain + 6"
    using r sint_widened_add [of 6 drain] by (simp add: terminationGracePeriodSeconds_def)
  ultimately show ?thesis using Some by (simp add: between_def)
qed

theorem termination_grace_bounds_witness:
  "admitted_spec (\<lambda>_. True) (Spec (sample_runtime ''a'')) \<and>
   sint (terminationGracePeriodSeconds (sample_runtime ''a'')) = 51"
proof -
  have adm: "admitted_spec (\<lambda>_. True) (Spec (sample_runtime ''a''))"
    using sample_admitted by (simp add: sample_runtime_def)
  show ?thesis
    using termination_grace_bounds [OF adm] adm by (simp add: sample_runtime_def sample_spec_def)
qed

text \<open>C33: replica counts are sane.  For an admitted resource the initial size of the Deployment is
  between 0 and 1000; when autoscaling is on it is the lower bound of the autoscaler, which is at
  least 1 and at most the upper bound, and the utilisation target is a percentage.\<close>

theorem replica_bounds:
  assumes "admitted_spec is_uri (Spec rt)"
  shows "between 0 1000 (initialDeploymentReplicas rt) \<and>
    (if autoscalingEnabled rt
     then HPA_MinReplicas (HPA_Spec (buildHorizontalPodAutoscaler rt)) =
            Some (initialDeploymentReplicas rt) \<and>
          1 \<le> sint (initialDeploymentReplicas rt) \<and>
          sint (initialDeploymentReplicas rt)
            \<le> sint (HPA_MaxReplicas (HPA_Spec (buildHorizontalPodAutoscaler rt))) \<and>
          between 1 1000 (HPA_MaxReplicas (HPA_Spec (buildHorizontalPodAutoscaler rt))) \<and>
          between 1 100 (desiredTargetCPUUtilization rt)
     else Spec_Replicas (Spec rt) = Some (initialDeploymentReplicas rt))"
proof (cases "autoscalingEnabled rt")
  case True
  then obtain a where a: "Autoscaling (Spec rt) = Some a"
    by (auto simp: autoscalingEnabled_def split: option.splits)
  have v: "valid_autoscaling a" by (rule admitted_autoscaling [OF assms a])
  then have "MinReplicas a \<noteq> 0" "MaxReplicas a \<noteq> 0" "TargetCPUUtilizationPercentage a \<noteq> 0"
    by (auto simp: valid_autoscaling_def between_def)
  with True a v show ?thesis
    by (simp add: initialDeploymentReplicas_def buildHorizontalPodAutoscaler_def
        desiredAutoscalingMinReplicas_def desiredAutoscalingMaxReplicas_def
        desiredTargetCPUUtilization_def valid_autoscaling_def between_def)
next
  case False
  with admitted_replicas [OF assms] show ?thesis
    by (auto simp: initialDeploymentReplicas_def desiredReplicas_def)
qed

theorem replica_bounds_witness:
  "admitted_spec (\<lambda>_. True) (Spec (sample_runtime ''a'')) \<and>
   1 \<le> sint (initialDeploymentReplicas (sample_runtime ''a''))"
proof -
  have adm: "admitted_spec (\<lambda>_. True) (Spec (sample_runtime ''a''))"
    using sample_admitted by (simp add: sample_runtime_def)
  have "autoscalingEnabled (sample_runtime ''a'')"
    by (simp add: autoscalingEnabled_def sample_runtime_def sample_spec_def)
  then show ?thesis using replica_bounds [OF adm] adm by simp
qed



section \<open>Network policy\<close>

text \<open>C35: a network policy never opens more than it was asked to.  The builder panics only without
  a specification; otherwise the policy restricts ingress and nothing else, has one rule per requested
  source, in the requested order, each admitting exactly one peer, which is confined to selected
  namespaces, on exactly the TCP port of the runtime; and for an admitted, enabled policy there is
  at least one rule.\<close>

theorem network_policy_exact:
  assumes "RuntimeNetworkPolicy (Spec rt) = Some policy"
  shows "\<exists>np. buildNetworkPolicy rt = Some np \<and>
    PolicyTypes (NetworkPolicy_Spec np) = [''Ingress''] \<and>
    list_all2 (\<lambda>rule ingress.
        (\<exists>peer. From rule = [peer] \<and>
          Peer_NamespaceSelector peer = Some (Rule_NamespaceSelector ingress) \<and>
          Peer_PodSelector peer = Rule_PodSelector ingress) \<and>
        Ingress_Ports rule = [\<lparr>NetworkPort_Protocol = Some ''TCP'',
          NetworkPort_Port = Some (FromInt32 runtimeHTTPPort)\<rparr>])
      (Policy_Ingress (NetworkPolicy_Spec np)) (NetworkPolicy_Ingress policy) \<and>
    (admitted_spec is_uri (Spec rt) \<and> NetworkPolicy_Enabled policy \<longrightarrow>
      Policy_Ingress (NetworkPolicy_Spec np) \<noteq> [])"
proof -
  have ne: "NetworkPolicy_Ingress policy \<noteq> []"
    if "admitted_spec is_uri (Spec rt)" and "NetworkPolicy_Enabled policy"
    using that assms by (auto simp: admitted_spec_def valid_spec_def valid_network_policy_def)
  show ?thesis
    using assms ne
    by (simp add: buildNetworkPolicy_def ingress_rule_def list_all2_conv_all_nth)
qed

theorem network_policy_exact_witness:
  "\<exists>np. buildNetworkPolicy ((sample_runtime ''a'')\<lparr>Spec := sample_spec\<lparr>RuntimeNetworkPolicy :=
        Some \<lparr>NetworkPolicy_Enabled = True, NetworkPolicy_Ingress =
          [\<lparr>Rule_NamespaceSelector = match_labels fmempty, Rule_PodSelector = None\<rparr>]\<rparr>\<rparr>\<rparr>) = Some np \<and>
     length (Policy_Ingress (NetworkPolicy_Spec np)) = 1"
proof -
  let ?policy = "\<lparr>NetworkPolicy_Enabled = True, NetworkPolicy_Ingress =
      [\<lparr>Rule_NamespaceSelector = match_labels fmempty, Rule_PodSelector = None\<rparr>]\<rparr>"
  let ?rt = "(sample_runtime ''a'')\<lparr>Spec := sample_spec\<lparr>RuntimeNetworkPolicy := Some ?policy\<rparr>\<rparr>"
  have "RuntimeNetworkPolicy (Spec ?rt) = Some ?policy" by simp
  from network_policy_exact [OF this, of "\<lambda>_. True"] obtain np
    where np: "buildNetworkPolicy ?rt = Some np"
      and "list_all2 (\<lambda>rule ingress.
        (\<exists>peer. From rule = [peer] \<and>
          Peer_NamespaceSelector peer = Some (Rule_NamespaceSelector ingress) \<and>
          Peer_PodSelector peer = Rule_PodSelector ingress) \<and>
        Ingress_Ports rule = [\<lparr>NetworkPort_Protocol = Some ''TCP'',
          NetworkPort_Port = Some (FromInt32 runtimeHTTPPort)\<rparr>])
      (Policy_Ingress (NetworkPolicy_Spec np)) (NetworkPolicy_Ingress ?policy)"
    by blast
  then show ?thesis by (auto dest: list_all2_lengthD)
qed

end
