(* ===== verification/Kube_Library.thy ===== *)
theory Kube_Library
  imports Api_Types
begin

text \<open>
  The libraries the operator calls and whose code is not part of the repository: the condition
  helpers of \<open>apimachinery\<close>, the error predicates, \<open>equality.Semantic\<close>, \<open>controllerutil\<close> and
  the Kubernetes client.  They are parameters: the fields of the record \<open>kube_api\<close>, which the
  definitions of the other theories take as an argument.  A client operation takes the state of
  the outside world, of any type, and returns its answer with a new one, so other writers may act at
  every call.

  The locale \<open>meta_conditions\<close> states the documented behaviour of the condition helpers and
  proves, once, what its clients need.  It is interpreted on \<open>doc_meta\<close>, the functions that do
  what the documentation says.

  The record \<open>rstate\<close> holds the effects of the reconciler: the world, the clock, the client calls
  made so far in order, the Events recorded and the metrics.
\<close>

section \<open>Condition helpers\<close>

record meta_api =
  SetStatusCondition :: "Condition list \<Rightarrow> Condition \<Rightarrow> instant \<Rightarrow> Condition list"
  FindStatusCondition :: "Condition list \<Rightarrow> string \<Rightarrow> Condition option"

text \<open>
  What the documentation of \<open>SetStatusCondition\<close> says of the stored condition: every field of the
  new condition, except that the transition time is the old one while the status stays the same,
  and otherwise the given one or, if that is unset, the current time.
\<close>

definition merged_condition :: "Condition option \<Rightarrow> Condition \<Rightarrow> instant \<Rightarrow> Condition" where
  "merged_condition old new now =
     (let fresh = (if LastTransitionTime new = None then Some now else LastTransitionTime new) in
      case old of
        None \<Rightarrow> new\<lparr>LastTransitionTime := fresh\<rparr>
      | Some c \<Rightarrow>
          new\<lparr>LastTransitionTime :=
            (if Condition_Status c = Condition_Status new then LastTransitionTime c else fresh)\<rparr>)"

locale meta_conditions =
  fixes M :: "'a meta_api_scheme"
  assumes find_None: "FindStatusCondition M cs t = None \<longleftrightarrow> t \<notin> Condition_Type ` set cs"
    and find_Some: "FindStatusCondition M cs t = Some c \<Longrightarrow> c \<in> set cs \<and> Condition_Type c = t"
    and set_types: "map Condition_Type (SetStatusCondition M cs c now) =
      (if Condition_Type c \<in> Condition_Type ` set cs then map Condition_Type cs
       else map Condition_Type cs @ [Condition_Type c])"
    and find_set_same: "FindStatusCondition M (SetStatusCondition M cs c now) (Condition_Type c) =
      Some (merged_condition (FindStatusCondition M cs (Condition_Type c)) c now)"
    and find_set_other: "t \<noteq> Condition_Type c \<Longrightarrow>
      FindStatusCondition M (SetStatusCondition M cs c now) t = FindStatusCondition M cs t"
begin

lemma find_set:
  "FindStatusCondition M (SetStatusCondition M cs c now) t =
     (if t = Condition_Type c then Some (merged_condition (FindStatusCondition M cs t) c now)
      else FindStatusCondition M cs t)"
  by (simp add: find_set_same find_set_other)

lemma find_in:
  assumes "distinct (map Condition_Type cs)" and "c \<in> set cs"
  shows "FindStatusCondition M cs (Condition_Type c) = Some c"
proof -
  have "FindStatusCondition M cs (Condition_Type c) \<noteq> None"
    using assms(2) by (simp add: find_None)
  then obtain d where d: "FindStatusCondition M cs (Condition_Type c) = Some d" by blast
  from find_Some [OF d] have "d \<in> set cs" "Condition_Type d = Condition_Type c" by simp_all
  with assms have "d = c"
    using inj_onD [OF distinct_map [THEN iffD1, THEN conjunct2, OF assms(1)]] by blast
  with d show ?thesis by simp
qed

text \<open>Lists with the same types in the same order, no type twice, are equal when the lookups are.\<close>

lemma conditions_ext:
  assumes "map Condition_Type cs = map Condition_Type ds" and "distinct (map Condition_Type cs)"
    and "\<And>t. t \<in> Condition_Type ` set cs \<Longrightarrow> FindStatusCondition M cs t = FindStatusCondition M ds t"
  shows "cs = ds"
proof (rule nth_equalityI)
  show len: "length cs = length ds" using assms(1) by (metis length_map)
  fix i
  assume i: "i < length cs"
  then have ty: "Condition_Type (cs ! i) = Condition_Type (ds ! i)"
    using assms(1) len by (metis nth_map)
  have "FindStatusCondition M cs (Condition_Type (cs ! i)) = Some (cs ! i)"
    using i assms(2) by (intro find_in) simp_all
  moreover have "FindStatusCondition M ds (Condition_Type (ds ! i)) = Some (ds ! i)"
    using i len assms(1,2) by (intro find_in) (simp_all add: assms(1) [symmetric])
  moreover have "FindStatusCondition M cs (Condition_Type (cs ! i)) =
      FindStatusCondition M ds (Condition_Type (cs ! i))"
    using i by (intro assms(3) imageI nth_mem)
  ultimately show "cs ! i = ds ! i" using ty by simp
qed

lemma set_distinct:
  "distinct (map Condition_Type cs) \<Longrightarrow> distinct (map Condition_Type (SetStatusCondition M cs c now))"
  unfolding set_types by simp

end

text \<open>The documented behaviour, as functions.\<close>

fun doc_set :: "Condition list \<Rightarrow> Condition \<Rightarrow> instant \<Rightarrow> Condition list" where
  "doc_set [] new now = [merged_condition None new now]"
| "doc_set (c # cs) new now =
     (if Condition_Type c = Condition_Type new then merged_condition (Some c) new now # cs
      else c # doc_set cs new now)"

definition doc_find :: "Condition list \<Rightarrow> string \<Rightarrow> Condition option" where
  "doc_find cs t = List.find (\<lambda>c. Condition_Type c = t) cs"

definition doc_meta :: meta_api where
  "doc_meta = \<lparr>SetStatusCondition = doc_set, FindStatusCondition = doc_find\<rparr>"

lemma merged_condition_fields [simp]:
  "Condition_Type (merged_condition old new now) = Condition_Type new"
  "Condition_Status (merged_condition old new now) = Condition_Status new"
  "Condition_ObservedGeneration (merged_condition old new now) = Condition_ObservedGeneration new"
  "Reason (merged_condition old new now) = Reason new"
  "Message (merged_condition old new now) = Message new"
  by (simp_all add: merged_condition_def Let_def split: option.split)

lemma doc_find_simps [simp]:
  "doc_find [] t = None"
  "doc_find (c # cs) t = (if Condition_Type c = t then Some c else doc_find cs t)"
  by (simp_all add: doc_find_def)

lemma doc_find_doc_set:
  "doc_find (doc_set cs c now) t =
     (if t = Condition_Type c then Some (merged_condition (doc_find cs t) c now) else doc_find cs t)"
  by (induction cs c now rule: doc_set.induct) auto

interpretation doc: meta_conditions doc_meta
proof
  fix cs t
  show "FindStatusCondition doc_meta cs t = None \<longleftrightarrow> t \<notin> Condition_Type ` set cs"
    by (induction cs) (auto simp: doc_meta_def)
next
  fix cs t c
  assume "FindStatusCondition doc_meta cs t = Some c"
  then show "c \<in> set cs \<and> Condition_Type c = t"
    by (induction cs) (auto simp: doc_meta_def split: if_splits)
next
  fix cs c now
  show "map Condition_Type (SetStatusCondition doc_meta cs c now) =
      (if Condition_Type c \<in> Condition_Type ` set cs then map Condition_Type cs
       else map Condition_Type cs @ [Condition_Type c])"
    by (induction cs) (auto simp: doc_meta_def)
qed (simp_all add: doc_meta_def doc_find_doc_set)

section \<open>The other libraries\<close>

record Secret =
  Secret_Meta :: ObjectMeta
  Secret_Data :: gomap

record lib_api = meta_api +
  IsNotFound :: "goerror \<Rightarrow> bool"
  IgnoreNotFound :: "goerror option \<Rightarrow> goerror option"
  DeepEqual :: "TrussiumRuntimeStatus \<Rightarrow> TrussiumRuntimeStatus \<Rightarrow> bool"
  SetControllerReference :: "TrussiumRuntime \<Rightarrow> ObjectMeta \<Rightarrow> goerror + ObjectMeta"

type_synonym ('w, 'o) create_or_update =
  "'o \<Rightarrow> ('o \<Rightarrow> goerror + 'o) \<Rightarrow> 'w \<Rightarrow> goerror option \<times> 'w"

record 'w kube_api = lib_api +
  Get_Runtime :: "NamespacedName \<Rightarrow> 'w \<Rightarrow> (goerror + TrussiumRuntime) \<times> 'w"
  Get_Secret :: "NamespacedName \<Rightarrow> 'w \<Rightarrow> (goerror + Secret) \<times> 'w"
  Get_Deployment :: "NamespacedName \<Rightarrow> 'w \<Rightarrow> (goerror + Deployment) \<times> 'w"
  Get_Service :: "NamespacedName \<Rightarrow> 'w \<Rightarrow> (goerror + Service) \<times> 'w"
  List_Runtimes :: "string \<Rightarrow> 'w \<Rightarrow> (goerror + TrussiumRuntime list) \<times> 'w"
  Status_Update :: "TrussiumRuntime \<Rightarrow> 'w \<Rightarrow> (goerror + TrussiumRuntime) \<times> 'w"
  CreateOrUpdate_ConfigMap :: "('w, ConfigMap) create_or_update"
  CreateOrUpdate_ServiceAccount :: "('w, ServiceAccount) create_or_update"
  CreateOrUpdate_Service :: "('w, Service) create_or_update"
  CreateOrUpdate_Deployment :: "('w, Deployment) create_or_update"
  CreateOrUpdate_PodDisruptionBudget :: "('w, PodDisruptionBudget) create_or_update"
  CreateOrUpdate_NetworkPolicy :: "('w, NetworkPolicy) create_or_update"
  CreateOrUpdate_HorizontalPodAutoscaler :: "('w, HorizontalPodAutoscaler) create_or_update"
  Delete_NetworkPolicy :: "NamespacedName \<Rightarrow> 'w \<Rightarrow> goerror option \<times> 'w"
  Delete_HorizontalPodAutoscaler :: "NamespacedName \<Rightarrow> 'w \<Rightarrow> goerror option \<times> 'w"

section \<open>Effects of the reconciler\<close>

datatype kind =
    KTrussiumRuntime | KSecret | KConfigMap | KServiceAccount | KService | KDeployment
  | KPodDisruptionBudget | KNetworkPolicy | KHorizontalPodAutoscaler

datatype api_call =
    CallGet kind NamespacedName
  | CallList kind string
  | CallCreateOrUpdate kind NamespacedName
  | CallDelete kind NamespacedName
  | CallStatusUpdate NamespacedName

record event =
  Event_Regarding :: NamespacedName
  Event_Type :: string
  Event_Reason :: string
  Event_Action :: string
  Event_Note :: string

record 'w rstate =
  world :: 'w
  rclock :: clock
  calls :: "api_call list"
  recorded :: "event list"
  reconciliations_total :: "string \<Rightarrow> nat"
  reconciliation_durations :: "(string \<times> int) list"

type_synonym ('w, 'a) rm = "('w rstate, 'a) state"

text \<open>One client call: logged, run on the world, answered.\<close>

definition client_op :: "api_call \<Rightarrow> ('w \<Rightarrow> 'a \<times> 'w) \<Rightarrow> ('w, 'a) rm" where
  "client_op c f =
     State (\<lambda>s. case f (world s) of (a, w) \<Rightarrow> (a, s\<lparr>world := w, calls := calls s @ [c]\<rparr>))"

definition with_clock :: "(clock \<Rightarrow> 'a \<times> clock) \<Rightarrow> ('w, 'a) rm" where
  "with_clock f = State (\<lambda>s. case f (rclock s) of (a, c) \<Rightarrow> (a, s\<lparr>rclock := c\<rparr>))"

definition time_Now :: "('w, instant) rm" where
  "time_Now = with_clock (\<lambda>c. (c 0, tick c))"

definition Eventf :: "event \<Rightarrow> ('w, unit) rm" where
  "Eventf e = State (\<lambda>s. ((), s\<lparr>recorded := recorded s @ [e]\<rparr>))"

definition modify :: "('w rstate \<Rightarrow> 'w rstate) \<Rightarrow> ('w, unit) rm" where
  "modify f = State (\<lambda>s. ((), f s))"

text \<open>The call writes a managed object, or the status of the custom resource.\<close>

fun writes_kind :: "api_call \<Rightarrow> (kind \<times> NamespacedName) option" where
  "writes_kind (CallCreateOrUpdate k key) = Some (k, key)"
| "writes_kind (CallDelete k key) = Some (k, key)"
| "writes_kind (CallStatusUpdate key) = Some (KTrussiumRuntime, key)"
| "writes_kind _ = None"

lemma run_client_op [simp]:
  "run_state (client_op c f) s =
     (fst (f (world s)), s\<lparr>world := snd (f (world s)), calls := calls s @ [c]\<rparr>)"
  by (simp add: client_op_def split: prod.split)

lemma run_with_clock [simp]:
  "run_state (with_clock f) s = (fst (f (rclock s)), s\<lparr>rclock := snd (f (rclock s))\<rparr>)"
  by (simp add: with_clock_def split: prod.split)

lemma run_time_Now [simp]: "run_state time_Now s = (rclock s 0, s\<lparr>rclock := tick (rclock s)\<rparr>)"
  by (simp add: time_Now_def)

lemma run_Eventf [simp]: "run_state (Eventf e) s = ((), s\<lparr>recorded := recorded s @ [e]\<rparr>)"
  by (simp add: Eventf_def)

lemma run_modify [simp]: "run_state (modify f) s = ((), f s)"
  by (simp add: modify_def)

end
