(* ===== verification/Runtime_Status.thy ===== *)
theory Runtime_Status
  imports Runtime_Resources Kube_Library
begin

text \<open>
  \<open>internal/controller/runtime_status.go\<close>: what the operator observes and reports.  One definition
  per function, in the order of the file: resolution of referenced Secrets, observation of the managed
  Deployment and Service, rollout state, the status and its conditions, the status write and the
  upgrade lifecycle.

  A status under construction is a pair of the status and the clock, because setting a condition may
  read the current time.  Functions that only compute take the library record \<open>M\<close>; functions that
  call the client are computations over \<open>rstate\<close>.

  The lemmas in the locale \<open>meta_conditions\<close> read the conditions after each build step; the
  interface \<open>condition_store\<close> states what setting a condition promises and every builder relies
  on.
\<close>

section \<open>Condition types and reasons\<close>

abbreviation conditionTypeConfigurationValid :: string where
  "conditionTypeConfigurationValid \<equiv> ''ConfigurationValid''"
abbreviation conditionTypeProgressing :: string where "conditionTypeProgressing \<equiv> ''Progressing''"
abbreviation conditionTypeAvailable :: string where "conditionTypeAvailable \<equiv> ''Available''"
abbreviation conditionTypeReady :: string where "conditionTypeReady \<equiv> ''Ready''"
abbreviation conditionTypeDegraded :: string where "conditionTypeDegraded \<equiv> ''Degraded''"
abbreviation conditionTypeUpgrading :: string where "conditionTypeUpgrading \<equiv> ''Upgrading''"

abbreviation reasonReferencesResolved :: string where "reasonReferencesResolved \<equiv> ''ReferencesResolved''"
abbreviation reasonSecretNotFound :: string where "reasonSecretNotFound \<equiv> ''SecretNotFound''"
abbreviation reasonReferenceCheckFailed :: string where
  "reasonReferenceCheckFailed \<equiv> ''ReferenceCheckFailed''"
abbreviation reasonDeploymentProgressing :: string where
  "reasonDeploymentProgressing \<equiv> ''DeploymentProgressing''"
abbreviation reasonDeploymentGenerationPending :: string where
  "reasonDeploymentGenerationPending \<equiv> ''DeploymentGenerationPending''"
abbreviation reasonReconciliationComplete :: string where
  "reasonReconciliationComplete \<equiv> ''ReconciliationComplete''"
abbreviation reasonConfigurationInvalid :: string where
  "reasonConfigurationInvalid \<equiv> ''ConfigurationInvalid''"
abbreviation reasonDeploymentFailed :: string where "reasonDeploymentFailed \<equiv> ''DeploymentFailed''"
abbreviation reasonScaledToZero :: string where "reasonScaledToZero \<equiv> ''ScaledToZero''"
abbreviation reasonRuntimeAvailable :: string where "reasonRuntimeAvailable \<equiv> ''RuntimeAvailable''"
abbreviation reasonRuntimeUnavailable :: string where "reasonRuntimeUnavailable \<equiv> ''RuntimeUnavailable''"
abbreviation reasonRuntimeReady :: string where "reasonRuntimeReady \<equiv> ''RuntimeReady''"
abbreviation reasonRuntimeNotReady :: string where "reasonRuntimeNotReady \<equiv> ''RuntimeNotReady''"
abbreviation reasonAsExpected :: string where "reasonAsExpected \<equiv> ''AsExpected''"
abbreviation reasonProgressDeadlineExceeded :: string where
  "reasonProgressDeadlineExceeded \<equiv> ''ProgressDeadlineExceeded''"
abbreviation reasonReplicaFailure :: string where "reasonReplicaFailure \<equiv> ''ReplicaFailure''"
abbreviation reasonReconciliationFailed :: string where
  "reasonReconciliationFailed \<equiv> ''ReconciliationFailed''"
abbreviation reasonNoUpgrade :: string where "reasonNoUpgrade \<equiv> ''NoUpgrade''"
abbreviation reasonUpgradeInProgress :: string where "reasonUpgradeInProgress \<equiv> ''UpgradeInProgress''"
abbreviation reasonUpgradeComplete :: string where "reasonUpgradeComplete \<equiv> ''UpgradeComplete''"
abbreviation reasonUpgradeFailed :: string where "reasonUpgradeFailed \<equiv> ''UpgradeFailed''"

section \<open>Secret references\<close>

record referenceValidationResult =
  Valid :: bool
  Validation_Reason :: string
  Validation_Message :: string
  Err :: "goerror option"

record runtimeObservation =
  Obs_Deployment :: "Deployment option"
  Obs_Service :: "Service option"

definition validReferenceValidation :: referenceValidationResult where
  "validReferenceValidation =
     \<lparr>Valid = True, Validation_Reason = reasonReferencesResolved,
      Validation_Message = ''All referenced Secrets are available.'', Err = None\<rparr>"

definition referencedSecretNames :: "TrussiumRuntime \<Rightarrow> string list" where
  "referencedSecretNames rt =
     (let uniqueNames =
            (case CredentialsSecretRef (Provider (Spec rt)) of
               None \<Rightarrow> fmempty
             | Some ref \<Rightarrow> fmupd (SecretKeyReference_Name ref) () fmempty);
          uniqueNames =
            fold (\<lambda>ref names. fmupd (NamedReference_Name ref) () names)
              (ImagePullSecrets (Spec rt)) uniqueNames
      in sort (range_keys uniqueNames))"

definition runtimeReferencesSecret :: "TrussiumRuntime \<Rightarrow> string \<Rightarrow> bool" where
  "runtimeReferencesSecret rt secretName \<longleftrightarrow> secretName \<in> set (referencedSecretNames rt)"

fun validateSecretNames ::
  "'w kube_api \<Rightarrow> string \<Rightarrow> string list \<Rightarrow> ('w, referenceValidationResult) rm"
where
  "validateSecretNames K namespace [] = State_Monad.return validReferenceValidation"
| "validateSecretNames K namespace (secretName # names) =
     do {
       let key = \<lparr>Key_Namespace = namespace, Key_Name = secretName\<rparr>;
       result \<leftarrow> client_op (CallGet KSecret key) (Get_Secret K key);
       case result of
         Inr secret \<Rightarrow> validateSecretNames K namespace names
       | Inl err \<Rightarrow>
           if IsNotFound K err then
             State_Monad.return
               \<lparr>Valid = False, Validation_Reason = reasonSecretNotFound,
                Validation_Message = ''Referenced Secret '' @ Quote secretName @ '' was not found.'',
                Err = None\<rparr>
           else
             State_Monad.return
               \<lparr>Valid = False, Validation_Reason = reasonReferenceCheckFailed,
                Validation_Message = ''Unable to verify referenced Secrets.'',
                Err = Some (Wrapf (''get referenced Secret '' @ namespace @ ''/'' @ secretName @ '': '') err)\<rparr>
     }"

definition validateSecretReferences ::
  "'w kube_api \<Rightarrow> TrussiumRuntime \<Rightarrow> ('w, referenceValidationResult) rm"
where
  "validateSecretReferences K rt =
     validateSecretNames K (Namespace (Runtime_Meta rt)) (referencedSecretNames rt)"

section \<open>Observation\<close>

definition loadObservedService ::
  "'w kube_api \<Rightarrow> NamespacedName \<Rightarrow> Deployment option \<Rightarrow> ('w, goerror + runtimeObservation) rm"
where
  "loadObservedService K key deployment =
     do {
       service \<leftarrow> client_op (CallGet KService key) (Get_Service K key);
       State_Monad.return
         (case service of
            Inl err \<Rightarrow>
              if \<not> IsNotFound K err then
                Inl (Wrapf
                  (''get managed Service '' @ Key_Namespace key @ ''/'' @ Key_Name key @ '': '') err)
              else Inr \<lparr>Obs_Deployment = deployment, Obs_Service = None\<rparr>
          | Inr svc \<Rightarrow> Inr \<lparr>Obs_Deployment = deployment, Obs_Service = Some svc\<rparr>)
     }"

definition loadRuntimeObservation ::
  "'w kube_api \<Rightarrow> TrussiumRuntime \<Rightarrow> ('w, goerror + runtimeObservation) rm"
where
  "loadRuntimeObservation K rt =
     do {
       let key = ObjectKey (Runtime_Meta rt);
       deployment \<leftarrow> client_op (CallGet KDeployment key) (Get_Deployment K key);
       case deployment of
         Inl err \<Rightarrow>
           if \<not> IsNotFound K err then
             State_Monad.return (Inl (Wrapf
               (''get managed Deployment '' @ Key_Namespace key @ ''/'' @ Key_Name key @ '': '') err))
           else loadObservedService K key None
       | Inr d \<Rightarrow> loadObservedService K key (Some d)
     }"

section \<open>Rollout state\<close>

datatype deploymentRolloutState =
  deploymentRolloutProgressing | deploymentRolloutComplete | deploymentRolloutFailed

definition isDeadlineExceeded :: "DeploymentCondition \<Rightarrow> bool" where
  "isDeadlineExceeded c \<longleftrightarrow>
     DC_Type c = ''Progressing'' \<and> DC_Status c = ConditionFalse \<and>
     DC_Reason c = reasonProgressDeadlineExceeded"

definition isReplicaFailure :: "DeploymentCondition \<Rightarrow> bool" where
  "isReplicaFailure c \<longleftrightarrow> DC_Type c = ''ReplicaFailure'' \<and> DC_Status c = ConditionTrue"

fun hasRolloutFailure :: "DeploymentCondition list \<Rightarrow> bool" where
  "hasRolloutFailure [] = False"
| "hasRolloutFailure (c # cs) =
     (if isDeadlineExceeded c then True else if isReplicaFailure c then True else hasRolloutFailure cs)"

definition deploymentHasRolloutFailure :: "Deployment option \<Rightarrow> bool" where
  "deploymentHasRolloutFailure deployment =
     (case deployment of
        None \<Rightarrow> False | Some d \<Rightarrow> hasRolloutFailure (DS_Conditions (Deployment_Status d)))"

definition observeDeploymentRollout ::
  "TrussiumRuntime \<Rightarrow> Deployment option \<Rightarrow> deploymentRolloutState"
where
  "observeDeploymentRollout rt deployment =
     (case deployment of
        None \<Rightarrow> deploymentRolloutProgressing
      | Some d \<Rightarrow>
          (let st = Deployment_Status d in
           if deploymentHasRolloutFailure deployment then deploymentRolloutFailed
           else if sint (DS_ObservedGeneration st) < sint (Generation (Deployment_Meta d))
             then deploymentRolloutProgressing
           else
             (let desired = desiredReplicaCount rt deployment in
              if desired = 0 then
                (if DS_Replicas st \<noteq> 0 \<or> DS_UpdatedReplicas st \<noteq> 0 \<or> DS_ReadyReplicas st \<noteq> 0 \<or>
                    DS_AvailableReplicas st \<noteq> 0 \<or> DS_UnavailableReplicas st \<noteq> 0
                 then deploymentRolloutProgressing else deploymentRolloutComplete)
              else if DS_UpdatedReplicas st \<noteq> desired then deploymentRolloutProgressing
              else if DS_Replicas st \<noteq> desired then deploymentRolloutProgressing
              else if DS_ReadyReplicas st \<noteq> desired then deploymentRolloutProgressing
              else if DS_AvailableReplicas st \<noteq> desired then deploymentRolloutProgressing
              else if DS_UnavailableReplicas st \<noteq> 0 then deploymentRolloutProgressing
              else deploymentRolloutComplete)))"

fun findDeadlineExceeded :: "DeploymentCondition list \<Rightarrow> (string \<times> string) option" where
  "findDeadlineExceeded [] = None"
| "findDeadlineExceeded (c # cs) =
     (if isDeadlineExceeded c then
        Some (reasonProgressDeadlineExceeded,
          if DC_Message c = '''' then ''The runtime Deployment exceeded its progress deadline.''
          else DC_Message c)
      else findDeadlineExceeded cs)"

fun findReplicaFailure :: "DeploymentCondition list \<Rightarrow> (string \<times> string) option" where
  "findReplicaFailure [] = None"
| "findReplicaFailure (c # cs) =
     (if isReplicaFailure c then
        Some (reasonReplicaFailure,
          if DC_Message c = '''' then ''The runtime Deployment reported a replica failure.''
          else DC_Message c)
      else findReplicaFailure cs)"

definition deploymentFailure :: "Deployment \<Rightarrow> (string \<times> string) option" where
  "deploymentFailure d =
     (case findDeadlineExceeded (DS_Conditions (Deployment_Status d)) of
        Some failure \<Rightarrow> Some failure
      | None \<Rightarrow> findReplicaFailure (DS_Conditions (Deployment_Status d)))"

fun findRuntimeContainer :: "Container list \<Rightarrow> string option" where
  "findRuntimeContainer [] = None"
| "findRuntimeContainer (c # cs) =
     (if Container_Name c = runtimeContainerName then Some (Container_Image c)
      else findRuntimeContainer cs)"

definition deploymentCurrentImage :: "Deployment option \<Rightarrow> string" where
  "deploymentCurrentImage deployment =
     (case deployment of
        None \<Rightarrow> ''''
      | Some d \<Rightarrow>
          (let containers = Containers (Template_Spec (Template (Deployment_Spec d))) in
           case findRuntimeContainer containers of
             Some img \<Rightarrow> img
           | None \<Rightarrow> (case containers of [] \<Rightarrow> '''' | c # _ \<Rightarrow> Container_Image c)))"

definition runtimeServiceEndpoint :: "Service option \<Rightarrow> string" where
  "runtimeServiceEndpoint service =
     (case service of
        None \<Rightarrow> ''''
      | Some svc \<Rightarrow>
          (case ServiceSpec_Ports (Service_Spec svc) of
             [] \<Rightarrow> ''''
           | p # _ \<Rightarrow>
               ''http://'' @ Name (Service_Meta svc) @ ''.'' @ Namespace (Service_Meta svc) @
               ''.svc.cluster.local:'' @ Itoa (sint (ServicePort_Port p))))"

section \<open>Conditions\<close>

type_synonym build = "TrussiumRuntimeStatus \<times> clock"

fun setRuntimeCondition ::
  "'a meta_api_scheme \<Rightarrow> int64 \<Rightarrow> string \<Rightarrow> string \<Rightarrow> string \<Rightarrow> string \<Rightarrow> build \<Rightarrow> build"
where
  "setRuntimeCondition M observedGeneration conditionType conditionStatus reason message (status, clk) =
     (status\<lparr>Conditions :=
        SetStatusCondition M (Conditions status)
          \<lparr>Condition_Type = conditionType, Condition_Status = conditionStatus,
           Condition_ObservedGeneration = observedGeneration, LastTransitionTime = None,
           Reason = reason, Message = message\<rparr> (clk 0)\<rparr>,
      tick clk)"

declare setRuntimeCondition.simps [simp del]

definition setAvailabilityCondition :: "'a meta_api_scheme \<Rightarrow> int64 \<Rightarrow> int32 \<Rightarrow> build \<Rightarrow> build" where
  "setAvailabilityCondition M gen desired b =
     (if desired = 0 then
        setRuntimeCondition M gen conditionTypeAvailable ConditionFalse reasonScaledToZero
          ''No runtime replicas are requested.'' b
      else if 0 < sint (AvailableReplicas (fst b)) then
        setRuntimeCondition M gen conditionTypeAvailable ConditionTrue reasonRuntimeAvailable
          (Itoa (sint (AvailableReplicas (fst b))) @ '' runtime replica(s) are available.'') b
      else
        setRuntimeCondition M gen conditionTypeAvailable ConditionFalse reasonRuntimeUnavailable
          ''No runtime replicas are currently available.'' b)"

definition runtimeCondition ::
  "'a meta_api_scheme \<Rightarrow> TrussiumRuntimeStatus \<Rightarrow> string \<Rightarrow> Condition option"
where
  "runtimeCondition M status conditionType = FindStatusCondition M (Conditions status) conditionType"

definition conditionChanged ::
  "'a meta_api_scheme \<Rightarrow> TrussiumRuntimeStatus \<Rightarrow> TrussiumRuntimeStatus \<Rightarrow> string \<Rightarrow> bool"
where
  "conditionChanged M previousStatus currentStatus conditionType =
     (case runtimeCondition M currentStatus conditionType of
        None \<Rightarrow> False
      | Some current \<Rightarrow>
          (case runtimeCondition M previousStatus conditionType of
             None \<Rightarrow> True
           | Some previous \<Rightarrow>
               Condition_Status previous \<noteq> Condition_Status current \<or> Reason previous \<noteq> Reason current))"

definition copyRuntimeStatus :: "TrussiumRuntimeStatus \<Rightarrow> TrussiumRuntimeStatus" where
  "copyRuntimeStatus status = status"

section \<open>Building the status\<close>

text \<open>The assignments with which \<open>buildBaseRuntimeStatus\<close> starts.\<close>

definition observedRuntimeStatus ::
  "TrussiumRuntime \<Rightarrow> runtimeObservation \<Rightarrow> TrussiumRuntimeStatus"
where
  "observedRuntimeStatus rt observation =
     (let status = (copyRuntimeStatus (Status rt))
            \<lparr>ObservedGeneration := Generation (Runtime_Meta rt), ReadyReplicas := 0,
             AvailableReplicas := 0, DesiredImage := runtimeImage (Image (Spec rt)),
             CurrentImage := deploymentCurrentImage (Obs_Deployment observation),
             Endpoint := runtimeServiceEndpoint (Obs_Service observation)\<rparr>
      in case Obs_Deployment observation of
           None \<Rightarrow> status
         | Some d \<Rightarrow>
             status\<lparr>ReadyReplicas := DS_ReadyReplicas (Deployment_Status d),
                    AvailableReplicas := DS_AvailableReplicas (Deployment_Status d)\<rparr>)"

text \<open>
  The branches of \<open>buildBaseRuntimeStatus\<close>, each up to its early return: references that do not
  resolve, no Deployment yet, scaled or scaling to zero, a failed rollout, ready, and progressing.
\<close>

definition invalidReferencesStatus ::
  "'a meta_api_scheme \<Rightarrow> TrussiumRuntime \<Rightarrow> int64 \<Rightarrow> referenceValidationResult \<Rightarrow> build \<Rightarrow> build"
where
  "invalidReferencesStatus M rt gen validation b =
     (let b = setRuntimeCondition M gen conditionTypeConfigurationValid ConditionFalse
            (Validation_Reason validation) (Validation_Message validation) b;
          b = setRuntimeCondition M gen conditionTypeProgressing ConditionFalse
            reasonConfigurationInvalid
            ''Runtime reconciliation is blocked by invalid configuration references.'' b;
          b = setAvailabilityCondition M gen (desiredReplicas rt) b;
          b = setRuntimeCondition M gen conditionTypeReady ConditionFalse
            reasonConfigurationInvalid
            ''The runtime is not ready because configuration references are invalid.'' b
      in setRuntimeCondition M gen conditionTypeDegraded ConditionTrue
           reasonConfigurationInvalid (Validation_Message validation) b)"

definition missingDeploymentStatus :: "'a meta_api_scheme \<Rightarrow> int64 \<Rightarrow> int32 \<Rightarrow> build \<Rightarrow> build" where
  "missingDeploymentStatus M gen desired b =
     (let b = setRuntimeCondition M gen conditionTypeProgressing ConditionTrue
            reasonDeploymentProgressing ''The runtime Deployment is being created.'' b;
          b = setAvailabilityCondition M gen desired b;
          b = setRuntimeCondition M gen conditionTypeReady ConditionFalse
            reasonRuntimeNotReady ''The runtime Deployment is not yet available.'' b
      in setRuntimeCondition M gen conditionTypeDegraded ConditionFalse
           reasonAsExpected ''No degraded runtime condition has been observed.'' b)"

definition scaledToZeroStatus :: "'a meta_api_scheme \<Rightarrow> int64 \<Rightarrow> build \<Rightarrow> build" where
  "scaledToZeroStatus M gen b =
     (let b = setRuntimeCondition M gen conditionTypeProgressing ConditionFalse
            reasonScaledToZero
            ''The runtime has reached the requested scaled-to-zero state.'' b;
          b = setRuntimeCondition M gen conditionTypeAvailable ConditionFalse
            reasonScaledToZero ''No runtime replicas are requested.'' b;
          b = setRuntimeCondition M gen conditionTypeReady ConditionTrue
            reasonScaledToZero
            ''The runtime has reached the requested scaled-to-zero state.'' b
      in setRuntimeCondition M gen conditionTypeDegraded ConditionFalse
           reasonAsExpected ''No degraded runtime condition has been observed.'' b)"

definition scalingToZeroStatus :: "'a meta_api_scheme \<Rightarrow> int64 \<Rightarrow> build \<Rightarrow> build" where
  "scalingToZeroStatus M gen b =
     (let b = setRuntimeCondition M gen conditionTypeProgressing ConditionTrue
            reasonDeploymentGenerationPending
            ''The Deployment is converging toward the scaled-to-zero state.'' b;
          b = setRuntimeCondition M gen conditionTypeAvailable ConditionFalse
            reasonRuntimeUnavailable ''The runtime is not currently available.'' b;
          b = setRuntimeCondition M gen conditionTypeReady ConditionFalse
            reasonRuntimeNotReady
            ''The runtime has not yet reached the scaled-to-zero state.'' b
      in setRuntimeCondition M gen conditionTypeDegraded ConditionFalse
           reasonAsExpected ''No degraded runtime condition has been observed.'' b)"

definition failedRolloutStatus ::
  "'a meta_api_scheme \<Rightarrow> int64 \<Rightarrow> int32 \<Rightarrow> string \<Rightarrow> string \<Rightarrow> build \<Rightarrow> build"
where
  "failedRolloutStatus M gen desired failureReason failureMessage b =
     (let b = setRuntimeCondition M gen conditionTypeProgressing ConditionFalse
            reasonDeploymentFailed failureMessage b;
          b = setAvailabilityCondition M gen desired b;
          b = setRuntimeCondition M gen conditionTypeReady ConditionFalse
            reasonDeploymentFailed failureMessage b
      in setRuntimeCondition M gen conditionTypeDegraded ConditionTrue
           failureReason failureMessage b)"

definition readyStatus :: "'a meta_api_scheme \<Rightarrow> int64 \<Rightarrow> TrussiumRuntimeStatus \<Rightarrow> build \<Rightarrow> build" where
  "readyStatus M gen status b =
     (let b = setRuntimeCondition M gen conditionTypeProgressing ConditionFalse
            reasonReconciliationComplete
            ''The runtime Deployment has reached the desired state.'' b;
          b = setRuntimeCondition M gen conditionTypeAvailable ConditionTrue
            reasonRuntimeAvailable
            (Itoa (sint (AvailableReplicas status)) @ '' runtime replica(s) are available.'') b;
          b = setRuntimeCondition M gen conditionTypeReady ConditionTrue
            reasonRuntimeReady
            ''All requested runtime replicas are ready and available.'' b
      in setRuntimeCondition M gen conditionTypeDegraded ConditionFalse
           reasonAsExpected ''No degraded runtime condition has been observed.'' b)"

definition progressingStatus ::
  "'a meta_api_scheme \<Rightarrow> int64 \<Rightarrow> int32 \<Rightarrow> bool \<Rightarrow> TrussiumRuntimeStatus \<Rightarrow> build \<Rightarrow> build"
where
  "progressingStatus M gen desired deploymentObserved status b =
     (let progressReason =
            (if \<not> deploymentObserved then reasonDeploymentGenerationPending
             else reasonDeploymentProgressing);
          progressMessage =
            (if \<not> deploymentObserved then
               ''The Deployment controller has not yet observed the current Deployment generation.''
             else
               ''The runtime is progressing toward '' @ Itoa (sint desired) @ '' ready replica(s).'');
          b = setRuntimeCondition M gen conditionTypeProgressing ConditionTrue
            progressReason progressMessage b;
          b = setAvailabilityCondition M gen desired b;
          b = setRuntimeCondition M gen conditionTypeReady ConditionFalse
            reasonRuntimeNotReady
            (Itoa (sint (ReadyReplicas status)) @ '' of '' @ Itoa (sint desired) @
               '' requested runtime replica(s) are ready.'') b
      in setRuntimeCondition M gen conditionTypeDegraded ConditionFalse
           reasonAsExpected ''No degraded runtime condition has been observed.'' b)"

definition buildBaseRuntimeStatus ::
  "'a meta_api_scheme \<Rightarrow> TrussiumRuntime \<Rightarrow> runtimeObservation \<Rightarrow> referenceValidationResult \<Rightarrow>
     clock \<Rightarrow> build"
where
  "buildBaseRuntimeStatus M rt observation validation clk =
     (let gen = Generation (Runtime_Meta rt);
          status = observedRuntimeStatus rt observation;
          b = (status, clk)
      in
      if \<not> Valid validation then invalidReferencesStatus M rt gen validation b
      else
        (let b = setRuntimeCondition M gen conditionTypeConfigurationValid ConditionTrue
               reasonReferencesResolved ''All referenced Secrets are available.'' b;
             desired = desiredReplicaCount rt (Obs_Deployment observation)
         in
         case Obs_Deployment observation of
           None \<Rightarrow> missingDeploymentStatus M gen desired b
         | Some d \<Rightarrow>
             (let deploymentObserved =
                sint (Generation (Deployment_Meta d)) \<le> sint (DS_ObservedGeneration (Deployment_Status d))
              in
              if desired = 0 then
                (if deploymentObserved \<and> ReadyReplicas status = 0 \<and> AvailableReplicas status = 0
                 then scaledToZeroStatus M gen b
                 else scalingToZeroStatus M gen b)
              else
                (case deploymentFailure d of
                   Some (failureReason, failureMessage) \<Rightarrow>
                     failedRolloutStatus M gen desired failureReason failureMessage b
                 | None \<Rightarrow>
                     if deploymentObserved \<and> ReadyReplicas status = desired \<and>
                        AvailableReplicas status = desired
                     then readyStatus M gen status b
                     else progressingStatus M gen desired deploymentObserved status b))))"

lemmas buildBase_defs = buildBaseRuntimeStatus_def invalidReferencesStatus_def missingDeploymentStatus_def
  scaledToZeroStatus_def scalingToZeroStatus_def failedRolloutStatus_def readyStatus_def
  progressingStatus_def

definition applyUpgradeStatus ::
  "'a meta_api_scheme \<Rightarrow> TrussiumRuntime \<Rightarrow> Deployment option \<Rightarrow> build \<Rightarrow> build"
where
  "applyUpgradeStatus M rt deployment b0 =
     (let gen = Generation (Runtime_Meta rt);
          desiredImage = runtimeImage (Image (Spec rt));
          b = ((fst b0)\<lparr>DesiredImage := desiredImage\<rparr>, snd b0);
          rolloutState = observeDeploymentRollout rt deployment;
          lastSuccessfulImage = LastSuccessfulImage (fst b)
      in
      if lastSuccessfulImage = '''' then
        (let b = (if rolloutState = deploymentRolloutComplete \<and>
                     deploymentCurrentImage deployment = desiredImage
                  then ((fst b)\<lparr>LastSuccessfulImage := desiredImage\<rparr>, snd b) else b)
         in setRuntimeCondition M gen conditionTypeUpgrading ConditionFalse reasonNoUpgrade
              ''No runtime image upgrade is in progress.'' b)
      else if desiredImage = lastSuccessfulImage then
        (case runtimeCondition M (fst b) conditionTypeUpgrading of
           None \<Rightarrow>
             setRuntimeCondition M gen conditionTypeUpgrading ConditionFalse reasonNoUpgrade
               ''No runtime image upgrade is in progress.'' b
         | Some _ \<Rightarrow> b)
      else
        (case rolloutState of
           deploymentRolloutFailed \<Rightarrow>
             setRuntimeCondition M gen conditionTypeUpgrading ConditionFalse reasonUpgradeFailed
               (''Runtime image upgrade from '' @ lastSuccessfulImage @ '' to '' @ desiredImage @
                '' failed.'') b
         | deploymentRolloutComplete \<Rightarrow>
             if deploymentCurrentImage deployment \<noteq> desiredImage then
               setRuntimeCondition M gen conditionTypeUpgrading ConditionTrue reasonUpgradeInProgress
                 (''Runtime image is transitioning from '' @ lastSuccessfulImage @ '' to '' @
                  desiredImage @ ''.'') b
             else
               setRuntimeCondition M gen conditionTypeUpgrading ConditionFalse reasonUpgradeComplete
                 (''Runtime image upgrade from '' @ lastSuccessfulImage @ '' to '' @ desiredImage @
                  '' completed.'')
                 ((fst b)\<lparr>LastSuccessfulImage := desiredImage\<rparr>, snd b)
         | deploymentRolloutProgressing \<Rightarrow>
             setRuntimeCondition M gen conditionTypeUpgrading ConditionTrue reasonUpgradeInProgress
               (''Runtime image is upgrading from '' @ lastSuccessfulImage @ '' to '' @
                desiredImage @ ''.'') b))"

definition buildRuntimeStatus ::
  "'a meta_api_scheme \<Rightarrow> TrussiumRuntime \<Rightarrow> runtimeObservation \<Rightarrow> referenceValidationResult \<Rightarrow>
     clock \<Rightarrow> build"
where
  "buildRuntimeStatus M rt observation validation clk =
     applyUpgradeStatus M rt (Obs_Deployment observation)
       (buildBaseRuntimeStatus M rt observation validation clk)"

definition buildReconciliationFailureStatus ::
  "'a meta_api_scheme \<Rightarrow> TrussiumRuntime \<Rightarrow> runtimeObservation \<Rightarrow> goerror \<Rightarrow> clock \<Rightarrow> build"
where
  "buildReconciliationFailureStatus M rt observation reconciliationError clk =
     (let gen = Generation (Runtime_Meta rt);
          b = buildRuntimeStatus M rt observation validReferenceValidation clk;
          message = ''Runtime reconciliation failed: '' @ Error reconciliationError;
          b = setRuntimeCondition M gen conditionTypeProgressing ConditionFalse
            reasonReconciliationFailed message b;
          b = setRuntimeCondition M gen conditionTypeReady ConditionFalse
            reasonReconciliationFailed message b
      in setRuntimeCondition M gen conditionTypeDegraded ConditionTrue
           reasonReconciliationFailed message b)"

section \<open>Writing the status\<close>

definition preserveRuntimeConditionTransitionTimes ::
  "'a meta_api_scheme \<Rightarrow> TrussiumRuntimeStatus \<Rightarrow> TrussiumRuntimeStatus \<Rightarrow> TrussiumRuntimeStatus"
where
  "preserveRuntimeConditionTransitionTimes M currentStatus desiredStatus =
     (let normalizedStatus = copyRuntimeStatus desiredStatus in
      normalizedStatus\<lparr>Conditions :=
        map (\<lambda>desired.
               case runtimeCondition M currentStatus (Condition_Type desired) of
                 None \<Rightarrow> desired
               | Some current \<Rightarrow>
                   if Condition_Status current \<noteq> Condition_Status desired then desired
                   else desired\<lparr>LastTransitionTime := LastTransitionTime current\<rparr>)
          (Conditions normalizedStatus)\<rparr>)"

text \<open>
  The write changes the status of the resource in place: the result is the resource as it is
  afterwards, with the error or whether a write happened.
\<close>

definition updateRuntimeStatus ::
  "'w kube_api \<Rightarrow> TrussiumRuntime \<Rightarrow> TrussiumRuntimeStatus \<Rightarrow>
     ('w, TrussiumRuntime \<times> (goerror + bool)) rm"
where
  "updateRuntimeStatus K rt desiredStatus =
     (let normalizedStatus = preserveRuntimeConditionTransitionTimes K (Status rt) desiredStatus in
      if DeepEqual K (Status rt) normalizedStatus then State_Monad.return (rt, Inr False)
      else
        (let rt = rt\<lparr>Status := normalizedStatus\<rparr>; key = ObjectKey (Runtime_Meta rt) in
         do {
           result \<leftarrow> client_op (CallStatusUpdate key) (Status_Update K rt);
           State_Monad.return
             (case result of
                Inl err \<Rightarrow>
                  (rt, Inl (Wrapf
                    (''update TrussiumRuntime status '' @ Key_Namespace key @ ''/'' @ Key_Name key @
                     '': '') err))
              | Inr updated \<Rightarrow> (updated, Inr True))
         }))"

section \<open>What the status means\<close>

definition condition_status ::
  "'a meta_api_scheme \<Rightarrow> TrussiumRuntimeStatus \<Rightarrow> string \<Rightarrow> string option"
where
  "condition_status M s t = map_option Condition_Status (runtimeCondition M s t)"

definition condition_reason ::
  "'a meta_api_scheme \<Rightarrow> TrussiumRuntimeStatus \<Rightarrow> string \<Rightarrow> string option"
where
  "condition_reason M s t = map_option Reason (runtimeCondition M s t)"

definition condition_content ::
  "'a meta_api_scheme \<Rightarrow> TrussiumRuntimeStatus \<Rightarrow> string \<Rightarrow> (string \<times> string \<times> string \<times> int64) option"
where
  "condition_content M s t =
     map_option (\<lambda>c. (Condition_Status c, Reason c, Message c, Condition_ObservedGeneration c))
       (runtimeCondition M s t)"

definition truth :: "bool \<Rightarrow> string" where
  "truth b = (if b then ConditionTrue else ConditionFalse)"

definition deployment_observed :: "Deployment \<Rightarrow> bool" where
  "deployment_observed d \<longleftrightarrow>
     sint (Generation (Deployment_Meta d)) \<le> sint (DS_ObservedGeneration (Deployment_Status d))"

text \<open>
  The state of the runtime in terms of what was observed: it is ready when the Deployment controller
  has caught up and every requested replica is ready and available, degraded when a reference is
  missing or the rollout of a runtime that wants replicas failed, and converging otherwise.
\<close>

definition runtime_ready ::
  "TrussiumRuntime \<Rightarrow> runtimeObservation \<Rightarrow> referenceValidationResult \<Rightarrow> bool"
where
  "runtime_ready rt obs val \<longleftrightarrow>
     Valid val \<and>
     (case Obs_Deployment obs of
        None \<Rightarrow> False
      | Some d \<Rightarrow>
          deployment_observed d \<and>
          DS_ReadyReplicas (Deployment_Status d) = desiredReplicaCount rt (Some d) \<and>
          DS_AvailableReplicas (Deployment_Status d) = desiredReplicaCount rt (Some d) \<and>
          (desiredReplicaCount rt (Some d) = 0 \<or> \<not> deploymentHasRolloutFailure (Some d)))"

definition runtime_degraded ::
  "TrussiumRuntime \<Rightarrow> runtimeObservation \<Rightarrow> referenceValidationResult \<Rightarrow> bool"
where
  "runtime_degraded rt obs val \<longleftrightarrow>
     \<not> Valid val \<or>
     (case Obs_Deployment obs of
        None \<Rightarrow> False
      | Some d \<Rightarrow> desiredReplicaCount rt (Some d) \<noteq> 0 \<and> deploymentHasRolloutFailure (Some d))"

text \<open>The types of the conditions a status carries, and its well-formedness.\<close>

definition base_condition_types :: "string list" where
  "base_condition_types =
     [conditionTypeConfigurationValid, conditionTypeProgressing, conditionTypeAvailable,
      conditionTypeReady, conditionTypeDegraded]"

definition status_types :: "TrussiumRuntimeStatus \<Rightarrow> string list" where
  "status_types s = map Condition_Type (Conditions s)"

definition status_wf :: "TrussiumRuntimeStatus \<Rightarrow> bool" where
  "status_wf s \<longleftrightarrow> distinct (status_types s)"

section \<open>Setting and reading conditions\<close>

locale condition_store =
  fixes put :: "int64 \<Rightarrow> string \<Rightarrow> string \<Rightarrow> string \<Rightarrow> string \<Rightarrow> 's \<Rightarrow> 's"
    and find :: "'s \<Rightarrow> string \<Rightarrow> Condition option"
  assumes put_same: "\<exists>c. find (put g t st r m b) t = Some c \<and> Condition_Type c = t \<and>
      Condition_Status c = st \<and> Reason c = r \<and> Message c = m \<and> Condition_ObservedGeneration c = g"
    and put_other: "t' \<noteq> t \<Longrightarrow> find (put g t st r m b) t' = find b t'"
begin

lemma put_status:
  "map_option Condition_Status (find (put g t st r m b) t') =
     (if t' = t then Some st else map_option Condition_Status (find b t'))"
  using put_same [of g t st r m b] put_other [of t' t g st r m b] by auto

lemma put_reason:
  "map_option Reason (find (put g t st r m b) t') =
     (if t' = t then Some r else map_option Reason (find b t'))"
  using put_same [of g t st r m b] put_other [of t' t g st r m b] by auto

lemma put_content:
  "map_option (\<lambda>c. (Condition_Status c, Reason c, Message c, Condition_ObservedGeneration c))
     (find (put g t st r m b) t') =
     (if t' = t then Some (st, r, m, g)
      else map_option (\<lambda>c. (Condition_Status c, Reason c, Message c, Condition_ObservedGeneration c))
        (find b t'))"
  using put_same [of g t st r m b] put_other [of t' t g st r m b] by auto

end

lemma setRuntimeCondition_frame [simp]:
  "ObservedGeneration (fst (setRuntimeCondition M g t st r m b)) = ObservedGeneration (fst b)"
  "ReadyReplicas (fst (setRuntimeCondition M g t st r m b)) = ReadyReplicas (fst b)"
  "AvailableReplicas (fst (setRuntimeCondition M g t st r m b)) = AvailableReplicas (fst b)"
  "DesiredImage (fst (setRuntimeCondition M g t st r m b)) = DesiredImage (fst b)"
  "CurrentImage (fst (setRuntimeCondition M g t st r m b)) = CurrentImage (fst b)"
  "LastSuccessfulImage (fst (setRuntimeCondition M g t st r m b)) = LastSuccessfulImage (fst b)"
  "Endpoint (fst (setRuntimeCondition M g t st r m b)) = Endpoint (fst b)"
  by (cases b; simp add: setRuntimeCondition.simps)+

lemma setAvailabilityCondition_frame [simp]:
  "ObservedGeneration (fst (setAvailabilityCondition M g n b)) = ObservedGeneration (fst b)"
  "ReadyReplicas (fst (setAvailabilityCondition M g n b)) = ReadyReplicas (fst b)"
  "AvailableReplicas (fst (setAvailabilityCondition M g n b)) = AvailableReplicas (fst b)"
  "DesiredImage (fst (setAvailabilityCondition M g n b)) = DesiredImage (fst b)"
  "CurrentImage (fst (setAvailabilityCondition M g n b)) = CurrentImage (fst b)"
  "LastSuccessfulImage (fst (setAvailabilityCondition M g n b)) = LastSuccessfulImage (fst b)"
  "Endpoint (fst (setAvailabilityCondition M g n b)) = Endpoint (fst b)"
  by (simp_all add: setAvailabilityCondition_def)

sublocale meta_conditions \<subseteq> store: condition_store "setRuntimeCondition M" "\<lambda>b. runtimeCondition M (fst b)"
proof
  fix g :: int64 and t st r m :: string and b :: build
  show "\<exists>c. runtimeCondition M (fst (setRuntimeCondition M g t st r m b)) t = Some c \<and>
      Condition_Type c = t \<and> Condition_Status c = st \<and> Reason c = r \<and> Message c = m \<and>
      Condition_ObservedGeneration c = g"
    by (cases b) (simp add: runtimeCondition_def find_set setRuntimeCondition.simps)
next
  fix g :: int64 and t' t st r m :: string and b :: build
  assume "t' \<noteq> t"
  then show "runtimeCondition M (fst (setRuntimeCondition M g t st r m b)) t' =
      runtimeCondition M (fst b) t'"
    by (cases b) (simp add: runtimeCondition_def find_set setRuntimeCondition.simps)
qed

lemma truth_iff [simp]: "truth b = ConditionTrue \<longleftrightarrow> b" "truth b = ConditionFalse \<longleftrightarrow> \<not> b"
  by (simp_all add: truth_def)

lemma hasRolloutFailure_iff:
  "hasRolloutFailure cs \<longleftrightarrow> (\<exists>c \<in> set cs. isDeadlineExceeded c \<or> isReplicaFailure c)"
  by (induction cs) auto

lemma findDeadlineExceeded_None:
  "findDeadlineExceeded cs = None \<longleftrightarrow> (\<forall>c \<in> set cs. \<not> isDeadlineExceeded c)"
  by (induction cs) auto

lemma findReplicaFailure_None:
  "findReplicaFailure cs = None \<longleftrightarrow> (\<forall>c \<in> set cs. \<not> isReplicaFailure c)"
  by (induction cs) auto

lemma deploymentFailure_None: "deploymentFailure d = None \<longleftrightarrow> \<not> deploymentHasRolloutFailure (Some d)"
proof (cases "findDeadlineExceeded (DS_Conditions (Deployment_Status d))")
  case None
  then have "deploymentFailure d = findReplicaFailure (DS_Conditions (Deployment_Status d))"
    by (simp add: deploymentFailure_def)
  with None show ?thesis
    by (auto simp: deploymentHasRolloutFailure_def hasRolloutFailure_iff
        findDeadlineExceeded_None findReplicaFailure_None)
next
  case (Some f)
  then have "\<exists>c \<in> set (DS_Conditions (Deployment_Status d)). isDeadlineExceeded c"
    using findDeadlineExceeded_None [of "DS_Conditions (Deployment_Status d)"] by auto
  then show ?thesis
    using Some by (auto simp: deploymentFailure_def deploymentHasRolloutFailure_def hasRolloutFailure_iff)
qed

end
