(* ===== verification/Status_Facts.thy ===== *)
theory Status_Facts
  imports Runtime_Status
begin

text \<open>
  Facts about the statuses that \<open>runtime_status.go\<close> builds, for any condition library with the
  documented behaviour: how each build step reads and changes conditions, the shape of a built status,
  the value of each base condition in terms of what was observed, the effect of the upgrade step, and
  what normalising the transition times keeps.
\<close>

section \<open>One step\<close>

context meta_conditions
begin

lemma status_set [simp]:
  "condition_status M (fst (setRuntimeCondition M g t st r m b)) t' =
     (if t' = t then Some st else condition_status M (fst b) t')"
  unfolding condition_status_def by (rule store.put_status)

lemma reason_set [simp]:
  "condition_reason M (fst (setRuntimeCondition M g t st r m b)) t' =
     (if t' = t then Some r else condition_reason M (fst b) t')"
  unfolding condition_reason_def by (rule store.put_reason)

lemma content_set [simp]:
  "condition_content M (fst (setRuntimeCondition M g t st r m b)) t' =
     (if t' = t then Some (st, r, m, g) else condition_content M (fst b) t')"
  unfolding condition_content_def by (rule store.put_content)

lemma status_availability [simp]:
  "condition_status M (fst (setAvailabilityCondition M g n b)) t =
     (if t = conditionTypeAvailable
      then Some (truth (n \<noteq> 0 \<and> 0 < sint (AvailableReplicas (fst b))))
      else condition_status M (fst b) t)"
  by (simp add: setAvailabilityCondition_def truth_def)

lemma reason_availability_other [simp]:
  "t \<noteq> conditionTypeAvailable \<Longrightarrow>
     condition_reason M (fst (setAvailabilityCondition M g n b)) t = condition_reason M (fst b) t"
  by (simp add: setAvailabilityCondition_def)

end

section \<open>The base conditions\<close>

text \<open>A property that holds at the start and that setting a base condition keeps holds at the end.\<close>

lemma buildBase_induct:
  assumes "P (observedRuntimeStatus rt obs, clk)"
    and "\<And>t st r m b. t \<in> set base_condition_types \<Longrightarrow> P b \<Longrightarrow>
      P (setRuntimeCondition M (Generation (Runtime_Meta rt)) t st r m b)"
  shows "P (buildBaseRuntimeStatus M rt obs val clk)"
proof -
  have avail: "P (setAvailabilityCondition M (Generation (Runtime_Meta rt)) n b)" if "P b" for n b
    using that by (simp add: setAvailabilityCondition_def assms(2) base_condition_types_def)
  note step = assms(2) [unfolded base_condition_types_def]
  show ?thesis
    unfolding buildBase_defs Let_def
    by (auto intro!: step avail assms(1) split: option.split)
qed

lemma observedRuntimeStatus_fields [simp]:
  "ObservedGeneration (observedRuntimeStatus rt obs) = Generation (Runtime_Meta rt)"
  "ReadyReplicas (observedRuntimeStatus rt obs) =
     (case Obs_Deployment obs of None \<Rightarrow> 0 | Some d \<Rightarrow> DS_ReadyReplicas (Deployment_Status d))"
  "AvailableReplicas (observedRuntimeStatus rt obs) =
     (case Obs_Deployment obs of None \<Rightarrow> 0 | Some d \<Rightarrow> DS_AvailableReplicas (Deployment_Status d))"
  "DesiredImage (observedRuntimeStatus rt obs) = runtimeImage (Image (Spec rt))"
  "CurrentImage (observedRuntimeStatus rt obs) = deploymentCurrentImage (Obs_Deployment obs)"
  "LastSuccessfulImage (observedRuntimeStatus rt obs) = LastSuccessfulImage (Status rt)"
  "Endpoint (observedRuntimeStatus rt obs) = runtimeServiceEndpoint (Obs_Service obs)"
  "Conditions (observedRuntimeStatus rt obs) = Conditions (Status rt)"
  by (simp_all add: observedRuntimeStatus_def copyRuntimeStatus_def Let_def split: option.split)

lemma buildBase_fields:
  "ObservedGeneration (fst (buildBaseRuntimeStatus M rt obs val clk)) = Generation (Runtime_Meta rt)"
  "ReadyReplicas (fst (buildBaseRuntimeStatus M rt obs val clk)) =
     (case Obs_Deployment obs of None \<Rightarrow> 0 | Some d \<Rightarrow> DS_ReadyReplicas (Deployment_Status d))"
  "AvailableReplicas (fst (buildBaseRuntimeStatus M rt obs val clk)) =
     (case Obs_Deployment obs of None \<Rightarrow> 0 | Some d \<Rightarrow> DS_AvailableReplicas (Deployment_Status d))"
  "CurrentImage (fst (buildBaseRuntimeStatus M rt obs val clk)) =
     deploymentCurrentImage (Obs_Deployment obs)"
  "LastSuccessfulImage (fst (buildBaseRuntimeStatus M rt obs val clk)) = LastSuccessfulImage (Status rt)"
  "Endpoint (fst (buildBaseRuntimeStatus M rt obs val clk)) = runtimeServiceEndpoint (Obs_Service obs)"
  by (rule buildBase_induct; simp)+

context meta_conditions
begin

lemma base_ready:
  "condition_status M (fst (buildBaseRuntimeStatus M rt obs val clk)) conditionTypeReady =
     Some (truth (runtime_ready rt obs val))"
  by (cases "Obs_Deployment obs")
    (auto simp: buildBase_defs observedRuntimeStatus_def Let_def runtime_ready_def deployment_observed_def truth_def
      deploymentFailure_None [symmetric] split: option.split)

lemma base_degraded:
  "condition_status M (fst (buildBaseRuntimeStatus M rt obs val clk)) conditionTypeDegraded =
     Some (truth (runtime_degraded rt obs val))"
  by (cases "Obs_Deployment obs")
    (auto simp: buildBase_defs observedRuntimeStatus_def Let_def runtime_degraded_def truth_def
      deploymentFailure_None [symmetric] split: option.split)

lemma base_progressing:
  "condition_status M (fst (buildBaseRuntimeStatus M rt obs val clk)) conditionTypeProgressing =
     Some (truth (\<not> runtime_ready rt obs val \<and> \<not> runtime_degraded rt obs val))"
  by (cases "Obs_Deployment obs")
    (auto simp: buildBase_defs observedRuntimeStatus_def Let_def runtime_degraded_def runtime_ready_def
      deployment_observed_def truth_def deploymentFailure_None [symmetric] split: option.split)

lemma base_valid:
  "condition_status M (fst (buildBaseRuntimeStatus M rt obs val clk)) conditionTypeConfigurationValid =
     Some (truth (Valid val))"
  by (cases "Obs_Deployment obs")
    (auto simp: buildBase_defs observedRuntimeStatus_def Let_def truth_def split: option.split)

lemma base_available:
  "condition_status M (fst (buildBaseRuntimeStatus M rt obs val clk)) conditionTypeAvailable \<noteq> None"
  by (cases "Obs_Deployment obs")
    (auto simp: buildBase_defs Let_def split: option.split)

end

section \<open>The upgrade step\<close>

lemma initialDeploymentReplicas_status [simp]:
  "initialDeploymentReplicas (rt\<lparr>Status := s\<rparr>) = initialDeploymentReplicas rt"
  "autoscalingEnabled (rt\<lparr>Status := s\<rparr>) = autoscalingEnabled rt"
  "desiredReplicas (rt\<lparr>Status := s\<rparr>) = desiredReplicas rt"
  by (simp_all add: initialDeploymentReplicas_def autoscalingEnabled_def desiredReplicas_def
      desiredAutoscalingMinReplicas_def)

lemma desiredReplicaCount_status [simp]:
  "desiredReplicaCount (rt\<lparr>Status := s\<rparr>) d = desiredReplicaCount rt d"
  by (simp add: desiredReplicaCount_def cong: option.case_cong if_cong)

lemma observeDeploymentRollout_status [simp]:
  "observeDeploymentRollout (rt\<lparr>Status := s\<rparr>) d = observeDeploymentRollout rt d"
  by (simp add: observeDeploymentRollout_def cong: option.case_cong if_cong)

text \<open>The upgrade step advances the last successful image exactly when the desired image completed
  its rollout, and leaves everything but the two image fields and its own condition alone.\<close>

lemma applyUpgradeStatus_last:
  "LastSuccessfulImage (fst (applyUpgradeStatus M rt d b)) =
     (if observeDeploymentRollout rt d = deploymentRolloutComplete \<and>
         deploymentCurrentImage d = runtimeImage (Image (Spec rt))
      then runtimeImage (Image (Spec rt)) else LastSuccessfulImage (fst b))"
  by (auto simp: applyUpgradeStatus_def Let_def split: deploymentRolloutState.split option.split)

lemma applyUpgradeStatus_frame [simp]:
  "ObservedGeneration (fst (applyUpgradeStatus M rt d b)) = ObservedGeneration (fst b)"
  "ReadyReplicas (fst (applyUpgradeStatus M rt d b)) = ReadyReplicas (fst b)"
  "AvailableReplicas (fst (applyUpgradeStatus M rt d b)) = AvailableReplicas (fst b)"
  "CurrentImage (fst (applyUpgradeStatus M rt d b)) = CurrentImage (fst b)"
  "Endpoint (fst (applyUpgradeStatus M rt d b)) = Endpoint (fst b)"
  "DesiredImage (fst (applyUpgradeStatus M rt d b)) = runtimeImage (Image (Spec rt))"
  by (auto simp: applyUpgradeStatus_def Let_def split: deploymentRolloutState.split option.split)

lemma applyUpgrade_induct:
  assumes "\<And>s. Conditions s = Conditions (fst b) \<Longrightarrow> P (s, snd b)"
    and "\<And>t st r m b. P b \<Longrightarrow>
      P (setRuntimeCondition M (Generation (Runtime_Meta rt)) conditionTypeUpgrading st r m b)"
  shows "P (applyUpgradeStatus M rt d b)"
  unfolding applyUpgradeStatus_def Let_def
  by (auto intro!: assms split: deploymentRolloutState.split option.split)

section \<open>Shape of a built status\<close>

context meta_conditions
begin

lemma types_set:
  "status_types (fst (setRuntimeCondition M g t st r m b)) =
     (if t \<in> set (status_types (fst b)) then status_types (fst b) else status_types (fst b) @ [t])"
  by (cases b) (simp add: status_types_def setRuntimeCondition.simps set_types)

lemma wf_set [simp]:
  "status_wf (fst b) \<Longrightarrow> status_wf (fst (setRuntimeCondition M g t st r m b))"
  by (simp add: status_wf_def types_set)

lemma in_types_iff: "t \<in> set (status_types s) \<longleftrightarrow> condition_status M s t \<noteq> None"
  by (simp add: status_types_def condition_status_def runtimeCondition_def find_None)

lemma wf_base:
  assumes "status_wf (Status rt)"
  shows "status_wf (fst (buildBaseRuntimeStatus M rt obs val clk))"
proof (rule buildBase_induct)
  show "status_wf (fst (observedRuntimeStatus rt obs, clk))"
    using assms by (simp add: status_wf_def status_types_def)
qed (rule wf_set)

lemma wf_upgrade:
  assumes "status_wf (fst b)"
  shows "status_wf (fst (applyUpgradeStatus M rt d b))"
proof (rule applyUpgrade_induct)
  fix s :: TrussiumRuntimeStatus
  assume "Conditions s = Conditions (fst b)"
  with assms show "status_wf (fst (s, snd b))" by (simp add: status_wf_def status_types_def)
qed (rule wf_set)

lemma wf_build:
  "status_wf (Status rt) \<Longrightarrow> status_wf (fst (buildRuntimeStatus M rt obs val clk))"
  by (simp add: buildRuntimeStatus_def wf_upgrade wf_base)

lemma upgrade_other:
  assumes "t \<noteq> conditionTypeUpgrading"
  shows "runtimeCondition M (fst (applyUpgradeStatus M rt d b)) t = runtimeCondition M (fst b) t"
  by (rule applyUpgrade_induct) (use assms in \<open>simp_all add: runtimeCondition_def store.put_other [unfolded runtimeCondition_def]\<close>)

lemma base_other:
  assumes "t \<notin> set base_condition_types"
  shows "runtimeCondition M (fst (buildBaseRuntimeStatus M rt obs val clk)) t =
    runtimeCondition M (Status rt) t"
proof (rule buildBase_induct)
  show "runtimeCondition M (fst (observedRuntimeStatus rt obs, clk)) t = runtimeCondition M (Status rt) t"
    by (simp add: runtimeCondition_def)
next
  fix t' st r m and b :: build
  assume "t' \<in> set base_condition_types" and "runtimeCondition M (fst b) t = runtimeCondition M (Status rt) t"
  moreover from this assms have "t \<noteq> t'" by blast
  ultimately show "runtimeCondition M (fst (setRuntimeCondition M (Generation (Runtime_Meta rt)) t' st r m b)) t =
      runtimeCondition M (Status rt) t"
    by (simp add: store.put_other)
qed

lemma upgrade_other_status [simp]:
  "t \<noteq> conditionTypeUpgrading \<Longrightarrow>
     condition_status M (fst (applyUpgradeStatus M rt d b)) t = condition_status M (fst b) t"
  by (simp add: condition_status_def upgrade_other)

lemma upgrade_present:
  "condition_status M (fst (applyUpgradeStatus M rt d b)) conditionTypeUpgrading \<noteq> None"
proof -
  have kept: "condition_status M (fst b) conditionTypeUpgrading \<noteq> None"
    if "runtimeCondition M ((fst b)\<lparr>DesiredImage := i\<rparr>) conditionTypeUpgrading = Some c" for i c
    using that by (simp add: condition_status_def runtimeCondition_def)
  have same: "condition_status M (s\<lparr>DesiredImage := i\<rparr>) t = condition_status M s t" for s i t
    by (simp add: condition_status_def runtimeCondition_def)
  show ?thesis
    unfolding applyUpgradeStatus_def Let_def
    using kept by (simp add: same split: deploymentRolloutState.split option.split)
qed

text \<open>Every built status carries the six conditions.\<close>

lemma build_present:
  "set (conditionTypeUpgrading # base_condition_types) \<subseteq>
     set (status_types (fst (buildRuntimeStatus M rt obs val clk)))"
  unfolding base_condition_types_def
  using base_available upgrade_present
  by (simp add: in_types_iff buildRuntimeStatus_def base_valid base_progressing base_ready
      base_degraded del: not_None_eq)

text \<open>Conditions of other types are those of the stored status.\<close>

lemma build_other:
  "t \<notin> set (conditionTypeUpgrading # base_condition_types) \<Longrightarrow>
     runtimeCondition M (fst (buildRuntimeStatus M rt obs val clk)) t = runtimeCondition M (Status rt) t"
  by (simp add: buildRuntimeStatus_def upgrade_other base_other)

end

section \<open>Independence of the stored status\<close>

text \<open>
  Two builds of the same resource that differ in the stored status and the clock run through the same
  steps, one type after the other.
\<close>

lemma buildBase_rel:
  fixes P0 P1 P2 P3 P4 P5 :: "build \<Rightarrow> build \<Rightarrow> bool"
  assumes P0: "P0 (observedRuntimeStatus rt obs, clk) (observedRuntimeStatus (rt\<lparr>Status := s\<rparr>) obs, clk')"
    and P1: "\<And>st r m b b'. P0 b b' \<Longrightarrow>
      P1 (setRuntimeCondition M (Generation (Runtime_Meta rt)) conditionTypeConfigurationValid st r m b)
         (setRuntimeCondition M (Generation (Runtime_Meta rt)) conditionTypeConfigurationValid st r m b')"
    and P2: "\<And>st r m b b'. P1 b b' \<Longrightarrow>
      P2 (setRuntimeCondition M (Generation (Runtime_Meta rt)) conditionTypeProgressing st r m b)
         (setRuntimeCondition M (Generation (Runtime_Meta rt)) conditionTypeProgressing st r m b')"
    and P3: "\<And>st r m b b'. P2 b b' \<Longrightarrow>
      P3 (setRuntimeCondition M (Generation (Runtime_Meta rt)) conditionTypeAvailable st r m b)
         (setRuntimeCondition M (Generation (Runtime_Meta rt)) conditionTypeAvailable st r m b')"
    and P4: "\<And>st r m b b'. P3 b b' \<Longrightarrow>
      P4 (setRuntimeCondition M (Generation (Runtime_Meta rt)) conditionTypeReady st r m b)
         (setRuntimeCondition M (Generation (Runtime_Meta rt)) conditionTypeReady st r m b')"
    and P5: "\<And>st r m b b'. P4 b b' \<Longrightarrow>
      P5 (setRuntimeCondition M (Generation (Runtime_Meta rt)) conditionTypeDegraded st r m b)
         (setRuntimeCondition M (Generation (Runtime_Meta rt)) conditionTypeDegraded st r m b')"
  shows "P5 (buildBaseRuntimeStatus M rt obs val clk)
    (buildBaseRuntimeStatus M (rt\<lparr>Status := s\<rparr>) obs val clk')"
proof -
  have avail: "P3 (setAvailabilityCondition M (Generation (Runtime_Meta rt)) n b)
      (setAvailabilityCondition M (Generation (Runtime_Meta rt)) n b')"
    if "AvailableReplicas (fst b) = AvailableReplicas (fst b')" "P2 b b'" for n b b'
    using that by (simp add: setAvailabilityCondition_def P3)
  have rel_if: "P5 (if c then a else d) (if c then a' else d')" if "P5 a a'" "P5 d d'" for c a a' d d'
    using that by simp
  have rel_option: "P5 (case v of None \<Rightarrow> a | Some x \<Rightarrow> f x) (case v of None \<Rightarrow> a' | Some x \<Rightarrow> f' x)"
    if "P5 a a'" "\<And>x. P5 (f x) (f' x)" for a a' f f' and v :: "'v option"
    using that by (simp split: option.split)
  have rel_prod: "P5 (case v of (x, y) \<Rightarrow> f x y) (case v of (x, y) \<Rightarrow> f' x y)"
    if "\<And>x y. P5 (f x y) (f' x y)" for f f' and v :: "'u \<times> 'v"
    using that by (simp split: prod.split)
  have "Runtime_Meta (rt\<lparr>Status := s\<rparr>) = Runtime_Meta rt" by simp
  note same = this observedRuntimeStatus_fields desiredReplicaCount_status
    initialDeploymentReplicas_status
  show ?thesis
    unfolding buildBase_defs Let_def same
    by (intro rel_if rel_option rel_prod P5 P4 P3 P2 P1 P0 avail; simp)
qed

context meta_conditions
begin

text \<open>The content of a base condition does not depend on the stored status.\<close>

lemma base_content_status:
  assumes "t \<in> set base_condition_types"
  shows "condition_content M (fst (buildBaseRuntimeStatus M rt obs val clk)) t =
    condition_content M (fst (buildBaseRuntimeStatus M (rt\<lparr>Status := s\<rparr>) obs val clk')) t"
proof -
  let ?P = "\<lambda>n b b'. \<forall>t \<in> set (take n base_condition_types).
    condition_content M (fst b) t = condition_content M (fst b') t"
  have "?P 5 (buildBaseRuntimeStatus M rt obs val clk)
      (buildBaseRuntimeStatus M (rt\<lparr>Status := s\<rparr>) obs val clk')"
    by (rule buildBase_rel [of "?P 0" _ _ _ _ _ "?P 1" _ "?P 2" "?P 3" "?P 4"])
      (simp_all add: base_condition_types_def)
  moreover have "take 5 base_condition_types = base_condition_types"
    by (simp add: base_condition_types_def)
  ultimately show ?thesis using assms by simp
qed

end

end
