(* ===== verification/Status_Stability.thy ===== *)
theory Status_Stability
  imports Status_Facts
begin

text \<open>
  Why the operator does not fight itself: normalising the transition times keeps the content of every
  condition, and a status that was built and normalised once is a fixed point of building and
  normalising again, at any later time, as long as nothing else changes.
\<close>

section \<open>What the upgrade step does to its own condition\<close>

definition upgrade_content ::
  "TrussiumRuntime \<Rightarrow> Deployment option \<Rightarrow> string \<Rightarrow> (string \<times> string \<times> string \<times> int64) option \<Rightarrow>
     (string \<times> string \<times> string \<times> int64) option"
where
  "upgrade_content rt d lsi old =
     (let desired = runtimeImage (Image (Spec rt)); gen = Generation (Runtime_Meta rt);
          quiet = Some (ConditionFalse, reasonNoUpgrade, ''No runtime image upgrade is in progress.'', gen)
      in
      if lsi = '''' then quiet
      else if desired = lsi then (case old of None \<Rightarrow> quiet | Some c \<Rightarrow> Some c)
      else if observeDeploymentRollout rt d = deploymentRolloutFailed then
        Some (ConditionFalse, reasonUpgradeFailed,
          ''Runtime image upgrade from '' @ lsi @ '' to '' @ desired @ '' failed.'', gen)
      else if observeDeploymentRollout rt d = deploymentRolloutProgressing then
        Some (ConditionTrue, reasonUpgradeInProgress,
          ''Runtime image is upgrading from '' @ lsi @ '' to '' @ desired @ ''.'', gen)
      else if deploymentCurrentImage d \<noteq> desired then
        Some (ConditionTrue, reasonUpgradeInProgress,
          ''Runtime image is transitioning from '' @ lsi @ '' to '' @ desired @ ''.'', gen)
      else
        Some (ConditionFalse, reasonUpgradeComplete,
          ''Runtime image upgrade from '' @ lsi @ '' to '' @ desired @ '' completed.'', gen))"

definition upgrade_last :: "TrussiumRuntime \<Rightarrow> Deployment option \<Rightarrow> string \<Rightarrow> string" where
  "upgrade_last rt d lsi =
     (if observeDeploymentRollout rt d = deploymentRolloutComplete \<and>
         deploymentCurrentImage d = runtimeImage (Image (Spec rt))
      then runtimeImage (Image (Spec rt)) else lsi)"

text \<open>A second look at the same rollout changes neither.\<close>

lemma upgrade_last_stable: "upgrade_last rt d (upgrade_last rt d lsi) = upgrade_last rt d lsi"
  by (simp add: upgrade_last_def)

lemma upgrade_content_stable:
  "runtimeImage (Image (Spec rt)) \<noteq> '''' \<Longrightarrow> upgrade_content rt d (upgrade_last rt d lsi) (upgrade_content rt d lsi old) =
     upgrade_content rt d lsi old"
  by (cases "observeDeploymentRollout rt d")
    (auto simp: upgrade_content_def upgrade_last_def Let_def split: option.split)

lemma upgrade_last_status [simp]: "upgrade_last (rt\<lparr>Status := s\<rparr>) d lsi = upgrade_last rt d lsi"
  by (simp add: upgrade_last_def)

lemma upgrade_content_status [simp]:
  "upgrade_content (rt\<lparr>Status := s\<rparr>) d lsi old = upgrade_content rt d lsi old"
  by (simp add: upgrade_content_def Let_def)

context meta_conditions
begin

lemma content_fields [simp]:
  "condition_content M (s\<lparr>DesiredImage := i\<rparr>) t = condition_content M s t"
  "condition_content M (s\<lparr>LastSuccessfulImage := i\<rparr>) t = condition_content M s t"
  by (simp_all add: condition_content_def runtimeCondition_def)

lemma upgrade_own_content:
  "condition_content M (fst (applyUpgradeStatus M rt d b)) conditionTypeUpgrading =
     upgrade_content rt d (LastSuccessfulImage (fst b))
       (condition_content M (fst b) conditionTypeUpgrading)"
proof (cases "runtimeCondition M (fst b) conditionTypeUpgrading")
  case None
  then have "runtimeCondition M ((fst b)\<lparr>DesiredImage := i\<rparr>) conditionTypeUpgrading = None"
    "condition_content M (fst b) conditionTypeUpgrading = None" for i
    by (simp_all add: runtimeCondition_def condition_content_def)
  then show ?thesis
    by (cases "observeDeploymentRollout rt d")
      (simp_all add: applyUpgradeStatus_def upgrade_content_def Let_def)
next
  case (Some c)
  then have "runtimeCondition M ((fst b)\<lparr>DesiredImage := i\<rparr>) conditionTypeUpgrading = Some c"
    "\<exists>x. condition_content M (fst b) conditionTypeUpgrading = Some x" for i
    by (simp_all add: runtimeCondition_def condition_content_def)
  then show ?thesis
    by (cases "observeDeploymentRollout rt d")
      (auto simp: applyUpgradeStatus_def upgrade_content_def Let_def)
qed

lemma upgrade_other_content:
  "t \<noteq> conditionTypeUpgrading \<Longrightarrow>
     condition_content M (fst (applyUpgradeStatus M rt d b)) t = condition_content M (fst b) t"
  by (simp add: condition_content_def upgrade_other)

end

section \<open>Normalising the transition times\<close>

lemma preserve_fields [simp]:
  "ObservedGeneration (preserveRuntimeConditionTransitionTimes M cur des) = ObservedGeneration des"
  "ReadyReplicas (preserveRuntimeConditionTransitionTimes M cur des) = ReadyReplicas des"
  "AvailableReplicas (preserveRuntimeConditionTransitionTimes M cur des) = AvailableReplicas des"
  "DesiredImage (preserveRuntimeConditionTransitionTimes M cur des) = DesiredImage des"
  "CurrentImage (preserveRuntimeConditionTransitionTimes M cur des) = CurrentImage des"
  "LastSuccessfulImage (preserveRuntimeConditionTransitionTimes M cur des) = LastSuccessfulImage des"
  "Endpoint (preserveRuntimeConditionTransitionTimes M cur des) = Endpoint des"
  by (simp_all add: preserveRuntimeConditionTransitionTimes_def copyRuntimeStatus_def Let_def)

definition keep_time :: "Condition option \<Rightarrow> Condition \<Rightarrow> Condition" where
  "keep_time cur d =
     (case cur of
        None \<Rightarrow> d
      | Some c \<Rightarrow>
          if Condition_Status c \<noteq> Condition_Status d then d
          else d\<lparr>LastTransitionTime := LastTransitionTime c\<rparr>)"

lemma preserve_conditions:
  "Conditions (preserveRuntimeConditionTransitionTimes M cur des) =
     map (\<lambda>d. keep_time (runtimeCondition M cur (Condition_Type d)) d) (Conditions des)"
  by (simp add: preserveRuntimeConditionTransitionTimes_def copyRuntimeStatus_def Let_def keep_time_def)

lemma keep_time_fields [simp]:
  "Condition_Type (keep_time c d) = Condition_Type d"
  "Condition_Status (keep_time c d) = Condition_Status d"
  "Condition_ObservedGeneration (keep_time c d) = Condition_ObservedGeneration d"
  "Reason (keep_time c d) = Reason d"
  "Message (keep_time c d) = Message d"
  by (simp_all add: keep_time_def split: option.split)

lemma types_preserve [simp]:
  "status_types (preserveRuntimeConditionTransitionTimes M cur des) = status_types des"
  by (simp add: status_types_def preserve_conditions)

lemma wf_preserve [simp]:
  "status_wf (preserveRuntimeConditionTransitionTimes M cur des) = status_wf des"
  by (simp add: status_wf_def)

lemma status_rest:
  assumes "s\<lparr>Conditions := []\<rparr> = t\<lparr>Conditions := []\<rparr>"
  shows "ObservedGeneration s = ObservedGeneration t" "ReadyReplicas s = ReadyReplicas t"
    "AvailableReplicas s = AvailableReplicas t" "DesiredImage s = DesiredImage t"
    "CurrentImage s = CurrentImage t" "LastSuccessfulImage s = LastSuccessfulImage t"
    "Endpoint s = Endpoint t"
  using assms by (cases s; cases t; simp)+

context meta_conditions
begin

lemma preserve_find:
  assumes "status_wf des"
  shows "runtimeCondition M (preserveRuntimeConditionTransitionTimes M cur des) t =
    map_option (keep_time (runtimeCondition M cur t)) (runtimeCondition M des t)"
proof (cases "runtimeCondition M des t")
  case None
  then have "t \<notin> Condition_Type ` set (Conditions des)" by (simp add: runtimeCondition_def find_None)
  then have "t \<notin> Condition_Type ` set (Conditions (preserveRuntimeConditionTransitionTimes M cur des))"
    by (simp add: preserve_conditions image_image)
  then have "runtimeCondition M (preserveRuntimeConditionTransitionTimes M cur des) t = None"
    by (simp only: runtimeCondition_def find_None simp_thms)
  with None show ?thesis by simp
next
  case (Some d)
  then have d: "d \<in> set (Conditions des)" "Condition_Type d = t"
    using find_Some by (simp_all add: runtimeCondition_def)
  then have "keep_time (runtimeCondition M cur t) d \<in>
      set (Conditions (preserveRuntimeConditionTransitionTimes M cur des))"
    by (auto simp: preserve_conditions)
  moreover have "distinct (map Condition_Type
      (Conditions (preserveRuntimeConditionTransitionTimes M cur des)))"
    using assms by (simp add: status_wf_def status_types_def preserve_conditions comp_def)
  ultimately have "runtimeCondition M (preserveRuntimeConditionTransitionTimes M cur des) t =
      Some (keep_time (runtimeCondition M cur t) d)"
    using d find_in [of "Conditions (preserveRuntimeConditionTransitionTimes M cur des)"
        "keep_time (runtimeCondition M cur t) d"] by (simp add: runtimeCondition_def)
  with Some show ?thesis by simp
qed

lemma preserve_content:
  "status_wf des \<Longrightarrow>
     condition_content M (preserveRuntimeConditionTransitionTimes M cur des) t = condition_content M des t"
  by (simp add: condition_content_def preserve_find option.map_comp comp_def)

text \<open>A desired status with the content of the current one normalises to the current one.\<close>

lemma preserve_fixpoint:
  assumes types: "status_types des = status_types cur" and wf: "status_wf cur"
    and content: "\<And>t. condition_content M des t = condition_content M cur t"
    and rest: "des\<lparr>Conditions := []\<rparr> = cur\<lparr>Conditions := []\<rparr>"
  shows "preserveRuntimeConditionTransitionTimes M cur des = cur"
proof -
  let ?n = "preserveRuntimeConditionTransitionTimes M cur des"
  have wfd: "status_wf des" using types wf by (simp add: status_wf_def)
  have "Conditions ?n = Conditions cur"
  proof (rule conditions_ext)
    show "map Condition_Type (Conditions ?n) = map Condition_Type (Conditions cur)"
      using types types_preserve [of M cur des] by (simp add: status_types_def)
    show "distinct (map Condition_Type (Conditions ?n))"
      using wfd wf_preserve [of M cur des] by (simp add: status_wf_def status_types_def)
    fix t
    have "runtimeCondition M ?n t = runtimeCondition M cur t"
    proof (cases "runtimeCondition M cur t")
      case None
      with content [of t] show ?thesis
        by (simp add: preserve_find wfd condition_content_def)
    next
      case (Some c)
      with content [of t] obtain d where d: "runtimeCondition M des t = Some d"
        "Condition_Status d = Condition_Status c" "Reason d = Reason c" "Message d = Message c"
        "Condition_ObservedGeneration d = Condition_ObservedGeneration c"
        by (auto simp: condition_content_def)
      have "Condition_Type d = Condition_Type c"
        using d(1) Some find_Some by (metis runtimeCondition_def)
      with d Some show ?thesis
        by (simp add: preserve_find wfd keep_time_def)
    qed
    then show "FindStatusCondition M (Conditions ?n) t = FindStatusCondition M (Conditions cur) t"
      by (simp add: runtimeCondition_def)
  qed
  moreover have "?n\<lparr>Conditions := []\<rparr> = des\<lparr>Conditions := []\<rparr>"
    by (simp add: preserveRuntimeConditionTransitionTimes_def copyRuntimeStatus_def Let_def)
  ultimately show ?thesis
    using rest by (intro TrussiumRuntimeStatus.equality) (simp_all add: status_rest [OF rest])
qed

end

section \<open>Building again\<close>

lemma build_fields:
  "ObservedGeneration (fst (buildRuntimeStatus M rt obs val clk)) = Generation (Runtime_Meta rt)"
  "ReadyReplicas (fst (buildRuntimeStatus M rt obs val clk)) =
     (case Obs_Deployment obs of None \<Rightarrow> 0 | Some d \<Rightarrow> DS_ReadyReplicas (Deployment_Status d))"
  "AvailableReplicas (fst (buildRuntimeStatus M rt obs val clk)) =
     (case Obs_Deployment obs of None \<Rightarrow> 0 | Some d \<Rightarrow> DS_AvailableReplicas (Deployment_Status d))"
  "DesiredImage (fst (buildRuntimeStatus M rt obs val clk)) = runtimeImage (Image (Spec rt))"
  "CurrentImage (fst (buildRuntimeStatus M rt obs val clk)) = deploymentCurrentImage (Obs_Deployment obs)"
  "LastSuccessfulImage (fst (buildRuntimeStatus M rt obs val clk)) =
     upgrade_last rt (Obs_Deployment obs) (LastSuccessfulImage (Status rt))"
  "Endpoint (fst (buildRuntimeStatus M rt obs val clk)) = runtimeServiceEndpoint (Obs_Service obs)"
  by (simp_all add: buildRuntimeStatus_def buildBase_fields applyUpgradeStatus_last upgrade_last_def)

context meta_conditions
begin

lemma upgrade_types:
  assumes "conditionTypeUpgrading \<in> set (status_types (fst b))"
  shows "status_types (fst (applyUpgradeStatus M rt d b)) = status_types (fst b)"
proof (rule applyUpgrade_induct)
  fix s :: TrussiumRuntimeStatus
  assume "Conditions s = Conditions (fst b)"
  then show "status_types (fst (s, snd b)) = status_types (fst b)" by (simp add: status_types_def)
qed (use assms in \<open>simp add: types_set\<close>)

lemma base_types:
  assumes "set base_condition_types \<subseteq> set (status_types (Status rt))"
  shows "status_types (fst (buildBaseRuntimeStatus M rt obs val clk)) = status_types (Status rt)"
proof (rule buildBase_induct)
  show "status_types (fst (observedRuntimeStatus rt obs, clk)) = status_types (Status rt)"
    by (simp add: status_types_def)
qed (use assms in \<open>auto simp: types_set\<close>)

lemma build_types:
  assumes "set (conditionTypeUpgrading # base_condition_types) \<subseteq> set (status_types (Status rt))"
  shows "status_types (fst (buildRuntimeStatus M rt obs val clk)) = status_types (Status rt)"
  using assms by (simp add: buildRuntimeStatus_def base_types upgrade_types)

text \<open>The content of a built status in terms of the stored one.\<close>

lemma build_content:
  "condition_content M (fst (buildRuntimeStatus M rt obs val clk)) t =
     (if t = conditionTypeUpgrading
      then upgrade_content rt (Obs_Deployment obs) (LastSuccessfulImage (Status rt))
        (condition_content M (Status rt) conditionTypeUpgrading)
      else if t \<in> set base_condition_types
      then condition_content M (fst (buildBaseRuntimeStatus M rt obs val clk)) t
      else condition_content M (Status rt) t)"
proof -
  have "conditionTypeUpgrading \<notin> set base_condition_types" by (simp add: base_condition_types_def)
  moreover have "condition_content M (fst (buildBaseRuntimeStatus M rt obs val clk)) u =
      condition_content M (Status rt) u" if "u \<notin> set base_condition_types" for u
    using that by (simp add: condition_content_def base_other)
  ultimately show ?thesis
    by (simp add: buildRuntimeStatus_def upgrade_own_content upgrade_other_content buildBase_fields)
qed

text \<open>The stored status after one pass is a fixed point of the next.\<close>

lemma build_preserve_stable:
  assumes "status_wf (Status rt)" and "runtimeImage (Image (Spec rt)) \<noteq> ''''"
    and N: "N = preserveRuntimeConditionTransitionTimes M (Status rt) (fst (buildRuntimeStatus M rt obs val clk))"
  shows "preserveRuntimeConditionTransitionTimes M N
      (fst (buildRuntimeStatus M (rt\<lparr>Status := N\<rparr>) obs val clk')) = N"
proof (rule preserve_fixpoint)
  let ?B = "fst (buildRuntimeStatus M rt obs val clk)"
  let ?B' = "fst (buildRuntimeStatus M (rt\<lparr>Status := N\<rparr>) obs val clk')"
  have wf: "status_wf ?B" using assms(1) by (rule wf_build)
  show "status_wf N" by (simp add: N wf)
  have typesN: "status_types N = status_types ?B" by (simp add: N)
  show "status_types ?B' = status_types N"
    using build_types [of "rt\<lparr>Status := N\<rparr>"] build_present [of rt obs val clk] by (simp add: typesN)
  show "?B'\<lparr>Conditions := []\<rparr> = N\<lparr>Conditions := []\<rparr>"
    by (intro TrussiumRuntimeStatus.equality)
      (simp_all add: build_fields N upgrade_last_stable)
  fix t
  have N_content: "condition_content M N u = condition_content M ?B u" for u
    by (simp add: N preserve_content wf)
  show "condition_content M ?B' t = condition_content M N t"
    using base_content_status [of t rt obs val clk N clk'] assms(2)
    by (simp add: build_content N_content)
      (simp add: N build_fields upgrade_content_stable)
qed

end

text \<open>The same for the status that reports a failed reconciliation.\<close>

definition failure_types :: "string list" where
  "failure_types = [conditionTypeProgressing, conditionTypeReady, conditionTypeDegraded]"

definition failure_content ::
  "TrussiumRuntime \<Rightarrow> goerror \<Rightarrow> string \<Rightarrow> string \<times> string \<times> string \<times> int64"
where
  "failure_content rt err t =
     (truth (t = conditionTypeDegraded), reasonReconciliationFailed,
      ''Runtime reconciliation failed: '' @ Error err, Generation (Runtime_Meta rt))"

lemma failure_fields:
  "(fst (buildReconciliationFailureStatus M rt obs err clk))\<lparr>Conditions := []\<rparr> =
     (fst (buildRuntimeStatus M rt obs validReferenceValidation clk))\<lparr>Conditions := []\<rparr>"
  by (intro TrussiumRuntimeStatus.equality)
    (simp_all add: buildReconciliationFailureStatus_def Let_def)

context meta_conditions
begin

lemma failure_content:
  "condition_content M (fst (buildReconciliationFailureStatus M rt obs err clk)) t =
     (if t \<in> set failure_types then Some (failure_content rt err t)
      else condition_content M (fst (buildRuntimeStatus M rt obs validReferenceValidation clk)) t)"
  by (auto simp: buildReconciliationFailureStatus_def Let_def failure_types_def failure_content_def
      truth_def)

lemma failure_status_types:
  "status_types (fst (buildReconciliationFailureStatus M rt obs err clk)) =
     status_types (fst (buildRuntimeStatus M rt obs validReferenceValidation clk))"
  using build_present [of rt obs validReferenceValidation clk]
  by (simp add: buildReconciliationFailureStatus_def Let_def types_set base_condition_types_def)

lemma wf_failure:
  "status_wf (Status rt) \<Longrightarrow> status_wf (fst (buildReconciliationFailureStatus M rt obs err clk))"
  using wf_build [of rt obs validReferenceValidation clk] by (simp add: status_wf_def failure_status_types)

lemma failure_preserve_stable:
  assumes "status_wf (Status rt)" and "runtimeImage (Image (Spec rt)) \<noteq> ''''"
    and N: "N = preserveRuntimeConditionTransitionTimes M (Status rt)
      (fst (buildReconciliationFailureStatus M rt obs err clk))"
  shows "preserveRuntimeConditionTransitionTimes M N
      (fst (buildReconciliationFailureStatus M (rt\<lparr>Status := N\<rparr>) obs err clk')) = N"
proof (rule preserve_fixpoint)
  let ?B = "fst (buildReconciliationFailureStatus M rt obs err clk)"
  let ?B' = "fst (buildReconciliationFailureStatus M (rt\<lparr>Status := N\<rparr>) obs err clk')"
  note fields = failure_fields [THEN status_rest(1)] failure_fields [THEN status_rest(2)]
    failure_fields [THEN status_rest(3)] failure_fields [THEN status_rest(4)]
    failure_fields [THEN status_rest(5)] failure_fields [THEN status_rest(6)]
    failure_fields [THEN status_rest(7)]
  have wf: "status_wf ?B" using assms(1) by (rule wf_failure)
  show "status_wf N" by (simp add: N wf)
  show "status_types ?B' = status_types N"
    using build_types [of "rt\<lparr>Status := N\<rparr>"] build_present [of rt obs validReferenceValidation clk]
    by (simp add: N failure_status_types)
  show "?B'\<lparr>Conditions := []\<rparr> = N\<lparr>Conditions := []\<rparr>"
    by (intro TrussiumRuntimeStatus.equality)
      (simp_all add: fields build_fields N upgrade_last_stable)
  fix t
  have N_content: "condition_content M N u = condition_content M ?B u" for u
    by (simp add: N preserve_content wf)
  have other: "conditionTypeUpgrading \<notin> set failure_types" by (simp add: failure_types_def)
  show "condition_content M ?B' t = condition_content M N t"
    using base_content_status [of t rt obs validReferenceValidation clk N clk'] assms(2) other
    by (simp add: N_content failure_content build_content)
      (simp add: N fields build_fields upgrade_content_stable failure_content_def)
qed

end

section \<open>Fresh and kept transition times\<close>

text \<open>
  Every condition of a status under construction has the transition time of the stored condition, with
  the stored status, or a time read from the clock since the construction began.
\<close>

definition timed :: "'a meta_api_scheme \<Rightarrow> TrussiumRuntimeStatus \<Rightarrow> clock \<Rightarrow> build \<Rightarrow> bool" where
  "timed M stored clk b \<longleftrightarrow>
     (\<exists>k. snd b = (\<lambda>i. clk (k + i))) \<and>
     (\<forall>t n. runtimeCondition M (fst b) t = Some n \<longrightarrow>
        (\<exists>k. LastTransitionTime n = Some (clk k)) \<or>
        (\<exists>c. runtimeCondition M stored t = Some c \<and> Condition_Status n = Condition_Status c \<and>
           LastTransitionTime n = LastTransitionTime c))"

lemma snd_setRuntimeCondition [simp]: "snd (setRuntimeCondition M g t st r m b) = tick (snd b)"
  by (cases b) (simp add: setRuntimeCondition.simps)

context meta_conditions
begin

lemma put_merged:
  "runtimeCondition M (fst (setRuntimeCondition M g t st r m b)) t =
     Some (merged_condition (runtimeCondition M (fst b) t)
       \<lparr>Condition_Type = t, Condition_Status = st, Condition_ObservedGeneration = g,
        LastTransitionTime = None, Reason = r, Message = m\<rparr> (snd b 0))"
  by (cases b) (simp add: runtimeCondition_def setRuntimeCondition.simps find_set)

lemma timed_set:
  assumes "timed M stored clk b"
  shows "timed M stored clk (setRuntimeCondition M g t st r m b)"
proof -
  from assms obtain k where k: "snd b = (\<lambda>i. clk (k + i))" by (auto simp: timed_def)
  then have clock: "\<exists>k. snd (setRuntimeCondition M g t st r m b) = (\<lambda>i. clk (k + i))"
    by (intro exI [of _ "Suc k"]) (simp add: tick_def fun_eq_iff)
  have now: "snd b 0 = clk k" by (simp add: k)
  let ?ok = "\<lambda>u n. (\<exists>k. LastTransitionTime n = Some (clk k)) \<or>
      (\<exists>c. runtimeCondition M stored u = Some c \<and> Condition_Status n = Condition_Status c \<and>
         LastTransitionTime n = LastTransitionTime c)"
  have "?ok u n" if n: "runtimeCondition M (fst (setRuntimeCondition M g t st r m b)) u = Some n" for u n
  proof (cases "u = t")
    case False
    with n have "runtimeCondition M (fst b) u = Some n" by (simp add: store.put_other)
    with assms show ?thesis by (simp add: timed_def)
  next
    case True
    with n put_merged [of g t st r m b] show ?thesis
    proof (cases "runtimeCondition M (fst b) t")
      case None
      with n put_merged [of g t st r m b] True show ?thesis by (auto simp: merged_condition_def now)
    next
      case (Some old)
      with assms have "?ok t old" by (simp add: timed_def)
      with n put_merged [of g t st r m b] True Some show ?thesis
        by (auto simp: merged_condition_def now)
    qed
  qed
  with clock show ?thesis by (simp add: timed_def)
qed

lemma timed_build: "timed M (Status rt) clk (buildRuntimeStatus M rt obs val clk)"
proof -
  have start: "timed M (Status rt) clk (observedRuntimeStatus rt obs, clk)"
    by (auto simp: timed_def runtimeCondition_def intro: exI [of _ "0::nat"])
  have "timed M (Status rt) clk (buildBaseRuntimeStatus M rt obs val clk)"
    by (rule buildBase_induct) (simp_all add: start timed_set)
  then show ?thesis
    unfolding buildRuntimeStatus_def
    by - (rule applyUpgrade_induct, simp_all add: timed_set, simp add: timed_def runtimeCondition_def)
qed

lemma timed_failure: "timed M (Status rt) clk (buildReconciliationFailureStatus M rt obs err clk)"
  by (simp add: buildReconciliationFailureStatus_def Let_def timed_set timed_build)

text \<open>After normalising: the stored time while the status stays the same, a fresh one otherwise.\<close>

lemma timed_preserve:
  assumes "timed M stored clk b" and "status_wf (fst b)"
    and "runtimeCondition M (preserveRuntimeConditionTransitionTimes M stored (fst b)) t = Some n"
  shows "(\<exists>c. runtimeCondition M stored t = Some c \<and> Condition_Status n = Condition_Status c \<and>
        LastTransitionTime n = LastTransitionTime c) \<or>
     (condition_status M stored t \<noteq> Some (Condition_Status n) \<and>
        (\<exists>k. LastTransitionTime n = Some (clk k)))"
proof -
  from assms(2,3) obtain d where d: "runtimeCondition M (fst b) t = Some d"
    "n = keep_time (runtimeCondition M stored t) d"
    by (auto simp: preserve_find)
  with assms(1) have "(\<exists>k. LastTransitionTime d = Some (clk k)) \<or>
      (\<exists>c. runtimeCondition M stored t = Some c \<and> Condition_Status d = Condition_Status c \<and>
         LastTransitionTime d = LastTransitionTime c)"
    by (auto simp: timed_def)
  with d show ?thesis
    by (cases "runtimeCondition M stored t") (auto simp: keep_time_def condition_status_def)
qed

end

end
