(* ===== verification/Status_Properties.thy ===== *)
theory Status_Properties
  imports Status_Stability Resource_Properties
begin

text \<open>
  The properties of the status the operator reports: what each condition means, that the three summary
  conditions exclude each other, which conditions a status has, and how the last successful image and
  the transition times move.  They hold for every condition library with the documented behaviour; the
  witnesses use \<open>doc_meta\<close>.
\<close>

section \<open>Samples\<close>

definition sample_deployment :: "int32 \<Rightarrow> DeploymentCondition list \<Rightarrow> Deployment" where
  "sample_deployment n cs =
     (buildDeployment (sample_runtime ''demo''))
       \<lparr>Deployment_Status :=
          \<lparr>DS_ObservedGeneration = 1, DS_Replicas = n, DS_UpdatedReplicas = n, DS_ReadyReplicas = n,
           DS_AvailableReplicas = n, DS_UnavailableReplicas = 0, DS_Conditions = cs\<rparr>\<rparr>"

definition sample_observation :: "Deployment \<Rightarrow> runtimeObservation" where
  "sample_observation d = \<lparr>Obs_Deployment = Some d, Obs_Service = None\<rparr>"

abbreviation sample_clock :: clock where "sample_clock \<equiv> (\<lambda>n. 100 + int n)"

lemma sample_generation [simp]:
  "Generation (Deployment_Meta (sample_deployment n cs)) = 0"
  by (simp add: sample_deployment_def buildDeployment_def managed_meta_def object_meta_def)

lemma sample_replicas [simp]:
  "desiredReplicaCount (sample_runtime ''demo'') (Some (sample_deployment n cs)) = 2"
  by (simp add: sample_deployment_def buildDeployment_def desiredReplicaCount_def
      initialDeploymentReplicas_def autoscalingEnabled_def desiredAutoscalingMinReplicas_def
      sample_runtime_def sample_spec_def)

lemma sample_status [simp]:
  "Deployment_Status (sample_deployment n cs) =
     \<lparr>DS_ObservedGeneration = 1, DS_Replicas = n, DS_UpdatedReplicas = n, DS_ReadyReplicas = n,
      DS_AvailableReplicas = n, DS_UnavailableReplicas = 0, DS_Conditions = cs\<rparr>"
  by (simp add: sample_deployment_def)

section \<open>Meaning of the conditions\<close>

text \<open>C7: the \<open>Ready\<close> condition means what it says.  It is always present, and \<open>True\<close> exactly when
  all referenced Secrets resolved, the Deployment exists, its controller has observed the current
  generation, the ready and the available replicas are the desired ones, and no rollout failure
  is reported (a failure report is disregarded when no replicas are wanted).\<close>

theorem ready_condition_exact:
  assumes "meta_conditions M"
  shows "condition_status M (fst (buildRuntimeStatus M rt obs val clk)) conditionTypeReady =
    Some (truth (runtime_ready rt obs val))"
  by (simp add: buildRuntimeStatus_def meta_conditions.upgrade_other_status [OF assms]
      meta_conditions.base_ready [OF assms])

theorem ready_condition_exact_witness:
  "condition_status doc_meta (fst (buildRuntimeStatus doc_meta (sample_runtime ''demo'')
      (sample_observation (sample_deployment 2 [])) validReferenceValidation sample_clock))
      conditionTypeReady = Some ConditionTrue"
proof -
  have "runtime_ready (sample_runtime ''demo'') (sample_observation (sample_deployment 2 []))
      validReferenceValidation"
    by (simp add: runtime_ready_def deployment_observed_def deploymentHasRolloutFailure_def
        sample_observation_def validReferenceValidation_def)
  then show ?thesis
    using ready_condition_exact [OF doc.meta_conditions_axioms, of "sample_runtime ''demo''"
        "sample_observation (sample_deployment 2 [])" validReferenceValidation sample_clock]
    by (simp add: truth_def)
qed

definition true_summaries :: "'a meta_api_scheme \<Rightarrow> TrussiumRuntimeStatus \<Rightarrow> string list" where
  "true_summaries M s =
     filter (\<lambda>t. condition_status M s t = Some ConditionTrue)
       [conditionTypeReady, conditionTypeProgressing, conditionTypeDegraded]"

definition false_summaries :: "'a meta_api_scheme \<Rightarrow> TrussiumRuntimeStatus \<Rightarrow> string list" where
  "false_summaries M s =
     filter (\<lambda>t. condition_status M s t = Some ConditionFalse)
       [conditionTypeReady, conditionTypeProgressing, conditionTypeDegraded]"

lemma ready_not_degraded: "runtime_ready rt obs val \<Longrightarrow> \<not> runtime_degraded rt obs val"
  by (auto simp: runtime_ready_def runtime_degraded_def split: option.splits)

lemma failure_summary:
  assumes "meta_conditions M"
  shows "condition_status M (fst (buildReconciliationFailureStatus M rt obs err clk)) t =
    (if t = conditionTypeDegraded then Some ConditionTrue
     else if t = conditionTypeReady \<or> t = conditionTypeProgressing then Some ConditionFalse
     else condition_status M (fst (buildRuntimeStatus M rt obs validReferenceValidation clk)) t)"
  by (simp add: buildReconciliationFailureStatus_def Let_def meta_conditions.status_set [OF assms])

text \<open>C15: the summary conditions are exclusive.  In every status the operator builds, whether it reports
  a normal pass, invalid references or a failed reconciliation, exactly one of \<open>Ready\<close>,
  \<open>Progressing\<close> and \<open>Degraded\<close> is \<open>True\<close> and the other two are \<open>False\<close>.\<close>

theorem summary_conditions_exclusive:
  assumes "meta_conditions M"
  shows "length (true_summaries M (fst (buildRuntimeStatus M rt obs val clk))) = 1 \<and>
    length (false_summaries M (fst (buildRuntimeStatus M rt obs val clk))) = 2 \<and>
    length (true_summaries M (fst (buildReconciliationFailureStatus M rt obs err clk))) = 1 \<and>
    length (false_summaries M (fst (buildReconciliationFailureStatus M rt obs err clk))) = 2"
  using ready_not_degraded [of rt obs val]
  by (auto simp: true_summaries_def false_summaries_def failure_summary [OF assms]
      buildRuntimeStatus_def meta_conditions.upgrade_other_status [OF assms]
      meta_conditions.base_ready [OF assms] meta_conditions.base_progressing [OF assms]
      meta_conditions.base_degraded [OF assms])

theorem summary_conditions_exclusive_witness:
  "length (true_summaries doc_meta (fst (buildRuntimeStatus doc_meta (sample_runtime ''demo'')
      (sample_observation (sample_deployment 1 [])) validReferenceValidation sample_clock))) = 1"
  using summary_conditions_exclusive [OF doc.meta_conditions_axioms] by blast

lemma rollout_complete_ready:
  assumes "Valid val" and "observeDeploymentRollout rt (Obs_Deployment obs) = deploymentRolloutComplete"
  shows "runtime_ready rt obs val"
  using assms
  by (auto simp: observeDeploymentRollout_def runtime_ready_def deployment_observed_def Let_def
      split: option.splits if_splits)

text \<open>A completed rollout is a ready runtime.  When the references resolved and the rollout is
  observed to be complete, the reported status has \<open>Ready\<close> \<open>True\<close> and neither \<open>Progressing\<close> nor
  \<open>Degraded\<close>; a failed rollout of a runtime that wants replicas has \<open>Degraded\<close> \<open>True\<close>.\<close>

theorem rollout_decides_summary:
  assumes "meta_conditions M" and "Valid val"
  shows "(observeDeploymentRollout rt (Obs_Deployment obs) = deploymentRolloutComplete \<longrightarrow>
      true_summaries M (fst (buildRuntimeStatus M rt obs val clk)) = [conditionTypeReady]) \<and>
    (observeDeploymentRollout rt (Obs_Deployment obs) = deploymentRolloutFailed \<and>
       desiredReplicaCount rt (Obs_Deployment obs) \<noteq> 0 \<longrightarrow>
      true_summaries M (fst (buildRuntimeStatus M rt obs val clk)) = [conditionTypeDegraded])"
proof -
  have degraded: "runtime_degraded rt obs val"
    if "observeDeploymentRollout rt (Obs_Deployment obs) = deploymentRolloutFailed"
      "desiredReplicaCount rt (Obs_Deployment obs) \<noteq> 0"
    using that by (auto simp: observeDeploymentRollout_def runtime_degraded_def Let_def
        split: option.splits if_splits)
  show ?thesis
    using impI [OF impI, OF degraded] rollout_complete_ready [OF assms(2), of rt obs]
      ready_not_degraded [of rt obs val]
    by (auto simp: true_summaries_def buildRuntimeStatus_def
        meta_conditions.upgrade_other_status [OF assms(1)]
        meta_conditions.base_ready [OF assms(1)] meta_conditions.base_progressing [OF assms(1)]
        meta_conditions.base_degraded [OF assms(1)])
qed

theorem rollout_decides_summary_witness:
  "true_summaries doc_meta (fst (buildRuntimeStatus doc_meta (sample_runtime ''demo'')
      (sample_observation (sample_deployment 2 [])) validReferenceValidation sample_clock)) =
     [conditionTypeReady]"
proof -
  have "observeDeploymentRollout (sample_runtime ''demo'') (Some (sample_deployment 2 [])) =
      deploymentRolloutComplete"
    by (simp add: observeDeploymentRollout_def deploymentHasRolloutFailure_def)
  then show ?thesis
    using rollout_decides_summary [OF doc.meta_conditions_axioms, of validReferenceValidation
        "sample_runtime ''demo''" "sample_observation (sample_deployment 2 [])"]
    by (simp add: sample_observation_def validReferenceValidation_def)
qed

text \<open>C25: the rollout state is decided by the Deployment status alone.  A rollout has failed exactly when
  a deadline or replica failure is reported; it is complete exactly when no failure is reported, the
  current generation was observed, and every replica counter is the desired count with none
  unavailable; there is no Deployment to speak of otherwise or it is progressing.  The two readers
  of the failure conditions agree.\<close>

theorem rollout_state_exact:
  "(observeDeploymentRollout rt None = deploymentRolloutProgressing) \<and>
   (observeDeploymentRollout rt (Some d) = deploymentRolloutFailed \<longleftrightarrow>
      (\<exists>c \<in> set (DS_Conditions (Deployment_Status d)). isDeadlineExceeded c \<or> isReplicaFailure c)) \<and>
   (observeDeploymentRollout rt (Some d) = deploymentRolloutComplete \<longleftrightarrow>
      deploymentFailure d = None \<and> deployment_observed d \<and>
      (\<forall>n \<in> {DS_Replicas (Deployment_Status d), DS_UpdatedReplicas (Deployment_Status d),
              DS_ReadyReplicas (Deployment_Status d), DS_AvailableReplicas (Deployment_Status d)}.
         n = desiredReplicaCount rt (Some d)) \<and>
      DS_UnavailableReplicas (Deployment_Status d) = 0)"
proof -
  have "(observeDeploymentRollout rt (Some d) = deploymentRolloutFailed) =
      deploymentHasRolloutFailure (Some d)"
    by (simp add: observeDeploymentRollout_def Let_def)
  moreover have "(observeDeploymentRollout rt (Some d) = deploymentRolloutComplete) \<longleftrightarrow>
      \<not> deploymentHasRolloutFailure (Some d) \<and> deployment_observed d \<and>
      DS_Replicas (Deployment_Status d) = desiredReplicaCount rt (Some d) \<and>
      DS_UpdatedReplicas (Deployment_Status d) = desiredReplicaCount rt (Some d) \<and>
      DS_ReadyReplicas (Deployment_Status d) = desiredReplicaCount rt (Some d) \<and>
      DS_AvailableReplicas (Deployment_Status d) = desiredReplicaCount rt (Some d) \<and>
      DS_UnavailableReplicas (Deployment_Status d) = 0"
    by (auto simp: observeDeploymentRollout_def Let_def deployment_observed_def)
  ultimately show ?thesis
    by (simp add: deploymentFailure_None)
      (simp add: observeDeploymentRollout_def deploymentHasRolloutFailure_def hasRolloutFailure_iff)
qed

theorem rollout_state_exact_witness:
  "observeDeploymentRollout (sample_runtime ''demo'') (Some (sample_deployment 2 [])) =
     deploymentRolloutComplete \<and>
   observeDeploymentRollout (sample_runtime ''demo'') (Some (sample_deployment 2
     [\<lparr>DC_Type = ''ReplicaFailure'', DC_Status = ConditionTrue, DC_Reason = ''x'', DC_Message = ''y''\<rparr>])) =
     deploymentRolloutFailed"
  using rollout_state_exact [of "sample_runtime ''demo''" "sample_deployment 2 []"]
    rollout_state_exact [of "sample_runtime ''demo''" "sample_deployment 2
     [\<lparr>DC_Type = ''ReplicaFailure'', DC_Status = ConditionTrue, DC_Reason = ''x'', DC_Message = ''y''\<rparr>]"]
  by (simp add: deployment_observed_def deploymentFailure_def isReplicaFailure_def)

section \<open>Shape of a status\<close>

text \<open>C24: a status is well formed and complete.  From a stored status with no condition type twice, the
  operator builds one with no type twice that has all six of its conditions and the generation of
  the resource; conditions of other types are kept as they are.  This holds of the status of a normal
  pass and of the status that reports a failure.\<close>

theorem status_complete:
  assumes M: "meta_conditions M" and "status_wf (Status rt)"
    and "s = fst (buildRuntimeStatus M rt obs val clk) \<or>
      s = fst (buildReconciliationFailureStatus M rt obs err clk)"
  shows "status_wf s \<and>
    set (conditionTypeUpgrading # base_condition_types) \<subseteq> set (status_types s) \<and>
    (\<forall>t. t \<notin> set (conditionTypeUpgrading # base_condition_types) \<longrightarrow>
       condition_content M s t = condition_content M (Status rt) t) \<and>
    ObservedGeneration s = Generation (Runtime_Meta rt)"
  using assms(3)
proof
  assume s: "s = fst (buildRuntimeStatus M rt obs val clk)"
  show ?thesis
    using meta_conditions.build_present [OF M, of rt obs val clk]
    by (simp add: s meta_conditions.wf_build [OF M] assms(2) meta_conditions.build_content [OF M]
        build_fields)
next
  assume s: "s = fst (buildReconciliationFailureStatus M rt obs err clk)"
  have "set failure_types \<subseteq> set base_condition_types"
    by (simp add: failure_types_def base_condition_types_def)
  then show ?thesis
    using meta_conditions.build_present [OF M, of rt obs validReferenceValidation clk]
    by (auto simp: s meta_conditions.wf_failure [OF M] assms(2) meta_conditions.build_content [OF M]
        meta_conditions.failure_content [OF M] meta_conditions.failure_status_types [OF M]
        failure_fields [THEN status_rest(1)] build_fields)
qed

theorem status_complete_witness:
  "status_wf (fst (buildReconciliationFailureStatus doc_meta (sample_runtime ''demo'')
      (sample_observation (sample_deployment 2 [])) (APIError ''x'' ''boom'') sample_clock))"
proof -
  have "status_wf (Status (sample_runtime ''demo''))"
    by (simp add: sample_runtime_def empty_status_def status_wf_def status_types_def)
  from status_complete [OF doc.meta_conditions_axioms this disjI2, OF refl] show ?thesis by blast
qed

text \<open>The last successful image moves only with a completed rollout.  It becomes the requested image
  when the rollout is complete and the Deployment runs that image, and otherwise stays, in normal and in
  failed passes.\<close>

theorem last_successful_image_moves:
  "LastSuccessfulImage (fst (buildRuntimeStatus M rt obs val clk)) =
     (if observeDeploymentRollout rt (Obs_Deployment obs) = deploymentRolloutComplete \<and>
         deploymentCurrentImage (Obs_Deployment obs) = runtimeImage (Image (Spec rt))
      then runtimeImage (Image (Spec rt)) else LastSuccessfulImage (Status rt)) \<and>
   LastSuccessfulImage (fst (buildReconciliationFailureStatus M rt obs err clk)) =
     LastSuccessfulImage (fst (buildRuntimeStatus M rt obs validReferenceValidation clk))"
  by (simp add: build_fields upgrade_last_def failure_fields [THEN status_rest(6)])

text \<open>C21: transition times are honest.  In the status that is written, a condition whose status is the
  stored one keeps the stored transition time, also when the status was changed and changed back
  while building, and a condition whose status differs from the stored one, or is new, has a time read
  from the clock during this pass.\<close>

theorem transition_times_honest:
  assumes M: "meta_conditions M" and wf: "status_wf (Status rt)"
    and b: "b = buildRuntimeStatus M rt obs val clk \<or> b = buildReconciliationFailureStatus M rt obs err clk"
    and n: "runtimeCondition M (preserveRuntimeConditionTransitionTimes M (Status rt) (fst b)) t = Some n"
  shows "(case runtimeCondition M (Status rt) t of
      None \<Rightarrow> \<exists>k. LastTransitionTime n = Some (clk k)
    | Some c \<Rightarrow>
        if Condition_Status c = Condition_Status n then LastTransitionTime n = LastTransitionTime c
        else \<exists>k. LastTransitionTime n = Some (clk k))"
proof -
  have "timed M (Status rt) clk b \<and> status_wf (fst b)"
    using b wf by (auto simp: meta_conditions.timed_build [OF M] meta_conditions.timed_failure [OF M]
        meta_conditions.wf_build [OF M] meta_conditions.wf_failure [OF M])
  then show ?thesis
    using meta_conditions.timed_preserve [OF M _ _ n]
    by (auto simp: condition_status_def split: option.split)
qed

theorem transition_times_honest_witness:
  "\<exists>n k. runtimeCondition doc_meta (preserveRuntimeConditionTransitionTimes doc_meta empty_status
      (fst (buildRuntimeStatus doc_meta (sample_runtime ''demo'')
        (sample_observation (sample_deployment 2 [])) validReferenceValidation sample_clock)))
      conditionTypeReady = Some n \<and> LastTransitionTime n = Some (sample_clock k)"
proof -
  let ?rt = "sample_runtime ''demo''"
  let ?b = "buildRuntimeStatus doc_meta ?rt (sample_observation (sample_deployment 2 []))
    validReferenceValidation sample_clock"
  have st: "Status ?rt = empty_status" by (simp add: sample_runtime_def)
  have wf: "status_wf (Status ?rt)"
    by (simp add: st empty_status_def status_wf_def status_types_def)
  have "condition_status doc_meta (fst ?b) conditionTypeReady \<noteq> None"
    by (simp add: buildRuntimeStatus_def doc.base_ready)
  then obtain n where n: "runtimeCondition doc_meta
      (preserveRuntimeConditionTransitionTimes doc_meta (Status ?rt) (fst ?b)) conditionTypeReady = Some n"
    using doc.wf_build [OF wf] by (auto simp: doc.preserve_find condition_status_def)
  moreover have "runtimeCondition doc_meta (Status ?rt) conditionTypeReady = None"
    by (simp add: st empty_status_def runtimeCondition_def doc_meta_def)
  ultimately show ?thesis
    using transition_times_honest [OF doc.meta_conditions_axioms wf disjI1, OF refl n] st by auto
qed

end
