(* ===== verification/Runtime_Events.thy ===== *)
theory Runtime_Events
  imports Status_Facts
begin

text \<open>
  \<open>internal/controller/runtime_events.go\<close>: the Kubernetes Events the operator emits when a
  condition changes.  One definition per function, in the order of the file; each is a computation
  that appends to the Events recorded so far.

  The specification \<open>transition_events\<close> says which Events a change of status deserves; the
  refinement lemma \<open>run_recordStatusTransitionEvents\<close> shows that the functions emit exactly these,
  in this order.
\<close>

section \<open>Reasons and actions\<close>

abbreviation eventReasonRuntimeProgressing :: string where
  "eventReasonRuntimeProgressing \<equiv> ''RuntimeProgressing''"
abbreviation eventReasonRuntimeReady :: string where "eventReasonRuntimeReady \<equiv> ''RuntimeReady''"
abbreviation eventReasonRuntimeRecovered :: string where
  "eventReasonRuntimeRecovered \<equiv> ''RuntimeRecovered''"
abbreviation eventReasonRuntimeScaledToZero :: string where
  "eventReasonRuntimeScaledToZero \<equiv> ''RuntimeScaledToZero''"
abbreviation eventReasonConfigurationInvalid :: string where
  "eventReasonConfigurationInvalid \<equiv> ''ConfigurationInvalid''"
abbreviation eventReasonReconciliationFailed :: string where
  "eventReasonReconciliationFailed \<equiv> ''ReconciliationFailed''"
abbreviation eventReasonRuntimeDegraded :: string where
  "eventReasonRuntimeDegraded \<equiv> ''RuntimeDegraded''"
abbreviation eventReasonRuntimeUpgradeStarted :: string where
  "eventReasonRuntimeUpgradeStarted \<equiv> ''RuntimeUpgradeStarted''"
abbreviation eventReasonRuntimeUpgradeCompleted :: string where
  "eventReasonRuntimeUpgradeCompleted \<equiv> ''RuntimeUpgradeCompleted''"
abbreviation eventReasonRuntimeUpgradeFailed :: string where
  "eventReasonRuntimeUpgradeFailed \<equiv> ''RuntimeUpgradeFailed''"

abbreviation eventActionReconcileRuntime :: string where
  "eventActionReconcileRuntime \<equiv> ''ReconcileRuntime''"
abbreviation eventActionValidateConfiguration :: string where
  "eventActionValidateConfiguration \<equiv> ''ValidateConfiguration''"
abbreviation eventActionObserveRuntime :: string where
  "eventActionObserveRuntime \<equiv> ''ObserveRuntime''"
abbreviation eventActionUpgradeRuntime :: string where
  "eventActionUpgradeRuntime \<equiv> ''UpgradeRuntime''"

abbreviation EventTypeNormal :: string where "EventTypeNormal \<equiv> ''Normal''"
abbreviation EventTypeWarning :: string where "EventTypeWarning \<equiv> ''Warning''"

text \<open>The reconciler: the client with its libraries, and the Event recorder, which may be nil.\<close>

datatype EventRecorder = EventRecorder

record 'w TrussiumRuntimeReconciler =
  Client :: "'w kube_api"
  Recorder :: "EventRecorder option"

definition runtime_event ::
  "TrussiumRuntime \<Rightarrow> string \<Rightarrow> string \<Rightarrow> string \<Rightarrow> string \<Rightarrow> event"
where
  "runtime_event rt eventtype reason action note =
     \<lparr>Event_Regarding = ObjectKey (Runtime_Meta rt), Event_Type = eventtype, Event_Reason = reason,
      Event_Action = action, Event_Note = note\<rparr>"

section \<open>Transitions\<close>

definition recordConfigurationTransition ::
  "'w TrussiumRuntimeReconciler \<Rightarrow> TrussiumRuntime \<Rightarrow> TrussiumRuntimeStatus \<Rightarrow>
     TrussiumRuntimeStatus \<Rightarrow> ('w, unit) rm"
where
  "recordConfigurationTransition r rt previousStatus currentStatus =
     (if \<not> conditionChanged (Client r) previousStatus currentStatus conditionTypeConfigurationValid
      then State_Monad.return ()
      else
        case runtimeCondition (Client r) currentStatus conditionTypeConfigurationValid of
          None \<Rightarrow> State_Monad.return ()
        | Some condition \<Rightarrow>
            if Condition_Status condition \<noteq> ConditionFalse then State_Monad.return ()
            else Eventf (runtime_event rt EventTypeWarning eventReasonConfigurationInvalid
                   eventActionValidateConfiguration (Message condition)))"

definition recordDegradedTransition ::
  "'w TrussiumRuntimeReconciler \<Rightarrow> TrussiumRuntime \<Rightarrow> TrussiumRuntimeStatus \<Rightarrow>
     TrussiumRuntimeStatus \<Rightarrow> ('w, unit) rm"
where
  "recordDegradedTransition r rt previousStatus currentStatus =
     (if \<not> conditionChanged (Client r) previousStatus currentStatus conditionTypeDegraded
      then State_Monad.return ()
      else
        case runtimeCondition (Client r) currentStatus conditionTypeDegraded of
          None \<Rightarrow> State_Monad.return ()
        | Some condition \<Rightarrow>
            if Condition_Status condition = ConditionTrue then
              Eventf (runtime_event rt EventTypeWarning eventReasonRuntimeDegraded
                eventActionObserveRuntime (Message condition))
            else
              (case runtimeCondition (Client r) previousStatus conditionTypeDegraded of
                 None \<Rightarrow> State_Monad.return ()
               | Some previousCondition \<Rightarrow>
                   if Condition_Status previousCondition \<noteq> ConditionTrue then State_Monad.return ()
                   else Eventf (runtime_event rt EventTypeNormal eventReasonRuntimeRecovered
                          eventActionObserveRuntime (Message condition))))"

definition recordProgressingTransition ::
  "'w TrussiumRuntimeReconciler \<Rightarrow> TrussiumRuntime \<Rightarrow> TrussiumRuntimeStatus \<Rightarrow>
     TrussiumRuntimeStatus \<Rightarrow> ('w, unit) rm"
where
  "recordProgressingTransition r rt previousStatus currentStatus =
     (if \<not> conditionChanged (Client r) previousStatus currentStatus conditionTypeProgressing
      then State_Monad.return ()
      else
        case runtimeCondition (Client r) currentStatus conditionTypeProgressing of
          None \<Rightarrow> State_Monad.return ()
        | Some condition \<Rightarrow>
            if Condition_Status condition \<noteq> ConditionTrue then State_Monad.return ()
            else Eventf (runtime_event rt EventTypeNormal eventReasonRuntimeProgressing
                   eventActionReconcileRuntime (Message condition)))"

definition recordReadyTransition ::
  "'w TrussiumRuntimeReconciler \<Rightarrow> TrussiumRuntime \<Rightarrow> TrussiumRuntimeStatus \<Rightarrow>
     TrussiumRuntimeStatus \<Rightarrow> ('w, unit) rm"
where
  "recordReadyTransition r rt previousStatus currentStatus =
     (if \<not> conditionChanged (Client r) previousStatus currentStatus conditionTypeReady
      then State_Monad.return ()
      else
        case runtimeCondition (Client r) currentStatus conditionTypeReady of
          None \<Rightarrow> State_Monad.return ()
        | Some condition \<Rightarrow>
            if Condition_Status condition \<noteq> ConditionTrue then State_Monad.return ()
            else
              (let eventReason =
                     (if Reason condition = reasonScaledToZero then eventReasonRuntimeScaledToZero
                      else eventReasonRuntimeReady)
               in Eventf (runtime_event rt EventTypeNormal eventReason eventActionObserveRuntime
                    (Message condition))))"

definition recordReconciliationFailure ::
  "'w TrussiumRuntimeReconciler \<Rightarrow> TrussiumRuntime \<Rightarrow> goerror \<Rightarrow> ('w, unit) rm"
where
  "recordReconciliationFailure r rt reconciliationError =
     (if Recorder r = None then State_Monad.return ()
      else Eventf (runtime_event rt EventTypeWarning eventReasonReconciliationFailed
             eventActionReconcileRuntime
             (''Runtime reconciliation failed: '' @ Error reconciliationError)))"

definition validUpgradeEventImages :: "string \<Rightarrow> string \<Rightarrow> bool" where
  "validUpgradeEventImages sourceImage destinationImage \<longleftrightarrow>
     sourceImage \<noteq> '''' \<and> destinationImage \<noteq> '''' \<and> sourceImage \<noteq> destinationImage"

definition recordUpgradeTransition ::
  "'w TrussiumRuntimeReconciler \<Rightarrow> TrussiumRuntime \<Rightarrow> TrussiumRuntimeStatus \<Rightarrow>
     TrussiumRuntimeStatus \<Rightarrow> ('w, unit) rm"
where
  "recordUpgradeTransition r rt previousStatus currentStatus =
     (if \<not> conditionChanged (Client r) previousStatus currentStatus conditionTypeUpgrading
      then State_Monad.return ()
      else
        case runtimeCondition (Client r) currentStatus conditionTypeUpgrading of
          None \<Rightarrow> State_Monad.return ()
        | Some condition \<Rightarrow>
            (let sourceImage = LastSuccessfulImage previousStatus;
                 destinationImage = DesiredImage currentStatus
             in
             if Reason condition = reasonUpgradeInProgress then
               (if Condition_Status condition \<noteq> ConditionTrue then State_Monad.return ()
                else if \<not> validUpgradeEventImages sourceImage destinationImage
                  then State_Monad.return ()
                else Eventf (runtime_event rt EventTypeNormal eventReasonRuntimeUpgradeStarted
                       eventActionUpgradeRuntime
                       (''Runtime image upgrade started from '' @ sourceImage @ '' to '' @
                        destinationImage @ ''.'')))
             else if Reason condition = reasonUpgradeComplete then
               (if Condition_Status condition \<noteq> ConditionFalse then State_Monad.return ()
                else if \<not> validUpgradeEventImages sourceImage destinationImage
                  then State_Monad.return ()
                else Eventf (runtime_event rt EventTypeNormal eventReasonRuntimeUpgradeCompleted
                       eventActionUpgradeRuntime
                       (''Runtime image upgrade completed from '' @ sourceImage @ '' to '' @
                        destinationImage @ ''.'')))
             else if Reason condition = reasonUpgradeFailed then
               (if Condition_Status condition \<noteq> ConditionFalse then State_Monad.return ()
                else if \<not> validUpgradeEventImages sourceImage destinationImage
                  then State_Monad.return ()
                else Eventf (runtime_event rt EventTypeWarning eventReasonRuntimeUpgradeFailed
                       eventActionUpgradeRuntime
                       (''Runtime image upgrade failed from '' @ sourceImage @ '' to '' @
                        destinationImage @ ''.'')))
             else State_Monad.return ()))"

definition recordStatusTransitionEvents ::
  "'w TrussiumRuntimeReconciler \<Rightarrow> TrussiumRuntime \<Rightarrow> TrussiumRuntimeStatus \<Rightarrow>
     TrussiumRuntimeStatus \<Rightarrow> ('w, unit) rm"
where
  "recordStatusTransitionEvents r rt previousStatus currentStatus =
     (if Recorder r = None then State_Monad.return ()
      else
        do {
          _ \<leftarrow> recordConfigurationTransition r rt previousStatus currentStatus;
          _ \<leftarrow> recordUpgradeTransition r rt previousStatus currentStatus;
          _ \<leftarrow> recordDegradedTransition r rt previousStatus currentStatus;
          _ \<leftarrow> recordProgressingTransition r rt previousStatus currentStatus;
          recordReadyTransition r rt previousStatus currentStatus
        })"

section \<open>Specification\<close>

text \<open>
  What a change deserves, condition by condition: the severity, reason, action and note of the Event
  that announces the new condition, given the previous one; no Event when the condition has the
  status and reason it had.
\<close>

type_synonym announcement = "string \<times> string \<times> string \<times> string"

definition announce_configuration :: "Condition option \<Rightarrow> Condition \<Rightarrow> announcement option" where
  "announce_configuration prev c =
     (if Condition_Status c = ConditionFalse
      then Some (EventTypeWarning, eventReasonConfigurationInvalid, eventActionValidateConfiguration,
             Message c)
      else None)"

definition announce_upgrade :: "string \<Rightarrow> string \<Rightarrow> Condition option \<Rightarrow> Condition \<Rightarrow> announcement option"
where
  "announce_upgrade source dest prev c =
     (if \<not> validUpgradeEventImages source dest then None
      else map_option (\<lambda>(ty, reason, verb).
             (ty, reason, eventActionUpgradeRuntime,
              ''Runtime image upgrade '' @ verb @ '' from '' @ source @ '' to '' @ dest @ ''.''))
        (if Reason c = reasonUpgradeInProgress \<and> Condition_Status c = ConditionTrue
         then Some (EventTypeNormal, eventReasonRuntimeUpgradeStarted, ''started'')
         else if Reason c = reasonUpgradeComplete \<and> Condition_Status c = ConditionFalse
         then Some (EventTypeNormal, eventReasonRuntimeUpgradeCompleted, ''completed'')
         else if Reason c = reasonUpgradeFailed \<and> Condition_Status c = ConditionFalse
         then Some (EventTypeWarning, eventReasonRuntimeUpgradeFailed, ''failed'')
         else None))"

definition announce_degraded :: "Condition option \<Rightarrow> Condition \<Rightarrow> announcement option" where
  "announce_degraded prev c =
     (if Condition_Status c = ConditionTrue
      then Some (EventTypeWarning, eventReasonRuntimeDegraded, eventActionObserveRuntime, Message c)
      else if map_option Condition_Status prev = Some ConditionTrue
      then Some (EventTypeNormal, eventReasonRuntimeRecovered, eventActionObserveRuntime, Message c)
      else None)"

definition announce_progressing :: "Condition option \<Rightarrow> Condition \<Rightarrow> announcement option" where
  "announce_progressing prev c =
     (if Condition_Status c = ConditionTrue
      then Some (EventTypeNormal, eventReasonRuntimeProgressing, eventActionReconcileRuntime, Message c)
      else None)"

definition announce_ready :: "Condition option \<Rightarrow> Condition \<Rightarrow> announcement option" where
  "announce_ready prev c =
     (if Condition_Status c = ConditionTrue
      then Some (EventTypeNormal,
             if Reason c = reasonScaledToZero then eventReasonRuntimeScaledToZero
             else eventReasonRuntimeReady, eventActionObserveRuntime, Message c)
      else None)"

definition announced ::
  "'a meta_api_scheme \<Rightarrow> TrussiumRuntime \<Rightarrow> TrussiumRuntimeStatus \<Rightarrow> TrussiumRuntimeStatus \<Rightarrow>
     string \<times> (Condition option \<Rightarrow> Condition \<Rightarrow> announcement option) \<Rightarrow> event list"
where
  "announced M rt prev cur = (\<lambda>(t, rule).
     if \<not> conditionChanged M prev cur t then []
     else case runtimeCondition M cur t of
            None \<Rightarrow> []
          | Some c \<Rightarrow>
              (case rule (runtimeCondition M prev t) c of
                 None \<Rightarrow> []
               | Some (ty, reason, action, note) \<Rightarrow> [runtime_event rt ty reason action note]))"

definition announcement_rules ::
  "TrussiumRuntimeStatus \<Rightarrow> TrussiumRuntimeStatus \<Rightarrow>
     (string \<times> (Condition option \<Rightarrow> Condition \<Rightarrow> announcement option)) list"
where
  "announcement_rules prev cur =
     [(conditionTypeConfigurationValid, announce_configuration),
      (conditionTypeUpgrading, announce_upgrade (LastSuccessfulImage prev) (DesiredImage cur)),
      (conditionTypeDegraded, announce_degraded),
      (conditionTypeProgressing, announce_progressing),
      (conditionTypeReady, announce_ready)]"

definition transition_events ::
  "'a meta_api_scheme \<Rightarrow> TrussiumRuntime \<Rightarrow> TrussiumRuntimeStatus \<Rightarrow> TrussiumRuntimeStatus \<Rightarrow>
     event list"
where
  "transition_events M rt prev cur =
     concat (map (announced M rt prev cur) (announcement_rules prev cur))"

section \<open>The functions emit what the specification says\<close>

lemmas announce_defs = announce_configuration_def announce_upgrade_def announce_degraded_def
  announce_progressing_def announce_ready_def announced_def

lemma run_recordConfigurationTransition:
  "run_state (recordConfigurationTransition r rt p c) s =
     ((), s\<lparr>recorded := recorded s @
       announced (Client r) rt p c (conditionTypeConfigurationValid, announce_configuration)\<rparr>)"
  by (simp add: recordConfigurationTransition_def announce_defs split: option.split)

lemma run_recordUpgradeTransition:
  "run_state (recordUpgradeTransition r rt p c) s =
     ((), s\<lparr>recorded := recorded s @
       announced (Client r) rt p c
         (conditionTypeUpgrading, announce_upgrade (LastSuccessfulImage p) (DesiredImage c))\<rparr>)"
  by (simp add: recordUpgradeTransition_def announce_defs Let_def split: option.split)

lemma run_recordDegradedTransition:
  "run_state (recordDegradedTransition r rt p c) s =
     ((), s\<lparr>recorded := recorded s @
       announced (Client r) rt p c (conditionTypeDegraded, announce_degraded)\<rparr>)"
  by (simp add: recordDegradedTransition_def announce_defs split: option.split)

lemma run_recordProgressingTransition:
  "run_state (recordProgressingTransition r rt p c) s =
     ((), s\<lparr>recorded := recorded s @
       announced (Client r) rt p c (conditionTypeProgressing, announce_progressing)\<rparr>)"
  by (simp add: recordProgressingTransition_def announce_defs split: option.split)

lemma run_recordReadyTransition:
  "run_state (recordReadyTransition r rt p c) s =
     ((), s\<lparr>recorded := recorded s @
       announced (Client r) rt p c (conditionTypeReady, announce_ready)\<rparr>)"
  by (simp add: recordReadyTransition_def announce_defs Let_def split: option.split)

lemma run_recordStatusTransitionEvents [simp]:
  "run_state (recordStatusTransitionEvents r rt p c) s =
     ((), s\<lparr>recorded := recorded s @
       (if Recorder r = None then [] else transition_events (Client r) rt p c)\<rparr>)"
  by (simp add: recordStatusTransitionEvents_def transition_events_def announcement_rules_def
      run_recordConfigurationTransition run_recordUpgradeTransition run_recordDegradedTransition
      run_recordProgressingTransition run_recordReadyTransition)

lemma run_recordReconciliationFailure [simp]:
  "run_state (recordReconciliationFailure r rt err) s =
     ((), s\<lparr>recorded := recorded s @
       (if Recorder r = None then []
        else [runtime_event rt EventTypeWarning eventReasonReconciliationFailed
                eventActionReconcileRuntime (''Runtime reconciliation failed: '' @ Error err)])\<rparr>)"
  by (simp add: recordReconciliationFailure_def)

lemma announcedD:
  "e \<in> set (announced M rt p c (t, rule)) \<Longrightarrow>
     conditionChanged M p c t \<and>
     (\<exists>cc ty reason action note. runtimeCondition M c t = Some cc \<and>
        rule (runtimeCondition M p t) cc = Some (ty, reason, action, note) \<and>
        e = runtime_event rt ty reason action note)"
  by (cases "runtimeCondition M c t"; cases "rule (runtimeCondition M p t) (the (runtimeCondition M c t))")
    (auto simp: announced_def split: if_splits)

lemma announce_reasons:
  "announce_configuration q d = Some (ty, reason, action, note) \<Longrightarrow> reason = eventReasonConfigurationInvalid"
  "announce_upgrade src dst q d = Some (ty, reason, action, note) \<Longrightarrow>
     validUpgradeEventImages src dst \<and>
     reason \<in> {eventReasonRuntimeUpgradeStarted, eventReasonRuntimeUpgradeCompleted,
       eventReasonRuntimeUpgradeFailed}"
  "announce_degraded q d = Some (ty, reason, action, note) \<Longrightarrow>
     reason \<in> {eventReasonRuntimeDegraded, eventReasonRuntimeRecovered}"
  "announce_progressing q d = Some (ty, reason, action, note) \<Longrightarrow> reason = eventReasonRuntimeProgressing"
  "announce_ready q d = Some (ty, reason, action, note) \<Longrightarrow>
     reason \<in> {eventReasonRuntimeReady, eventReasonRuntimeScaledToZero}"
  by (auto simp: announce_configuration_def announce_upgrade_def announce_degraded_def
      announce_progressing_def announce_ready_def split: if_splits)

end
