(* ===== verification/Controller.thy ===== *)
theory Controller
  imports Runtime_Events
begin

text \<open>
  \<open>internal/controller/trussiumruntime_controller.go\<close> and \<open>metrics.go\<close>: the reconciler.  One
  definition per function, in the order of the file; the closure a function passes to
  \<open>controllerutil.CreateOrUpdate\<close> is a definition of its own.  Every path returns the zero
  \<open>ctrl.Result\<close>, so the result of a handler is its error.  Log lines are left out.

  The last section holds the watches of \<open>SetupWithManager\<close> and the permissions of the
  \<open>+kubebuilder:rbac\<close> markers.
\<close>

section \<open>Zero objects\<close>

text \<open>The objects as they are before \<open>CreateOrUpdate\<close> reads them: a name and a namespace.\<close>

definition zero_pod_spec :: PodSpec where
  "zero_pod_spec =
     \<lparr>ServiceAccountName = '''', Pod_AutomountServiceAccountToken = None, EnableServiceLinks = None,
      TerminationGracePeriodSeconds = None, Pod_SecurityContext = None, Pod_ImagePullSecrets = [],
      Pod_NodeSelector = fmempty, Pod_Tolerations = [], Pod_Affinity = None,
      TopologySpreadConstraints = [], Containers = []\<rparr>"

definition zero_deployment_spec :: DeploymentSpec where
  "zero_deployment_spec =
     \<lparr>Replicas = None, ProgressDeadlineSeconds = None, Deployment_Selector = None,
      RevisionHistoryLimit = None, Strategy_Type = '''', Strategy_RollingUpdate = None,
      Template = \<lparr>Template_Labels = fmempty, Template_Annotations = fmempty,
                  Template_Spec = zero_pod_spec\<rparr>,
      Paused = False\<rparr>"

definition zero_service_spec :: ServiceSpec where
  "zero_service_spec =
     \<lparr>ServiceSpec_Type = '''', ServiceSpec_Selector = fmempty, ServiceSpec_Ports = [],
      ClusterIP = ''''\<rparr>"

definition zero_hpa_spec :: HorizontalPodAutoscalerSpec where
  "zero_hpa_spec =
     \<lparr>ScaleTargetRef = \<lparr>Ref_APIVersion = '''', Ref_Kind = '''', Ref_Name = ''''\<rparr>,
      HPA_MinReplicas = None, HPA_MaxReplicas = 0, Metrics = []\<rparr>"

definition zero_policy_spec :: NetworkPolicySpec where
  "zero_policy_spec =
     \<lparr>Policy_PodSelector = match_labels fmempty, PolicyTypes = [], Policy_Ingress = []\<rparr>"

definition key_meta :: "ObjectMeta \<Rightarrow> ObjectMeta" where
  "key_meta desired = object_meta (Name desired) (Namespace desired) fmempty"

section \<open>Managed resources\<close>

text \<open>The last statement of every mutation: the owner reference, whose error ends the mutation.\<close>

definition owned ::
  "'w TrussiumRuntimeReconciler \<Rightarrow> TrussiumRuntime \<Rightarrow> ObjectMeta \<Rightarrow> (ObjectMeta \<Rightarrow> 'o) \<Rightarrow> goerror + 'o"
where
  "owned r rt m put =
     (case SetControllerReference (Client r) rt m of Inl err \<Rightarrow> Inl err | Inr m' \<Rightarrow> Inr (put m'))"

definition mutateConfigMap ::
  "'w TrussiumRuntimeReconciler \<Rightarrow> TrussiumRuntime \<Rightarrow> ConfigMap \<Rightarrow> ConfigMap \<Rightarrow> goerror + ConfigMap"
where
  "mutateConfigMap r rt desired current =
     (let current = current\<lparr>ConfigMap_Meta := (ConfigMap_Meta current)
            \<lparr>Labels := Labels (ConfigMap_Meta desired)\<rparr>, Data := Data desired\<rparr>
      in owned r rt (ConfigMap_Meta current) (\<lambda>m. current\<lparr>ConfigMap_Meta := m\<rparr>))"

definition reconcileConfigMap ::
  "'w TrussiumRuntimeReconciler \<Rightarrow> TrussiumRuntime \<Rightarrow> ('w, goerror option) rm"
where
  "reconcileConfigMap r rt =
     (let desired = buildConfigMap rt;
          current = \<lparr>ConfigMap_Meta = key_meta (ConfigMap_Meta desired), Data = fmempty\<rparr>
      in client_op (CallCreateOrUpdate KConfigMap (ObjectKey (ConfigMap_Meta current)))
           (CreateOrUpdate_ConfigMap (Client r) current (mutateConfigMap r rt desired)))"

definition mutateServiceAccount ::
  "'w TrussiumRuntimeReconciler \<Rightarrow> TrussiumRuntime \<Rightarrow> ServiceAccount \<Rightarrow> ServiceAccount \<Rightarrow>
     goerror + ServiceAccount"
where
  "mutateServiceAccount r rt desired current =
     (let current = current\<lparr>ServiceAccount_Meta := (ServiceAccount_Meta current)
              \<lparr>Labels := Labels (ServiceAccount_Meta desired)\<rparr>,
            SA_AutomountServiceAccountToken := SA_AutomountServiceAccountToken desired,
            SA_ImagePullSecrets := SA_ImagePullSecrets desired\<rparr>
      in owned r rt (ServiceAccount_Meta current) (\<lambda>m. current\<lparr>ServiceAccount_Meta := m\<rparr>))"

definition reconcileServiceAccount ::
  "'w TrussiumRuntimeReconciler \<Rightarrow> TrussiumRuntime \<Rightarrow> ('w, goerror option) rm"
where
  "reconcileServiceAccount r rt =
     (let desired = buildServiceAccount rt;
          current = \<lparr>ServiceAccount_Meta = key_meta (ServiceAccount_Meta desired),
                     SA_AutomountServiceAccountToken = None, SA_ImagePullSecrets = []\<rparr>
      in client_op (CallCreateOrUpdate KServiceAccount (ObjectKey (ServiceAccount_Meta current)))
           (CreateOrUpdate_ServiceAccount (Client r) current (mutateServiceAccount r rt desired)))"

definition mutateService ::
  "'w TrussiumRuntimeReconciler \<Rightarrow> TrussiumRuntime \<Rightarrow> Service \<Rightarrow> Service \<Rightarrow> goerror + Service"
where
  "mutateService r rt desired current =
     (let current = current\<lparr>Service_Meta := (Service_Meta current)
              \<lparr>Labels := Labels (Service_Meta desired)\<rparr>,
            Service_Spec := (Service_Spec current)
              \<lparr>ServiceSpec_Type := ServiceSpec_Type (Service_Spec desired),
               ServiceSpec_Selector := ServiceSpec_Selector (Service_Spec desired),
               ServiceSpec_Ports := ServiceSpec_Ports (Service_Spec desired)\<rparr>\<rparr>
      in owned r rt (Service_Meta current) (\<lambda>m. current\<lparr>Service_Meta := m\<rparr>))"

definition reconcileService ::
  "'w TrussiumRuntimeReconciler \<Rightarrow> TrussiumRuntime \<Rightarrow> ('w, goerror option) rm"
where
  "reconcileService r rt =
     (let desired = buildService rt;
          current = \<lparr>Service_Meta = key_meta (Service_Meta desired), Service_Spec = zero_service_spec\<rparr>
      in client_op (CallCreateOrUpdate KService (ObjectKey (Service_Meta current)))
           (CreateOrUpdate_Service (Client r) current (mutateService r rt desired)))"

definition mutateDeployment ::
  "'w TrussiumRuntimeReconciler \<Rightarrow> TrussiumRuntime \<Rightarrow> Deployment \<Rightarrow> Deployment \<Rightarrow> goerror + Deployment"
where
  "mutateDeployment r rt desired current =
     (let currentReplicas = Replicas (Deployment_Spec current);
          current = current\<lparr>Deployment_Meta := (Deployment_Meta current)
              \<lparr>Labels := Labels (Deployment_Meta desired)\<rparr>,
            Deployment_Spec := Deployment_Spec desired\<rparr>;
          current =
            (if autoscalingEnabled rt \<and> currentReplicas \<noteq> None
             then current\<lparr>Deployment_Spec := (Deployment_Spec current)\<lparr>Replicas := currentReplicas\<rparr>\<rparr>
             else current)
      in owned r rt (Deployment_Meta current) (\<lambda>m. current\<lparr>Deployment_Meta := m\<rparr>))"

definition reconcileDeployment ::
  "'w TrussiumRuntimeReconciler \<Rightarrow> TrussiumRuntime \<Rightarrow> ('w, goerror option) rm"
where
  "reconcileDeployment r rt =
     (let desired = buildDeployment rt;
          current = \<lparr>Deployment_Meta = key_meta (Deployment_Meta desired),
                     Deployment_Spec = zero_deployment_spec,
                     Deployment_Status = zero_deployment_status\<rparr>
      in client_op (CallCreateOrUpdate KDeployment (ObjectKey (Deployment_Meta current)))
           (CreateOrUpdate_Deployment (Client r) current (mutateDeployment r rt desired)))"

definition mutatePodDisruptionBudget ::
  "'w TrussiumRuntimeReconciler \<Rightarrow> TrussiumRuntime \<Rightarrow> PodDisruptionBudget \<Rightarrow> PodDisruptionBudget \<Rightarrow>
     goerror + PodDisruptionBudget"
where
  "mutatePodDisruptionBudget r rt desired current =
     (let current = current\<lparr>PDB_Meta := (PDB_Meta current)\<lparr>Labels := Labels (PDB_Meta desired)\<rparr>,
            PDB_Spec := PDB_Spec desired\<rparr>
      in owned r rt (PDB_Meta current) (\<lambda>m. current\<lparr>PDB_Meta := m\<rparr>))"

definition reconcilePodDisruptionBudget ::
  "'w TrussiumRuntimeReconciler \<Rightarrow> TrussiumRuntime \<Rightarrow> ('w, goerror option) rm"
where
  "reconcilePodDisruptionBudget r rt =
     (let desired = buildPodDisruptionBudget rt;
          current = \<lparr>PDB_Meta = key_meta (PDB_Meta desired),
                     PDB_Spec = \<lparr>PDB_MaxUnavailable = None, PDB_Selector = None\<rparr>\<rparr>
      in client_op (CallCreateOrUpdate KPodDisruptionBudget (ObjectKey (PDB_Meta current)))
           (CreateOrUpdate_PodDisruptionBudget (Client r) current
             (mutatePodDisruptionBudget r rt desired)))"

definition mutateNetworkPolicy ::
  "'w TrussiumRuntimeReconciler \<Rightarrow> TrussiumRuntime \<Rightarrow> NetworkPolicy \<Rightarrow> NetworkPolicy \<Rightarrow>
     goerror + NetworkPolicy"
where
  "mutateNetworkPolicy r rt desired current =
     (let current = current\<lparr>NetworkPolicy_Meta := (NetworkPolicy_Meta current)
              \<lparr>Labels := Labels (NetworkPolicy_Meta desired)\<rparr>,
            NetworkPolicy_Spec := NetworkPolicy_Spec desired\<rparr>
      in owned r rt (NetworkPolicy_Meta current) (\<lambda>m. current\<lparr>NetworkPolicy_Meta := m\<rparr>))"

definition networkPolicyEnabled :: "TrussiumRuntime \<Rightarrow> bool" where
  "networkPolicyEnabled rt \<longleftrightarrow>
     (case RuntimeNetworkPolicy (Spec rt) of None \<Rightarrow> False | Some p \<Rightarrow> NetworkPolicy_Enabled p)"

text \<open>The builder's panic, which the guard excludes, is an error of the call like a recovered
  panic.\<close>

definition reconcileNetworkPolicy ::
  "'w TrussiumRuntimeReconciler \<Rightarrow> TrussiumRuntime \<Rightarrow> ('w, goerror option) rm"
where
  "reconcileNetworkPolicy r rt =
     (if \<not> networkPolicyEnabled rt then
        do {
          err \<leftarrow> client_op (CallDelete KNetworkPolicy (ObjectKey (Runtime_Meta rt)))
                   (Delete_NetworkPolicy (Client r) (ObjectKey (Runtime_Meta rt)));
          State_Monad.return (IgnoreNotFound (Client r) err)
        }
      else
        (case buildNetworkPolicy rt of
           None \<Rightarrow> State_Monad.return (Some (APIError ''panic'' ''nil pointer dereference''))
         | Some desired \<Rightarrow>
             (let current = \<lparr>NetworkPolicy_Meta = key_meta (NetworkPolicy_Meta desired),
                             NetworkPolicy_Spec = zero_policy_spec\<rparr>
              in client_op (CallCreateOrUpdate KNetworkPolicy (ObjectKey (NetworkPolicy_Meta current)))
                   (CreateOrUpdate_NetworkPolicy (Client r) current (mutateNetworkPolicy r rt desired)))))"

definition mutateHorizontalPodAutoscaler ::
  "'w TrussiumRuntimeReconciler \<Rightarrow> TrussiumRuntime \<Rightarrow> HorizontalPodAutoscaler \<Rightarrow>
     HorizontalPodAutoscaler \<Rightarrow> goerror + HorizontalPodAutoscaler"
where
  "mutateHorizontalPodAutoscaler r rt desired current =
     (let current = current\<lparr>HPA_Meta := (HPA_Meta current)\<lparr>Labels := Labels (HPA_Meta desired)\<rparr>,
            HPA_Spec := HPA_Spec desired\<rparr>
      in owned r rt (HPA_Meta current) (\<lambda>m. current\<lparr>HPA_Meta := m\<rparr>))"

definition reconcileHorizontalPodAutoscaler ::
  "'w TrussiumRuntimeReconciler \<Rightarrow> TrussiumRuntime \<Rightarrow> ('w, goerror option) rm"
where
  "reconcileHorizontalPodAutoscaler r rt =
     (if \<not> autoscalingEnabled rt then
        do {
          err \<leftarrow> client_op (CallDelete KHorizontalPodAutoscaler (ObjectKey (Runtime_Meta rt)))
                   (Delete_HorizontalPodAutoscaler (Client r) (ObjectKey (Runtime_Meta rt)));
          State_Monad.return (IgnoreNotFound (Client r) err)
        }
      else
        (let desired = buildHorizontalPodAutoscaler rt;
             current = \<lparr>HPA_Meta = key_meta (HPA_Meta desired), HPA_Spec = zero_hpa_spec\<rparr>
         in client_op (CallCreateOrUpdate KHorizontalPodAutoscaler (ObjectKey (HPA_Meta current)))
              (CreateOrUpdate_HorizontalPodAutoscaler (Client r) current
                (mutateHorizontalPodAutoscaler r rt desired))))"

text \<open>\<open>if err := m; err != nil { return fmt.Errorf(prefix + "%w", err) }\<close> followed by the rest.\<close>

definition or_fail ::
  "string \<Rightarrow> ('w, goerror option) rm \<Rightarrow> ('w, goerror option) rm \<Rightarrow> ('w, goerror option) rm"
where
  "or_fail prefix m rest =
     do {
       err \<leftarrow> m;
       case err of
         Some e \<Rightarrow> State_Monad.return (Some (Wrapf prefix e))
       | None \<Rightarrow> rest
     }"

definition reconcile_prefix :: "string \<Rightarrow> TrussiumRuntime \<Rightarrow> string" where
  "reconcile_prefix what rt =
     ''reconcile '' @ what @ '' '' @ Namespace (Runtime_Meta rt) @ ''/'' @ Name (Runtime_Meta rt) @ '': ''"

definition reconcileCoreResources ::
  "'w TrussiumRuntimeReconciler \<Rightarrow> TrussiumRuntime \<Rightarrow> ('w, goerror option) rm"
where
  "reconcileCoreResources r rt =
     or_fail (reconcile_prefix ''ConfigMap'' rt) (reconcileConfigMap r rt)
    (or_fail (reconcile_prefix ''ServiceAccount'' rt) (reconcileServiceAccount r rt)
    (or_fail (reconcile_prefix ''Service'' rt) (reconcileService r rt)
    (or_fail (reconcile_prefix ''Deployment'' rt) (reconcileDeployment r rt)
    (or_fail (reconcile_prefix ''PodDisruptionBudget'' rt) (reconcilePodDisruptionBudget r rt)
    (or_fail (reconcile_prefix ''NetworkPolicy'' rt) (reconcileNetworkPolicy r rt)
    (or_fail (reconcile_prefix ''HorizontalPodAutoscaler'' rt) (reconcileHorizontalPodAutoscaler r rt)
    (State_Monad.return None)))))))"

section \<open>Reconcile\<close>

definition handleReconciliationFailure ::
  "'w TrussiumRuntimeReconciler \<Rightarrow> TrussiumRuntime \<Rightarrow> TrussiumRuntimeStatus \<Rightarrow> goerror \<Rightarrow>
     ('w, goerror option) rm"
where
  "handleReconciliationFailure r rt previousStatus reconciliationError =
     do {
       loaded \<leftarrow> loadRuntimeObservation (Client r) rt;
       let observation =
         (case loaded of
            Inl _ \<Rightarrow> \<lparr>Obs_Deployment = None, Obs_Service = None\<rparr> | Inr observation \<Rightarrow> observation);
       let reconciliationError =
         (case loaded of
            Inl observationError \<Rightarrow> Joined reconciliationError observationError
          | Inr _ \<Rightarrow> reconciliationError);
       desiredStatus \<leftarrow> with_clock
         (buildReconciliationFailureStatus (Client r) rt observation reconciliationError);
       (rt, updated) \<leftarrow> updateRuntimeStatus (Client r) rt desiredStatus;
       let reconciliationError =
         (case updated of
            Inl statusError \<Rightarrow> Joined reconciliationError statusError
          | Inr _ \<Rightarrow> reconciliationError);
       _ \<leftarrow> (if updated = Inr True then recordStatusTransitionEvents r rt previousStatus (Status rt)
             else State_Monad.return ());
       _ \<leftarrow> recordReconciliationFailure r rt reconciliationError;
       State_Monad.return (Some reconciliationError)
     }"

text \<open>The end of a pass, the same statements in \<open>Reconcile\<close> and in
  \<open>reconcileInvalidConfiguration\<close>: observe, build the status, write it, announce it.\<close>

definition finishReconciliation ::
  "'w TrussiumRuntimeReconciler \<Rightarrow> TrussiumRuntime \<Rightarrow> TrussiumRuntimeStatus \<Rightarrow>
     referenceValidationResult \<Rightarrow> ('w, goerror option) rm"
where
  "finishReconciliation r rt previousStatus validation =
     do {
       loaded \<leftarrow> loadRuntimeObservation (Client r) rt;
       case loaded of
         Inl err \<Rightarrow> handleReconciliationFailure r rt previousStatus err
       | Inr observation \<Rightarrow>
           do {
             desiredStatus \<leftarrow> with_clock (buildRuntimeStatus (Client r) rt observation validation);
             (rt, updated) \<leftarrow> updateRuntimeStatus (Client r) rt desiredStatus;
             case updated of
               Inl err \<Rightarrow>
                 do { _ \<leftarrow> recordReconciliationFailure r rt err; State_Monad.return (Some err) }
             | Inr statusUpdated \<Rightarrow>
                 do {
                   _ \<leftarrow> (if statusUpdated
                         then recordStatusTransitionEvents r rt previousStatus (Status rt)
                         else State_Monad.return ());
                   State_Monad.return None
                 }
           }
     }"

definition reconcileInvalidConfiguration ::
  "'w TrussiumRuntimeReconciler \<Rightarrow> TrussiumRuntime \<Rightarrow> TrussiumRuntimeStatus \<Rightarrow>
     referenceValidationResult \<Rightarrow> ('w, goerror option) rm"
where
  "reconcileInvalidConfiguration r rt previousStatus validation =
     finishReconciliation r rt previousStatus validation"

text \<open>The body of \<open>Reconcile\<close>: from the copy of the status on, and the whole of it.\<close>

definition reconcileExisting ::
  "'w TrussiumRuntimeReconciler \<Rightarrow> TrussiumRuntime \<Rightarrow> ('w, goerror option) rm"
where
  "reconcileExisting r rt =
     (let previousStatus = copyRuntimeStatus (Status rt) in
      do {
        validation \<leftarrow> validateSecretReferences (Client r) rt;
        case Err validation of
          Some err \<Rightarrow> handleReconciliationFailure r rt previousStatus err
        | None \<Rightarrow>
            if \<not> Valid validation
            then reconcileInvalidConfiguration r rt previousStatus validation
            else
              do {
                err \<leftarrow> reconcileCoreResources r rt;
                case err of
                  Some err \<Rightarrow> handleReconciliationFailure r rt previousStatus err
                | None \<Rightarrow> finishReconciliation r rt previousStatus validation
              }
      })"

definition reconcileRuntime ::
  "'w TrussiumRuntimeReconciler \<Rightarrow> NamespacedName \<Rightarrow> ('w, goerror option) rm"
where
  "reconcileRuntime r req =
     do {
       got \<leftarrow> client_op (CallGet KTrussiumRuntime req) (Get_Runtime (Client r) req);
       case got of
         Inl err \<Rightarrow> State_Monad.return (IgnoreNotFound (Client r) (Some err))
       | Inr rt \<Rightarrow>
           if \<not> IsZero (DeletionTimestamp (Runtime_Meta rt)) then State_Monad.return None
           else reconcileExisting r rt
     }"

text \<open>
  \<open>Reconcile\<close> is that body between the start of the timer and the deferred function, which counts
  the outcome and observes the elapsed time (here in nanoseconds).
\<close>

definition metricResult :: "goerror option \<Rightarrow> string" where
  "metricResult reconcileErr = (if reconcileErr \<noteq> None then ''error'' else ''success'')"

definition Reconcile ::
  "'w TrussiumRuntimeReconciler \<Rightarrow> NamespacedName \<Rightarrow> ('w, goerror option) rm"
where
  "Reconcile r req =
     do {
       startedAt \<leftarrow> time_Now;
       reconcileErr \<leftarrow> reconcileRuntime r req;
       let label = metricResult reconcileErr;
       _ \<leftarrow> modify (\<lambda>s. s\<lparr>reconciliations_total :=
              (reconciliations_total s)(label := reconciliations_total s label + 1)\<rparr>);
       now \<leftarrow> time_Now;
       _ \<leftarrow> modify (\<lambda>s. s\<lparr>reconciliation_durations :=
              reconciliation_durations s @ [(label, now - startedAt)]\<rparr>);
       State_Monad.return reconcileErr
     }"

section \<open>Watches\<close>

fun secretRequests :: "TrussiumRuntime list \<Rightarrow> string \<Rightarrow> NamespacedName list" where
  "secretRequests [] secretName = []"
| "secretRequests (rt # items) secretName =
     (if \<not> runtimeReferencesSecret rt secretName then secretRequests items secretName
      else ObjectKey (Runtime_Meta rt) # secretRequests items secretName)"

definition mapSecretToRuntimes ::
  "'w TrussiumRuntimeReconciler \<Rightarrow> ObjectMeta \<Rightarrow> ('w, NamespacedName list) rm"
where
  "mapSecretToRuntimes r secret =
     do {
       listed \<leftarrow> client_op (CallList KTrussiumRuntime (Namespace secret))
         (List_Runtimes (Client r) (Namespace secret));
       State_Monad.return
         (case listed of Inl err \<Rightarrow> [] | Inr items \<Rightarrow> secretRequests items (Name secret))
     }"

datatype predicate = GenerationChangedPredicate
datatype map_function = MapSecretToRuntimes

record controller_setup =
  For :: "kind \<times> predicate list"
  Owns :: "kind list"
  Watches :: "(kind \<times> map_function) list"
  Named :: string

definition SetupWithManager :: controller_setup where
  "SetupWithManager =
     \<lparr>For = (KTrussiumRuntime, [GenerationChangedPredicate]),
      Owns = [KConfigMap, KServiceAccount, KService, KDeployment, KPodDisruptionBudget,
              KNetworkPolicy, KHorizontalPodAutoscaler],
      Watches = [(KSecret, MapSecretToRuntimes)],
      Named = ''trussiumruntime''\<rparr>"

text \<open>The access the markers above \<open>Reconcile\<close> ask for: API group, resource and verbs.\<close>

definition rbac_markers :: "(string \<times> string list \<times> string list) list" where
  "rbac_markers =
     [(''runtime.trussium.io'', [''trussiumruntimes''], [''get'', ''list'', ''watch'']),
      (''runtime.trussium.io'', [''trussiumruntimes/status''], [''get'', ''update'', ''patch'']),
      ('''', [''configmaps'', ''serviceaccounts'', ''services''],
         [''get'', ''list'', ''watch'', ''create'', ''update'', ''patch'', ''delete'']),
      ('''', [''secrets''], [''get'', ''list'', ''watch'']),
      (''apps'', [''deployments''],
         [''get'', ''list'', ''watch'', ''create'', ''update'', ''patch'', ''delete'']),
      (''events.k8s.io'', [''events''], [''create'', ''patch'']),
      (''policy'', [''poddisruptionbudgets''],
         [''get'', ''list'', ''watch'', ''create'', ''update'', ''patch'', ''delete'']),
      (''networking.k8s.io'', [''networkpolicies''],
         [''get'', ''list'', ''watch'', ''create'', ''update'', ''patch'', ''delete'']),
      (''autoscaling'', [''horizontalpodautoscalers''],
         [''get'', ''list'', ''watch'', ''create'', ''update'', ''patch'', ''delete''])]"

definition permits :: "string \<times> string \<Rightarrow> string \<Rightarrow> bool" where
  "permits res verb \<longleftrightarrow>
     list_ex (\<lambda>(g, rs, vs). g = fst res \<and> snd res \<in> set rs \<and> verb \<in> set vs) rbac_markers"

end
