(* ===== verification/Effects.thy ===== *)
theory Effects
  imports Kube_Library
begin

text \<open>
  Reasoning about the effects of a computation without following its values.

  The locale \<open>effect_preorder\<close> is the interface: a relation between the state before and after that
  holds of doing nothing and of doing two things in a row.  It proves, once, that a computation stays
  within the relation when its parts do.  It is interpreted on \<open>trace P Q\<close>: the computation only
  appended client calls that satisfy \<open>P\<close> and Events that satisfy \<open>Q\<close>, and left the metrics
  alone.
\<close>

definition within :: "('s \<Rightarrow> 's \<Rightarrow> bool) \<Rightarrow> ('s, 'a) state \<Rightarrow> bool" where
  "within R m \<longleftrightarrow> (\<forall>s. R s (snd (run_state m s)))"

lemma withinD: "within R m \<Longrightarrow> R s (snd (run_state m s))"
  by (simp add: within_def)

lemma run_bind_fst_snd:
  "run_state (State_Monad.bind m f) s = run_state (f (fst (run_state m s))) (snd (run_state m s))"
  by (simp add: case_prod_beta)

locale effect_preorder =
  fixes R :: "'s \<Rightarrow> 's \<Rightarrow> bool"
  assumes effect_refl: "R s s"
    and effect_trans: "R s t \<Longrightarrow> R t u \<Longrightarrow> R s u"
begin

lemma within_return: "within R (State_Monad.return a)"
  by (simp add: within_def effect_refl)

lemma within_bind:
  assumes "within R m" and "\<And>a. within R (f a)"
  shows "within R (State_Monad.bind m f)"
  unfolding within_def run_bind_fst_snd
  using assms by (blast intro: withinD effect_trans)

lemma within_if: "within R a \<Longrightarrow> within R b \<Longrightarrow> within R (if c then a else b)"
  by simp

lemma within_option:
  "within R a \<Longrightarrow> (\<And>x. within R (f x)) \<Longrightarrow> within R (case v of None \<Rightarrow> a | Some x \<Rightarrow> f x)"
  by (simp split: option.split)

lemma within_sum:
  "(\<And>x. within R (f x)) \<Longrightarrow> (\<And>y. within R (g y)) \<Longrightarrow> within R (case v of Inl x \<Rightarrow> f x | Inr y \<Rightarrow> g y)"
  by (simp split: sum.split)

lemma within_prod: "(\<And>x y. within R (f x y)) \<Longrightarrow> within R (case v of (x, y) \<Rightarrow> f x y)"
  by (simp split: prod.split)

lemma within_let: "(\<And>x. within R (f x)) \<Longrightarrow> within R (let x = v in f x)"
  by simp

lemmas within_rules = within_return within_bind within_if within_option within_sum within_prod
  within_let

end

definition trace :: "(api_call \<Rightarrow> bool) \<Rightarrow> (event \<Rightarrow> bool) \<Rightarrow> 'w rstate \<Rightarrow> 'w rstate \<Rightarrow> bool" where
  "trace P Q s s' \<longleftrightarrow>
     (\<exists>cs es. calls s' = calls s @ cs \<and> list_all P cs \<and>
        recorded s' = recorded s @ es \<and> list_all Q es \<and>
        reconciliations_total s' = reconciliations_total s \<and>
        reconciliation_durations s' = reconciliation_durations s)"

interpretation tr: effect_preorder "trace P Q" for P Q
proof
  fix s :: "'w rstate"
  show "trace P Q s s" by (simp add: trace_def)
next
  fix s t u :: "'w rstate"
  assume "trace P Q s t" and "trace P Q t u"
  then obtain cs es cs' es' where
    "calls t = calls s @ cs" "list_all P cs" "recorded t = recorded s @ es" "list_all Q es"
    "calls u = calls t @ cs'" "list_all P cs'" "recorded u = recorded t @ es'" "list_all Q es'"
    "reconciliations_total t = reconciliations_total s"
    "reconciliations_total u = reconciliations_total t"
    "reconciliation_durations t = reconciliation_durations s"
    "reconciliation_durations u = reconciliation_durations t"
    unfolding trace_def by blast
  then have "calls u = calls s @ (cs @ cs')" "list_all P (cs @ cs')"
    "recorded u = recorded s @ (es @ es')" "list_all Q (es @ es')"
    "reconciliations_total u = reconciliations_total s"
    "reconciliation_durations u = reconciliation_durations s"
    by simp_all
  then show "trace P Q s u" unfolding trace_def by blast
qed

lemma trace_client_op: "P c \<Longrightarrow> within (trace P Q) (client_op c f)"
  by (simp add: within_def trace_def)

lemma trace_with_clock: "within (trace P Q) (with_clock f)"
  by (simp add: within_def trace_def)

lemma trace_Eventf: "Q e \<Longrightarrow> within (trace P Q) (Eventf e)"
  by (simp add: within_def trace_def)

lemmas trace_rules = tr.within_rules trace_client_op trace_with_clock trace_Eventf

lemma trace_mono: "trace P Q s s' \<Longrightarrow> (\<And>c. P c \<Longrightarrow> P' c) \<Longrightarrow> (\<And>e. Q e \<Longrightarrow> Q' e) \<Longrightarrow> trace P' Q' s s'"
  unfolding trace_def by (metis list.pred_mono_strong)

end
