(* ===== verification/Controller_Facts.thy ===== *)
theory Controller_Facts
  imports Controller Effects
begin

text \<open>
  What the reconciler does, whatever the cluster answers.  Every client call is confined to the request
  (\<open>confined\<close>); the managed resources are written in a fixed order that stops at the first error; the
  early exits touch nothing.
\<close>

section \<open>Confinement of the calls\<close>

text \<open>The calls a reconciliation of \<open>req\<close> may make: reads of the resource, of Secrets in its
  namespace, of its Deployment and Service, and writes of objects that have its name.\<close>

fun confined :: "NamespacedName \<Rightarrow> api_call \<Rightarrow> bool" where
  "confined req (CallGet k key) \<longleftrightarrow>
     (if k = KSecret then Key_Namespace key = Key_Namespace req
      else k \<in> {KTrussiumRuntime, KDeployment, KService} \<and> key = req)"
| "confined req (CallList k ns) \<longleftrightarrow> False"
| "confined req (CallCreateOrUpdate k key) \<longleftrightarrow> k \<in> set (Owns SetupWithManager) \<and> key = req"
| "confined req (CallDelete k key) \<longleftrightarrow> k \<in> {KNetworkPolicy, KHorizontalPodAutoscaler} \<and> key = req"
| "confined req (CallStatusUpdate key) \<longleftrightarrow> key = req"

definition writes_managed :: "api_call \<Rightarrow> bool" where
  "writes_managed c \<longleftrightarrow> (case c of CallCreateOrUpdate _ _ \<Rightarrow> True | CallDelete _ _ \<Rightarrow> True | _ \<Rightarrow> False)"

text \<open>The calls of a pass that writes no managed object.\<close>

definition reporting :: "NamespacedName \<Rightarrow> api_call \<Rightarrow> bool" where
  "reporting req c \<longleftrightarrow> confined req c \<and> \<not> writes_managed c"

lemma reporting_simps [simp]:
  "reporting req (CallGet k key) = confined req (CallGet k key)"
  "reporting req (CallStatusUpdate key) = (key = req)"
  by (simp_all add: reporting_def writes_managed_def)

lemma key_of_managed [simp]:
  "ObjectKey (key_meta (managed_meta rt)) = ObjectKey (Runtime_Meta rt)"
  "ObjectKey (managed_meta rt) = ObjectKey (Runtime_Meta rt)"
  by (simp_all add: ObjectKey_def key_meta_def managed_meta_def object_meta_def)

lemma built_meta [simp]:
  "ConfigMap_Meta (buildConfigMap rt) = managed_meta rt"
  "ServiceAccount_Meta (buildServiceAccount rt) = managed_meta rt"
  "Service_Meta (buildService rt) = managed_meta rt"
  "Deployment_Meta (buildDeployment rt) = managed_meta rt"
  "PDB_Meta (buildPodDisruptionBudget rt) = managed_meta rt"
  "HPA_Meta (buildHorizontalPodAutoscaler rt) = managed_meta rt"
  "buildNetworkPolicy rt = Some np \<Longrightarrow> NetworkPolicy_Meta np = managed_meta rt"
  by (auto simp: buildConfigMap_def buildServiceAccount_def buildService_def buildDeployment_def
      buildPodDisruptionBudget_def buildHorizontalPodAutoscaler_def buildNetworkPolicy_def
      split: option.splits)

text \<open>What the parts of a pass may call, for any predicate that allows the calls they make.\<close>

lemma trace_validateSecretNames:
  assumes "\<And>n. n \<in> set names \<Longrightarrow> P (CallGet KSecret \<lparr>Key_Namespace = ns, Key_Name = n\<rparr>)"
  shows "within (trace P Q) (validateSecretNames K ns names)"
  using assms
proof (induction names)
  case Nil
  then show ?case by (simp add: tr.within_return)
next
  case (Cons n names)
  then show ?case
    by (auto intro!: trace_rules simp: Let_def)
qed

lemma trace_loadRuntimeObservation:
  assumes "P (CallGet KDeployment (ObjectKey (Runtime_Meta rt)))"
    and "P (CallGet KService (ObjectKey (Runtime_Meta rt)))"
  shows "within (trace P Q) (loadRuntimeObservation K rt)"
  using assms unfolding loadRuntimeObservation_def loadObservedService_def Let_def
  by (intro trace_rules)

lemma trace_updateRuntimeStatus:
  assumes "P (CallStatusUpdate (ObjectKey (Runtime_Meta rt)))"
  shows "within (trace P Q) (updateRuntimeStatus K rt desired)"
  using assms unfolding updateRuntimeStatus_def Let_def
  by (auto intro!: trace_rules)

lemma trace_recordStatusTransitionEvents:
  "within (trace P (\<lambda>_. True)) (recordStatusTransitionEvents r rt p c)"
  by (simp add: within_def trace_def list_all_iff)

lemma trace_recordReconciliationFailure:
  "within (trace P (\<lambda>_. True)) (recordReconciliationFailure r rt err)"
  by (simp add: within_def trace_def list_all_iff)

lemmas trace_events = trace_recordStatusTransitionEvents trace_recordReconciliationFailure

lemma trace_handleReconciliationFailure:
  assumes "P (CallGet KDeployment (ObjectKey (Runtime_Meta rt)))"
    and "P (CallGet KService (ObjectKey (Runtime_Meta rt)))"
    and "P (CallStatusUpdate (ObjectKey (Runtime_Meta rt)))"
  shows "within (trace P (\<lambda>_. True)) (handleReconciliationFailure r rt prev err)"
  unfolding handleReconciliationFailure_def Let_def
  by (intro trace_rules trace_events trace_loadRuntimeObservation trace_updateRuntimeStatus assms)

lemma trace_finishReconciliation:
  assumes "P (CallGet KDeployment (ObjectKey (Runtime_Meta rt)))"
    and "P (CallGet KService (ObjectKey (Runtime_Meta rt)))"
    and "P (CallStatusUpdate (ObjectKey (Runtime_Meta rt)))"
  shows "within (trace P (\<lambda>_. True)) (finishReconciliation r rt prev val)"
  unfolding finishReconciliation_def Let_def
  by (intro trace_rules trace_events trace_loadRuntimeObservation trace_updateRuntimeStatus
      trace_handleReconciliationFailure assms)

section \<open>The managed resources\<close>

text \<open>The seven calls of \<open>reconcileCoreResources\<close>, in order, with the kind each error names.\<close>

definition core_calls :: "TrussiumRuntime \<Rightarrow> (string \<times> api_call) list" where
  "core_calls rt =
     (let key = ObjectKey (Runtime_Meta rt) in
      [(''ConfigMap'', CallCreateOrUpdate KConfigMap key),
       (''ServiceAccount'', CallCreateOrUpdate KServiceAccount key),
       (''Service'', CallCreateOrUpdate KService key),
       (''Deployment'', CallCreateOrUpdate KDeployment key),
       (''PodDisruptionBudget'', CallCreateOrUpdate KPodDisruptionBudget key),
       (''NetworkPolicy'',
          if networkPolicyEnabled rt then CallCreateOrUpdate KNetworkPolicy key
          else CallDelete KNetworkPolicy key),
       (''HorizontalPodAutoscaler'',
          if autoscalingEnabled rt then CallCreateOrUpdate KHorizontalPodAutoscaler key
          else CallDelete KHorizontalPodAutoscaler key)])"

text \<open>A computation that makes exactly one call and changes nothing else but the world.\<close>

definition one_call :: "api_call \<Rightarrow> ('w, 'a) rm \<Rightarrow> bool" where
  "one_call c m \<longleftrightarrow>
     (\<forall>s. \<exists>w. snd (run_state m s) = s\<lparr>world := w, calls := calls s @ [c]\<rparr>)"

lemma one_call_client_op: "one_call c (client_op c f)"
  by (auto simp: one_call_def)

lemma one_call_client_op_bind: "one_call c (do { a \<leftarrow> client_op c f; State_Monad.return (g a) })"
  by (auto simp: one_call_def)

lemma one_call_resources:
  "one_call (CallCreateOrUpdate KConfigMap (ObjectKey (Runtime_Meta rt))) (reconcileConfigMap r rt)"
  "one_call (CallCreateOrUpdate KServiceAccount (ObjectKey (Runtime_Meta rt)))
     (reconcileServiceAccount r rt)"
  "one_call (CallCreateOrUpdate KService (ObjectKey (Runtime_Meta rt))) (reconcileService r rt)"
  "one_call (CallCreateOrUpdate KDeployment (ObjectKey (Runtime_Meta rt))) (reconcileDeployment r rt)"
  "one_call (CallCreateOrUpdate KPodDisruptionBudget (ObjectKey (Runtime_Meta rt)))
     (reconcilePodDisruptionBudget r rt)"
  by (simp_all add: reconcileConfigMap_def reconcileServiceAccount_def reconcileService_def
      reconcileDeployment_def reconcilePodDisruptionBudget_def Let_def one_call_client_op)

lemma networkPolicyEnabled_built: "networkPolicyEnabled rt \<Longrightarrow> \<exists>np. buildNetworkPolicy rt = Some np"
  by (auto simp: networkPolicyEnabled_def buildNetworkPolicy_def split: option.splits)

lemma one_call_reconcileNetworkPolicy:
  "one_call (if networkPolicyEnabled rt
       then CallCreateOrUpdate KNetworkPolicy (ObjectKey (Runtime_Meta rt))
       else CallDelete KNetworkPolicy (ObjectKey (Runtime_Meta rt))) (reconcileNetworkPolicy r rt)"
proof (cases "networkPolicyEnabled rt")
  case True
  then obtain np where "buildNetworkPolicy rt = Some np" using networkPolicyEnabled_built by blast
  with True show ?thesis by (simp add: reconcileNetworkPolicy_def one_call_client_op)
qed (simp add: reconcileNetworkPolicy_def one_call_client_op_bind)

lemma one_call_reconcileHorizontalPodAutoscaler:
  "one_call (if autoscalingEnabled rt
       then CallCreateOrUpdate KHorizontalPodAutoscaler (ObjectKey (Runtime_Meta rt))
       else CallDelete KHorizontalPodAutoscaler (ObjectKey (Runtime_Meta rt)))
     (reconcileHorizontalPodAutoscaler r rt)"
  by (simp add: reconcileHorizontalPodAutoscaler_def Let_def one_call_client_op one_call_client_op_bind)

text \<open>
  A chain of such steps: the calls made are those of the steps up to and including the first that
  fails, and the error is that step's, with its name in front.
\<close>

definition chain_outcome ::
  "(string \<Rightarrow> string) \<Rightarrow> (string \<times> api_call) list \<Rightarrow> ('w, goerror option) rm \<Rightarrow> bool"
where
  "chain_outcome name steps m \<longleftrightarrow>
     (\<forall>s. case run_state m s of (result, s') \<Rightarrow>
        \<exists>n \<le> length steps.
          (\<exists>w. s' = s\<lparr>world := w, calls := calls s @ map snd (take n steps)\<rparr>) \<and>
          (case result of
             None \<Rightarrow> n = length steps
           | Some err \<Rightarrow> 0 < n \<and> (\<exists>e. err = Wrapf (name (fst (steps ! (n - 1)))) e)))"

lemma chain_outcome_return: "chain_outcome name [] (State_Monad.return None)"
proof -
  have "\<exists>w. s = s\<lparr>world := w\<rparr>" for s :: "'a rstate" by (rule exI [of _ "world s"]) simp
  then show ?thesis by (simp add: chain_outcome_def)
qed

lemma chain_outcome_or_fail:
  assumes "one_call c m" and "chain_outcome name steps rest"
  shows "chain_outcome name ((k, c) # steps) (or_fail (name k) m rest)"
  unfolding chain_outcome_def
proof (rule allI)
  fix s :: "'a rstate"
  obtain e1 s1 where m: "run_state m s = (e1, s1)" by (cases "run_state m s")
  obtain w where s1: "s1 = s\<lparr>world := w, calls := calls s @ [c]\<rparr>"
    using assms(1) m unfolding one_call_def by (metis snd_conv)
  show "case run_state (or_fail (name k) m rest) s of (result, s') \<Rightarrow>
        \<exists>n \<le> length ((k, c) # steps).
          (\<exists>w. s' = s\<lparr>world := w, calls := calls s @ map snd (take n ((k, c) # steps))\<rparr>) \<and>
          (case result of
             None \<Rightarrow> n = length ((k, c) # steps)
           | Some err \<Rightarrow> 0 < n \<and> (\<exists>e. err = Wrapf (name (fst (((k, c) # steps) ! (n - 1)))) e))"
  proof (cases e1)
    case (Some e)
    then show ?thesis
      by (auto simp: or_fail_def m s1 intro!: exI [of _ "1::nat"])
  next
    case None
    obtain e2 s2 where rest: "run_state rest s1 = (e2, s2)" by (cases "run_state rest s1")
    with assms(2) [unfolded chain_outcome_def, rule_format, of s1] obtain n w' where
      n: "n \<le> length steps" "s2 = s1\<lparr>world := w', calls := calls s1 @ map snd (take n steps)\<rparr>"
      "case e2 of None \<Rightarrow> n = length steps
         | Some err \<Rightarrow> 0 < n \<and> (\<exists>e. err = Wrapf (name (fst (steps ! (n - 1)))) e)"
      by auto
    have "run_state (or_fail (name k) m rest) s = (e2, s2)"
      using None by (simp add: or_fail_def m rest)
    moreover have "s2 = s\<lparr>world := w', calls := calls s @ map snd (take (Suc n) ((k, c) # steps))\<rparr>"
      by (simp add: n s1)
    ultimately show ?thesis
      using n by (auto intro!: exI [of _ "Suc n"] split: option.splits simp: nth_Cons')
  qed
qed

lemma chain_reconcileCoreResources:
  "chain_outcome (\<lambda>k. reconcile_prefix k rt) (core_calls rt) (reconcileCoreResources r rt)"
  unfolding core_calls_def reconcileCoreResources_def Let_def
  by (intro chain_outcome_or_fail chain_outcome_return one_call_resources
      one_call_reconcileNetworkPolicy one_call_reconcileHorizontalPodAutoscaler)

lemma trace_one_call: "one_call c m \<Longrightarrow> P c \<Longrightarrow> within (trace P Q) m"
  unfolding within_def
proof (rule allI)
  fix s :: "'a rstate"
  assume "one_call c m" and "P c"
  then obtain w where "snd (run_state m s) = s\<lparr>world := w, calls := calls s @ [c]\<rparr>"
    unfolding one_call_def by blast
  with \<open>P c\<close> show "trace P Q s (snd (run_state m s))" by (simp add: trace_def)
qed

lemma trace_or_fail:
  "within (trace P Q) m \<Longrightarrow> within (trace P Q) rest \<Longrightarrow> within (trace P Q) (or_fail prefix m rest)"
  unfolding or_fail_def by (intro trace_rules)

lemma trace_reconcileCoreResources:
  assumes "\<And>c. c \<in> set (map snd (core_calls rt)) \<Longrightarrow> P c"
  shows "within (trace P Q) (reconcileCoreResources r rt)"
  unfolding reconcileCoreResources_def
  by (intro trace_or_fail tr.within_return
      one_call_resources [THEN trace_one_call]
      one_call_reconcileNetworkPolicy [THEN trace_one_call]
      one_call_reconcileHorizontalPodAutoscaler [THEN trace_one_call] assms)
    (simp_all add: core_calls_def Let_def)

section \<open>The whole pass\<close>

text \<open>The calls a pass may make once the resource has been read.\<close>

lemma core_calls_confined:
  "c \<in> set (map snd (core_calls rt)) \<Longrightarrow> confined (ObjectKey (Runtime_Meta rt)) c"
  by (auto simp: core_calls_def Let_def SetupWithManager_def)

lemma confined_reads:
  "confined (ObjectKey m) (CallGet KDeployment (ObjectKey m))"
  "confined (ObjectKey m) (CallGet KService (ObjectKey m))"
  "confined (ObjectKey m) (CallGet KTrussiumRuntime (ObjectKey m))"
  "confined (ObjectKey m) (CallStatusUpdate (ObjectKey m))"
  "confined (ObjectKey m) (CallGet KSecret \<lparr>Key_Namespace = Namespace m, Key_Name = n\<rparr>)"
  by (simp_all add: ObjectKey_def)

text \<open>A client whose \<open>Get\<close> answers with the object of that name and namespace.\<close>

definition get_respects_key :: "'w kube_api \<Rightarrow> bool" where
  "get_respects_key K \<longleftrightarrow>
     (\<forall>req w rt. fst (Get_Runtime K req w) = Inr rt \<longrightarrow> ObjectKey (Runtime_Meta rt) = req)"

lemma trace_after_get:
  "within (trace (confined (ObjectKey (Runtime_Meta rt))) (\<lambda>_. True)) (validateSecretReferences K rt)"
  "within (trace (confined (ObjectKey (Runtime_Meta rt))) (\<lambda>_. True))
     (handleReconciliationFailure r rt prev err)"
  "within (trace (confined (ObjectKey (Runtime_Meta rt))) (\<lambda>_. True))
     (finishReconciliation r rt prev val)"
  "within (trace (confined (ObjectKey (Runtime_Meta rt))) (\<lambda>_. True)) (reconcileCoreResources r rt)"
  unfolding validateSecretReferences_def
  by (intro trace_validateSecretNames trace_handleReconciliationFailure trace_finishReconciliation
      trace_reconcileCoreResources core_calls_confined confined_reads; assumption)+

lemma trace_reconcileExisting:
  "within (trace (confined (ObjectKey (Runtime_Meta rt))) (\<lambda>_. True)) (reconcileExisting r rt)"
  unfolding reconcileExisting_def reconcileInvalidConfiguration_def Let_def
  by (intro trace_rules trace_after_get)

text \<open>The state after the first read, and the pass in terms of it.\<close>

definition after_get ::
  "'w TrussiumRuntimeReconciler \<Rightarrow> NamespacedName \<Rightarrow> 'w rstate \<Rightarrow> 'w rstate"
where
  "after_get r req s =
     s\<lparr>world := snd (Get_Runtime (Client r) req (world s)),
       calls := calls s @ [CallGet KTrussiumRuntime req]\<rparr>"

lemma run_reconcileRuntime:
  "run_state (reconcileRuntime r req) s =
     (case fst (Get_Runtime (Client r) req (world s)) of
        Inl err \<Rightarrow> (IgnoreNotFound (Client r) (Some err), after_get r req s)
      | Inr rt \<Rightarrow>
          if \<not> IsZero (DeletionTimestamp (Runtime_Meta rt)) then (None, after_get r req s)
          else run_state (reconcileExisting r rt) (after_get r req s))"
  by (simp add: reconcileRuntime_def after_get_def split: sum.split)

lemma trace_after_get_state: "trace (confined req) Q s (after_get r req s)"
  by (simp add: trace_def after_get_def)

lemma trace_reconcileRuntime:
  assumes "get_respects_key (Client r)"
  shows "trace (confined req) (\<lambda>_. True) s (snd (run_state (reconcileRuntime r req) s))"
proof (cases "fst (Get_Runtime (Client r) req (world s))")
  case (Inl err)
  then show ?thesis by (simp add: run_reconcileRuntime trace_after_get_state)
next
  case (Inr rt)
  with assms have "ObjectKey (Runtime_Meta rt) = req" by (auto simp: get_respects_key_def)
  then have "trace (confined req) (\<lambda>_. True) (after_get r req s)
      (snd (run_state (reconcileExisting r rt) (after_get r req s)))"
    using withinD [OF trace_reconcileExisting [of rt r]] by simp
  with trace_after_get_state [of req "\<lambda>_. True" s r]
  have "trace (confined req) (\<lambda>_. True) s (snd (run_state (reconcileExisting r rt) (after_get r req s)))"
    by (rule tr.effect_trans)
  with Inr show ?thesis by (simp add: run_reconcileRuntime trace_after_get_state)
qed

text \<open>The metrics around the pass.\<close>

lemma run_Reconcile:
  "run_state (Reconcile r req) s =
     (let (err, s') = run_state (reconcileRuntime r req) (s\<lparr>rclock := tick (rclock s)\<rparr>);
          label = metricResult err
      in (err, s'\<lparr>rclock := tick (rclock s'),
            reconciliations_total :=
              (reconciliations_total s')(label := reconciliations_total s' label + 1),
            reconciliation_durations :=
              reconciliation_durations s' @ [(label, rclock s' 0 - rclock s 0)]\<rparr>))"
  by (simp add: Reconcile_def Let_def case_prod_beta)

end
