(* ===== verification/Cluster.thy ===== *)
theory Cluster
  imports Controller_Facts
begin

text \<open>
  An API server and a client library that do what their documentation says, as one instance of the
  record \<open>kube_api\<close>: objects are kept per kind and key, \<open>CreateOrUpdate\<close> creates what is missing,
  updates what the mutation changes and leaves the rest alone, the server advances the generation of a
  Deployment when its specification changes, and \<open>SetControllerReference\<close> refuses an object that
  another controller owns.  It shows that the hypotheses of the other theories can hold, and it is the
  world in which convergence is proved.

  Interfaces.  \<open>object_store\<close> states what one kind of object promises its clients, \<open>settling\<close> adds a
  mutation that is idempotent up to what the server does, and \<open>owner_references\<close> states what
  \<open>SetControllerReference\<close> promises.  They are interpreted on the API server for all seven managed
  kinds with the mutations of the controller.
\<close>

section \<open>Errors\<close>

primrec memory_IsNotFound :: "goerror \<Rightarrow> bool" where
  "memory_IsNotFound (APIError reason msg) \<longleftrightarrow> reason = ''NotFound''"
| "memory_IsNotFound (Wrapf prefix e) \<longleftrightarrow> memory_IsNotFound e"
| "memory_IsNotFound (Joined e f) \<longleftrightarrow> memory_IsNotFound e \<or> memory_IsNotFound f"

definition memory_IgnoreNotFound :: "goerror option \<Rightarrow> goerror option" where
  "memory_IgnoreNotFound err =
     (case err of None \<Rightarrow> None | Some e \<Rightarrow> if memory_IsNotFound e then None else Some e)"

definition not_found :: "string \<Rightarrow> NamespacedName \<Rightarrow> goerror" where
  "not_found what key = APIError ''NotFound'' (what @ '' '' @ Quote (Key_Name key) @ '' not found'')"

section \<open>Owner references\<close>

definition same_owner :: "OwnerReference \<Rightarrow> OwnerReference \<Rightarrow> bool" where
  "same_owner a b \<longleftrightarrow> Owner_Kind a = Owner_Kind b \<and> Owner_Name a = Owner_Name b"

fun upsert_owner :: "OwnerReference \<Rightarrow> OwnerReference list \<Rightarrow> OwnerReference list" where
  "upsert_owner ref [] = [ref]"
| "upsert_owner ref (x # xs) = (if same_owner x ref then ref # xs else x # upsert_owner ref xs)"

definition controller_of :: "ObjectMeta \<Rightarrow> OwnerReference option" where
  "controller_of m = List.find Owner_Controller (OwnerReferences m)"

definition owner_reference :: "TrussiumRuntime \<Rightarrow> OwnerReference" where
  "owner_reference rt =
     \<lparr>Owner_Kind = ''TrussiumRuntime'', Owner_Name = Name (Runtime_Meta rt),
      Owner_UID = UID (Runtime_Meta rt), Owner_Controller = True\<rparr>"

definition memory_SetControllerReference :: "TrussiumRuntime \<Rightarrow> ObjectMeta \<Rightarrow> goerror + ObjectMeta" where
  "memory_SetControllerReference rt m =
     (let ref = owner_reference rt in
      if Namespace m \<noteq> Namespace (Runtime_Meta rt)
      then Inl (APIError ''Invalid'' ''cross-namespace owner references are disallowed'')
      else
        (case controller_of m of
           Some c \<Rightarrow>
             if \<not> same_owner c ref then Inl (APIError ''AlreadyOwned'' ''object is already owned'')
             else Inr (m\<lparr>OwnerReferences := upsert_owner ref (OwnerReferences m)\<rparr>)
         | None \<Rightarrow> Inr (m\<lparr>OwnerReferences := upsert_owner ref (OwnerReferences m)\<rparr>)))"

definition owned_by :: "TrussiumRuntime \<Rightarrow> ObjectMeta \<Rightarrow> bool" where
  "owned_by rt m \<longleftrightarrow> controller_of m = Some (owner_reference rt)"

section \<open>Objects\<close>

record cluster =
  cl_runtimes :: "NamespacedName \<Rightarrow> TrussiumRuntime option"
  cl_secrets :: "NamespacedName \<Rightarrow> Secret option"
  cl_configmaps :: "NamespacedName \<Rightarrow> ConfigMap option"
  cl_serviceaccounts :: "NamespacedName \<Rightarrow> ServiceAccount option"
  cl_services :: "NamespacedName \<Rightarrow> Service option"
  cl_deployments :: "NamespacedName \<Rightarrow> Deployment option"
  cl_budgets :: "NamespacedName \<Rightarrow> PodDisruptionBudget option"
  cl_policies :: "NamespacedName \<Rightarrow> NetworkPolicy option"
  cl_autoscalers :: "NamespacedName \<Rightarrow> HorizontalPodAutoscaler option"
  cl_runtime_keys :: "NamespacedName list"

definition read_object ::
  "string \<Rightarrow> (cluster \<Rightarrow> NamespacedName \<Rightarrow> 'o option) \<Rightarrow> NamespacedName \<Rightarrow> cluster \<Rightarrow>
     (goerror + 'o) \<times> cluster"
where
  "read_object what objects key w =
     (case objects w key of None \<Rightarrow> Inl (not_found what key) | Some x \<Rightarrow> Inr x, w)"

definition upsert ::
  "('o \<Rightarrow> ObjectMeta) \<Rightarrow> ('o option \<Rightarrow> 'o \<Rightarrow> 'o) \<Rightarrow> 'o \<Rightarrow> ('o \<Rightarrow> goerror + 'o) \<Rightarrow>
     (NamespacedName \<Rightarrow> 'o option) \<Rightarrow> goerror option \<times> (NamespacedName \<Rightarrow> 'o option)"
where
  "upsert meta admit current mutate objects =
     (let key = ObjectKey (meta current); old = objects key in
      case mutate (case old of None \<Rightarrow> current | Some x \<Rightarrow> x) of
        Inl err \<Rightarrow> (Some err, objects)
      | Inr new \<Rightarrow>
          if ObjectKey (meta new) \<noteq> key
          then (Some (APIError ''MutateFn'' ''MutateFn cannot mutate object name and/or object namespace''),
                objects)
          else if old = Some new then (None, objects)
          else (None, objects(key := Some (admit old new))))"

text \<open>The server stores an object as it is; for a Deployment it keeps count of the specifications.\<close>

definition admit_plain :: "'o option \<Rightarrow> 'o \<Rightarrow> 'o" where
  "admit_plain old new = new"

definition admit_deployment :: "Deployment option \<Rightarrow> Deployment \<Rightarrow> Deployment" where
  "admit_deployment old new =
     new\<lparr>Deployment_Meta := (Deployment_Meta new)
       \<lparr>Generation :=
          (case old of
             None \<Rightarrow> 1
           | Some d \<Rightarrow>
               if Deployment_Spec d = Deployment_Spec new then Generation (Deployment_Meta d)
               else Generation (Deployment_Meta d) + 1)\<rparr>\<rparr>"

definition upsert_in ::
  "(cluster \<Rightarrow> NamespacedName \<Rightarrow> 'o option) \<Rightarrow> ((NamespacedName \<Rightarrow> 'o option) \<Rightarrow> cluster \<Rightarrow> cluster) \<Rightarrow>
     ('o \<Rightarrow> ObjectMeta) \<Rightarrow> ('o option \<Rightarrow> 'o \<Rightarrow> 'o) \<Rightarrow> (cluster, 'o) create_or_update"
where
  "upsert_in objects put meta admit current mutate w =
     (case upsert meta admit current mutate (objects w) of (err, objs) \<Rightarrow> (err, put objs w))"

definition delete_in ::
  "string \<Rightarrow> (cluster \<Rightarrow> NamespacedName \<Rightarrow> 'o option) \<Rightarrow>
     ((NamespacedName \<Rightarrow> 'o option) \<Rightarrow> cluster \<Rightarrow> cluster) \<Rightarrow> NamespacedName \<Rightarrow> cluster \<Rightarrow>
     goerror option \<times> cluster"
where
  "delete_in what objects put key w =
     (case objects w key of
        None \<Rightarrow> (Some (not_found what key), w)
      | Some _ \<Rightarrow> (None, put ((objects w)(key := None)) w))"

definition memory_Status_Update :: "TrussiumRuntime \<Rightarrow> cluster \<Rightarrow> (goerror + TrussiumRuntime) \<times> cluster" where
  "memory_Status_Update rt w =
     (let key = ObjectKey (Runtime_Meta rt) in
      case cl_runtimes w key of
        None \<Rightarrow> (Inl (not_found ''TrussiumRuntime'' key), w)
      | Some stored \<Rightarrow>
          (let stored = stored\<lparr>Status := Status rt\<rparr> in
           (Inr stored, w\<lparr>cl_runtimes := (cl_runtimes w)(key := Some stored)\<rparr>)))"

definition memory_api :: "cluster kube_api" where
  "memory_api =
     \<lparr>SetStatusCondition = doc_set, FindStatusCondition = doc_find,
      IsNotFound = memory_IsNotFound, IgnoreNotFound = memory_IgnoreNotFound, DeepEqual = (=),
      SetControllerReference = memory_SetControllerReference,
      Get_Runtime = read_object ''TrussiumRuntime'' cl_runtimes,
      Get_Secret = read_object ''Secret'' cl_secrets,
      Get_Deployment = read_object ''Deployment'' cl_deployments,
      Get_Service = read_object ''Service'' cl_services,
      List_Runtimes = (\<lambda>ns w.
        (Inr (List.map_filter (\<lambda>key. if Key_Namespace key = ns then cl_runtimes w key else None)
           (cl_runtime_keys w)), w)),
      Status_Update = memory_Status_Update,
      CreateOrUpdate_ConfigMap =
        upsert_in cl_configmaps (\<lambda>m. cl_configmaps_update (\<lambda>_. m)) ConfigMap_Meta admit_plain,
      CreateOrUpdate_ServiceAccount =
        upsert_in cl_serviceaccounts (\<lambda>m. cl_serviceaccounts_update (\<lambda>_. m)) ServiceAccount_Meta
          admit_plain,
      CreateOrUpdate_Service =
        upsert_in cl_services (\<lambda>m. cl_services_update (\<lambda>_. m)) Service_Meta admit_plain,
      CreateOrUpdate_Deployment =
        upsert_in cl_deployments (\<lambda>m. cl_deployments_update (\<lambda>_. m)) Deployment_Meta admit_deployment,
      CreateOrUpdate_PodDisruptionBudget =
        upsert_in cl_budgets (\<lambda>m. cl_budgets_update (\<lambda>_. m)) PDB_Meta admit_plain,
      CreateOrUpdate_NetworkPolicy =
        upsert_in cl_policies (\<lambda>m. cl_policies_update (\<lambda>_. m)) NetworkPolicy_Meta admit_plain,
      CreateOrUpdate_HorizontalPodAutoscaler =
        upsert_in cl_autoscalers (\<lambda>m. cl_autoscalers_update (\<lambda>_. m)) HPA_Meta admit_plain,
      Delete_NetworkPolicy =
        delete_in ''NetworkPolicy'' cl_policies (\<lambda>m. cl_policies_update (\<lambda>_. m)),
      Delete_HorizontalPodAutoscaler =
        delete_in ''HorizontalPodAutoscaler'' cl_autoscalers (\<lambda>m. cl_autoscalers_update (\<lambda>_. m))\<rparr>"

definition memory_reconciler :: "EventRecorder option \<Rightarrow> cluster TrussiumRuntimeReconciler" where
  "memory_reconciler recorder = \<lparr>Client = memory_api, Recorder = recorder\<rparr>"

section \<open>The interfaces\<close>

locale object_store =
  fixes objects :: "'w \<Rightarrow> NamespacedName \<Rightarrow> 'o option"
    and put :: "(NamespacedName \<Rightarrow> 'o option) \<Rightarrow> 'w \<Rightarrow> 'w"
    and save :: "('w, 'o) create_or_update"
    and meta :: "'o \<Rightarrow> ObjectMeta"
    and admit :: "'o option \<Rightarrow> 'o \<Rightarrow> 'o"
  assumes save_ok:
      "mutate (case objects w (ObjectKey (meta cur)) of None \<Rightarrow> cur | Some x \<Rightarrow> x) = Inr new \<Longrightarrow>
       ObjectKey (meta new) = ObjectKey (meta cur) \<Longrightarrow>
       save cur mutate w =
         (None, put ((objects w)(ObjectKey (meta cur) :=
            Some (admit (objects w (ObjectKey (meta cur))) new))) w)"
    and save_same:
      "objects w (ObjectKey (meta cur)) = Some x \<Longrightarrow> mutate x = Inr x \<Longrightarrow>
       ObjectKey (meta x) = ObjectKey (meta cur) \<Longrightarrow> save cur mutate w = (None, w)"
    and save_err:
      "mutate (case objects w (ObjectKey (meta cur)) of None \<Rightarrow> cur | Some x \<Rightarrow> x) = Inl err \<Longrightarrow>
       save cur mutate w = (Some err, w)"
    and objects_put: "objects (put m w) = m"
    and admit_key: "ObjectKey (meta (admit old x)) = ObjectKey (meta x)"

locale settling = object_store objects put save meta admit
  for objects :: "'w \<Rightarrow> NamespacedName \<Rightarrow> 'o option"
    and put :: "(NamespacedName \<Rightarrow> 'o option) \<Rightarrow> 'w \<Rightarrow> 'w"
    and save :: "('w, 'o) create_or_update"
    and meta :: "'o \<Rightarrow> ObjectMeta"
    and admit :: "'o option \<Rightarrow> 'o \<Rightarrow> 'o" +
  fixes mutate :: "'o \<Rightarrow> goerror + 'o"
  assumes mutate_key: "mutate x = Inr y \<Longrightarrow> ObjectKey (meta y) = ObjectKey (meta x)"
    and mutate_settles: "mutate x = Inr y \<Longrightarrow> mutate (admit old y) = Inr (admit old y)"
begin

text \<open>After one successful write the object is there, settled, and the next write does nothing.\<close>

lemma settles:
  assumes ok: "mutate (case objects w (ObjectKey (meta cur)) of None \<Rightarrow> cur | Some x \<Rightarrow> x) = Inr new"
    and wf: "\<And>x. objects w (ObjectKey (meta cur)) = Some x \<Longrightarrow> ObjectKey (meta x) = ObjectKey (meta cur)"
    and x: "x = admit (objects w (ObjectKey (meta cur))) new"
  shows "save cur mutate w = (None, put ((objects w)(ObjectKey (meta cur) := Some x)) w)"
    and "mutate x = Inr x" and "ObjectKey (meta x) = ObjectKey (meta cur)"
    and "save cur mutate (snd (save cur mutate w)) = (None, snd (save cur mutate w))"
proof -
  let ?key = "ObjectKey (meta cur)"
  have key: "ObjectKey (meta new) = ?key"
    using mutate_key [OF ok] wf by (auto split: option.splits)
  show saved: "save cur mutate w = (None, put ((objects w)(?key := Some x)) w)"
    unfolding x by (rule save_ok [where mutate = mutate and w = w and cur = cur and new = new, OF ok key])
  show settled: "mutate x = Inr x" unfolding x using ok by (rule mutate_settles)
  show keyx: "ObjectKey (meta x) = ?key" by (simp add: x admit_key key)
  show "save cur mutate (snd (save cur mutate w)) = (None, snd (save cur mutate w))"
    using saved settled keyx by (intro save_same [where x = x]) (simp_all add: objects_put)
qed

text \<open>The same for a mutation that succeeds on every object that is free, with a good result.\<close>

lemma takes:
  assumes key: "ObjectKey (meta cur) = key" and cur: "free cur"
    and old: "case objects w key of None \<Rightarrow> True | Some x \<Rightarrow> free x"
    and ok: "\<And>x. free x \<Longrightarrow> ObjectKey (meta x) = key \<and> (\<exists>y. mutate x = Inr y \<and> good x y)"
    and admitted: "\<And>b v y. good b y \<Longrightarrow> good b (admit v y)"
  shows "\<exists>x. save cur mutate w = (None, put ((objects w)(key := Some x)) w) \<and>
    good (case objects w key of None \<Rightarrow> cur | Some x \<Rightarrow> x) x \<and> mutate x = Inr x \<and>
    ObjectKey (meta x) = key"
proof -
  let ?b = "case objects w key of None \<Rightarrow> cur | Some x \<Rightarrow> x"
  have "free ?b" using cur old by (simp split: option.splits)
  with ok obtain y where y: "mutate ?b = Inr y" "good ?b y" by blast
  have wf: "ObjectKey (meta x) = ObjectKey (meta cur)" if "objects w (ObjectKey (meta cur)) = Some x" for x
    using that old ok key by auto
  from settles [OF y(1) [folded key] wf refl] y(2) admitted show ?thesis
    unfolding key by blast
qed

end

locale owner_references =
  fixes K :: "'w kube_api"
  assumes ref_frame: "SetControllerReference K rt m = Inr m' \<Longrightarrow>
      m' = m\<lparr>OwnerReferences := OwnerReferences m'\<rparr>"
    and ref_idem: "SetControllerReference K rt m = Inr m' \<Longrightarrow> SetControllerReference K rt m' = Inr m'"
    and ref_generation: "SetControllerReference K rt m = Inr m' \<Longrightarrow>
      SetControllerReference K rt (m\<lparr>Generation := g\<rparr>) = Inr (m'\<lparr>Generation := g\<rparr>)"
begin

lemma ref_fields:
  assumes "SetControllerReference K rt m = Inr m'"
  shows "Name m' = Name m" "Namespace m' = Namespace m" "Labels m' = Labels m" "UID m' = UID m"
    "Generation m' = Generation m" "ObjectKey m' = ObjectKey m"
  by (subst ref_frame [OF assms]; simp add: ObjectKey_def)+

end

section \<open>The interfaces hold\<close>

lemma upsert_in_store:
  assumes "\<And>m w. objects (put m w) = m" and "\<And>w. put (objects w) w = w"
    and "\<And>x. admit (Some x) x = x" and "\<And>old x. ObjectKey (meta (admit old x)) = ObjectKey (meta x)"
  shows "object_store objects put (upsert_in objects put meta admit) meta admit"
proof (unfold_locales, goal_cases)
  case 1
  then show ?case
    by (auto simp: upsert_in_def upsert_def Let_def assms fun_upd_idem split: option.splits)
next
  case 2
  then show ?case by (simp add: upsert_in_def upsert_def assms)
next
  case 3
  then show ?case by (simp add: upsert_in_def upsert_def assms)
qed (rule assms(1), rule assms(4))

lemma admit_plain_same [simp]: "admit_plain old x = x"
  by (simp add: admit_plain_def)

lemma admit_deployment_same: "admit_deployment (Some x) x = x"
  by (simp add: admit_deployment_def)

lemma admit_deployment_key: "ObjectKey (Deployment_Meta (admit_deployment old x)) = ObjectKey (Deployment_Meta x)"
  by (simp add: admit_deployment_def ObjectKey_def)

lemma store_configmaps:
  "object_store cl_configmaps (\<lambda>m. cl_configmaps_update (\<lambda>_. m))
     (CreateOrUpdate_ConfigMap memory_api) ConfigMap_Meta admit_plain"
  unfolding memory_api_def kube_api.simps by (rule upsert_in_store) simp_all

lemma store_serviceaccounts:
  "object_store cl_serviceaccounts (\<lambda>m. cl_serviceaccounts_update (\<lambda>_. m))
     (CreateOrUpdate_ServiceAccount memory_api) ServiceAccount_Meta admit_plain"
  unfolding memory_api_def kube_api.simps by (rule upsert_in_store) simp_all

lemma store_services:
  "object_store cl_services (\<lambda>m. cl_services_update (\<lambda>_. m))
     (CreateOrUpdate_Service memory_api) Service_Meta admit_plain"
  unfolding memory_api_def kube_api.simps by (rule upsert_in_store) simp_all

lemma store_deployments:
  "object_store cl_deployments (\<lambda>m. cl_deployments_update (\<lambda>_. m))
     (CreateOrUpdate_Deployment memory_api) Deployment_Meta admit_deployment"
  unfolding memory_api_def kube_api.simps
  by (rule upsert_in_store) (simp_all add: admit_deployment_same admit_deployment_key)

lemma store_budgets:
  "object_store cl_budgets (\<lambda>m. cl_budgets_update (\<lambda>_. m))
     (CreateOrUpdate_PodDisruptionBudget memory_api) PDB_Meta admit_plain"
  unfolding memory_api_def kube_api.simps by (rule upsert_in_store) simp_all

lemma store_policies:
  "object_store cl_policies (\<lambda>m. cl_policies_update (\<lambda>_. m))
     (CreateOrUpdate_NetworkPolicy memory_api) NetworkPolicy_Meta admit_plain"
  unfolding memory_api_def kube_api.simps by (rule upsert_in_store) simp_all

lemma store_autoscalers:
  "object_store cl_autoscalers (\<lambda>m. cl_autoscalers_update (\<lambda>_. m))
     (CreateOrUpdate_HorizontalPodAutoscaler memory_api) HPA_Meta admit_plain"
  unfolding memory_api_def kube_api.simps by (rule upsert_in_store) simp_all

text \<open>Owner references.\<close>

lemma upsert_owner_idem [simp]: "upsert_owner ref (upsert_owner ref xs) = upsert_owner ref xs"
  by (induction xs) (auto simp: same_owner_def)

lemma find_upsert_owner:
  assumes "Owner_Controller ref"
    and "case List.find Owner_Controller xs of None \<Rightarrow> True | Some c \<Rightarrow> same_owner c ref"
  shows "List.find Owner_Controller (upsert_owner ref xs) = Some ref"
  using assms
proof (induction xs)
  case Nil
  then show ?case by (simp add: same_owner_def)
next
  case (Cons x xs)
  then show ?case by (auto simp: same_owner_def)
qed

lemma memory_ref_ok:
  "memory_SetControllerReference rt m = Inr m' \<longleftrightarrow>
     Namespace m = Namespace (Runtime_Meta rt) \<and>
     (case controller_of m of None \<Rightarrow> True | Some c \<Rightarrow> same_owner c (owner_reference rt)) \<and>
     m' = m\<lparr>OwnerReferences := upsert_owner (owner_reference rt) (OwnerReferences m)\<rparr>"
  by (auto simp: memory_SetControllerReference_def Let_def split: option.splits)

interpretation refs: owner_references memory_api
proof (unfold_locales, goal_cases)
  case (1 rt m m')
  then show ?case by (simp add: memory_api_def memory_ref_ok)
next
  case (2 rt m m')
  then have ok: "Namespace m = Namespace (Runtime_Meta rt)"
    "case controller_of m of None \<Rightarrow> True | Some c \<Rightarrow> same_owner c (owner_reference rt)"
    "m' = m\<lparr>OwnerReferences := upsert_owner (owner_reference rt) (OwnerReferences m)\<rparr>"
    by (simp_all add: memory_api_def memory_ref_ok)
  have "Owner_Controller (owner_reference rt)" by (simp add: owner_reference_def)
  from find_upsert_owner [OF this ok(2) [unfolded controller_of_def]]
  have "controller_of m' = Some (owner_reference rt)"
    by (simp add: ok(3) controller_of_def)
  then show ?case using ok(1) by (auto simp: memory_api_def memory_ref_ok ok(3) same_owner_def)
next
  case (3 rt m m' g)
  then show ?case by (simp add: memory_api_def memory_ref_ok controller_of_def)
qed

section \<open>The mutations settle\<close>

lemma owned_Inr:
  "owned r rt m put = Inr y \<longleftrightarrow> (\<exists>m'. SetControllerReference (Client r) rt m = Inr m' \<and> y = put m')"
  by (auto simp: owned_def split: sum.splits)

context owner_references
begin

lemma ref_relabel:
  assumes "SetControllerReference K rt (m\<lparr>Labels := l\<rparr>) = Inr m'"
  shows "m'\<lparr>Labels := l\<rparr> = m'" "ObjectKey m' = ObjectKey m"
  using ref_fields [OF assms] by (simp_all add: ObjectKey_def)

lemma relabel_settles:
  assumes "SetControllerReference K rt (m\<lparr>Labels := l\<rparr>) = Inr m'"
  shows "SetControllerReference K rt (m'\<lparr>Labels := l\<rparr>) = Inr m'" "ObjectKey m' = ObjectKey m"
  using ref_idem [OF assms] ref_relabel [OF assms] by simp_all

lemma owned_settles:
  assumes "owned r rt (m\<lparr>Labels := l\<rparr>) put = Inr y" and "Client r = K"
  obtains m' where "y = put m'" "ObjectKey m' = ObjectKey m"
    "\<And>put'. owned r rt (m'\<lparr>Labels := l\<rparr>) put' = Inr (put' m')"
proof -
  from assms obtain m' where m': "SetControllerReference K rt (m\<lparr>Labels := l\<rparr>) = Inr m'" "y = put m'"
    by (auto simp: owned_Inr)
  moreover have "owned r rt (m'\<lparr>Labels := l\<rparr>) put' = Inr (put' m')" for put' :: "ObjectMeta \<Rightarrow> 'o"
    using relabel_settles(1) [OF m'(1)] assms(2) by (simp add: owned_Inr)
  ultimately show ?thesis using relabel_settles(2) [OF m'(1)] that by blast
qed

lemma mutateConfigMap_settles:
  assumes "Client r = K" and "mutateConfigMap r rt d x = Inr y"
  shows "ObjectKey (ConfigMap_Meta y) = ObjectKey (ConfigMap_Meta x)" "mutateConfigMap r rt d y = Inr y"
  using assms(2) by (auto simp: mutateConfigMap_def Let_def elim!: owned_settles [OF _ assms(1)])

lemma mutateServiceAccount_settles:
  assumes "Client r = K" and "mutateServiceAccount r rt d x = Inr y"
  shows "ObjectKey (ServiceAccount_Meta y) = ObjectKey (ServiceAccount_Meta x)"
    "mutateServiceAccount r rt d y = Inr y"
  using assms(2) by (auto simp: mutateServiceAccount_def Let_def elim!: owned_settles [OF _ assms(1)])

lemma mutateService_settles:
  assumes "Client r = K" and "mutateService r rt d x = Inr y"
  shows "ObjectKey (Service_Meta y) = ObjectKey (Service_Meta x)" "mutateService r rt d y = Inr y"
  using assms(2) by (auto simp: mutateService_def Let_def elim!: owned_settles [OF _ assms(1)])

lemma mutatePodDisruptionBudget_settles:
  assumes "Client r = K" and "mutatePodDisruptionBudget r rt d x = Inr y"
  shows "ObjectKey (PDB_Meta y) = ObjectKey (PDB_Meta x)" "mutatePodDisruptionBudget r rt d y = Inr y"
  using assms(2) by (auto simp: mutatePodDisruptionBudget_def Let_def elim!: owned_settles [OF _ assms(1)])

lemma mutateNetworkPolicy_settles:
  assumes "Client r = K" and "mutateNetworkPolicy r rt d x = Inr y"
  shows "ObjectKey (NetworkPolicy_Meta y) = ObjectKey (NetworkPolicy_Meta x)"
    "mutateNetworkPolicy r rt d y = Inr y"
  using assms(2) by (auto simp: mutateNetworkPolicy_def Let_def elim!: owned_settles [OF _ assms(1)])

lemma mutateHorizontalPodAutoscaler_settles:
  assumes "Client r = K" and "mutateHorizontalPodAutoscaler r rt d x = Inr y"
  shows "ObjectKey (HPA_Meta y) = ObjectKey (HPA_Meta x)"
    "mutateHorizontalPodAutoscaler r rt d y = Inr y"
  using assms(2) by (auto simp: mutateHorizontalPodAutoscaler_def Let_def elim!: owned_settles [OF _ assms(1)])

lemma mutateDeployment_settles:
  assumes "Client r = K" and "mutateDeployment r rt d x = Inr y"
  shows "ObjectKey (Deployment_Meta y) = ObjectKey (Deployment_Meta x)"
    "mutateDeployment r rt d (y\<lparr>Deployment_Meta := (Deployment_Meta y)\<lparr>Generation := g\<rparr>\<rparr>) =
      Inr (y\<lparr>Deployment_Meta := (Deployment_Meta y)\<lparr>Generation := g\<rparr>\<rparr>)"
proof -
  from assms obtain m' spec where
    m': "SetControllerReference K rt ((Deployment_Meta x)\<lparr>Labels := Labels (Deployment_Meta d)\<rparr>) = Inr m'"
    and y: "y = x\<lparr>Deployment_Meta := m', Deployment_Spec := spec\<rparr>"
    and spec: "spec = (if autoscalingEnabled rt \<and> Replicas (Deployment_Spec x) \<noteq> None
      then (Deployment_Spec d)\<lparr>Replicas := Replicas (Deployment_Spec x)\<rparr> else Deployment_Spec d)"
    by (auto simp: mutateDeployment_def Let_def owned_Inr split: if_splits)
  show "ObjectKey (Deployment_Meta y) = ObjectKey (Deployment_Meta x)"
    using ref_relabel [OF m'] by (simp add: y)
  have "SetControllerReference K rt (m'\<lparr>Generation := g\<rparr>) = Inr (m'\<lparr>Generation := g\<rparr>)"
    using ref_idem [OF m'] by (rule ref_generation)
  moreover have "m'\<lparr>Generation := g, Labels := Labels (Deployment_Meta d)\<rparr> = m'\<lparr>Generation := g\<rparr>"
    using ref_fields(3) [OF m'] by simp
  ultimately show "mutateDeployment r rt d (y\<lparr>Deployment_Meta := (Deployment_Meta y)\<lparr>Generation := g\<rparr>\<rparr>) =
      Inr (y\<lparr>Deployment_Meta := (Deployment_Meta y)\<lparr>Generation := g\<rparr>\<rparr>)"
    using assms(1) by (auto simp: mutateDeployment_def Let_def owned_Inr y spec)
qed

end

section \<open>Every managed kind settles\<close>

lemma memory_reconciler_client [simp]: "Client (memory_reconciler rec) = memory_api"
  by (simp add: memory_reconciler_def)

interpretation cm: settling cl_configmaps "\<lambda>m. cl_configmaps_update (\<lambda>_. m)"
    "CreateOrUpdate_ConfigMap memory_api" ConfigMap_Meta admit_plain
    "mutateConfigMap (memory_reconciler rec) rt d" for rec rt d
  by (intro settling.intro store_configmaps settling_axioms.intro)
    (auto intro: refs.mutateConfigMap_settles [OF memory_reconciler_client])

interpretation sa: settling cl_serviceaccounts "\<lambda>m. cl_serviceaccounts_update (\<lambda>_. m)"
    "CreateOrUpdate_ServiceAccount memory_api" ServiceAccount_Meta admit_plain
    "mutateServiceAccount (memory_reconciler rec) rt d" for rec rt d
  by (intro settling.intro store_serviceaccounts settling_axioms.intro)
    (auto intro: refs.mutateServiceAccount_settles [OF memory_reconciler_client])

interpretation svc: settling cl_services "\<lambda>m. cl_services_update (\<lambda>_. m)"
    "CreateOrUpdate_Service memory_api" Service_Meta admit_plain
    "mutateService (memory_reconciler rec) rt d" for rec rt d
  by (intro settling.intro store_services settling_axioms.intro)
    (auto intro: refs.mutateService_settles [OF memory_reconciler_client])

interpretation dep: settling cl_deployments "\<lambda>m. cl_deployments_update (\<lambda>_. m)"
    "CreateOrUpdate_Deployment memory_api" Deployment_Meta admit_deployment
    "mutateDeployment (memory_reconciler rec) rt d" for rec rt d
  by (intro settling.intro store_deployments settling_axioms.intro)
    (auto simp: admit_deployment_def intro: refs.mutateDeployment_settles [OF memory_reconciler_client])

interpretation pdb: settling cl_budgets "\<lambda>m. cl_budgets_update (\<lambda>_. m)"
    "CreateOrUpdate_PodDisruptionBudget memory_api" PDB_Meta admit_plain
    "mutatePodDisruptionBudget (memory_reconciler rec) rt d" for rec rt d
  by (intro settling.intro store_budgets settling_axioms.intro)
    (auto intro: refs.mutatePodDisruptionBudget_settles [OF memory_reconciler_client])

interpretation np: settling cl_policies "\<lambda>m. cl_policies_update (\<lambda>_. m)"
    "CreateOrUpdate_NetworkPolicy memory_api" NetworkPolicy_Meta admit_plain
    "mutateNetworkPolicy (memory_reconciler rec) rt d" for rec rt d
  by (intro settling.intro store_policies settling_axioms.intro)
    (auto intro: refs.mutateNetworkPolicy_settles [OF memory_reconciler_client])

interpretation hpa: settling cl_autoscalers "\<lambda>m. cl_autoscalers_update (\<lambda>_. m)"
    "CreateOrUpdate_HorizontalPodAutoscaler memory_api" HPA_Meta admit_plain
    "mutateHorizontalPodAutoscaler (memory_reconciler rec) rt d" for rec rt d
  by (intro settling.intro store_autoscalers settling_axioms.intro)
    (auto intro: refs.mutateHorizontalPodAutoscaler_settles [OF memory_reconciler_client])

end
