(* ===== verification/Convergence.thy ===== *)
theory Convergence
  imports Cluster Status_Stability
begin

text \<open>
  What a pass achieves on the cluster of \<open>Cluster\<close>: the managed objects reach the state the resource
  asks for in one pass, and a second pass changes nothing.
\<close>

section \<open>The state asked for\<close>

text \<open>An object the operator may take over: it has the name of the resource and no other controller.\<close>

definition free_for :: "TrussiumRuntime \<Rightarrow> ObjectMeta \<Rightarrow> bool" where
  "free_for rt m \<longleftrightarrow>
     ObjectKey m = ObjectKey (Runtime_Meta rt) \<and>
     (case controller_of m of None \<Rightarrow> True | Some c \<Rightarrow> same_owner c (owner_reference rt))"

definition opt_free :: "TrussiumRuntime \<Rightarrow> ('o \<Rightarrow> ObjectMeta) \<Rightarrow> 'o option \<Rightarrow> bool" where
  "opt_free rt meta v \<longleftrightarrow> (case v of None \<Rightarrow> True | Some x \<Rightarrow> free_for rt (meta x))"

definition claimable :: "TrussiumRuntime \<Rightarrow> cluster \<Rightarrow> bool" where
  "claimable rt w \<longleftrightarrow>
     (let key = ObjectKey (Runtime_Meta rt) in
      opt_free rt ConfigMap_Meta (cl_configmaps w key) \<and>
      opt_free rt ServiceAccount_Meta (cl_serviceaccounts w key) \<and>
      opt_free rt Service_Meta (cl_services w key) \<and>
      opt_free rt Deployment_Meta (cl_deployments w key) \<and>
      opt_free rt PDB_Meta (cl_budgets w key) \<and>
      opt_free rt NetworkPolicy_Meta (cl_policies w key) \<and>
      opt_free rt HPA_Meta (cl_autoscalers w key))"

text \<open>What a pass needs to succeed: the objects it writes are free.  The two it deletes need not be.\<close>

definition takeable :: "TrussiumRuntime \<Rightarrow> cluster \<Rightarrow> bool" where
  "takeable rt w \<longleftrightarrow>
     (let key = ObjectKey (Runtime_Meta rt) in
      opt_free rt ConfigMap_Meta (cl_configmaps w key) \<and>
      opt_free rt ServiceAccount_Meta (cl_serviceaccounts w key) \<and>
      opt_free rt Service_Meta (cl_services w key) \<and>
      opt_free rt Deployment_Meta (cl_deployments w key) \<and>
      opt_free rt PDB_Meta (cl_budgets w key) \<and>
      (networkPolicyEnabled rt \<longrightarrow> opt_free rt NetworkPolicy_Meta (cl_policies w key)) \<and>
      (autoscalingEnabled rt \<longrightarrow> opt_free rt HPA_Meta (cl_autoscalers w key)))"

lemma claimable_takeable: "claimable rt w \<Longrightarrow> takeable rt w"
  by (simp add: claimable_def takeable_def Let_def)

definition managed :: "TrussiumRuntime \<Rightarrow> ObjectMeta \<Rightarrow> bool" where
  "managed rt m \<longleftrightarrow>
     ObjectKey m = ObjectKey (Runtime_Meta rt) \<and> Labels m = runtimeLabels rt \<and> owned_by rt m"

text \<open>The objects as the resource asks for them.\<close>

definition good_configmap :: "TrussiumRuntime \<Rightarrow> ConfigMap \<Rightarrow> bool" where
  "good_configmap rt x \<longleftrightarrow> managed rt (ConfigMap_Meta x) \<and> Data x = runtimeConfigData rt"

definition good_serviceaccount :: "TrussiumRuntime \<Rightarrow> ServiceAccount \<Rightarrow> bool" where
  "good_serviceaccount rt x \<longleftrightarrow>
     managed rt (ServiceAccount_Meta x) \<and> SA_AutomountServiceAccountToken x = Some False \<and>
     SA_ImagePullSecrets x = imagePullSecrets rt"

definition good_service :: "TrussiumRuntime \<Rightarrow> Service \<Rightarrow> bool" where
  "good_service rt x \<longleftrightarrow>
     managed rt (Service_Meta x) \<and>
     Service_Spec x = (Service_Spec (buildService rt))\<lparr>ClusterIP := ClusterIP (Service_Spec x)\<rparr>"

definition good_deployment :: "TrussiumRuntime \<Rightarrow> Deployment \<Rightarrow> bool" where
  "good_deployment rt x \<longleftrightarrow>
     managed rt (Deployment_Meta x) \<and>
     (\<exists>n. Deployment_Spec x = (Deployment_Spec (buildDeployment rt))\<lparr>Replicas := Some n\<rparr> \<and>
        (\<not> autoscalingEnabled rt \<longrightarrow> n = desiredReplicas rt))"

definition good_budget :: "TrussiumRuntime \<Rightarrow> PodDisruptionBudget \<Rightarrow> bool" where
  "good_budget rt x \<longleftrightarrow> managed rt (PDB_Meta x) \<and> PDB_Spec x = PDB_Spec (buildPodDisruptionBudget rt)"

definition good_policy :: "TrussiumRuntime \<Rightarrow> NetworkPolicy \<Rightarrow> bool" where
  "good_policy rt x \<longleftrightarrow>
     managed rt (NetworkPolicy_Meta x) \<and>
     map_option NetworkPolicy_Spec (buildNetworkPolicy rt) = Some (NetworkPolicy_Spec x)"

definition good_autoscaler :: "TrussiumRuntime \<Rightarrow> HorizontalPodAutoscaler \<Rightarrow> bool" where
  "good_autoscaler rt x \<longleftrightarrow>
     managed rt (HPA_Meta x) \<and> HPA_Spec x = HPA_Spec (buildHorizontalPodAutoscaler rt)"

definition present :: "('o \<Rightarrow> bool) \<Rightarrow> 'o option \<Rightarrow> bool" where
  "present good v \<longleftrightarrow> (case v of None \<Rightarrow> False | Some x \<Rightarrow> good x)"

lemma present_Some [simp]: "present good (Some x) = good x"
  by (simp add: present_def)

definition desired_state :: "TrussiumRuntime \<Rightarrow> cluster \<Rightarrow> bool" where
  "desired_state rt w \<longleftrightarrow>
     (let key = ObjectKey (Runtime_Meta rt) in
      present (good_configmap rt) (cl_configmaps w key) \<and>
      present (good_serviceaccount rt) (cl_serviceaccounts w key) \<and>
      present (good_service rt) (cl_services w key) \<and>
      present (good_deployment rt) (cl_deployments w key) \<and>
      present (good_budget rt) (cl_budgets w key) \<and>
      (if networkPolicyEnabled rt then present (good_policy rt) (cl_policies w key)
       else cl_policies w key = None) \<and>
      (if autoscalingEnabled rt then present (good_autoscaler rt) (cl_autoscalers w key)
       else cl_autoscalers w key = None))"

section \<open>Taking over an object\<close>

lemma memory_ref [simp]: "SetControllerReference memory_api = memory_SetControllerReference"
  by (simp add: memory_api_def)

lemma free_for_owned:
  assumes "free_for rt m"
  shows "\<exists>m'. memory_SetControllerReference rt (m\<lparr>Labels := l\<rparr>) = Inr m' \<and> m'\<lparr>Labels := l\<rparr> = m' \<and>
    ObjectKey m' = ObjectKey (Runtime_Meta rt) \<and> owned_by rt m'"
proof -
  have "Owner_Controller (owner_reference rt)" by (simp add: owner_reference_def)
  then have "owned_by rt (m\<lparr>Labels := l,
      OwnerReferences := upsert_owner (owner_reference rt) (OwnerReferences m)\<rparr>)"
    using assms find_upsert_owner [of "owner_reference rt" "OwnerReferences m"]
    by (simp add: owned_by_def free_for_def controller_of_def)
  then show ?thesis
    using assms by (auto simp: memory_ref_ok free_for_def controller_of_def ObjectKey_def)
qed

lemma free_for_key_meta: "free_for rt (key_meta (managed_meta rt))"
  by (simp add: free_for_def controller_of_def key_meta_def object_meta_def managed_meta_def ObjectKey_def)

lemma labels_managed_meta [simp]: "Labels (managed_meta rt) = runtimeLabels rt"
  by (simp add: managed_meta_def object_meta_def)

lemma managedI:
  assumes "m\<lparr>Labels := runtimeLabels rt\<rparr> = m" "ObjectKey m = ObjectKey (Runtime_Meta rt)" "owned_by rt m"
  shows "managed rt m"
proof -
  have "Labels m = runtimeLabels rt" using arg_cong [OF assms(1), of Labels] by simp
  with assms show ?thesis by (simp add: managed_def)
qed

text \<open>A mutation that takes over a free object succeeds and gives what is asked for.\<close>

lemma take_configmap:
  assumes "free_for rt (ConfigMap_Meta x)"
  shows "\<exists>y. mutateConfigMap (memory_reconciler rec) rt (buildConfigMap rt) x = Inr y \<and> good_configmap rt y"
  using free_for_owned [OF assms, of "runtimeLabels rt"]
  by (auto simp: mutateConfigMap_def Let_def owned_Inr good_configmap_def buildConfigMap_def intro: managedI)

lemma take_serviceaccount:
  assumes "free_for rt (ServiceAccount_Meta x)"
  shows "\<exists>y. mutateServiceAccount (memory_reconciler rec) rt (buildServiceAccount rt) x = Inr y \<and>
    good_serviceaccount rt y"
  using free_for_owned [OF assms, of "runtimeLabels rt"]
  by (auto simp: mutateServiceAccount_def Let_def owned_Inr good_serviceaccount_def
      buildServiceAccount_def intro: managedI)

lemma take_service:
  assumes "free_for rt (Service_Meta x)"
  shows "\<exists>y. mutateService (memory_reconciler rec) rt (buildService rt) x = Inr y \<and> good_service rt y"
  using free_for_owned [OF assms, of "runtimeLabels rt"]
  by (auto simp: mutateService_def Let_def owned_Inr good_service_def buildService_def intro: managedI)

lemma take_budget:
  assumes "free_for rt (PDB_Meta x)"
  shows "\<exists>y. mutatePodDisruptionBudget (memory_reconciler rec) rt (buildPodDisruptionBudget rt) x = Inr y \<and>
    good_budget rt y"
  using free_for_owned [OF assms, of "runtimeLabels rt"]
  by (auto simp: mutatePodDisruptionBudget_def Let_def owned_Inr good_budget_def intro: managedI)

lemma take_policy:
  assumes "free_for rt (NetworkPolicy_Meta x)" and "buildNetworkPolicy rt = Some d"
  shows "\<exists>y. mutateNetworkPolicy (memory_reconciler rec) rt d x = Inr y \<and> good_policy rt y"
  using free_for_owned [OF assms(1), of "runtimeLabels rt"] assms(2)
  by (auto simp: mutateNetworkPolicy_def Let_def owned_Inr good_policy_def intro: managedI)

lemma take_autoscaler:
  assumes "free_for rt (HPA_Meta x)"
  shows "\<exists>y. mutateHorizontalPodAutoscaler (memory_reconciler rec) rt (buildHorizontalPodAutoscaler rt) x =
    Inr y \<and> good_autoscaler rt y"
  using free_for_owned [OF assms, of "runtimeLabels rt"]
  by (auto simp: mutateHorizontalPodAutoscaler_def Let_def owned_Inr good_autoscaler_def intro: managedI)

text \<open>The Deployment also keeps its status, and its replicas while an autoscaler owns them.\<close>

definition keeps_deployment :: "TrussiumRuntime \<Rightarrow> Deployment \<Rightarrow> Deployment \<Rightarrow> bool" where
  "keeps_deployment rt b x \<longleftrightarrow>
     good_deployment rt x \<and> Deployment_Status x = Deployment_Status b \<and>
     (autoscalingEnabled rt \<and> Replicas (Deployment_Spec b) \<noteq> None \<longrightarrow>
        Replicas (Deployment_Spec x) = Replicas (Deployment_Spec b))"

lemma managed_generation [simp]: "managed rt (m\<lparr>Generation := g\<rparr>) = managed rt m"
  by (simp add: managed_def ObjectKey_def owned_by_def controller_of_def)

lemma keeps_deployment_admit: "keeps_deployment rt b y \<Longrightarrow> keeps_deployment rt b (admit_deployment old y)"
  by (simp add: keeps_deployment_def good_deployment_def admit_deployment_def)

lemma take_deployment:
  assumes "free_for rt (Deployment_Meta x)"
  shows "\<exists>y. mutateDeployment (memory_reconciler rec) rt (buildDeployment rt) x = Inr y \<and>
    keeps_deployment rt x y"
proof -
  obtain m' where m': "memory_SetControllerReference rt ((Deployment_Meta x)\<lparr>Labels := runtimeLabels rt\<rparr>) = Inr m'"
    and "managed rt m'"
    using free_for_owned [OF assms, of "runtimeLabels rt"] managedI by blast
  moreover have "\<exists>n. Replicas (Deployment_Spec x) = Some n" if "Replicas (Deployment_Spec x) \<noteq> None"
    using that by blast
  ultimately show ?thesis
    by (auto simp: mutateDeployment_def Let_def owned_Inr keeps_deployment_def good_deployment_def
        buildDeployment_def initialDeploymentReplicas_def)
qed

section \<open>The seven steps\<close>

abbreviation rt_key :: "TrussiumRuntime \<Rightarrow> NamespacedName" where
  "rt_key rt \<equiv> ObjectKey (Runtime_Meta rt)"

lemma opt_freeD: "opt_free rt meta v \<Longrightarrow> case v of None \<Rightarrow> True | Some x \<Rightarrow> free_for rt (meta x)"
  by (simp add: opt_free_def)

lemma free_for_key: "free_for rt m \<Longrightarrow> ObjectKey m = rt_key rt"
  by (simp add: free_for_def)

text \<open>A step that succeeds and takes the world from one state to another.\<close>

definition steps :: "(cluster, goerror option) rm \<Rightarrow> cluster \<Rightarrow> cluster \<Rightarrow> bool" where
  "steps m w w' \<longleftrightarrow>
     (\<forall>s. world s = w \<longrightarrow> (\<exists>cs. run_state m s = (None, s\<lparr>world := w', calls := cs\<rparr>)))"

lemma steps_or_fail: "steps m w w1 \<Longrightarrow> steps rest w1 w2 \<Longrightarrow> steps (or_fail prefix m rest) w w2"
  unfolding steps_def
proof (intro allI impI)
  fix s :: "cluster rstate"
  assume m: "\<forall>s. world s = w \<longrightarrow> (\<exists>cs. run_state m s = (None, s\<lparr>world := w1, calls := cs\<rparr>))"
    and rest: "\<forall>s. world s = w1 \<longrightarrow> (\<exists>cs. run_state rest s = (None, s\<lparr>world := w2, calls := cs\<rparr>))"
    and "world s = w"
  with m obtain cs where cs: "run_state m s = (None, s\<lparr>world := w1, calls := cs\<rparr>)" by blast
  from rest [rule_format, of "s\<lparr>world := w1, calls := cs\<rparr>"] cs
  show "\<exists>cs. run_state (or_fail prefix m rest) s = (None, s\<lparr>world := w2, calls := cs\<rparr>)"
    by (auto simp: or_fail_def)
qed

lemma steps_return: "steps (State_Monad.return None) w w"
proof -
  have "\<exists>cs. s = s\<lparr>world := world s, calls := cs\<rparr>" for s :: "cluster rstate"
    by (rule exI [of _ "calls s"]) simp
  then show ?thesis by (auto simp: steps_def)
qed

lemma steps_client_op: "f w = (None, w') \<Longrightarrow> steps (client_op c f) w w'"
  by (auto simp: steps_def)

lemma steps_client_op_bind:
  "f w = (a, w') \<Longrightarrow> g a = None \<Longrightarrow> steps (do { a \<leftarrow> client_op c f; State_Monad.return (g a) }) w w'"
  by (auto simp: steps_def)

lemmas step_simps = Let_def free_for_key_meta free_for_key

lemma step_configmap:
  assumes "opt_free rt ConfigMap_Meta (cl_configmaps w (rt_key rt))"
  shows "\<exists>x. steps (reconcileConfigMap (memory_reconciler rec) rt) w
      (w\<lparr>cl_configmaps := (cl_configmaps w)(rt_key rt := Some x)\<rparr>) \<and>
    good_configmap rt x \<and> mutateConfigMap (memory_reconciler rec) rt (buildConfigMap rt) x = Inr x"
proof -
  let ?cur = "\<lparr>ConfigMap_Meta = key_meta (managed_meta rt), Data = fmempty\<rparr>"
  have "\<exists>x. CreateOrUpdate_ConfigMap memory_api ?cur
        (mutateConfigMap (memory_reconciler rec) rt (buildConfigMap rt)) w =
      (None, w\<lparr>cl_configmaps := (cl_configmaps w)(rt_key rt := Some x)\<rparr>) \<and>
      good_configmap rt x \<and>
      mutateConfigMap (memory_reconciler rec) rt (buildConfigMap rt) x = Inr x \<and>
      ObjectKey (ConfigMap_Meta x) = rt_key rt"
    by (rule cm.takes [where free = "\<lambda>x. free_for rt (ConfigMap_Meta x)" and good = "\<lambda>_. good_configmap rt"])
      (use opt_freeD [OF assms] take_configmap in \<open>auto simp: step_simps\<close>)
  then show ?thesis by (simp add: reconcileConfigMap_def Let_def) (blast intro: steps_client_op)
qed

lemma step_serviceaccount:
  assumes "opt_free rt ServiceAccount_Meta (cl_serviceaccounts w (rt_key rt))"
  shows "\<exists>x. steps (reconcileServiceAccount (memory_reconciler rec) rt) w
      (w\<lparr>cl_serviceaccounts := (cl_serviceaccounts w)(rt_key rt := Some x)\<rparr>) \<and>
    good_serviceaccount rt x \<and>
    mutateServiceAccount (memory_reconciler rec) rt (buildServiceAccount rt) x = Inr x"
proof -
  let ?cur = "\<lparr>ServiceAccount_Meta = key_meta (managed_meta rt),
      SA_AutomountServiceAccountToken = None, SA_ImagePullSecrets = []\<rparr>"
  have "\<exists>x. CreateOrUpdate_ServiceAccount memory_api ?cur
        (mutateServiceAccount (memory_reconciler rec) rt (buildServiceAccount rt)) w =
      (None, w\<lparr>cl_serviceaccounts := (cl_serviceaccounts w)(rt_key rt := Some x)\<rparr>) \<and>
      good_serviceaccount rt x \<and>
      mutateServiceAccount (memory_reconciler rec) rt (buildServiceAccount rt) x = Inr x \<and>
      ObjectKey (ServiceAccount_Meta x) = rt_key rt"
    by (rule sa.takes [where free = "\<lambda>x. free_for rt (ServiceAccount_Meta x)" and good = "\<lambda>_. good_serviceaccount rt"])
      (use opt_freeD [OF assms] take_serviceaccount in \<open>auto simp: step_simps\<close>)
  then show ?thesis by (simp add: reconcileServiceAccount_def Let_def) (blast intro: steps_client_op)
qed

lemma step_service:
  assumes "opt_free rt Service_Meta (cl_services w (rt_key rt))"
  shows "\<exists>x. steps (reconcileService (memory_reconciler rec) rt) w
      (w\<lparr>cl_services := (cl_services w)(rt_key rt := Some x)\<rparr>) \<and>
    good_service rt x \<and>
    mutateService (memory_reconciler rec) rt (buildService rt) x = Inr x"
proof -
  let ?cur = "\<lparr>Service_Meta = key_meta (managed_meta rt), Service_Spec = zero_service_spec\<rparr>"
  have "\<exists>x. CreateOrUpdate_Service memory_api ?cur
        (mutateService (memory_reconciler rec) rt (buildService rt)) w =
      (None, w\<lparr>cl_services := (cl_services w)(rt_key rt := Some x)\<rparr>) \<and>
      good_service rt x \<and>
      mutateService (memory_reconciler rec) rt (buildService rt) x = Inr x \<and>
      ObjectKey (Service_Meta x) = rt_key rt"
    by (rule svc.takes [where free = "\<lambda>x. free_for rt (Service_Meta x)" and good = "\<lambda>_. good_service rt"])
      (use opt_freeD [OF assms] take_service in \<open>auto simp: step_simps\<close>)
  then show ?thesis by (simp add: reconcileService_def Let_def) (blast intro: steps_client_op)
qed

lemma step_budget:
  assumes "opt_free rt PDB_Meta (cl_budgets w (rt_key rt))"
  shows "\<exists>x. steps (reconcilePodDisruptionBudget (memory_reconciler rec) rt) w
      (w\<lparr>cl_budgets := (cl_budgets w)(rt_key rt := Some x)\<rparr>) \<and>
    good_budget rt x \<and>
    mutatePodDisruptionBudget (memory_reconciler rec) rt (buildPodDisruptionBudget rt) x = Inr x"
proof -
  let ?cur = "\<lparr>PDB_Meta = key_meta (managed_meta rt),
      PDB_Spec = \<lparr>PDB_MaxUnavailable = None, PDB_Selector = None\<rparr>\<rparr>"
  have "\<exists>x. CreateOrUpdate_PodDisruptionBudget memory_api ?cur
        (mutatePodDisruptionBudget (memory_reconciler rec) rt (buildPodDisruptionBudget rt)) w =
      (None, w\<lparr>cl_budgets := (cl_budgets w)(rt_key rt := Some x)\<rparr>) \<and>
      good_budget rt x \<and>
      mutatePodDisruptionBudget (memory_reconciler rec) rt (buildPodDisruptionBudget rt) x = Inr x \<and>
      ObjectKey (PDB_Meta x) = rt_key rt"
    by (rule pdb.takes [where free = "\<lambda>x. free_for rt (PDB_Meta x)" and good = "\<lambda>_. good_budget rt"])
      (use opt_freeD [OF assms] take_budget in \<open>auto simp: step_simps\<close>)
  then show ?thesis by (simp add: reconcilePodDisruptionBudget_def Let_def) (blast intro: steps_client_op)
qed

lemma step_policy:
  assumes "opt_free rt NetworkPolicy_Meta (cl_policies w (rt_key rt))"
    and "networkPolicyEnabled rt" and "buildNetworkPolicy rt = Some d"
  shows "\<exists>x. steps (reconcileNetworkPolicy (memory_reconciler rec) rt) w
      (w\<lparr>cl_policies := (cl_policies w)(rt_key rt := Some x)\<rparr>) \<and>
    good_policy rt x \<and>
    mutateNetworkPolicy (memory_reconciler rec) rt d x = Inr x"
proof -
  let ?cur = "\<lparr>NetworkPolicy_Meta = key_meta (managed_meta rt), NetworkPolicy_Spec = zero_policy_spec\<rparr>"
  have "\<exists>x. CreateOrUpdate_NetworkPolicy memory_api ?cur
        (mutateNetworkPolicy (memory_reconciler rec) rt d) w =
      (None, w\<lparr>cl_policies := (cl_policies w)(rt_key rt := Some x)\<rparr>) \<and>
      good_policy rt x \<and>
      mutateNetworkPolicy (memory_reconciler rec) rt d x = Inr x \<and>
      ObjectKey (NetworkPolicy_Meta x) = rt_key rt"
    by (rule np.takes [where free = "\<lambda>x. free_for rt (NetworkPolicy_Meta x)" and good = "\<lambda>_. good_policy rt"])
      (use opt_freeD [OF assms(1)] take_policy [OF _ assms(3)] in \<open>auto simp: step_simps\<close>)
  then show ?thesis using assms(2,3) by (simp add: reconcileNetworkPolicy_def Let_def) (blast intro: steps_client_op)
qed

lemma step_autoscaler:
  assumes "opt_free rt HPA_Meta (cl_autoscalers w (rt_key rt))"
    and "autoscalingEnabled rt"
  shows "\<exists>x. steps (reconcileHorizontalPodAutoscaler (memory_reconciler rec) rt) w
      (w\<lparr>cl_autoscalers := (cl_autoscalers w)(rt_key rt := Some x)\<rparr>) \<and>
    good_autoscaler rt x \<and>
    mutateHorizontalPodAutoscaler (memory_reconciler rec) rt (buildHorizontalPodAutoscaler rt) x = Inr x"
proof -
  let ?cur = "\<lparr>HPA_Meta = key_meta (managed_meta rt), HPA_Spec = zero_hpa_spec\<rparr>"
  have "\<exists>x. CreateOrUpdate_HorizontalPodAutoscaler memory_api ?cur
        (mutateHorizontalPodAutoscaler (memory_reconciler rec) rt (buildHorizontalPodAutoscaler rt)) w =
      (None, w\<lparr>cl_autoscalers := (cl_autoscalers w)(rt_key rt := Some x)\<rparr>) \<and>
      good_autoscaler rt x \<and>
      mutateHorizontalPodAutoscaler (memory_reconciler rec) rt (buildHorizontalPodAutoscaler rt) x = Inr x \<and>
      ObjectKey (HPA_Meta x) = rt_key rt"
    by (rule hpa.takes [where free = "\<lambda>x. free_for rt (HPA_Meta x)" and good = "\<lambda>_. good_autoscaler rt"])
      (use opt_freeD [OF assms(1)] take_autoscaler in \<open>auto simp: step_simps\<close>)
  then show ?thesis using assms(2) by (simp add: reconcileHorizontalPodAutoscaler_def Let_def) (blast intro: steps_client_op)
qed

definition base_deployment :: "TrussiumRuntime \<Rightarrow> Deployment option \<Rightarrow> Deployment" where
  "base_deployment rt old =
     (case old of
        None \<Rightarrow> \<lparr>Deployment_Meta = key_meta (managed_meta rt), Deployment_Spec = zero_deployment_spec,
                 Deployment_Status = zero_deployment_status\<rparr>
      | Some d \<Rightarrow> d)"

lemma step_deployment:
  assumes "opt_free rt Deployment_Meta (cl_deployments w (rt_key rt))"
  shows "\<exists>x. steps (reconcileDeployment (memory_reconciler rec) rt) w
      (w\<lparr>cl_deployments := (cl_deployments w)(rt_key rt := Some x)\<rparr>) \<and>
    keeps_deployment rt (base_deployment rt (cl_deployments w (rt_key rt))) x \<and>
    mutateDeployment (memory_reconciler rec) rt (buildDeployment rt) x = Inr x"
proof -
  let ?cur = "\<lparr>Deployment_Meta = key_meta (managed_meta rt), Deployment_Spec = zero_deployment_spec,
      Deployment_Status = zero_deployment_status\<rparr>"
  have "\<exists>x. CreateOrUpdate_Deployment memory_api ?cur
        (mutateDeployment (memory_reconciler rec) rt (buildDeployment rt)) w =
      (None, w\<lparr>cl_deployments := (cl_deployments w)(rt_key rt := Some x)\<rparr>) \<and>
      keeps_deployment rt (case cl_deployments w (rt_key rt) of None \<Rightarrow> ?cur | Some d \<Rightarrow> d) x \<and>
      mutateDeployment (memory_reconciler rec) rt (buildDeployment rt) x = Inr x \<and>
      ObjectKey (Deployment_Meta x) = rt_key rt"
    by (rule dep.takes [where free = "\<lambda>x. free_for rt (Deployment_Meta x)" and good = "keeps_deployment rt"])
      (use opt_freeD [OF assms] take_deployment in \<open>auto simp: step_simps keeps_deployment_admit\<close>)
  then show ?thesis by (simp add: reconcileDeployment_def Let_def base_deployment_def) (blast intro: steps_client_op)
qed

text \<open>What is switched off is removed.\<close>

lemma delete_in_gone:
  assumes "put (objects w) w = w"
  shows "\<exists>e. delete_in what objects put key w = (e, put ((objects w)(key := None)) w) \<and>
    memory_IgnoreNotFound e = None"
proof (cases "objects w key")
  case None
  then have "(objects w)(key := None) = objects w" by (simp add: fun_upd_idem)
  with None assms show ?thesis by (simp add: delete_in_def not_found_def memory_IgnoreNotFound_def)
qed (simp add: delete_in_def memory_IgnoreNotFound_def)

lemma step_no_policy:
  assumes "\<not> networkPolicyEnabled rt"
  shows "steps (reconcileNetworkPolicy (memory_reconciler rec) rt) w
      (w\<lparr>cl_policies := (cl_policies w)(rt_key rt := None)\<rparr>)"
  using assms delete_in_gone [of "\<lambda>m. cl_policies_update (\<lambda>_. m)" cl_policies w "''NetworkPolicy''" "rt_key rt"]
  by (auto simp: reconcileNetworkPolicy_def memory_api_def intro: steps_client_op_bind)

lemma step_no_autoscaler:
  assumes "\<not> autoscalingEnabled rt"
  shows "steps (reconcileHorizontalPodAutoscaler (memory_reconciler rec) rt) w
      (w\<lparr>cl_autoscalers := (cl_autoscalers w)(rt_key rt := None)\<rparr>)"
  using assms delete_in_gone [of "\<lambda>m. cl_autoscalers_update (\<lambda>_. m)" cl_autoscalers w "''HorizontalPodAutoscaler''" "rt_key rt"]
  by (auto simp: reconcileHorizontalPodAutoscaler_def memory_api_def intro: steps_client_op_bind)

section \<open>One pass over the managed resources\<close>

text \<open>Objects on which a further mutation does nothing.\<close>

definition settled_state :: "EventRecorder option \<Rightarrow> TrussiumRuntime \<Rightarrow> cluster \<Rightarrow> bool" where
  "settled_state rec rt w \<longleftrightarrow>
     (let r = memory_reconciler rec; key = rt_key rt in
      present (\<lambda>x. mutateConfigMap r rt (buildConfigMap rt) x = Inr x) (cl_configmaps w key) \<and>
      present (\<lambda>x. mutateServiceAccount r rt (buildServiceAccount rt) x = Inr x)
        (cl_serviceaccounts w key) \<and>
      present (\<lambda>x. mutateService r rt (buildService rt) x = Inr x) (cl_services w key) \<and>
      present (\<lambda>x. mutateDeployment r rt (buildDeployment rt) x = Inr x) (cl_deployments w key) \<and>
      present (\<lambda>x. mutatePodDisruptionBudget r rt (buildPodDisruptionBudget rt) x = Inr x)
        (cl_budgets w key) \<and>
      (networkPolicyEnabled rt \<longrightarrow>
         present (\<lambda>x. \<exists>d. buildNetworkPolicy rt = Some d \<and> mutateNetworkPolicy r rt d x = Inr x)
           (cl_policies w key)) \<and>
      (autoscalingEnabled rt \<longrightarrow>
         present (\<lambda>x. mutateHorizontalPodAutoscaler r rt (buildHorizontalPodAutoscaler rt) x = Inr x)
           (cl_autoscalers w key)))"

text \<open>The pass changed only objects of the resource, and kept what belongs to others in its Deployment.\<close>

definition confined_change :: "TrussiumRuntime \<Rightarrow> cluster \<Rightarrow> cluster \<Rightarrow> bool" where
  "confined_change rt w w' \<longleftrightarrow>
     cl_runtimes w' = cl_runtimes w \<and> cl_secrets w' = cl_secrets w \<and>
     cl_runtime_keys w' = cl_runtime_keys w \<and>
     (\<forall>k. k \<noteq> rt_key rt \<longrightarrow>
        cl_configmaps w' k = cl_configmaps w k \<and> cl_serviceaccounts w' k = cl_serviceaccounts w k \<and>
        cl_services w' k = cl_services w k \<and> cl_deployments w' k = cl_deployments w k \<and>
        cl_budgets w' k = cl_budgets w k \<and> cl_policies w' k = cl_policies w k \<and>
        cl_autoscalers w' k = cl_autoscalers w k) \<and>
     present (keeps_deployment rt (base_deployment rt (cl_deployments w (rt_key rt))))
       (cl_deployments w' (rt_key rt))"

lemma step_policy_any:
  assumes "networkPolicyEnabled rt \<longrightarrow> opt_free rt NetworkPolicy_Meta (cl_policies w (rt_key rt))"
  shows "\<exists>v. steps (reconcileNetworkPolicy (memory_reconciler rec) rt) w
      (w\<lparr>cl_policies := (cl_policies w)(rt_key rt := v)\<rparr>) \<and>
    (if networkPolicyEnabled rt
     then present (good_policy rt) v \<and>
       present (\<lambda>x. \<exists>d. buildNetworkPolicy rt = Some d \<and>
         mutateNetworkPolicy (memory_reconciler rec) rt d x = Inr x) v
     else v = None)"
proof (cases "networkPolicyEnabled rt")
  case True
  then obtain d where d: "buildNetworkPolicy rt = Some d" using networkPolicyEnabled_built by blast
  from step_policy [OF assms [rule_format, OF True] True d, of rec] True d show ?thesis
    by (fastforce simp: present_def)
qed (auto simp: step_no_policy)

lemma step_autoscaler_any:
  assumes "autoscalingEnabled rt \<longrightarrow> opt_free rt HPA_Meta (cl_autoscalers w (rt_key rt))"
  shows "\<exists>v. steps (reconcileHorizontalPodAutoscaler (memory_reconciler rec) rt) w
      (w\<lparr>cl_autoscalers := (cl_autoscalers w)(rt_key rt := v)\<rparr>) \<and>
    (if autoscalingEnabled rt
     then present (good_autoscaler rt) v \<and>
       present (\<lambda>x. mutateHorizontalPodAutoscaler (memory_reconciler rec) rt
         (buildHorizontalPodAutoscaler rt) x = Inr x) v
     else v = None)"
proof (cases "autoscalingEnabled rt")
  case True
  from step_autoscaler [OF assms [rule_format, OF True] True, of rec] True show ?thesis
    by (fastforce simp: present_def)
qed (auto simp: step_no_autoscaler)

lemma core_converges:
  assumes "takeable rt w"
  shows "\<exists>w'. steps (reconcileCoreResources (memory_reconciler rec) rt) w w' \<and>
    desired_state rt w' \<and> settled_state rec rt w' \<and> confined_change rt w w'"
proof -
  let ?r = "memory_reconciler rec"
  note free = assms [unfolded takeable_def Let_def]
  obtain x1 where 1: "steps (reconcileConfigMap ?r rt) w
      (w\<lparr>cl_configmaps := (cl_configmaps w)(rt_key rt := Some x1)\<rparr>)" (is "steps _ _ ?w1")
    "good_configmap rt x1" "mutateConfigMap ?r rt (buildConfigMap rt) x1 = Inr x1"
    using step_configmap [of rt w rec] free by auto
  obtain x2 where 2: "steps (reconcileServiceAccount ?r rt) ?w1
      (?w1\<lparr>cl_serviceaccounts := (cl_serviceaccounts w)(rt_key rt := Some x2)\<rparr>)" (is "steps _ _ ?w2")
    "good_serviceaccount rt x2" "mutateServiceAccount ?r rt (buildServiceAccount rt) x2 = Inr x2"
    using step_serviceaccount [of rt ?w1 rec] free by auto
  obtain x3 where 3: "steps (reconcileService ?r rt) ?w2
      (?w2\<lparr>cl_services := (cl_services w)(rt_key rt := Some x3)\<rparr>)" (is "steps _ _ ?w3")
    "good_service rt x3" "mutateService ?r rt (buildService rt) x3 = Inr x3"
    using step_service [of rt ?w2 rec] free by auto
  obtain x4 where 4: "steps (reconcileDeployment ?r rt) ?w3
      (?w3\<lparr>cl_deployments := (cl_deployments w)(rt_key rt := Some x4)\<rparr>)" (is "steps _ _ ?w4")
    "keeps_deployment rt (base_deployment rt (cl_deployments w (rt_key rt))) x4"
    "mutateDeployment ?r rt (buildDeployment rt) x4 = Inr x4"
    using step_deployment [of rt ?w3 rec] free by auto
  obtain x5 where 5: "steps (reconcilePodDisruptionBudget ?r rt) ?w4
      (?w4\<lparr>cl_budgets := (cl_budgets w)(rt_key rt := Some x5)\<rparr>)" (is "steps _ _ ?w5")
    "good_budget rt x5" "mutatePodDisruptionBudget ?r rt (buildPodDisruptionBudget rt) x5 = Inr x5"
    using step_budget [of rt ?w4 rec] free by auto
  obtain v6 where 6: "steps (reconcileNetworkPolicy ?r rt) ?w5
      (?w5\<lparr>cl_policies := (cl_policies w)(rt_key rt := v6)\<rparr>)" (is "steps _ _ ?w6")
    "if networkPolicyEnabled rt
     then present (good_policy rt) v6 \<and>
       present (\<lambda>x. \<exists>d. buildNetworkPolicy rt = Some d \<and> mutateNetworkPolicy ?r rt d x = Inr x) v6
     else v6 = None"
    using step_policy_any [of rt ?w5 rec] free by auto
  obtain v7 where 7: "steps (reconcileHorizontalPodAutoscaler ?r rt) ?w6
      (?w6\<lparr>cl_autoscalers := (cl_autoscalers w)(rt_key rt := v7)\<rparr>)" (is "steps _ _ ?w7")
    "if autoscalingEnabled rt
     then present (good_autoscaler rt) v7 \<and>
       present (\<lambda>x. mutateHorizontalPodAutoscaler ?r rt (buildHorizontalPodAutoscaler rt) x = Inr x) v7
     else v7 = None"
    using step_autoscaler_any [of rt ?w6 rec] free by auto
  have "steps (reconcileCoreResources ?r rt) w ?w7"
    unfolding reconcileCoreResources_def
    by (intro steps_or_fail [OF 1(1)] steps_or_fail [OF 2(1)] steps_or_fail [OF 3(1)]
        steps_or_fail [OF 4(1)] steps_or_fail [OF 5(1)] steps_or_fail [OF 6(1)]
        steps_or_fail [OF 7(1)] steps_return)
  moreover have "good_deployment rt x4" using 4(2) by (simp add: keeps_deployment_def)
  then have "desired_state rt ?w7"
    using 1(2) 2(2) 3(2) 5(2) 6(2) 7(2) by (simp add: desired_state_def split: if_splits)
  moreover have "settled_state rec rt ?w7"
    using 1(3) 2(3) 3(3) 4(3) 5(3) 6(2) 7(2) by (simp add: settled_state_def split: if_splits)
  moreover have "confined_change rt w ?w7"
    using 4(2) by (simp add: confined_change_def present_def)
  ultimately show ?thesis by blast
qed

section \<open>A second pass over the managed resources\<close>

lemma settled_key: "managed rt m \<Longrightarrow> ObjectKey m = rt_key rt"
  by (simp add: managed_def)

lemma presentE: "present good v \<Longrightarrow> \<exists>x. v = Some x \<and> good x"
  by (cases v) (simp_all add: present_def)

lemma upd_same: "(f :: NamespacedName \<Rightarrow> 'o option) k = v \<Longrightarrow> f(k := v) = f"
  by (simp add: fun_upd_idem)

lemma core_settled:
  assumes d: "desired_state rt w" and st: "settled_state rec rt w"
  shows "steps (reconcileCoreResources (memory_reconciler rec) rt) w w"
proof -
  let ?r = "memory_reconciler rec"
  note d = d [unfolded desired_state_def Let_def] and st = st [unfolded settled_state_def Let_def]
  have 1: "steps (reconcileConfigMap ?r rt) w w"
    using d st by (auto simp: reconcileConfigMap_def Let_def good_configmap_def settled_key
        dest!: presentE intro!: steps_client_op cm.save_same)
  have 2: "steps (reconcileServiceAccount ?r rt) w w"
    using d st by (auto simp: reconcileServiceAccount_def Let_def good_serviceaccount_def settled_key
        dest!: presentE intro!: steps_client_op sa.save_same)
  have 3: "steps (reconcileService ?r rt) w w"
    using d st by (auto simp: reconcileService_def Let_def good_service_def settled_key
        dest!: presentE intro!: steps_client_op svc.save_same)
  have 4: "steps (reconcileDeployment ?r rt) w w"
    using d st by (auto simp: reconcileDeployment_def Let_def good_deployment_def settled_key
        dest!: presentE intro!: steps_client_op dep.save_same)
  have 5: "steps (reconcilePodDisruptionBudget ?r rt) w w"
    using d st by (auto simp: reconcilePodDisruptionBudget_def Let_def good_budget_def settled_key
        dest!: presentE intro!: steps_client_op pdb.save_same)
  have 6: "steps (reconcileNetworkPolicy ?r rt) w w"
  proof (cases "networkPolicyEnabled rt")
    case True
    with d st show ?thesis
      by (auto simp: reconcileNetworkPolicy_def Let_def good_policy_def settled_key
          dest!: presentE intro!: steps_client_op np.save_same)
  next
    case False
    with d have "w\<lparr>cl_policies := (cl_policies w)(rt_key rt := None)\<rparr> = w" by (simp add: upd_same)
    with step_no_policy [OF False, of rec w] show ?thesis by simp
  qed
  have 7: "steps (reconcileHorizontalPodAutoscaler ?r rt) w w"
  proof (cases "autoscalingEnabled rt")
    case True
    with d st show ?thesis
      by (auto simp: reconcileHorizontalPodAutoscaler_def Let_def good_autoscaler_def settled_key
          dest!: presentE intro!: steps_client_op hpa.save_same)
  next
    case False
    with d have "w\<lparr>cl_autoscalers := (cl_autoscalers w)(rt_key rt := None)\<rparr> = w" by (simp add: upd_same)
    with step_no_autoscaler [OF False, of rec w] show ?thesis by simp
  qed
  show ?thesis
    unfolding reconcileCoreResources_def
    by (intro steps_or_fail [OF 1] steps_or_fail [OF 2] steps_or_fail [OF 3] steps_or_fail [OF 4]
        steps_or_fail [OF 5] steps_or_fail [OF 6] steps_or_fail [OF 7] steps_return)
qed

section \<open>The whole pass\<close>

lemma memory_meta: "meta_conditions memory_api"
  using doc.meta_conditions_axioms unfolding meta_conditions_def memory_api_def doc_meta_def by simp

interpretation mem: meta_conditions memory_api
  by (rule memory_meta)

lemma memory_api_simps [simp]:
  "DeepEqual memory_api = (=)"
  "Get_Runtime memory_api = read_object ''TrussiumRuntime'' cl_runtimes"
  "Get_Secret memory_api = read_object ''Secret'' cl_secrets"
  "Get_Deployment memory_api = read_object ''Deployment'' cl_deployments"
  "Get_Service memory_api = read_object ''Service'' cl_services"
  "Status_Update memory_api = memory_Status_Update"
  "IsNotFound memory_api (not_found what key) = True"
  by (simp_all add: memory_api_def not_found_def)

definition secrets_present :: "TrussiumRuntime \<Rightarrow> cluster \<Rightarrow> bool" where
  "secrets_present rt w \<longleftrightarrow>
     (\<forall>n \<in> set (referencedSecretNames rt).
        cl_secrets w \<lparr>Key_Namespace = Namespace (Runtime_Meta rt), Key_Name = n\<rparr> \<noteq> None)"

lemma memory_validateSecretNames:
  assumes "\<forall>n \<in> set names. cl_secrets (world s) \<lparr>Key_Namespace = ns, Key_Name = n\<rparr> \<noteq> None"
  shows "\<exists>cs. run_state (validateSecretNames memory_api ns names) s =
    (validReferenceValidation, s\<lparr>calls := cs\<rparr>)"
  using assms
proof (induction names arbitrary: s)
  case Nil
  show ?case by (intro exI [of _ "calls s"]) simp
next
  case (Cons n names)
  let ?key = "\<lparr>Key_Namespace = ns, Key_Name = n\<rparr>"
  from Cons.prems obtain x where "cl_secrets (world s) ?key = Some x" by auto
  with Cons.IH [of "s\<lparr>calls := calls s @ [CallGet KSecret ?key]\<rparr>"] Cons.prems show ?case
    by (auto simp: read_object_def Let_def)
qed

lemma memory_load:
  "run_state (loadRuntimeObservation memory_api rt) s =
     (Inr \<lparr>Obs_Deployment = cl_deployments (world s) (rt_key rt),
           Obs_Service = cl_services (world s) (rt_key rt)\<rparr>,
      s\<lparr>calls := calls s @ [CallGet KDeployment (rt_key rt), CallGet KService (rt_key rt)]\<rparr>)"
  by (simp add: loadRuntimeObservation_def loadObservedService_def read_object_def Let_def
      split: option.split)

text \<open>The status a pass leaves behind.\<close>

definition next_status :: "TrussiumRuntime \<Rightarrow> referenceValidationResult \<Rightarrow> cluster \<Rightarrow> clock \<Rightarrow> TrussiumRuntimeStatus"
where
  "next_status rt val w clk =
     preserveRuntimeConditionTransitionTimes memory_api (Status rt)
       (fst (buildRuntimeStatus memory_api rt
          \<lparr>Obs_Deployment = cl_deployments w (rt_key rt), Obs_Service = cl_services w (rt_key rt)\<rparr> val clk))"

definition store_status :: "TrussiumRuntime \<Rightarrow> TrussiumRuntimeStatus \<Rightarrow> cluster \<Rightarrow> cluster" where
  "store_status rt s w = w\<lparr>cl_runtimes := (cl_runtimes w)(rt_key rt := Some (rt\<lparr>Status := s\<rparr>))\<rparr>"

definition announced_events ::
  "EventRecorder option \<Rightarrow> TrussiumRuntime \<Rightarrow> TrussiumRuntimeStatus \<Rightarrow> event list"
where
  "announced_events rec rt N =
     (if N = Status rt \<or> rec = None then []
      else transition_events memory_api (rt\<lparr>Status := N\<rparr>) (Status rt) N)"

lemma memory_finish:
  assumes "cl_runtimes (world s) (rt_key rt) = Some rt"
    and N: "N = next_status rt val (world s) (rclock s)"
  shows "\<exists>s'. run_state (finishReconciliation (memory_reconciler rec) rt (Status rt) val) s = (None, s') \<and>
    world s' = store_status rt N (world s) \<and> recorded s' = recorded s @ announced_events rec rt N"
proof -
  let ?obs = "\<lparr>Obs_Deployment = cl_deployments (world s) (rt_key rt),
      Obs_Service = cl_services (world s) (rt_key rt)\<rparr>"
  let ?b = "buildRuntimeStatus memory_api rt ?obs val (rclock s)"
  have N': "preserveRuntimeConditionTransitionTimes memory_api (Status rt) (fst ?b) = N"
    by (simp add: N next_status_def)
  have rec: "Recorder (memory_reconciler rec) = rec" by (simp add: memory_reconciler_def)
  show ?thesis
  proof (cases "Status rt = N")
    case True
    then have "rt\<lparr>Status := N\<rparr> = rt" by auto
    then have "store_status rt N (world s) = world s"
      using assms(1) upd_same [of "cl_runtimes (world s)" "rt_key rt"] by (simp add: store_status_def)
    then show ?thesis
      using True N' by (auto simp: finishReconciliation_def memory_load updateRuntimeStatus_def
          announced_events_def)
  next
    case False
    then show ?thesis
      using N' assms(1) rec
      by (auto simp: finishReconciliation_def memory_load updateRuntimeStatus_def Let_def
          announced_events_def memory_Status_Update_def store_status_def)
  qed
qed

lemma memory_existing:
  assumes w: "world s = w" and stored: "cl_runtimes w (rt_key rt) = Some rt"
    and secrets: "secrets_present rt w"
    and core: "steps (reconcileCoreResources (memory_reconciler rec) rt) w w'"
    and same: "cl_runtimes w' = cl_runtimes w"
    and N: "N = next_status rt validReferenceValidation w' (rclock s)"
  shows "\<exists>s'. run_state (reconcileExisting (memory_reconciler rec) rt) s = (None, s') \<and>
    world s' = store_status rt N w' \<and> recorded s' = recorded s @ announced_events rec rt N"
proof -
  obtain cs1 where 1: "run_state (validateSecretReferences memory_api rt) s =
      (validReferenceValidation, s\<lparr>calls := cs1\<rparr>)"
    using memory_validateSecretNames [of "referencedSecretNames rt" s "Namespace (Runtime_Meta rt)"]
      secrets w by (auto simp: secrets_present_def validateSecretReferences_def)
  obtain cs2 where 2: "run_state (reconcileCoreResources (memory_reconciler rec) rt) (s\<lparr>calls := cs1\<rparr>) =
      (None, s\<lparr>world := w', calls := cs2\<rparr>)"
    using core [unfolded steps_def, rule_format, of "s\<lparr>calls := cs1\<rparr>"] w by auto
  obtain s' where 3: "run_state (finishReconciliation (memory_reconciler rec) rt (Status rt)
      validReferenceValidation) (s\<lparr>world := w', calls := cs2\<rparr>) = (None, s')"
    "world s' = store_status rt N w'" "recorded s' = recorded s @ announced_events rec rt N"
    using memory_finish [of "s\<lparr>world := w', calls := cs2\<rparr>" rt N validReferenceValidation rec]
      stored same N by auto
  have "Valid validReferenceValidation" "Err validReferenceValidation = None"
    by (simp_all add: validReferenceValidation_def)
  with 1 2 3 show ?thesis
    by (auto simp: reconcileExisting_def copyRuntimeStatus_def Let_def)
qed

lemma memory_Reconcile:
  assumes w: "world s = w" and stored: "cl_runtimes w (rt_key rt) = Some rt"
    and alive: "IsZero (DeletionTimestamp (Runtime_Meta rt))"
    and secrets: "secrets_present rt w"
    and core: "steps (reconcileCoreResources (memory_reconciler rec) rt) w w'"
    and same: "cl_runtimes w' = cl_runtimes w"
    and N: "N = next_status rt validReferenceValidation w' (tick (rclock s))"
  shows "\<exists>s'. run_state (Reconcile (memory_reconciler rec) (rt_key rt)) s = (None, s') \<and>
    world s' = store_status rt N w' \<and> recorded s' = recorded s @ announced_events rec rt N"
proof -
  let ?s0 = "s\<lparr>rclock := tick (rclock s)\<rparr>"
  let ?s1 = "after_get (memory_reconciler rec) (rt_key rt) ?s0"
  have "world ?s1 = w" "rclock ?s1 = tick (rclock s)" "recorded ?s1 = recorded s"
    by (simp_all add: after_get_def read_object_def w)
  with memory_existing [of ?s1 w rt rec w' N] assms obtain s' where
    s': "run_state (reconcileExisting (memory_reconciler rec) rt) ?s1 = (None, s')"
    "world s' = store_status rt N w'" "recorded s' = recorded s @ announced_events rec rt N"
    by auto
  have "fst (Get_Runtime memory_api (rt_key rt) (world ?s0)) = Inr rt"
    by (simp add: read_object_def w stored)
  then have "run_state (reconcileRuntime (memory_reconciler rec) (rt_key rt)) ?s0 = (None, s')"
    using s'(1) alive by (simp add: run_reconcileRuntime)
  then show ?thesis using s'(2,3) by (simp add: run_Reconcile Let_def)
qed

text \<open>The status a pass stores is the one the next pass computes.\<close>

lemma next_status_stable:
  assumes "status_wf (Status rt)" and "runtimeImage (Image (Spec rt)) \<noteq> ''''"
    and N: "N = next_status rt val w clk"
  shows "next_status (rt\<lparr>Status := N\<rparr>) val (store_status rt N w) clk' = N"
  using mem.build_preserve_stable [OF assms(1,2) N [unfolded next_status_def], of clk']
  by (simp add: next_status_def store_status_def)

section \<open>Independence of the stored status\<close>

text \<open>Nothing the operator asks for depends on the status of the resource.\<close>

lemma runtime_update:
  "Spec (rt\<lparr>Status := s\<rparr>) = Spec rt" "Runtime_Meta (rt\<lparr>Status := s\<rparr>) = Runtime_Meta rt"
  by simp_all

lemmas resource_defs = runtimeLabels_def runtimeSelectorLabels_def desiredReplicas_def
  autoscalingEnabled_def desiredAutoscalingMinReplicas_def desiredAutoscalingMaxReplicas_def
  desiredTargetCPUUtilization_def desiredServiceType_def desiredServicePort_def
  terminationGracePeriodSeconds_def mergedPodLabels_def runtimeNodeSelector_def runtimeTolerations_def
  runtimeAffinity_def imagePullSecrets_def runtimeConfigData_def podAnnotations_def managed_meta_def
  providerCredentialEnv_def initialDeploymentReplicas_def runtime_container_def runtime_pod_spec_def

lemma status_blind_resources:
  "managed_meta (rt\<lparr>Status := s\<rparr>) = managed_meta rt"
  "runtimeLabels (rt\<lparr>Status := s\<rparr>) = runtimeLabels rt"
  "imagePullSecrets (rt\<lparr>Status := s\<rparr>) = imagePullSecrets rt"
  "runtimeConfigData (rt\<lparr>Status := s\<rparr>) = runtimeConfigData rt"
  "desiredReplicas (rt\<lparr>Status := s\<rparr>) = desiredReplicas rt"
  "autoscalingEnabled (rt\<lparr>Status := s\<rparr>) = autoscalingEnabled rt"
  "networkPolicyEnabled (rt\<lparr>Status := s\<rparr>) = networkPolicyEnabled rt"
  "owner_reference (rt\<lparr>Status := s\<rparr>) = owner_reference rt"
  "referencedSecretNames (rt\<lparr>Status := s\<rparr>) = referencedSecretNames rt"
  unfolding resource_defs networkPolicyEnabled_def owner_reference_def referencedSecretNames_def
    runtime_update by (rule refl)+

lemma status_blind_builders:
  "buildConfigMap (rt\<lparr>Status := s\<rparr>) = buildConfigMap rt"
  "buildServiceAccount (rt\<lparr>Status := s\<rparr>) = buildServiceAccount rt"
  "buildService (rt\<lparr>Status := s\<rparr>) = buildService rt"
  "buildDeployment (rt\<lparr>Status := s\<rparr>) = buildDeployment rt"
  "buildPodDisruptionBudget (rt\<lparr>Status := s\<rparr>) = buildPodDisruptionBudget rt"
  "buildNetworkPolicy (rt\<lparr>Status := s\<rparr>) = buildNetworkPolicy rt"
  "buildHorizontalPodAutoscaler (rt\<lparr>Status := s\<rparr>) = buildHorizontalPodAutoscaler rt"
  unfolding buildConfigMap_def buildServiceAccount_def buildService_def buildDeployment_def
    buildPodDisruptionBudget_def buildNetworkPolicy_def buildHorizontalPodAutoscaler_def resource_defs
    runtime_update by (rule refl)+

lemma status_blind_owned:
  "owned (memory_reconciler rec) (rt\<lparr>Status := s\<rparr>) = owned (memory_reconciler rec) rt"
  unfolding fun_eq_iff owned_def memory_reconciler_client memory_ref memory_SetControllerReference_def
    status_blind_resources runtime_update by blast

lemma status_blind_mutations:
  "mutateConfigMap (memory_reconciler rec) (rt\<lparr>Status := s\<rparr>) = mutateConfigMap (memory_reconciler rec) rt"
  "mutateServiceAccount (memory_reconciler rec) (rt\<lparr>Status := s\<rparr>) =
     mutateServiceAccount (memory_reconciler rec) rt"
  "mutateService (memory_reconciler rec) (rt\<lparr>Status := s\<rparr>) = mutateService (memory_reconciler rec) rt"
  "mutateDeployment (memory_reconciler rec) (rt\<lparr>Status := s\<rparr>) = mutateDeployment (memory_reconciler rec) rt"
  "mutatePodDisruptionBudget (memory_reconciler rec) (rt\<lparr>Status := s\<rparr>) =
     mutatePodDisruptionBudget (memory_reconciler rec) rt"
  "mutateNetworkPolicy (memory_reconciler rec) (rt\<lparr>Status := s\<rparr>) =
     mutateNetworkPolicy (memory_reconciler rec) rt"
  "mutateHorizontalPodAutoscaler (memory_reconciler rec) (rt\<lparr>Status := s\<rparr>) =
     mutateHorizontalPodAutoscaler (memory_reconciler rec) rt"
  unfolding fun_eq_iff mutateConfigMap_def mutateServiceAccount_def mutateService_def mutateDeployment_def
    mutatePodDisruptionBudget_def mutateNetworkPolicy_def mutateHorizontalPodAutoscaler_def
    status_blind_owned status_blind_resources by blast+

lemma store_status_objects:
  "cl_configmaps (store_status rt N w) = cl_configmaps w"
  "cl_serviceaccounts (store_status rt N w) = cl_serviceaccounts w"
  "cl_services (store_status rt N w) = cl_services w"
  "cl_deployments (store_status rt N w) = cl_deployments w"
  "cl_budgets (store_status rt N w) = cl_budgets w"
  "cl_policies (store_status rt N w) = cl_policies w"
  "cl_autoscalers (store_status rt N w) = cl_autoscalers w"
  "cl_secrets (store_status rt N w) = cl_secrets w"
  by (simp_all add: store_status_def)

lemma status_blind_states:
  "desired_state (rt\<lparr>Status := s\<rparr>) (store_status q N w) = desired_state rt w"
  "settled_state rec (rt\<lparr>Status := s\<rparr>) (store_status q N w) = settled_state rec rt w"
  "secrets_present (rt\<lparr>Status := s\<rparr>) (store_status q N w) = secrets_present rt w"
proof -
  have managed: "managed (rt\<lparr>Status := s\<rparr>) = managed rt"
    unfolding fun_eq_iff managed_def owned_by_def status_blind_resources runtime_update by blast
  have "good_configmap (rt\<lparr>Status := s\<rparr>) = good_configmap rt"
    "good_serviceaccount (rt\<lparr>Status := s\<rparr>) = good_serviceaccount rt"
    "good_service (rt\<lparr>Status := s\<rparr>) = good_service rt"
    "good_deployment (rt\<lparr>Status := s\<rparr>) = good_deployment rt"
    "good_budget (rt\<lparr>Status := s\<rparr>) = good_budget rt"
    "good_policy (rt\<lparr>Status := s\<rparr>) = good_policy rt"
    "good_autoscaler (rt\<lparr>Status := s\<rparr>) = good_autoscaler rt"
    unfolding fun_eq_iff good_configmap_def good_serviceaccount_def good_service_def
      good_deployment_def good_budget_def good_policy_def good_autoscaler_def managed
      status_blind_resources status_blind_builders by blast+
  then show "desired_state (rt\<lparr>Status := s\<rparr>) (store_status q N w) = desired_state rt w"
    unfolding desired_state_def store_status_objects status_blind_resources runtime_update by simp
  show "settled_state rec (rt\<lparr>Status := s\<rparr>) (store_status q N w) = settled_state rec rt w"
    unfolding settled_state_def Let_def store_status_objects status_blind_resources status_blind_builders
      status_blind_mutations runtime_update ..
  show "secrets_present (rt\<lparr>Status := s\<rparr>) (store_status q N w) = secrets_present rt w"
    unfolding secrets_present_def store_status_objects status_blind_resources runtime_update ..
qed

lemmas status_blind = status_blind_states runtime_update

lemma desired_state_store [simp]: "desired_state rt (store_status q N w) = desired_state rt w"
  unfolding desired_state_def store_status_objects ..

end
