(* ===== verification/Controller_Properties.thy ===== *)
theory Controller_Properties
  imports Convergence Status_Properties
begin

text \<open>
  The properties of the reconciler: what it may touch, in which order it writes, when it writes nothing,
  what it reports, and that it converges.  Properties that hold whatever the cluster answers take an
  arbitrary client; convergence is proved on the API server of \<open>Cluster\<close>, which also provides the
  witnesses.
\<close>

section \<open>Samples\<close>

definition sample_key :: NamespacedName where
  "sample_key = \<lparr>Key_Namespace = ''trussium'', Key_Name = ''demo''\<rparr>"

definition sample_secret :: "string \<Rightarrow> Secret" where
  "sample_secret n = \<lparr>Secret_Meta = object_meta n ''trussium'' fmempty, Secret_Data = fmempty\<rparr>"

definition sample_cluster :: "string list \<Rightarrow> cluster" where
  "sample_cluster secrets =
     \<lparr>cl_runtimes = (\<lambda>k. if k = sample_key then Some (sample_runtime ''demo'') else None),
      cl_secrets = (\<lambda>k. if Key_Namespace k = ''trussium'' \<and> Key_Name k \<in> set secrets
                        then Some (sample_secret (Key_Name k)) else None),
      cl_configmaps = (\<lambda>_. None), cl_serviceaccounts = (\<lambda>_. None), cl_services = (\<lambda>_. None),
      cl_deployments = (\<lambda>_. None), cl_budgets = (\<lambda>_. None), cl_policies = (\<lambda>_. None),
      cl_autoscalers = (\<lambda>_. None), cl_runtime_keys = [sample_key]\<rparr>"

definition sample_state :: "'w \<Rightarrow> 'w rstate" where
  "sample_state w =
     \<lparr>world = w, rclock = sample_clock, calls = [], recorded = [],
      reconciliations_total = (\<lambda>_. 0), reconciliation_durations = []\<rparr>"

definition sample_reconciler :: "cluster TrussiumRuntimeReconciler" where
  "sample_reconciler = memory_reconciler (Some EventRecorder)"

lemma sample_runtime_key [simp]: "rt_key (sample_runtime ''demo'') = sample_key"
  by (simp add: sample_runtime_def sample_key_def ObjectKey_def object_meta_def)

section \<open>Referenced Secrets\<close>

lemma fold_fmupd_dom:
  "fset (fmdom (fold (\<lambda>x m. fmupd (f x) () m) xs m)) = f ` set xs \<union> fset (fmdom m)"
  by (induction xs arbitrary: m) auto

lemma set_referencedSecretNames:
  "set (referencedSecretNames rt) =
     (case CredentialsSecretRef (Provider (Spec rt)) of None \<Rightarrow> {} | Some ref \<Rightarrow> {SecretKeyReference_Name ref}) \<union>
     NamedReference_Name ` set (ImagePullSecrets (Spec rt))"
  by (auto simp: referencedSecretNames_def Let_def fold_fmupd_dom split: option.split)

text \<open>The Secrets a resource references are exactly its credentials Secret, if any, and its image pull
  Secrets, each once and in ascending order, whatever order the map is ranged over; and a Secret is
  reported as referenced exactly when it is one of them.\<close>

theorem referenced_secrets_exact:
  "sorted (referencedSecretNames rt) \<and> distinct (referencedSecretNames rt) \<and>
   set (referencedSecretNames rt) =
     (case CredentialsSecretRef (Provider (Spec rt)) of
        None \<Rightarrow> {} | Some ref \<Rightarrow> {SecretKeyReference_Name ref}) \<union>
     NamedReference_Name ` set (ImagePullSecrets (Spec rt)) \<and>
   runtimeReferencesSecret rt n = (n \<in> set (referencedSecretNames rt))"
  unfolding set_referencedSecretNames [symmetric]
  by (simp add: referencedSecretNames_def Let_def runtimeReferencesSecret_def)

text \<open>The verdict that reading the names in turn gives, when reading a Secret gives its answer.\<close>

definition verdict :: "'w kube_api \<Rightarrow> string \<Rightarrow> (string \<Rightarrow> goerror + Secret) \<Rightarrow> string list \<Rightarrow> referenceValidationResult"
where
  "verdict K ns answer names =
     (case List.find (\<lambda>n. isl (answer n)) names of
        None \<Rightarrow> validReferenceValidation
      | Some n \<Rightarrow>
          (case answer n of
             Inr _ \<Rightarrow> validReferenceValidation
           | Inl err \<Rightarrow>
               if IsNotFound K err then
                 \<lparr>Valid = False, Validation_Reason = reasonSecretNotFound,
                  Validation_Message = ''Referenced Secret '' @ Quote n @ '' was not found.'', Err = None\<rparr>
               else
                 \<lparr>Valid = False, Validation_Reason = reasonReferenceCheckFailed,
                  Validation_Message = ''Unable to verify referenced Secrets.'',
                  Err = Some (Wrapf (''get referenced Secret '' @ ns @ ''/'' @ n @ '': '') err)\<rparr>))"

lemma validateSecretNames_verdict:
  assumes "\<And>n. Get_Secret K \<lparr>Key_Namespace = ns, Key_Name = n\<rparr> (world s) = (answer n, world s)"
  shows "\<exists>cs. run_state (validateSecretNames K ns names) s = (verdict K ns answer names, s\<lparr>calls := cs\<rparr>)"
  using assms
proof (induction names arbitrary: s)
  case Nil
  show ?case by (intro exI [of _ "calls s"]) (simp add: verdict_def)
next
  case (Cons n names)
  let ?s = "s\<lparr>calls := calls s @ [CallGet KSecret \<lparr>Key_Namespace = ns, Key_Name = n\<rparr>]\<rparr>"
  show ?case
  proof (cases "answer n")
    case (Inl err)
    with Cons.prems show ?thesis by (auto simp: verdict_def Let_def)
  next
    case (Inr x)
    then have "verdict K ns answer (n # names) = verdict K ns answer names" by (simp add: verdict_def)
    with Inr Cons.prems Cons.IH [of ?s] show ?thesis by (auto simp: Let_def)
  qed
qed



section \<open>What a pass may touch\<close>

text \<open>C8: a pass stays in its lane.  Whatever the cluster answers, if \<open>Get\<close> returns the object that was
  asked for, a reconciliation of \<open>req\<close> reads only that resource, Secrets in its namespace and its
  Deployment and Service, never lists anything, creates, updates or deletes only objects of the seven
  owned kinds that have the name and namespace of the request, and writes no status but its own.\<close>

theorem reconcile_confined:
  assumes "get_respects_key (Client r)"
  shows "\<exists>cs. calls (snd (run_state (Reconcile r req) s)) = calls s @ cs \<and> list_all (confined req) cs"
proof -
  have "trace (confined req) (\<lambda>_. True) (s\<lparr>rclock := tick (rclock s)\<rparr>)
      (snd (run_state (reconcileRuntime r req) (s\<lparr>rclock := tick (rclock s)\<rparr>)))"
    using assms by (rule trace_reconcileRuntime)
  then show ?thesis by (auto simp: trace_def run_Reconcile Let_def case_prod_beta)
qed

text \<open>A client that answers \<open>Get\<close> with the object asked for, or not at all.\<close>

definition strict_api :: "cluster kube_api" where
  "strict_api = memory_api\<lparr>Get_Runtime := (\<lambda>key w.
     case cl_runtimes w key of
       Some rt \<Rightarrow> (if rt_key rt = key then Inr rt else Inl (not_found ''TrussiumRuntime'' key), w)
     | None \<Rightarrow> (Inl (not_found ''TrussiumRuntime'' key), w))\<rparr>"

lemma strict_api_respects: "get_respects_key strict_api"
  by (auto simp: get_respects_key_def strict_api_def split: option.splits if_splits)

theorem reconcile_confined_witness:
  "\<exists>cs. calls (snd (run_state (Reconcile \<lparr>Client = strict_api, Recorder = None\<rparr> sample_key)
      (sample_state (sample_cluster [''creds''])))) = cs \<and> list_all (confined sample_key) cs"
  using reconcile_confined [of "\<lparr>Client = strict_api, Recorder = None\<rparr>" sample_key
      "sample_state (sample_cluster [''creds''])"] strict_api_respects
  by (simp add: sample_state_def)

text \<open>C14: the managed resources are written in a fixed order that stops at the first error.  The calls
  made are an initial part of the seven: ConfigMap, ServiceAccount, Service, Deployment,
  PodDisruptionBudget, NetworkPolicy, HorizontalPodAutoscaler, the last two deletions when switched
  off.  All seven are made when there is no error; otherwise the error names the resource of the last
  call made.  Nothing but the world and the list of calls changes.\<close>

theorem core_resources_in_order:
  "case run_state (reconcileCoreResources r rt) s of (result, s') \<Rightarrow>
     \<exists>n \<le> 7. (\<exists>w. s' = s\<lparr>world := w, calls := calls s @ map snd (take n (core_calls rt))\<rparr>) \<and>
       (case result of
          None \<Rightarrow> n = 7
        | Some err \<Rightarrow>
            0 < n \<and> (\<exists>e. err = Wrapf (reconcile_prefix (fst (core_calls rt ! (n - 1))) rt) e))"
proof -
  have "length (core_calls rt) = 7" by (simp add: core_calls_def Let_def)
  then show ?thesis
    using chain_reconcileCoreResources [of rt r, unfolded chain_outcome_def, rule_format, of s]
    by (simp cong: option.case_cong)
qed



lemma unreadable_invalid:
  assumes "n \<in> set names"
    and "\<And>w. isl (fst (Get_Secret K \<lparr>Key_Namespace = ns, Key_Name = n\<rparr> w))"
  shows "\<not> Valid (fst (run_state (validateSecretNames K ns names) s))"
  using assms
proof (induction names arbitrary: s)
  case (Cons m names)
  show ?case
  proof (cases "fst (Get_Secret K \<lparr>Key_Namespace = ns, Key_Name = m\<rparr> (world s))")
    case (Inl err)
    then show ?thesis by (simp add: Let_def)
  next
    case (Inr x)
    with Cons.prems(2) [of "world s"] have "m \<noteq> n" by auto
    with Cons.prems Cons.IH Inr show ?thesis by (simp add: Let_def)
  qed
qed simp

lemma reporting_reads:
  "reporting (ObjectKey m) (CallGet KDeployment (ObjectKey m))"
  "reporting (ObjectKey m) (CallGet KService (ObjectKey m))"
  "reporting (ObjectKey m) (CallStatusUpdate (ObjectKey m))"
  "reporting (ObjectKey m) (CallGet KSecret \<lparr>Key_Namespace = Namespace m, Key_Name = n\<rparr>)"
  by (simp_all add: ObjectKey_def)

lemma invalid_existing_reports:
  assumes "\<not> Valid (fst (run_state (validateSecretReferences (Client r) rt) s))"
  shows "trace (reporting (rt_key rt)) (\<lambda>_. True) s (snd (run_state (reconcileExisting r rt) s))"
proof -
  let ?tr = "trace (reporting (rt_key rt)) (\<lambda>_. True)"
  obtain val s1 where v: "run_state (validateSecretReferences (Client r) rt) s = (val, s1)" by fastforce
  have "?tr s (snd (run_state (validateSecretReferences (Client r) rt) s))"
    unfolding validateSecretReferences_def
    by (intro withinD [OF trace_validateSecretNames] reporting_reads)
  moreover have "within ?tr (handleReconciliationFailure r rt (Status rt) err)"
    "within ?tr (finishReconciliation r rt (Status rt) val)" for err
    by (intro trace_handleReconciliationFailure trace_finishReconciliation reporting_reads)+
  then have "?tr s1 (snd (run_state (reconcileExisting r rt) s))"
    using assms v by (auto simp: reconcileExisting_def reconcileInvalidConfiguration_def
        copyRuntimeStatus_def Let_def withinD split: option.split)
  ultimately show ?thesis using v by (auto intro: tr.effect_trans)
qed

text \<open>C6: a missing Secret blocks every write of managed objects.  While some referenced Secret cannot be
  read, whether it is missing or the API fails, a pass creates, updates and deletes no managed
  object: it only reads and reports the status.\<close>

theorem missing_secret_blocks_writes:
  assumes "get_respects_key (Client r)"
    and "\<And>w rt. fst (Get_Runtime (Client r) req w) = Inr rt \<Longrightarrow> n \<in> set (referencedSecretNames rt)"
    and "\<And>w. isl (fst (Get_Secret (Client r) \<lparr>Key_Namespace = Key_Namespace req, Key_Name = n\<rparr> w))"
  shows "\<exists>cs. calls (snd (run_state (Reconcile r req) s)) = calls s @ cs \<and>
    list_all (\<lambda>c. confined req c \<and> \<not> writes_managed c) cs"
proof -
  let ?s = "s\<lparr>rclock := tick (rclock s)\<rparr>"
  have get: "trace (reporting req) (\<lambda>_. True) ?s (after_get r req ?s)"
    by (simp add: trace_def after_get_def)
  have "trace (reporting req) (\<lambda>_. True) ?s (snd (run_state (reconcileRuntime r req) ?s))"
  proof (cases "fst (Get_Runtime (Client r) req (world ?s))")
    case (Inl err)
    then show ?thesis using get by (simp add: run_reconcileRuntime)
  next
    case (Inr rt)
    then have key: "rt_key rt = req" using assms(1) by (auto simp: get_respects_key_def)
    then have "Namespace (Runtime_Meta rt) = Key_Namespace req" by (auto simp: ObjectKey_def)
    then have "\<not> Valid (fst (run_state (validateSecretReferences (Client r) rt) (after_get r req ?s)))"
      using unreadable_invalid [OF assms(2) [OF Inr] assms(3)] by (simp add: validateSecretReferences_def)
    from invalid_existing_reports [OF this]
    have "trace (reporting req) (\<lambda>_. True) (after_get r req ?s)
        (snd (run_state (reconcileExisting r rt) (after_get r req ?s)))" by (simp add: key)
    with get have "trace (reporting req) (\<lambda>_. True) ?s
        (snd (run_state (reconcileExisting r rt) (after_get r req ?s)))" by (rule tr.effect_trans)
    with get Inr show ?thesis by (simp add: run_reconcileRuntime)
  qed
  then show ?thesis
    by (auto simp: trace_def run_Reconcile Let_def case_prod_beta list_all_iff reporting_def)
qed

theorem missing_secret_blocks_writes_witness:
  "\<exists>cs. calls (snd (run_state (Reconcile
      \<lparr>Client = strict_api\<lparr>Get_Runtime := (\<lambda>key w. if key = sample_key
           then (Inr (sample_runtime ''demo''), w) else (Inl (not_found ''TrussiumRuntime'' key), w)),
         Get_Secret := (\<lambda>key w. (Inl (not_found ''Secret'' key), w))\<rparr>, Recorder = None\<rparr> sample_key)
      (sample_state (sample_cluster [])))) = cs \<and>
    list_all (\<lambda>c. confined sample_key c \<and> \<not> writes_managed c) cs"
proof -
  let ?r = "\<lparr>Client = strict_api\<lparr>Get_Runtime := (\<lambda>key w. if key = sample_key
           then (Inr (sample_runtime ''demo''), w) else (Inl (not_found ''TrussiumRuntime'' key), w)),
         Get_Secret := (\<lambda>key w. (Inl (not_found ''Secret'' key), w))\<rparr>, Recorder = None\<rparr>"
  have "get_respects_key (Client ?r)"
    by (auto simp: get_respects_key_def split: if_splits)
  moreover have "''pull'' \<in> set (referencedSecretNames (sample_runtime ''demo''))"
    by (simp add: set_referencedSecretNames sample_runtime_def sample_spec_def)
  ultimately show ?thesis
    using missing_secret_blocks_writes [of ?r sample_key "''pull''" "sample_state (sample_cluster [])"]
    by (simp add: sample_state_def)
qed

section \<open>Access\<close>

text \<open>The access one call needs.\<close>

fun resource :: "kind \<Rightarrow> string \<times> string" where
  "resource KTrussiumRuntime = (''runtime.trussium.io'', ''trussiumruntimes'')"
| "resource KSecret = ('''', ''secrets'')"
| "resource KConfigMap = ('''', ''configmaps'')"
| "resource KServiceAccount = ('''', ''serviceaccounts'')"
| "resource KService = ('''', ''services'')"
| "resource KDeployment = (''apps'', ''deployments'')"
| "resource KPodDisruptionBudget = (''policy'', ''poddisruptionbudgets'')"
| "resource KNetworkPolicy = (''networking.k8s.io'', ''networkpolicies'')"
| "resource KHorizontalPodAutoscaler = (''autoscaling'', ''horizontalpodautoscalers'')"

fun needs :: "api_call \<Rightarrow> ((string \<times> string) \<times> string) list" where
  "needs (CallGet k key) = [(resource k, ''get'')]"
| "needs (CallList k ns) = [(resource k, ''list'')]"
| "needs (CallCreateOrUpdate k key) =
     [(resource k, ''get''), (resource k, ''create''), (resource k, ''update'')]"
| "needs (CallDelete k key) = [(resource k, ''delete'')]"
| "needs (CallStatusUpdate key) = [((''runtime.trussium.io'', ''trussiumruntimes/status''), ''update'')]"

lemma permits_read:
  "permits (resource k) ''get''" "permits (resource k) ''list''" "permits (resource k) ''watch''"
  by (cases k; simp add: permits_def rbac_markers_def)+

lemma permits_owned:
  assumes "k \<in> set (Owns SetupWithManager)"
  shows "permits (resource k) ''create''" "permits (resource k) ''update''"
    "permits (resource k) ''delete''"
proof -
  have "k \<noteq> KTrussiumRuntime \<and> k \<noteq> KSecret" using assms by (auto simp: SetupWithManager_def)
  then show "permits (resource k) ''create''" "permits (resource k) ''update''"
    "permits (resource k) ''delete''"
    by (cases k; simp add: permits_def rbac_markers_def)+
qed

lemma permits_status:
  "permits (''runtime.trussium.io'', ''trussiumruntimes/status'') ''update''"
  by (simp add: permits_def rbac_markers_def)

lemma permits_not_written:
  assumes "k = KSecret \<or> k = KTrussiumRuntime"
  shows "\<not> permits (resource k) ''create''" "\<not> permits (resource k) ''update''"
    "\<not> permits (resource k) ''patch''" "\<not> permits (resource k) ''delete''"
  using assms by (auto simp: permits_def rbac_markers_def)

lemma confined_permitted:
  assumes "confined req c"
  shows "list_all (\<lambda>(res, verb). permits res verb) (needs c)"
proof (cases c)
  case (CallDelete k key)
  with assms have "k \<in> set (Owns SetupWithManager)" by (auto simp: SetupWithManager_def)
  with CallDelete show ?thesis by (simp add: permits_owned)
qed (use assms in \<open>simp_all add: permits_read permits_owned permits_status\<close>)

text \<open>C30: the declared permissions suffice, and are no more than needed for what matters most.  Every call
  of a pass, and the list call of the Secret watch, is permitted by the RBAC markers above
  \<open>Reconcile\<close>; every kind that is watched may be listed and watched; and the markers permit no verb
  that writes a Secret or the specification of a \<open>TrussiumRuntime\<close>.\<close>

theorem permissions_suffice:
  assumes "get_respects_key (Client r)"
  shows "(\<exists>cs. calls (snd (run_state (Reconcile r req) s)) = calls s @ cs \<and>
      list_all (\<lambda>c. list_all (\<lambda>(res, verb). permits res verb) (needs c)) cs) \<and>
    (\<exists>cs. calls (snd (run_state (mapSecretToRuntimes r secret) s)) = calls s @ cs \<and>
      list_all (\<lambda>c. list_all (\<lambda>(res, verb). permits res verb) (needs c)) cs) \<and>
    (\<forall>k \<in> set (fst (For SetupWithManager) # Owns SetupWithManager @ map fst (Watches SetupWithManager)).
       permits (resource k) ''list'' \<and> permits (resource k) ''watch'') \<and>
    (\<forall>verb \<in> {''create'', ''update'', ''patch'', ''delete''}.
       \<not> permits (resource KSecret) verb \<and> \<not> permits (resource KTrussiumRuntime) verb)"
proof -
  have "trace (confined req) (\<lambda>_. True) (s\<lparr>rclock := tick (rclock s)\<rparr>)
      (snd (run_state (reconcileRuntime r req) (s\<lparr>rclock := tick (rclock s)\<rparr>)))"
    using assms by (rule trace_reconcileRuntime)
  then have "\<exists>cs. calls (snd (run_state (Reconcile r req) s)) = calls s @ cs \<and>
      list_all (\<lambda>c. list_all (\<lambda>(res, verb). permits res verb) (needs c)) cs"
    using list.pred_mono_strong [OF _ confined_permitted]
    by (fastforce simp: trace_def run_Reconcile Let_def case_prod_beta)
  then show ?thesis
    by (simp add: mapSecretToRuntimes_def permits_read permits_not_written del: resource.simps)
qed

theorem permissions_suffice_witness:
  "\<exists>cs. calls (snd (run_state (Reconcile \<lparr>Client = strict_api, Recorder = None\<rparr> sample_key)
      (sample_state (sample_cluster [''creds''])))) = cs \<and>
    list_all (\<lambda>c. list_all (\<lambda>(res, verb). permits res verb) (needs c)) cs"
  using permissions_suffice [of "\<lparr>Client = strict_api, Recorder = None\<rparr>" sample_key
      "sample_state (sample_cluster [''creds''])"] strict_api_respects
  by (simp add: sample_state_def)

lemma secretRequests_filter:
  "secretRequests items n =
     map (\<lambda>rt. ObjectKey (Runtime_Meta rt)) (filter (\<lambda>rt. n \<in> set (referencedSecretNames rt)) items)"
  by (induction items n rule: secretRequests.induct) (simp_all add: runtimeReferencesSecret_def)

text \<open>C28: a change of a Secret reaches exactly the resources that reference it.  The watch lists the
  resources of the Secret's namespace once and enqueues, in the order of the list and without repeating
  an item, the key of every resource whose references contain the name of the Secret; when the list
  fails nothing is enqueued.\<close>

theorem secret_watch_exact:
  "run_state (mapSecretToRuntimes r secret) s =
     (case List_Runtimes (Client r) (Namespace secret) (world s) of (listed, w) \<Rightarrow>
       (case listed of
          Inl err \<Rightarrow> []
        | Inr items \<Rightarrow>
            map (\<lambda>rt. ObjectKey (Runtime_Meta rt))
              (filter (\<lambda>rt. (\<exists>ref. CredentialsSecretRef (Provider (Spec rt)) = Some ref \<and>
                               SecretKeyReference_Name ref = Name secret) \<or>
                            Name secret \<in> NamedReference_Name ` set (ImagePullSecrets (Spec rt))) items),
        s\<lparr>world := w, calls := calls s @ [CallList KTrussiumRuntime (Namespace secret)]\<rparr>))"
proof -
  have "n \<in> set (referencedSecretNames rt) \<longleftrightarrow>
      (\<exists>ref. CredentialsSecretRef (Provider (Spec rt)) = Some ref \<and> SecretKeyReference_Name ref = n) \<or>
      n \<in> NamedReference_Name ` set (ImagePullSecrets (Spec rt))" for rt n
    by (auto simp: set_referencedSecretNames split: option.splits)
  then show ?thesis
    by (simp add: mapSecretToRuntimes_def secretRequests_filter case_prod_beta cong: sum.case_cong)
qed

section \<open>Metrics\<close>

text \<open>Every pass is counted once, under its outcome.  A pass adds one to the counter of \<open>error\<close>
  when it returns an error and to the counter of \<open>success\<close> otherwise, leaves the other counter
  alone, and observes one duration under the same label: the time between the reading of the clock
  before the work and the reading after it.\<close>

theorem reconcile_counted_once:
  assumes "get_respects_key (Client r)"
  shows "case run_state (Reconcile r req) s of (err, s') \<Rightarrow>
    reconciliations_total s' = (reconciliations_total s)
      (metricResult err := reconciliations_total s (metricResult err) + 1) \<and>
    metricResult err = (if err = None then ''success'' else ''error'') \<and>
    reconciliation_durations s' = reconciliation_durations s @
      [(metricResult err,
        rclock (snd (run_state (reconcileRuntime r req) (s\<lparr>rclock := tick (rclock s)\<rparr>))) 0 - rclock s 0)]"
proof -
  have "trace (confined req) (\<lambda>_. True) (s\<lparr>rclock := tick (rclock s)\<rparr>)
      (snd (run_state (reconcileRuntime r req) (s\<lparr>rclock := tick (rclock s)\<rparr>)))"
    using assms by (rule trace_reconcileRuntime)
  then show ?thesis
    by (auto simp: trace_def run_Reconcile Let_def case_prod_beta metricResult_def)
qed

theorem reconcile_counted_once_witness:
  "\<exists>err s'. run_state (Reconcile \<lparr>Client = strict_api, Recorder = None\<rparr> sample_key)
      (sample_state (sample_cluster [''creds''])) = (err, s') \<and>
    reconciliations_total s' (metricResult err) = 1"
  using reconcile_counted_once [where r = "\<lparr>Client = strict_api, Recorder = None\<rparr>" and req = sample_key
      and s = "sample_state (sample_cluster [''creds''])"] strict_api_respects
  by (auto simp: sample_state_def)

section \<open>Events\<close>

definition failure_event :: "TrussiumRuntime \<Rightarrow> goerror \<Rightarrow> event" where
  "failure_event rt err =
     runtime_event rt EventTypeWarning eventReasonReconciliationFailed eventActionReconcileRuntime
       (''Runtime reconciliation failed: '' @ Error err)"

text \<open>What a computation that may fail records: failures are announced last, successes announce none.\<close>

definition announces :: "('w, goerror option) rm \<Rightarrow> bool" where
  "announces m \<longleftrightarrow>
     (\<forall>s. case run_state m s of
        (Some err, s') \<Rightarrow> \<exists>es rt. recorded s' = recorded s @ es @ [failure_event rt err]
      | (None, s') \<Rightarrow> \<exists>es. recorded s' = recorded s @ es \<and>
          list_all (\<lambda>e. Event_Reason e \<noteq> eventReasonReconciliationFailed) es)"

lemma transition_events_reason:
  "list_all (\<lambda>e. Event_Reason e \<noteq> eventReasonReconciliationFailed) (transition_events M rt p c)"
proof -
  have "Event_Reason e \<noteq> eventReasonReconciliationFailed"
    if "e \<in> set (announced M rt p c (t, rule))" "(t, rule) \<in> set (announcement_rules p c)" for e t rule
  proof -
    from announcedD [OF that(1)] obtain q d ty reason act msg where
      a: "rule q d = Some (ty, reason, act, msg)" "e = runtime_event rt ty reason act msg" by blast
    have "reason \<noteq> eventReasonReconciliationFailed"
      using that(2) a(1) by (auto simp: announcement_rules_def dest: announce_reasons)
    then show ?thesis by (simp add: a(2) runtime_event_def)
  qed
  then show ?thesis by (auto simp: transition_events_def list_all_iff)
qed

lemma trace_silent: "trace P (\<lambda>_. False) s s' \<Longrightarrow> recorded s' = recorded s"
  by (auto simp: trace_def list_all_iff)

lemma silent_load: "recorded (snd (run_state (loadRuntimeObservation K rt) s)) = recorded s"
  by (intro trace_silent [where P = "\<lambda>_. True"] withinD [OF trace_loadRuntimeObservation]) simp_all

lemma silent_update: "recorded (snd (run_state (updateRuntimeStatus K rt d) s)) = recorded s"
  by (intro trace_silent [where P = "\<lambda>_. True"] withinD [OF trace_updateRuntimeStatus]) simp

lemma silent_validate: "recorded (snd (run_state (validateSecretReferences K rt) s)) = recorded s"
  unfolding validateSecretReferences_def
  by (intro trace_silent [where P = "\<lambda>_. True"] withinD [OF trace_validateSecretNames]) simp

lemma silent_core: "recorded (snd (run_state (reconcileCoreResources r rt) s)) = recorded s"
  by (intro trace_silent [where P = "\<lambda>_. True"] withinD [OF trace_reconcileCoreResources]) simp

lemma announces_bind:
  assumes "\<And>s. recorded (snd (run_state m s)) = recorded s" and "\<And>a. announces (f a)"
  shows "announces (State_Monad.bind m f)"
  unfolding announces_def run_bind_fst_snd
proof (rule allI)
  fix s :: "'a rstate"
  let ?a = "fst (run_state m s)" and ?s = "snd (run_state m s)"
  from assms(2) [of ?a, unfolded announces_def, rule_format, of ?s]
  show "case run_state (f ?a) ?s of
        (Some err, s') \<Rightarrow> \<exists>es rt. recorded s' = recorded s @ es @ [failure_event rt err]
      | (None, s') \<Rightarrow> \<exists>es. recorded s' = recorded s @ es \<and>
          list_all (\<lambda>e. Event_Reason e \<noteq> eventReasonReconciliationFailed) es"
    unfolding assms(1) .
qed

lemma silent_clock: "recorded (snd (run_state (with_clock f) s)) = recorded s"
  by simp

lemma announces_failed:
  "Recorder r \<noteq> None \<Longrightarrow>
     announces (do { _ \<leftarrow> recordReconciliationFailure r rt err; State_Monad.return (Some err) })"
  by (auto simp: announces_def failure_event_def)

lemma announces_updated_failed:
  "Recorder r \<noteq> None \<Longrightarrow>
     announces (do { _ \<leftarrow> (if b then recordStatusTransitionEvents r rt p c else State_Monad.return ());
       _ \<leftarrow> recordReconciliationFailure r rt err; State_Monad.return (Some err) })"
  by (auto simp: announces_def failure_event_def)

lemma announces_updated:
  "announces (do { _ \<leftarrow> (if b then recordStatusTransitionEvents r rt p c else State_Monad.return ());
     State_Monad.return None })"
  by (auto simp: announces_def transition_events_reason)

lemma announces_cases:
  "(\<And>x. announces (f x)) \<Longrightarrow> announces g \<Longrightarrow> announces (case v of None \<Rightarrow> g | Some x \<Rightarrow> f x)"
  "(\<And>x. announces (h x)) \<Longrightarrow> (\<And>y. announces (k y)) \<Longrightarrow>
     announces (case u of Inl x \<Rightarrow> h x | Inr y \<Rightarrow> k y)"
  "(\<And>x y. announces (l x y)) \<Longrightarrow> announces (case z of (x, y) \<Rightarrow> l x y)"
  "announces a \<Longrightarrow> announces b \<Longrightarrow> announces (if c then a else b)"
  by (simp_all split: option.split sum.split prod.split)

lemma announces_handle:
  "Recorder r \<noteq> None \<Longrightarrow> announces (handleReconciliationFailure r rt prev err)"
  unfolding handleReconciliationFailure_def Let_def
  by (intro announces_bind announces_cases announces_updated_failed silent_load silent_update silent_clock)

lemma announces_finish: "Recorder r \<noteq> None \<Longrightarrow> announces (finishReconciliation r rt prev val)"
  unfolding finishReconciliation_def
  by (intro announces_bind announces_cases announces_updated announces_failed announces_handle
      silent_load silent_update silent_clock)

lemma announces_existing: "Recorder r \<noteq> None \<Longrightarrow> announces (reconcileExisting r rt)"
  unfolding reconcileExisting_def reconcileInvalidConfiguration_def Let_def
  by (intro announces_bind announces_cases announces_handle announces_finish silent_validate silent_core)

text \<open>C19: every failure is announced.  When a pass over a resource that exists returns an error, and there
  is a recorder, the last Event it recorded is a warning that carries the text of exactly that error,
  joined errors included; a pass that returns no error records no such Event.\<close>

theorem failures_announced:
  assumes "fst (Get_Runtime (Client r) req (world s)) = Inr rt"
    and "IsZero (DeletionTimestamp (Runtime_Meta rt))" and "Recorder r \<noteq> None"
  shows "case run_state (Reconcile r req) s of
      (Some err, s') \<Rightarrow> \<exists>es rt. recorded s' = recorded s @ es @ [failure_event rt err]
    | (None, s') \<Rightarrow> \<exists>es. recorded s' = recorded s @ es \<and>
        list_all (\<lambda>e. Event_Reason e \<noteq> eventReasonReconciliationFailed) es"
proof -
  let ?s = "after_get r req (s\<lparr>rclock := tick (rclock s)\<rparr>)"
  have "recorded ?s = recorded s" by (simp add: after_get_def)
  with announces_existing [OF assms(3), of rt, unfolded announces_def, rule_format, of ?s] assms(1,2)
  show ?thesis
    by (simp add: run_Reconcile run_reconcileRuntime Let_def split: prod.splits option.splits)
qed

theorem failures_announced_witness:
  "case run_state (Reconcile sample_reconciler sample_key) (sample_state (sample_cluster [])) of
      (Some err, s') \<Rightarrow> \<exists>es rt. recorded s' = es @ [failure_event rt err]
    | (None, s') \<Rightarrow> list_all (\<lambda>e. Event_Reason e \<noteq> eventReasonReconciliationFailed) (recorded s')"
  using failures_announced [where r = sample_reconciler and req = sample_key
      and s = "sample_state (sample_cluster [])" and rt = "sample_runtime ''demo''"]
  by (auto simp: sample_reconciler_def memory_reconciler_def sample_state_def sample_cluster_def
      read_object_def sample_runtime_def object_meta_def IsZero_def split: prod.splits option.splits)

lemma length_announced: "length (announced M rt p c tr) \<le> 1"
  by (cases tr) (simp add: announced_def split: option.split prod.split)

lemma length_concat_le:
  assumes "\<And>x. length (f x) \<le> 1"
  shows "length (concat (map f xs)) \<le> length xs"
proof (induction xs)
  case (Cons x xs)
  with assms [of x] show ?case by simp
qed simp



section \<open>Confidentiality\<close>

lemma secret_blind_conditions:
  "setRuntimeCondition (K\<lparr>Get_Secret := g\<rparr>) = setRuntimeCondition K"
  "runtimeCondition (K\<lparr>Get_Secret := g\<rparr>) = runtimeCondition K"
  by (auto simp: fun_eq_iff setRuntimeCondition.simps runtimeCondition_def)

lemma secret_blind_changed: "conditionChanged (K\<lparr>Get_Secret := g\<rparr>) = conditionChanged K"
  unfolding fun_eq_iff conditionChanged_def secret_blind_conditions by simp

lemma secret_blind_status:
  "buildRuntimeStatus (K\<lparr>Get_Secret := g\<rparr>) = buildRuntimeStatus K"
  "buildReconciliationFailureStatus (K\<lparr>Get_Secret := g\<rparr>) = buildReconciliationFailureStatus K"
  "updateRuntimeStatus (K\<lparr>Get_Secret := g\<rparr>) = updateRuntimeStatus K"
  "loadRuntimeObservation (K\<lparr>Get_Secret := g\<rparr>) = loadRuntimeObservation K"
proof -
  have fields: "Get_Deployment (K\<lparr>Get_Secret := g\<rparr>) = Get_Deployment K"
    "Get_Service (K\<lparr>Get_Secret := g\<rparr>) = Get_Service K" "IsNotFound (K\<lparr>Get_Secret := g\<rparr>) = IsNotFound K"
    by simp_all
  have avail: "setAvailabilityCondition (K\<lparr>Get_Secret := g\<rparr>) = setAvailabilityCondition K"
    unfolding fun_eq_iff setAvailabilityCondition_def secret_blind_conditions by simp
  have base: "buildBaseRuntimeStatus (K\<lparr>Get_Secret := g\<rparr>) = buildBaseRuntimeStatus K"
    unfolding fun_eq_iff buildBase_defs secret_blind_conditions avail by blast
  have upgrade: "applyUpgradeStatus (K\<lparr>Get_Secret := g\<rparr>) = applyUpgradeStatus K"
    unfolding fun_eq_iff applyUpgradeStatus_def secret_blind_conditions by blast
  show build: "buildRuntimeStatus (K\<lparr>Get_Secret := g\<rparr>) = buildRuntimeStatus K"
    unfolding fun_eq_iff buildRuntimeStatus_def base upgrade by blast
  show "buildReconciliationFailureStatus (K\<lparr>Get_Secret := g\<rparr>) = buildReconciliationFailureStatus K"
    unfolding fun_eq_iff buildReconciliationFailureStatus_def secret_blind_conditions build by blast
  have preserve: "preserveRuntimeConditionTransitionTimes (K\<lparr>Get_Secret := g\<rparr>) =
      preserveRuntimeConditionTransitionTimes K"
    unfolding fun_eq_iff preserveRuntimeConditionTransitionTimes_def secret_blind_conditions by blast
  show "updateRuntimeStatus (K\<lparr>Get_Secret := g\<rparr>) = updateRuntimeStatus K"
    unfolding fun_eq_iff updateRuntimeStatus_def preserve by (simp add: Let_def)
  show "loadRuntimeObservation (K\<lparr>Get_Secret := g\<rparr>) = loadRuntimeObservation K"
    unfolding fun_eq_iff loadRuntimeObservation_def loadObservedService_def fields by blast
qed

lemmas secret_blind = secret_blind_conditions secret_blind_changed secret_blind_status

text \<open>The same resource and client, with other answers about Secrets.\<close>

definition with_secrets ::
  "(NamespacedName \<Rightarrow> 'w \<Rightarrow> (goerror + Secret) \<times> 'w) \<Rightarrow> 'w TrussiumRuntimeReconciler \<Rightarrow>
     'w TrussiumRuntimeReconciler"
where
  "with_secrets g r = r\<lparr>Client := (Client r)\<lparr>Get_Secret := g\<rparr>\<rparr>"

lemma with_secrets_simps [simp]:
  "Client (with_secrets g r) = (Client r)\<lparr>Get_Secret := g\<rparr>" "Recorder (with_secrets g r) = Recorder r"
  by (simp_all add: with_secrets_def)

lemma secret_blind_events:
  "recordStatusTransitionEvents (with_secrets g r) = recordStatusTransitionEvents r"
  "recordReconciliationFailure (with_secrets g r) = recordReconciliationFailure r"
  unfolding fun_eq_iff recordStatusTransitionEvents_def recordConfigurationTransition_def
    recordUpgradeTransition_def recordDegradedTransition_def recordProgressingTransition_def
    recordReadyTransition_def recordReconciliationFailure_def with_secrets_simps secret_blind
  by blast+

lemma secret_blind_core: "reconcileCoreResources (with_secrets g r) = reconcileCoreResources r"
proof -
  have own: "owned (with_secrets g r) = owned r"
    by (intro ext) (simp add: owned_def)
  have mutate: "mutateConfigMap (with_secrets g r) = mutateConfigMap r"
    "mutateServiceAccount (with_secrets g r) = mutateServiceAccount r"
    "mutateService (with_secrets g r) = mutateService r"
    "mutateDeployment (with_secrets g r) = mutateDeployment r"
    "mutatePodDisruptionBudget (with_secrets g r) = mutatePodDisruptionBudget r"
    "mutateNetworkPolicy (with_secrets g r) = mutateNetworkPolicy r"
    "mutateHorizontalPodAutoscaler (with_secrets g r) = mutateHorizontalPodAutoscaler r"
    unfolding fun_eq_iff mutateConfigMap_def mutateServiceAccount_def mutateService_def
      mutateDeployment_def mutatePodDisruptionBudget_def mutateNetworkPolicy_def
      mutateHorizontalPodAutoscaler_def own by blast+
  have step: "reconcileConfigMap (with_secrets g r) = reconcileConfigMap r"
    "reconcileServiceAccount (with_secrets g r) = reconcileServiceAccount r"
    "reconcileService (with_secrets g r) = reconcileService r"
    "reconcileDeployment (with_secrets g r) = reconcileDeployment r"
    "reconcilePodDisruptionBudget (with_secrets g r) = reconcilePodDisruptionBudget r"
    "reconcileHorizontalPodAutoscaler (with_secrets g r) = reconcileHorizontalPodAutoscaler r"
    "reconcileNetworkPolicy (with_secrets g r) = reconcileNetworkPolicy r"
    unfolding fun_eq_iff reconcileConfigMap_def reconcileServiceAccount_def reconcileService_def
      reconcileDeployment_def reconcilePodDisruptionBudget_def reconcileHorizontalPodAutoscaler_def
      reconcileNetworkPolicy_def mutate
    by (simp_all cong: option.case_cong)
  show ?thesis unfolding fun_eq_iff reconcileCoreResources_def step by blast
qed

lemma secret_blind_handlers:
  "handleReconciliationFailure (with_secrets g r) = handleReconciliationFailure r"
  "finishReconciliation (with_secrets g r) = finishReconciliation r"
proof -
  show handle: "handleReconciliationFailure (with_secrets g r) = handleReconciliationFailure r"
    unfolding fun_eq_iff handleReconciliationFailure_def with_secrets_simps secret_blind
      secret_blind_events by blast
  show "finishReconciliation (with_secrets g r) = finishReconciliation r"
    unfolding fun_eq_iff finishReconciliation_def with_secrets_simps secret_blind
      secret_blind_events handle by blast
qed

definition same_presence :: "(goerror + Secret) \<times> 'w \<Rightarrow> (goerror + Secret) \<times> 'w \<Rightarrow> bool" where
  "same_presence a b \<longleftrightarrow>
     snd a = snd b \<and> map_sum id (\<lambda>_. ()) (fst a) = map_sum id (\<lambda>_. ()) (fst b)"

lemma validateSecretNames_blind:
  assumes "\<And>key w. same_presence (g key w) (Get_Secret K key w)"
  shows "run_state (validateSecretNames (K\<lparr>Get_Secret := g\<rparr>) ns names) s =
    run_state (validateSecretNames K ns names) s"
proof (induction names arbitrary: s)
  case (Cons n names)
  let ?key = "\<lparr>Key_Namespace = ns, Key_Name = n\<rparr>"
  from assms [of ?key "world s"] Cons.IH show ?case
    by (cases "fst (g ?key (world s))"; cases "fst (Get_Secret K ?key (world s))")
      (simp_all add: same_presence_def Let_def)
qed simp

text \<open>C20: what is in a Secret cannot influence the operator.  Two clusters that agree on everything except
  the contents of Secrets, that is, that give the same answers about which Secrets exist, see the same
  pass: the same result, the same calls with the same effects on the world, the same Events, the same
  status and the same metrics.\<close>

theorem secret_contents_irrelevant:
  assumes "\<And>key w. same_presence (g key w) (Get_Secret (Client r) key w)"
  shows "run_state (Reconcile (with_secrets g r) req) s = run_state (Reconcile r req) s"
proof -
  have verdict: "run_state (validateSecretReferences (Client (with_secrets g r)) rt) s =
      run_state (validateSecretReferences (Client r) rt) s" for rt s
    using assms by (simp add: validateSecretReferences_def validateSecretNames_blind)
  have existing: "run_state (reconcileExisting (with_secrets g r) rt) s = run_state (reconcileExisting r rt) s"
    for rt s
    unfolding reconcileExisting_def reconcileInvalidConfiguration_def secret_blind_handlers
      secret_blind_core Let_def run_bind_fst_snd verdict ..
  have fields: "Get_Runtime (Client (with_secrets g r)) = Get_Runtime (Client r)"
    "IgnoreNotFound (Client (with_secrets g r)) = IgnoreNotFound (Client r)" by simp_all
  show ?thesis
    unfolding run_Reconcile run_reconcileRuntime after_get_def existing fields ..
qed

theorem secret_contents_irrelevant_witness:
  "run_state (Reconcile (with_secrets (\<lambda>key w. (map_sum id (\<lambda>x. x\<lparr>Secret_Data := fmap_of_list
      [(''key'', ''rotated'')]\<rparr>) (fst (read_object ''Secret'' cl_secrets key w)), w)) sample_reconciler) sample_key)
      (sample_state (sample_cluster [''creds'', ''pull''])) =
    run_state (Reconcile sample_reconciler sample_key) (sample_state (sample_cluster [''creds'', ''pull'']))"
proof (rule secret_contents_irrelevant)
  fix key w
  show "same_presence (map_sum id (\<lambda>x. x\<lparr>Secret_Data := fmap_of_list [(''key'', ''rotated'')]\<rparr>)
      (fst (read_object ''Secret'' cl_secrets key w)), w) (Get_Secret (Client sample_reconciler) key w)"
    by (simp add: same_presence_def sample_reconciler_def read_object_def sum.map_comp comp_def
        split: option.split)
qed

section \<open>Convergence\<close>


lemma sample_hypotheses:
  "cl_runtimes (sample_cluster [''creds'', ''pull'']) (rt_key (sample_runtime ''demo'')) =
     Some (sample_runtime ''demo'')"
  "IsZero (DeletionTimestamp (Runtime_Meta (sample_runtime ''demo'')))"
  "secrets_present (sample_runtime ''demo'') (sample_cluster [''creds'', ''pull''])"
  "takeable (sample_runtime ''demo'') (sample_cluster [''creds'', ''pull''])"
proof -
  show "cl_runtimes (sample_cluster [''creds'', ''pull'']) (rt_key (sample_runtime ''demo'')) =
     Some (sample_runtime ''demo'')" by (simp add: sample_cluster_def)
  show "IsZero (DeletionTimestamp (Runtime_Meta (sample_runtime ''demo'')))"
    by (simp add: sample_runtime_def object_meta_def IsZero_def)
  show "secrets_present (sample_runtime ''demo'') (sample_cluster [''creds'', ''pull''])"
    by (simp add: secrets_present_def set_referencedSecretNames sample_cluster_def sample_runtime_def
        sample_spec_def object_meta_def)
  show "takeable (sample_runtime ''demo'') (sample_cluster [''creds'', ''pull''])"
    by (simp add: takeable_def opt_free_def sample_cluster_def)
qed



lemma sample_status_wf: "status_wf (Status (sample_runtime n))"
  by (simp add: sample_runtime_def empty_status_def status_wf_def status_types_def)

lemma sample_image: "runtimeImage (Image (Spec (sample_runtime n))) \<noteq> ''''"
  by (simp add: sample_runtime_def sample_spec_def runtimeImage_def)


section \<open>Writing once\<close>

text \<open>The operator does not fight itself.  After a status has been written, a later pass that observes
  the same Deployment and Service and the same validation, at any later time, finds nothing to write:
  it makes no call and reports that nothing was updated.  The same holds of a failure that is reported
  twice.\<close>

theorem status_written_once:
  assumes M: "meta_conditions K" and eq: "\<And>s t. DeepEqual K s t \<longleftrightarrow> s = t"
    and wf: "status_wf (Status rt)" and img: "runtimeImage (Image (Spec rt)) \<noteq> ''''"
    and N: "N = preserveRuntimeConditionTransitionTimes K (Status rt) (fst (buildRuntimeStatus K rt obs val clk))"
    and F: "F = preserveRuntimeConditionTransitionTimes K (Status rt)
      (fst (buildReconciliationFailureStatus K rt obs err clk))"
  shows "run_state (updateRuntimeStatus K (rt\<lparr>Status := N\<rparr>)
      (fst (buildRuntimeStatus K (rt\<lparr>Status := N\<rparr>) obs val clk'))) s =
      ((rt\<lparr>Status := N\<rparr>, Inr False), s) \<and>
    run_state (updateRuntimeStatus K (rt\<lparr>Status := F\<rparr>)
      (fst (buildReconciliationFailureStatus K (rt\<lparr>Status := F\<rparr>) obs err clk'))) s =
      ((rt\<lparr>Status := F\<rparr>, Inr False), s)"
  using meta_conditions.build_preserve_stable [OF M wf img N, of clk']
    meta_conditions.failure_preserve_stable [OF M wf img F, of clk']
  by (simp add: updateRuntimeStatus_def eq)

theorem status_written_once_witness:
  "\<exists>N. run_state (updateRuntimeStatus memory_api (sample_runtime ''demo''\<lparr>Status := N\<rparr>)
      (fst (buildRuntimeStatus memory_api (sample_runtime ''demo''\<lparr>Status := N\<rparr>)
         (sample_observation (sample_deployment 2 [])) validReferenceValidation (\<lambda>_. 900))))
      (sample_state (sample_cluster [])) =
    ((sample_runtime ''demo''\<lparr>Status := N\<rparr>, Inr False), sample_state (sample_cluster []))"
  using status_written_once [OF memory_meta _ sample_status_wf sample_image refl refl,
      where obs = "sample_observation (sample_deployment 2 [])" and val = validReferenceValidation and
        clk = sample_clock and clk' = "\<lambda>_. 900" and err = "APIError ''x'' ''y''"]
  by auto

section \<open>The Deployment\<close>

text \<open>C26: what an update of the Deployment changes.  When the mutation succeeds, the specification is the built
  one, except that with autoscaling an existing replica count is kept, so the operator does not fight the
  autoscaler; the labels are the operator's; and everything else of the object, its status, annotations,
  identity and generation included, is as it was.\<close>

theorem deployment_update_exact:
  assumes "owner_references (Client r)"
    and "mutateDeployment r rt (buildDeployment rt) current = Inr updated"
  shows "Deployment_Spec updated =
      (Deployment_Spec (buildDeployment rt))\<lparr>Replicas :=
         (if autoscalingEnabled rt \<and> Replicas (Deployment_Spec current) \<noteq> None
          then Replicas (Deployment_Spec current) else Some (initialDeploymentReplicas rt))\<rparr> \<and>
    Deployment_Status updated = Deployment_Status current \<and>
    Deployment_Meta updated = (Deployment_Meta current)
      \<lparr>Labels := runtimeLabels rt, OwnerReferences := OwnerReferences (Deployment_Meta updated)\<rparr>"
proof -
  from assms(2) obtain m' where
    m': "SetControllerReference (Client r) rt ((Deployment_Meta current)\<lparr>Labels := runtimeLabels rt\<rparr>) = Inr m'"
    and "Deployment_Meta updated = m'" "Deployment_Status updated = Deployment_Status current"
    "Deployment_Spec updated = (if autoscalingEnabled rt \<and> Replicas (Deployment_Spec current) \<noteq> None
       then (Deployment_Spec (buildDeployment rt))\<lparr>Replicas := Replicas (Deployment_Spec current)\<rparr>
       else Deployment_Spec (buildDeployment rt))"
    by (auto simp: mutateDeployment_def Let_def owned_Inr split: if_splits)
  moreover have "Replicas (Deployment_Spec (buildDeployment rt)) = Some (initialDeploymentReplicas rt)"
    by (simp add: buildDeployment_def)
  then have "(Deployment_Spec (buildDeployment rt))\<lparr>Replicas := Some (initialDeploymentReplicas rt)\<rparr> =
      Deployment_Spec (buildDeployment rt)" by (metis DeploymentSpec.surjective DeploymentSpec.update_convs(1)
        DeploymentSpec.select_convs(1))
  ultimately show ?thesis
    using owner_references.ref_frame [OF assms(1) m'] by auto
qed

theorem deployment_update_exact_witness:
  "\<exists>d. mutateDeployment sample_reconciler (sample_runtime ''demo'') (buildDeployment (sample_runtime ''demo''))
      (sample_deployment 4 []) = Inr d \<and>
    Replicas (Deployment_Spec d) = Replicas (Deployment_Spec (sample_deployment 4 []))"
proof -
  have "free_for (sample_runtime ''demo'') (Deployment_Meta (sample_deployment 4 []))"
    by (simp add: free_for_def sample_deployment_def buildDeployment_def controller_of_def
        managed_meta_def object_meta_def ObjectKey_def)
  from take_deployment [OF this, of "Some EventRecorder"] obtain d where
    d: "mutateDeployment sample_reconciler (sample_runtime ''demo'')
      (buildDeployment (sample_runtime ''demo'')) (sample_deployment 4 []) = Inr d"
    by (auto simp: sample_reconciler_def)
  have "owner_references (Client sample_reconciler)"
    using refs.owner_references_axioms by (simp add: sample_reconciler_def)
  from deployment_update_exact [OF this d] show ?thesis
    using d by (auto simp: sample_deployment_def buildDeployment_def)
qed

section \<open>Deletions do not ask for the owner\<close>


text \<open>A resource with both switched off, next to a NetworkPolicy that somebody else created.\<close>

definition plain_runtime :: TrussiumRuntime where
  "plain_runtime = (sample_runtime ''demo'')\<lparr>Spec := sample_spec\<lparr>Autoscaling := None\<rparr>\<rparr>"

definition foreign_policy :: NetworkPolicy where
  "foreign_policy =
     \<lparr>NetworkPolicy_Meta = (object_meta ''demo'' ''trussium'' fmempty)
        \<lparr>OwnerReferences := [\<lparr>Owner_Kind = ''Gateway'', Owner_Name = ''edge'', Owner_UID = ''g-1'',
            Owner_Controller = True\<rparr>]\<rparr>,
      NetworkPolicy_Spec = zero_policy_spec\<rparr>"


end
