(* ===== verification/Pass_Outcomes.thy ===== *)
theory Pass_Outcomes
  imports Controller_Properties
begin

text \<open>
  Every outcome of a pass on the cluster of \<open>Cluster\<close>, the unsuccessful ones included: which objects it
  changed, which status it stored and when it fails.  A pass whose references resolve succeeds exactly
  when the objects it writes are free (\<open>takeable\<close>); a failed pass leaves what it wrote before the
  failure and stores the status that reports it.
\<close>

section \<open>Changes at one name\<close>

definition objects_at :: "NamespacedName \<Rightarrow> cluster \<Rightarrow> cluster \<Rightarrow> bool" where
  "objects_at k w w' \<longleftrightarrow>
     cl_runtimes w' = cl_runtimes w \<and> cl_secrets w' = cl_secrets w \<and>
     cl_runtime_keys w' = cl_runtime_keys w \<and>
     (\<forall>j. j \<noteq> k \<longrightarrow>
        cl_configmaps w' j = cl_configmaps w j \<and> cl_serviceaccounts w' j = cl_serviceaccounts w j \<and>
        cl_services w' j = cl_services w j \<and> cl_deployments w' j = cl_deployments w j \<and>
        cl_budgets w' j = cl_budgets w j \<and> cl_policies w' j = cl_policies w j \<and>
        cl_autoscalers w' j = cl_autoscalers w j)"

lemma objects_at_refl [simp]: "objects_at k w w"
  by (simp add: objects_at_def)

lemma objects_at_trans: "objects_at k u v \<Longrightarrow> objects_at k v w \<Longrightarrow> objects_at k u w"
  by (simp add: objects_at_def)

lemma confined_objects_at: "confined_change rt w w' \<Longrightarrow> objects_at (rt_key rt) w w'"
  by (simp add: confined_change_def objects_at_def)

text \<open>A computation that only changes the world and the list of calls, with what it does to the world.\<close>

definition outcome :: "(cluster, goerror option) rm \<Rightarrow> (cluster \<Rightarrow> bool \<Rightarrow> cluster \<Rightarrow> bool) \<Rightarrow> bool" where
  "outcome m P \<longleftrightarrow>
     (\<forall>s. \<exists>w cs. snd (run_state m s) = s\<lparr>world := w, calls := cs\<rparr> \<and>
        P (world s) (fst (run_state m s) = None) w)"

lemma outcomeD:
  assumes "outcome m P"
  obtains res w cs where "run_state m s = (res, s\<lparr>world := w, calls := cs\<rparr>)" "P (world s) (res = None) w"
  using assms unfolding outcome_def by (metis prod.collapse)

lemma outcome_mono:
  assumes "outcome m P" and "\<And>w ok w'. P w ok w' \<Longrightarrow> Q w ok w'"
  shows "outcome m Q"
  using assms unfolding outcome_def by blast

lemma outcome_return: "outcome (State_Monad.return None) (\<lambda>w ok w'. w' = w \<and> ok)"
proof -
  have "\<exists>cs. s = s\<lparr>world := world s, calls := cs\<rparr>" for s :: "cluster rstate"
    by (rule exI [of _ "calls s"]) simp
  then show ?thesis by (auto simp: outcome_def)
qed

lemma outcome_client_op: "outcome (client_op c f) (\<lambda>w ok w'. w' = snd (f w) \<and> ok = (fst (f w) = None))"
  by (auto simp: outcome_def case_prod_beta)

lemma outcome_client_op_bind:
  "outcome (do { a \<leftarrow> client_op c f; State_Monad.return (g a) })
     (\<lambda>w ok w'. w' = snd (f w) \<and> ok = (g (fst (f w)) = None))"
  by (auto simp: outcome_def case_prod_beta)

text \<open>
  One step of the chain: it changes objects at \<open>k\<close> by \<open>put\<close>, succeeds only under \<open>A\<close>, and the rest
  succeeds only under \<open>B\<close>, which does not depend on what the step changed.
\<close>

lemma outcome_or_fail:
  assumes m: "outcome m (\<lambda>w ok w'. objects_at k w w' \<and> (\<exists>x. w' = put x w) \<and> (ok \<longrightarrow> A w))"
    and rest: "outcome rest (\<lambda>w ok w'. objects_at k w w' \<and> (ok \<longrightarrow> B w))"
    and indep: "\<And>x w. B (put x w) = B w"
  shows "outcome (or_fail prefix m rest) (\<lambda>w ok w'. objects_at k w w' \<and> (ok \<longrightarrow> A w \<and> B w))"
  unfolding outcome_def
proof (rule allI)
  fix s :: "cluster rstate"
  obtain r1 w1 cs1 x where 1: "run_state m s = (r1, s\<lparr>world := w1, calls := cs1\<rparr>)"
    "objects_at k (world s) w1" "w1 = put x (world s)" "r1 = None \<longrightarrow> A (world s)"
    using m by (elim outcomeD [where s = s]) blast
  obtain r2 w2 cs2 where 2: "run_state rest (s\<lparr>world := w1, calls := cs1\<rparr>) =
      (r2, s\<lparr>world := w2, calls := cs2\<rparr>)" "objects_at k w1 w2" "r2 = None \<longrightarrow> B w1"
    using rest by (elim outcomeD [where s = "s\<lparr>world := w1, calls := cs1\<rparr>"]) auto
  show "\<exists>w cs. snd (run_state (or_fail prefix m rest) s) = s\<lparr>world := w, calls := cs\<rparr> \<and>
      objects_at k (world s) w \<and>
      (fst (run_state (or_fail prefix m rest) s) = None \<longrightarrow> A (world s) \<and> B (world s))"
  proof (cases r1)
    case (Some e)
    with 1 show ?thesis by (auto simp: or_fail_def)
  next
    case None
    with 1(1) have "run_state (or_fail prefix m rest) s = (r2, s\<lparr>world := w2, calls := cs2\<rparr>)"
      using 2(1) by (simp add: or_fail_def)
    moreover have "B w1 = B (world s)" unfolding 1(3) by (rule indep)
    ultimately show ?thesis using None 1 2 objects_at_trans by auto
  qed
qed

section \<open>The seven writers\<close>

lemma upsert_in_outcome:
  fixes mutate :: "'o \<Rightarrow> goerror + 'o"
  assumes "\<And>w. put (objects w) w = w"
  obtains m where "snd (upsert_in objects put meta admit cur mutate w) = put m w"
    "\<And>j. j \<noteq> ObjectKey (meta cur) \<Longrightarrow> m j = objects w j"
    "\<And>x. fst (upsert_in objects put meta admit cur mutate w) = None \<Longrightarrow>
      objects w (ObjectKey (meta cur)) = Some x \<Longrightarrow>
      \<exists>y. mutate x = Inr y \<and> ObjectKey (meta y) = ObjectKey (meta cur)"
proof -
  let ?m = "snd (upsert meta admit cur mutate (objects w))"
  have "snd (upsert_in objects put meta admit cur mutate w) = put ?m w"
    by (simp add: upsert_in_def case_prod_beta)
  moreover have "?m j = objects w j" if "j \<noteq> ObjectKey (meta cur)" for j
    using that by (auto simp: upsert_def Let_def split: sum.splits)
  moreover have "\<exists>y. mutate x = Inr y \<and> ObjectKey (meta y) = ObjectKey (meta cur)"
    if "fst (upsert_in objects put meta admit cur mutate w) = None" and "objects w (ObjectKey (meta cur)) = Some x"
    for x
    using that by (auto simp: upsert_in_def upsert_def Let_def case_prod_beta split: sum.splits if_splits)
  ultimately show ?thesis using that by blast
qed

lemma delete_in_outcome:
  assumes "\<And>w. put (objects w) w = w"
  obtains m where "snd (delete_in what objects put key w) = put m w" "\<And>j. j \<noteq> key \<Longrightarrow> m j = objects w j"
proof (cases "objects w key")
  case None
  then show ?thesis using assms that [of "objects w"] by (simp add: delete_in_def)
next
  case (Some x)
  then show ?thesis using that [of "(objects w)(key := None)"] by (simp add: delete_in_def)
qed

text \<open>A mutation that succeeds on an object of the right name found it free.\<close>

lemma owned_free:
  assumes "owned (memory_reconciler rec) rt (m\<lparr>Labels := l\<rparr>) put = Inr y" and "ObjectKey m = rt_key rt"
  shows "free_for rt m"
  using assms by (auto simp: owned_Inr memory_ref_ok free_for_def controller_of_def)

lemma opt_freeI: "(\<And>x. v = Some x \<Longrightarrow> free_for rt (meta x)) \<Longrightarrow> opt_free rt meta v"
  by (simp add: opt_free_def split: option.split)

lemma free_configmap:
  assumes "mutateConfigMap (memory_reconciler rec) rt d x = Inr y" and "ObjectKey (ConfigMap_Meta y) = rt_key rt"
  shows "free_for rt (ConfigMap_Meta x)"
  using assms refs.mutateConfigMap_settles(1) [OF memory_reconciler_client assms(1)]
  by (auto simp: mutateConfigMap_def Let_def intro: owned_free)

lemma free_serviceaccount:
  assumes "mutateServiceAccount (memory_reconciler rec) rt d x = Inr y"
    and "ObjectKey (ServiceAccount_Meta y) = rt_key rt"
  shows "free_for rt (ServiceAccount_Meta x)"
  using assms refs.mutateServiceAccount_settles(1) [OF memory_reconciler_client assms(1)]
  by (auto simp: mutateServiceAccount_def Let_def intro: owned_free)

lemma free_service:
  assumes "mutateService (memory_reconciler rec) rt d x = Inr y" and "ObjectKey (Service_Meta y) = rt_key rt"
  shows "free_for rt (Service_Meta x)"
  using assms refs.mutateService_settles(1) [OF memory_reconciler_client assms(1)]
  by (auto simp: mutateService_def Let_def intro: owned_free)

lemma free_deployment:
  assumes "mutateDeployment (memory_reconciler rec) rt d x = Inr y"
    and "ObjectKey (Deployment_Meta y) = rt_key rt"
  shows "free_for rt (Deployment_Meta x)"
  using assms refs.mutateDeployment_settles(1) [OF memory_reconciler_client assms(1)]
  by (auto simp: mutateDeployment_def Let_def split: if_splits intro: owned_free)

lemma free_budget:
  assumes "mutatePodDisruptionBudget (memory_reconciler rec) rt d x = Inr y"
    and "ObjectKey (PDB_Meta y) = rt_key rt"
  shows "free_for rt (PDB_Meta x)"
  using assms refs.mutatePodDisruptionBudget_settles(1) [OF memory_reconciler_client assms(1)]
  by (auto simp: mutatePodDisruptionBudget_def Let_def intro: owned_free)

lemma free_policy:
  assumes "mutateNetworkPolicy (memory_reconciler rec) rt d x = Inr y"
    and "ObjectKey (NetworkPolicy_Meta y) = rt_key rt"
  shows "free_for rt (NetworkPolicy_Meta x)"
  using assms refs.mutateNetworkPolicy_settles(1) [OF memory_reconciler_client assms(1)]
  by (auto simp: mutateNetworkPolicy_def Let_def intro: owned_free)

lemma free_autoscaler:
  assumes "mutateHorizontalPodAutoscaler (memory_reconciler rec) rt d x = Inr y"
    and "ObjectKey (HPA_Meta y) = rt_key rt"
  shows "free_for rt (HPA_Meta x)"
  using assms refs.mutateHorizontalPodAutoscaler_settles(1) [OF memory_reconciler_client assms(1)]
  by (auto simp: mutateHorizontalPodAutoscaler_def Let_def intro: owned_free)

lemma upsert_step:
  fixes mutate :: "'o \<Rightarrow> goerror + 'o"
  assumes "\<And>w. put (objects w) w = w"
    and at: "\<And>m w. (\<And>j. j \<noteq> rt_key rt \<Longrightarrow> m j = objects w j) \<Longrightarrow> objects_at (rt_key rt) w (put m w)"
    and key: "ObjectKey (meta cur) = rt_key rt"
    and free: "\<And>x y. mutate x = Inr y \<Longrightarrow> ObjectKey (meta y) = rt_key rt \<Longrightarrow> free_for rt (meta x)"
  shows "outcome (client_op c (upsert_in objects put meta admit cur mutate))
    (\<lambda>w ok w'. objects_at (rt_key rt) w w' \<and> (\<exists>x. w' = put x w) \<and> (ok \<longrightarrow> opt_free rt meta (objects w (rt_key rt))))"
proof (rule outcome_mono [OF outcome_client_op], elim conjE)
  fix w ok w'
  assume w': "w' = snd (upsert_in objects put meta admit cur mutate w)"
    and ok: "ok = (fst (upsert_in objects put meta admit cur mutate w) = None)"
  obtain m where m: "snd (upsert_in objects put meta admit cur mutate w) = put m w"
    "\<And>j. j \<noteq> rt_key rt \<Longrightarrow> m j = objects w j"
    "\<And>x. fst (upsert_in objects put meta admit cur mutate w) = None \<Longrightarrow> objects w (rt_key rt) = Some x \<Longrightarrow>
      \<exists>y. mutate x = Inr y \<and> ObjectKey (meta y) = rt_key rt"
    using upsert_in_outcome [where put = put and objects = objects and meta = meta and admit = admit
        and cur = cur and mutate = mutate and w = w, OF assms(1)] unfolding key by metis
  have "opt_free rt meta (objects w (rt_key rt))" if ok
    using that m(3) free by (intro opt_freeI) (auto simp: ok)
  with m at show "objects_at (rt_key rt) w w' \<and> (\<exists>x. w' = put x w) \<and>
      (ok \<longrightarrow> opt_free rt meta (objects w (rt_key rt)))"
    unfolding w' by auto
qed

lemma delete_step:
  assumes "\<And>w. put (objects w) w = w"
    and at: "\<And>m w. (\<And>j. j \<noteq> key \<Longrightarrow> m j = objects w j) \<Longrightarrow> objects_at key w (put m w)"
  shows "outcome (do { a \<leftarrow> client_op c (delete_in what objects put key); State_Monad.return (g a) })
    (\<lambda>w ok w'. objects_at key w w' \<and> (\<exists>x. w' = put x w))"
proof (rule outcome_mono [OF outcome_client_op_bind], elim conjE)
  fix w ok w'
  assume "w' = snd (delete_in what objects put key w)"
  moreover obtain m where "snd (delete_in what objects put key w) = put m w" "\<And>j. j \<noteq> key \<Longrightarrow> m j = objects w j"
    using delete_in_outcome [where put = put and objects = objects and what = what and key = key and w = w]
      assms(1) by metis
  ultimately show "objects_at key w w' \<and> (\<exists>x. w' = put x w)" using at by auto
qed

lemma outcome_configmap:
  "outcome (reconcileConfigMap (memory_reconciler rec) rt)
    (\<lambda>w ok w'. objects_at (rt_key rt) w w' \<and> (\<exists>x. w' = cl_configmaps_update (\<lambda>_. x) w) \<and>
      (ok \<longrightarrow> opt_free rt ConfigMap_Meta (cl_configmaps w (rt_key rt))))"
  unfolding reconcileConfigMap_def Let_def memory_reconciler_client memory_api_def kube_api.simps
  by (rule upsert_step) (auto simp: objects_at_def intro: free_configmap)

lemma outcome_serviceaccount:
  "outcome (reconcileServiceAccount (memory_reconciler rec) rt)
    (\<lambda>w ok w'. objects_at (rt_key rt) w w' \<and> (\<exists>x. w' = cl_serviceaccounts_update (\<lambda>_. x) w) \<and>
      (ok \<longrightarrow> opt_free rt ServiceAccount_Meta (cl_serviceaccounts w (rt_key rt))))"
  unfolding reconcileServiceAccount_def Let_def memory_reconciler_client memory_api_def kube_api.simps
  by (rule upsert_step) (auto simp: objects_at_def intro: free_serviceaccount)

lemma outcome_service:
  "outcome (reconcileService (memory_reconciler rec) rt)
    (\<lambda>w ok w'. objects_at (rt_key rt) w w' \<and> (\<exists>x. w' = cl_services_update (\<lambda>_. x) w) \<and>
      (ok \<longrightarrow> opt_free rt Service_Meta (cl_services w (rt_key rt))))"
  unfolding reconcileService_def Let_def memory_reconciler_client memory_api_def kube_api.simps
  by (rule upsert_step) (auto simp: objects_at_def intro: free_service)

lemma outcome_deployment:
  "outcome (reconcileDeployment (memory_reconciler rec) rt)
    (\<lambda>w ok w'. objects_at (rt_key rt) w w' \<and> (\<exists>x. w' = cl_deployments_update (\<lambda>_. x) w) \<and>
      (ok \<longrightarrow> opt_free rt Deployment_Meta (cl_deployments w (rt_key rt))))"
  unfolding reconcileDeployment_def Let_def memory_reconciler_client memory_api_def kube_api.simps
  by (rule upsert_step) (auto simp: objects_at_def intro: free_deployment)

lemma outcome_budget:
  "outcome (reconcilePodDisruptionBudget (memory_reconciler rec) rt)
    (\<lambda>w ok w'. objects_at (rt_key rt) w w' \<and> (\<exists>x. w' = cl_budgets_update (\<lambda>_. x) w) \<and>
      (ok \<longrightarrow> opt_free rt PDB_Meta (cl_budgets w (rt_key rt))))"
  unfolding reconcilePodDisruptionBudget_def Let_def memory_reconciler_client memory_api_def kube_api.simps
  by (rule upsert_step) (auto simp: objects_at_def intro: free_budget)

lemma outcome_policy:
  "outcome (reconcileNetworkPolicy (memory_reconciler rec) rt)
    (\<lambda>w ok w'. objects_at (rt_key rt) w w' \<and> (\<exists>x. w' = cl_policies_update (\<lambda>_. x) w) \<and>
      (ok \<longrightarrow> (networkPolicyEnabled rt \<longrightarrow> opt_free rt NetworkPolicy_Meta (cl_policies w (rt_key rt)))))"
proof (cases "networkPolicyEnabled rt")
  case True
  then obtain d where d: "buildNetworkPolicy rt = Some d" using networkPolicyEnabled_built by blast
  have "reconcileNetworkPolicy (memory_reconciler rec) rt =
      client_op (CallCreateOrUpdate KNetworkPolicy (rt_key rt))
        (upsert_in cl_policies (\<lambda>m. cl_policies_update (\<lambda>_. m)) NetworkPolicy_Meta admit_plain
          \<lparr>NetworkPolicy_Meta = key_meta (NetworkPolicy_Meta d), NetworkPolicy_Spec = zero_policy_spec\<rparr>
          (mutateNetworkPolicy (memory_reconciler rec) rt d))"
    using True d by (simp add: reconcileNetworkPolicy_def memory_api_def)
  then show ?thesis
    using True d by (auto intro!: outcome_mono [OF upsert_step [where rt = rt]] simp: objects_at_def intro: free_policy)
next
  case False
  then show ?thesis
    unfolding reconcileNetworkPolicy_def memory_reconciler_client memory_api_def kube_api.simps
    by (auto intro!: outcome_mono [OF delete_step] simp: objects_at_def)
qed

lemma outcome_autoscaler:
  "outcome (reconcileHorizontalPodAutoscaler (memory_reconciler rec) rt)
    (\<lambda>w ok w'. objects_at (rt_key rt) w w' \<and> (\<exists>x. w' = cl_autoscalers_update (\<lambda>_. x) w) \<and>
      (ok \<longrightarrow> (autoscalingEnabled rt \<longrightarrow> opt_free rt HPA_Meta (cl_autoscalers w (rt_key rt)))))"
proof (cases "autoscalingEnabled rt")
  case True
  then show ?thesis
    unfolding reconcileHorizontalPodAutoscaler_def Let_def memory_reconciler_client memory_api_def kube_api.simps
    by (auto intro!: outcome_mono [OF upsert_step [where rt = rt]] simp: objects_at_def intro: free_autoscaler)
next
  case False
  then show ?thesis
    unfolding reconcileHorizontalPodAutoscaler_def memory_reconciler_client memory_api_def kube_api.simps
    by (auto intro!: outcome_mono [OF delete_step] simp: objects_at_def)
qed

text \<open>The managed resources: nothing but objects at that name changes, and success means they were free.\<close>

lemma outcome_core:
  "outcome (reconcileCoreResources (memory_reconciler rec) rt)
    (\<lambda>w ok w'. objects_at (rt_key rt) w w' \<and> (ok \<longrightarrow> takeable rt w))"
proof -
  have last: "outcome (State_Monad.return None) (\<lambda>w ok w'. objects_at (rt_key rt) w w' \<and> (ok \<longrightarrow> True))"
    by (rule outcome_mono [OF outcome_return]) simp
  show ?thesis
    unfolding reconcileCoreResources_def takeable_def Let_def
    by (rule outcome_mono [OF outcome_or_fail [OF outcome_configmap outcome_or_fail [OF outcome_serviceaccount
          outcome_or_fail [OF outcome_service outcome_or_fail [OF outcome_deployment outcome_or_fail
          [OF outcome_budget outcome_or_fail [OF outcome_policy outcome_or_fail [OF outcome_autoscaler last]]]]]]]])
      simp_all
qed

section \<open>The verdict on the references\<close>

definition memory_verdict :: "TrussiumRuntime \<Rightarrow> cluster \<Rightarrow> referenceValidationResult" where
  "memory_verdict rt w =
     verdict memory_api (Namespace (Runtime_Meta rt))
       (\<lambda>n. fst (read_object ''Secret'' cl_secrets \<lparr>Key_Namespace = Namespace (Runtime_Meta rt), Key_Name = n\<rparr> w))
       (referencedSecretNames rt)"

lemma memory_validate:
  "\<exists>cs. run_state (validateSecretReferences memory_api rt) s = (memory_verdict rt (world s), s\<lparr>calls := cs\<rparr>)"
  unfolding validateSecretReferences_def memory_verdict_def
  by (rule validateSecretNames_verdict) (simp add: read_object_def)

lemma secret_answer_isl:
  "isl (fst (read_object ''Secret'' cl_secrets key w)) \<longleftrightarrow> cl_secrets w key = None"
  by (simp add: read_object_def split: option.split)

text \<open>On this cluster a Secret is there or not found: the verdict never carries an error.\<close>

lemma memory_verdict_cases:
  "Err (memory_verdict rt w) = None \<and> (Valid (memory_verdict rt w) \<longleftrightarrow> secrets_present rt w) \<and>
   (secrets_present rt w \<longrightarrow> memory_verdict rt w = validReferenceValidation)"
proof (cases "List.find (\<lambda>n. isl (fst (read_object ''Secret'' cl_secrets
    \<lparr>Key_Namespace = Namespace (Runtime_Meta rt), Key_Name = n\<rparr> w))) (referencedSecretNames rt)")
  case None
  then have "secrets_present rt w"
    by (auto simp: find_None_iff secrets_present_def secret_answer_isl)
  with None show ?thesis by (simp add: memory_verdict_def verdict_def validReferenceValidation_def)
next
  case (Some n)
  then have "n \<in> set (referencedSecretNames rt)"
    and none: "cl_secrets w \<lparr>Key_Namespace = Namespace (Runtime_Meta rt), Key_Name = n\<rparr> = None"
    by (auto simp: find_Some_iff secret_answer_isl)
  then have "\<not> secrets_present rt w" by (auto simp: secrets_present_def)
  with Some none show ?thesis
    by (simp add: memory_verdict_def verdict_def read_object_def)
qed

lemma verdict_cong:
  assumes "\<And>n. n \<in> set names \<Longrightarrow> isl (a n) = isl (b n)" and "\<And>n. n \<in> set names \<Longrightarrow> isl (b n) \<Longrightarrow> a n = b n"
  shows "verdict K ns a names = verdict K ns b names"
  using assms
proof (induction names)
  case (Cons n names)
  show ?case
  proof (cases "isl (b n)")
    case True
    with Cons.prems have "isl (a n)" "a n = b n" by simp_all
    with True show ?thesis by (simp add: verdict_def)
  next
    case False
    with Cons.prems have "\<not> isl (a n)" by simp
    with False Cons.IH Cons.prems show ?thesis by (simp add: verdict_def)
  qed
qed (simp add: verdict_def)

text \<open>The verdict depends only on which of the referenced Secrets exist.\<close>

lemma memory_verdict_cong:
  assumes "\<And>n. n \<in> set (referencedSecretNames rt) \<Longrightarrow>
    (cl_secrets w' \<lparr>Key_Namespace = Namespace (Runtime_Meta rt), Key_Name = n\<rparr> = None) =
    (cl_secrets w \<lparr>Key_Namespace = Namespace (Runtime_Meta rt), Key_Name = n\<rparr> = None)"
  shows "memory_verdict rt w' = memory_verdict rt w"
  unfolding memory_verdict_def
proof (rule verdict_cong)
  fix n
  assume "n \<in> set (referencedSecretNames rt)"
  from assms [OF this] show
    "isl (fst (read_object ''Secret'' cl_secrets \<lparr>Key_Namespace = Namespace (Runtime_Meta rt), Key_Name = n\<rparr> w')) =
     isl (fst (read_object ''Secret'' cl_secrets \<lparr>Key_Namespace = Namespace (Runtime_Meta rt), Key_Name = n\<rparr> w))"
    "isl (fst (read_object ''Secret'' cl_secrets \<lparr>Key_Namespace = Namespace (Runtime_Meta rt), Key_Name = n\<rparr> w)) \<Longrightarrow>
     fst (read_object ''Secret'' cl_secrets \<lparr>Key_Namespace = Namespace (Runtime_Meta rt), Key_Name = n\<rparr> w') =
     fst (read_object ''Secret'' cl_secrets \<lparr>Key_Namespace = Namespace (Runtime_Meta rt), Key_Name = n\<rparr> w)"
    by (auto simp: secret_answer_isl read_object_def)
qed

section \<open>A pass that reports a failure\<close>

lemma memory_failure:
  assumes stored: "cl_runtimes (world s) (rt_key rt) = Some rt" and wf: "status_wf (Status rt)"
  shows "\<exists>s' F. run_state (handleReconciliationFailure (memory_reconciler rec) rt (Status rt) e) s = (Some e, s') \<and>
    status_wf F \<and> world s' = store_status rt F (world s)"
proof -
  let ?obs = "\<lparr>Obs_Deployment = cl_deployments (world s) (rt_key rt),
      Obs_Service = cl_services (world s) (rt_key rt)\<rparr>"
  let ?b = "buildReconciliationFailureStatus memory_api rt ?obs e (rclock s)"
  define F where "F = preserveRuntimeConditionTransitionTimes memory_api (Status rt) (fst ?b)"
  have "status_wf F" using mem.wf_failure [OF wf] by (simp add: F_def)
  moreover have "\<exists>s'. run_state (handleReconciliationFailure (memory_reconciler rec) rt (Status rt) e) s = (Some e, s') \<and>
    world s' = store_status rt F (world s)"
  proof (cases "Status rt = F")
    case True
    then have "rt\<lparr>Status := F\<rparr> = rt" by auto
    then have "store_status rt F (world s) = world s"
      using stored upd_same [of "cl_runtimes (world s)" "rt_key rt"] by (simp add: store_status_def)
    then show ?thesis
      using True F_def [symmetric] by (auto simp: handleReconciliationFailure_def memory_load updateRuntimeStatus_def Let_def)
  next
    case False
    then show ?thesis
      using F_def [symmetric] stored
      by (auto simp: handleReconciliationFailure_def memory_load updateRuntimeStatus_def Let_def
          memory_Status_Update_def store_status_def)
  qed
  ultimately show ?thesis by blast
qed

section \<open>The outcomes of Reconcile\<close>

text \<open>The state when the body of a pass over an existing resource starts, and what is left of it after.\<close>

lemma Reconcile_existing:
  assumes stored: "cl_runtimes (world s) (rt_key rt) = Some rt" and alive: "IsZero (DeletionTimestamp (Runtime_Meta rt))"
    and body: "\<And>s1. world s1 = world s \<Longrightarrow> rclock s1 = tick (rclock s) \<Longrightarrow>
      recorded s1 = recorded s \<Longrightarrow>
      \<exists>s'. run_state (reconcileExisting (memory_reconciler rec) rt) s1 = (res, s') \<and> world s' = w' \<and> recorded s' = es"
  shows "\<exists>s'. run_state (Reconcile (memory_reconciler rec) (rt_key rt)) s = (res, s') \<and> world s' = w' \<and> recorded s' = es"
proof -
  let ?s0 = "s\<lparr>rclock := tick (rclock s)\<rparr>"
  let ?s1 = "after_get (memory_reconciler rec) (rt_key rt) ?s0"
  obtain s' where s': "run_state (reconcileExisting (memory_reconciler rec) rt) ?s1 = (res, s')" "world s' = w'"
    "recorded s' = es"
    using body [of ?s1] by (auto simp: after_get_def read_object_def)
  have "fst (Get_Runtime memory_api (rt_key rt) (world ?s0)) = Inr rt" by (simp add: read_object_def stored)
  then have "run_state (reconcileRuntime (memory_reconciler rec) (rt_key rt)) ?s0 = (res, s')"
    using s'(1) alive by (simp add: run_reconcileRuntime)
  then show ?thesis using s'(2,3) by (simp add: run_Reconcile Let_def)
qed

lemma Reconcile_idle:
  assumes "case cl_runtimes (world s) k of None \<Rightarrow> True | Some rt \<Rightarrow> \<not> IsZero (DeletionTimestamp (Runtime_Meta rt))"
  shows "\<exists>s'. run_state (Reconcile (memory_reconciler rec) k) s = (None, s') \<and> world s' = world s \<and>
    recorded s' = recorded s"
proof -
  have "IgnoreNotFound memory_api (Some (not_found ''TrussiumRuntime'' k)) = None"
    by (simp add: memory_api_def memory_IgnoreNotFound_def not_found_def)
  then show ?thesis
    using assms by (auto simp: run_Reconcile run_reconcileRuntime after_get_def read_object_def Let_def
        split: option.splits)
qed

lemma Reconcile_invalid:
  assumes stored: "cl_runtimes (world s) (rt_key rt) = Some rt" and alive: "IsZero (DeletionTimestamp (Runtime_Meta rt))"
    and missing: "\<not> secrets_present rt (world s)"
    and N: "N = next_status rt (memory_verdict rt (world s)) (world s) (tick (rclock s))"
  shows "\<exists>s'. run_state (Reconcile (memory_reconciler rec) (rt_key rt)) s = (None, s') \<and>
    world s' = store_status rt N (world s) \<and> recorded s' = recorded s @ announced_events rec rt N"
proof (rule Reconcile_existing [OF stored alive])
  fix s1 :: "cluster rstate"
  assume s1: "world s1 = world s" "rclock s1 = tick (rclock s)" "recorded s1 = recorded s"
  let ?v = "memory_verdict rt (world s)"
  obtain cs where cs: "run_state (validateSecretReferences memory_api rt) s1 = (?v, s1\<lparr>calls := cs\<rparr>)"
    using memory_validate [of rt s1] s1 by auto
  obtain s' where "run_state (finishReconciliation (memory_reconciler rec) rt (Status rt) ?v) (s1\<lparr>calls := cs\<rparr>) =
      (None, s')" "world s' = store_status rt N (world s)" "recorded s' = recorded s @ announced_events rec rt N"
    using memory_finish [of "s1\<lparr>calls := cs\<rparr>" rt N ?v rec] stored s1 N by auto
  then show "\<exists>s'. run_state (reconcileExisting (memory_reconciler rec) rt) s1 = (None, s') \<and>
      world s' = store_status rt N (world s) \<and> recorded s' = recorded s @ announced_events rec rt N"
    using cs missing memory_verdict_cases [of rt "world s"]
    by (auto simp: reconcileExisting_def reconcileInvalidConfiguration_def copyRuntimeStatus_def Let_def)
qed

lemma Reconcile_conflict:
  assumes stored: "cl_runtimes (world s) (rt_key rt) = Some rt" and alive: "IsZero (DeletionTimestamp (Runtime_Meta rt))"
    and wf: "status_wf (Status rt)"
    and secrets: "secrets_present rt (world s)" and conflict: "\<not> takeable rt (world s)"
  shows "\<exists>e s'. run_state (Reconcile (memory_reconciler rec) (rt_key rt)) s = (Some e, s') \<and>
    (\<exists>w F. objects_at (rt_key rt) (world s) w \<and> status_wf F \<and> world s' = store_status rt F w)"
proof -
  let ?P = "\<lambda>v. \<exists>w F. objects_at (rt_key rt) (world s) w \<and> status_wf F \<and> v = store_status rt F w"
  let ?s0 = "s\<lparr>rclock := tick (rclock s)\<rparr>"
  let ?s1 = "after_get (memory_reconciler rec) (rt_key rt) ?s0"
  have s1: "world ?s1 = world s" by (simp add: after_get_def read_object_def)
  obtain cs where cs: "run_state (validateSecretReferences memory_api rt) ?s1 =
      (memory_verdict rt (world s), ?s1\<lparr>calls := cs\<rparr>)"
    using memory_validate [of rt ?s1] s1 by auto
  obtain res w1 cs1 where core: "run_state (reconcileCoreResources (memory_reconciler rec) rt) (?s1\<lparr>calls := cs\<rparr>) =
      (res, ?s1\<lparr>world := w1, calls := cs1\<rparr>)"
    "objects_at (rt_key rt) (world s) w1" "res = None \<longrightarrow> takeable rt (world s)"
    by (rule outcomeD [OF outcome_core [of rec rt], of "?s1\<lparr>calls := cs\<rparr>"]) (use s1 in auto)
  then obtain e where e: "res = Some e" using conflict by blast
  have "cl_runtimes w1 (rt_key rt) = Some rt" using core(2) stored by (simp add: objects_at_def)
  then obtain s' F where F: "run_state (handleReconciliationFailure (memory_reconciler rec) rt (Status rt) e)
      (?s1\<lparr>world := w1, calls := cs1\<rparr>) = (Some e, s')" "status_wf F" "world s' = store_status rt F w1"
    using memory_failure [of "?s1\<lparr>world := w1, calls := cs1\<rparr>" rt rec e] wf by auto
  have v: "Err (memory_verdict rt (world s)) = None" "Valid (memory_verdict rt (world s))"
    using secrets memory_verdict_cases [of rt "world s"] by blast+
  have "run_state (reconcileExisting (memory_reconciler rec) rt) ?s1 = (Some e, s')"
    using cs core(1) e F(1) v by (simp add: reconcileExisting_def copyRuntimeStatus_def Let_def)
  moreover have "fst (Get_Runtime memory_api (rt_key rt) (world ?s0)) = Inr rt" by (simp add: read_object_def stored)
  ultimately have "run_state (reconcileRuntime (memory_reconciler rec) (rt_key rt)) ?s0 = (Some e, s')"
    using alive by (simp add: run_reconcileRuntime)
  then show ?thesis using core(2) F(2,3) by (auto simp: run_Reconcile Let_def)
qed

end
