(* ===== verification/Work_Queue.thy ===== *)
theory Work_Queue
  imports Main
begin

text \<open>
  A work queue as \<open>client-go\<close> documents it: a request is in it at most once, and workers take requests
  out of it in any order.  What a worker does with a request is an argument, a function on the state and
  the queue.  The locale \<open>draining\<close> is the interface of a worker whose passes use up a weight: it bounds
  the number of passes in any order and shows that passes in the order of the queue empty it.
\<close>

section \<open>The queue\<close>

definition enqueue :: "'k \<Rightarrow> 'k list \<Rightarrow> 'k list" where
  "enqueue k q = (if k \<in> set q then q else q @ [k])"

definition enqueue_all :: "'k list \<Rightarrow> 'k list \<Rightarrow> 'k list" where
  "enqueue_all ks q = fold enqueue ks q"

lemma set_enqueue [simp]: "set (enqueue k q) = insert k (set q)"
  by (auto simp: enqueue_def)

lemma set_enqueue_all [simp]: "set (enqueue_all ks q) = set ks \<union> set q"
  by (induction ks arbitrary: q) (auto simp: enqueue_all_def)

lemma distinct_enqueue [simp]: "distinct q \<Longrightarrow> distinct (enqueue k q)"
  by (simp add: enqueue_def)

lemma distinct_enqueue_all [simp]: "distinct q \<Longrightarrow> distinct (enqueue_all ks q)"
  by (induction ks arbitrary: q) (auto simp: enqueue_all_def)

lemma enqueue_all_Nil [simp]: "enqueue_all [] q = q"
  by (simp add: enqueue_all_def)

section \<open>Workers\<close>

text \<open>A pass over some request of the queue, and \<open>n\<close> passes in the order of the queue.\<close>

definition pass_step :: "('k \<Rightarrow> 's \<times> 'k list \<Rightarrow> 's \<times> 'k list) \<Rightarrow> 's \<times> 'k list \<Rightarrow> 's \<times> 'k list \<Rightarrow> bool" where
  "pass_step worker sys sys' \<longleftrightarrow> (\<exists>k \<in> set (snd sys). sys' = worker k sys)"

fun work :: "('k \<Rightarrow> 's \<times> 'k list \<Rightarrow> 's \<times> 'k list) \<Rightarrow> nat \<Rightarrow> 's \<times> 'k list \<Rightarrow> 's \<times> 'k list" where
  "work worker 0 sys = sys"
| "work worker (Suc n) (s, []) = (s, [])"
| "work worker (Suc n) (s, k # q) = work worker n (worker k (s, k # q))"

lemma pass_possible: "q \<noteq> [] \<Longrightarrow> \<exists>sys. pass_step worker (s, q) sys"
  by (intro exI [of _ "worker (hd q) (s, q)"]) (auto simp: pass_step_def)

locale draining =
  fixes worker :: "'k \<Rightarrow> 's \<times> 'k list \<Rightarrow> 's \<times> 'k list"
    and good :: "'s \<times> 'k list \<Rightarrow> bool"
    and weight :: "'s \<times> 'k list \<Rightarrow> nat"
  assumes worker_good: "good sys \<Longrightarrow> k \<in> set (snd sys) \<Longrightarrow> good (worker k sys)"
    and worker_weight: "good sys \<Longrightarrow> k \<in> set (snd sys) \<Longrightarrow> weight (worker k sys) < weight sys"
    and weight_positive: "snd sys \<noteq> [] \<Longrightarrow> 0 < weight sys"
begin

lemma passes_bounded:
  assumes "(pass_step worker ^^ n) sys sys'" and "good sys"
  shows "good sys' \<and> n + weight sys' \<le> weight sys"
  using assms
proof (induction n arbitrary: sys')
  case 0
  then show ?case by simp
next
  case (Suc n)
  then obtain sys1 where 1: "(pass_step worker ^^ n) sys sys1" and "pass_step worker sys1 sys'" by auto
  then obtain k where k: "k \<in> set (snd sys1)" "sys' = worker k sys1" by (auto simp: pass_step_def)
  from Suc.IH [OF 1 Suc.prems(2)] worker_good [OF _ k(1)] worker_weight [OF _ k(1)] show ?case
    by (simp add: k(2))
qed

lemma work_drains: "good sys \<Longrightarrow> weight sys \<le> n \<Longrightarrow> snd (work worker n sys) = [] \<and> good (work worker n sys)"
proof (induction n arbitrary: sys)
  case 0
  then show ?case using weight_positive [of sys] by fastforce
next
  case (Suc n)
  show ?case
  proof (cases "snd sys")
    case Nil
    with Suc.prems show ?thesis by (cases sys) simp
  next
    case (Cons k q)
    have "good (worker k sys)" "weight (worker k sys) < weight sys"
      using worker_good [OF Suc.prems(1)] worker_weight [OF Suc.prems(1)] by (simp_all add: Cons)
    with Suc Cons show ?thesis by (cases sys) simp
  qed
qed

end

end
