(* ===== verification/Operator.thy ===== *)
theory Operator
  imports Pass_Outcomes Work_Queue
begin

text \<open>
  The operator at work: the watches that \<open>SetupWithManager\<close> registers, the work queue, and passes over
  the cluster of \<open>Cluster\<close>, while other clients of the API server change it.  \<open>controller-runtime\<close> is a
  library; what is modelled of it is its documented behaviour: a change of an object makes the requests
  of the watches on its kind (\<open>For\<close> with its predicate, \<open>Owns\<close> for the controller of the old and of the
  new object, \<open>Watches\<close> by the mapping function), a request is in the queue at most once, a worker takes
  any request out of it, and a request whose pass returned an error is put back.  \<open>requests\<close> takes the
  registrations as an argument, so what is proved of it depends on what the operator registers; it is the
  contract, the locale \<open>delivery\<close>, of the library function \<open>deliver\<close>.

  A state of the system is the state of the process, whose world is the cluster, and the queue.
  \<open>operating\<close> are the states that can be reached from a start with every existing resource queued.
\<close>

section \<open>Changes\<close>

abbreviation owned_kinds :: "kind list" where
  "owned_kinds \<equiv> [KConfigMap, KServiceAccount, KService, KDeployment, KPodDisruptionBudget, KNetworkPolicy,
     KHorizontalPodAutoscaler]"

fun unchanged :: "kind \<Rightarrow> NamespacedName \<Rightarrow> cluster \<Rightarrow> cluster \<Rightarrow> bool" where
  "unchanged KTrussiumRuntime k w w' = (cl_runtimes w' k = cl_runtimes w k)"
| "unchanged KSecret k w w' = (cl_secrets w' k = cl_secrets w k)"
| "unchanged KConfigMap k w w' = (cl_configmaps w' k = cl_configmaps w k)"
| "unchanged KServiceAccount k w w' = (cl_serviceaccounts w' k = cl_serviceaccounts w k)"
| "unchanged KService k w w' = (cl_services w' k = cl_services w k)"
| "unchanged KDeployment k w w' = (cl_deployments w' k = cl_deployments w k)"
| "unchanged KPodDisruptionBudget k w w' = (cl_budgets w' k = cl_budgets w k)"
| "unchanged KNetworkPolicy k w w' = (cl_policies w' k = cl_policies w k)"
| "unchanged KHorizontalPodAutoscaler k w w' = (cl_autoscalers w' k = cl_autoscalers w k)"

fun meta_at :: "kind \<Rightarrow> NamespacedName \<Rightarrow> cluster \<Rightarrow> ObjectMeta option" where
  "meta_at KTrussiumRuntime k w = map_option Runtime_Meta (cl_runtimes w k)"
| "meta_at KSecret k w = map_option Secret_Meta (cl_secrets w k)"
| "meta_at KConfigMap k w = map_option ConfigMap_Meta (cl_configmaps w k)"
| "meta_at KServiceAccount k w = map_option ServiceAccount_Meta (cl_serviceaccounts w k)"
| "meta_at KService k w = map_option Service_Meta (cl_services w k)"
| "meta_at KDeployment k w = map_option Deployment_Meta (cl_deployments w k)"
| "meta_at KPodDisruptionBudget k w = map_option PDB_Meta (cl_budgets w k)"
| "meta_at KNetworkPolicy k w = map_option NetworkPolicy_Meta (cl_policies w k)"
| "meta_at KHorizontalPodAutoscaler k w = map_option HPA_Meta (cl_autoscalers w k)"

definition only_at :: "NamespacedName \<Rightarrow> cluster \<Rightarrow> cluster \<Rightarrow> bool" where
  "only_at k w w' \<longleftrightarrow>
     (\<forall>j. j \<noteq> k \<longrightarrow> list_all (\<lambda>kind. unchanged kind j w w') (KTrussiumRuntime # KSecret # owned_kinds))"

section \<open>Requests\<close>

text \<open>The metadata of the object before and after a change.\<close>

definition metas :: "kind \<Rightarrow> NamespacedName \<Rightarrow> cluster \<Rightarrow> cluster \<Rightarrow> ObjectMeta list" where
  "metas kind k w w' = List.map_filter (meta_at kind k) [w, w']"

text \<open>\<open>Owns\<close>: the controller of the object, if it is a resource of this operator.\<close>

definition owner_requests :: "ObjectMeta \<Rightarrow> NamespacedName list" where
  "owner_requests m =
     (case controller_of m of
        None \<Rightarrow> []
      | Some c \<Rightarrow>
          if Owner_Kind c = ''TrussiumRuntime''
          then [\<lparr>Key_Namespace = Namespace m, Key_Name = Owner_Name c\<rparr>] else [])"

definition owned_requests :: "NamespacedName \<Rightarrow> cluster \<Rightarrow> cluster \<Rightarrow> kind \<Rightarrow> NamespacedName list" where
  "owned_requests k w w' kind =
     (if unchanged kind k w w' then [] else concat (map owner_requests (metas kind k w w')))"

text \<open>\<open>For\<close>: the object itself, on an update only if the predicates let it pass.\<close>

fun passes :: "predicate \<Rightarrow> TrussiumRuntime \<Rightarrow> TrussiumRuntime \<Rightarrow> bool" where
  "passes GenerationChangedPredicate old new = (Generation (Runtime_Meta old) \<noteq> Generation (Runtime_Meta new))"

definition for_requests :: "predicate list \<Rightarrow> NamespacedName \<Rightarrow> cluster \<Rightarrow> cluster \<Rightarrow> NamespacedName list" where
  "for_requests preds k w w' =
     (case (cl_runtimes w k, cl_runtimes w' k) of
        (None, None) \<Rightarrow> []
      | (Some old, Some new) \<Rightarrow> if old \<noteq> new \<and> list_all (\<lambda>p. passes p old new) preds then [k] else []
      | _ \<Rightarrow> [k])"

text \<open>\<open>Watches\<close>: what the mapping function returns, run against the cluster as it is then.\<close>

definition mapped_requests ::
  "EventRecorder option \<Rightarrow> cluster rstate \<Rightarrow> NamespacedName \<Rightarrow> cluster \<Rightarrow> cluster \<Rightarrow> kind \<times> map_function \<Rightarrow>
     NamespacedName list"
where
  "mapped_requests rec s k w w' watch =
     (case watch of (kind, MapSecretToRuntimes) \<Rightarrow>
        if unchanged kind k w w' then []
        else concat (map (\<lambda>m. fst (run_state (mapSecretToRuntimes (memory_reconciler rec) m) (s\<lparr>world := w'\<rparr>)))
               (metas kind k w w')))"

definition requests ::
  "controller_setup \<Rightarrow> EventRecorder option \<Rightarrow> cluster rstate \<Rightarrow> NamespacedName \<Rightarrow> cluster \<Rightarrow> cluster \<Rightarrow>
     NamespacedName list"
where
  "requests setup rec s k w w' =
     (if fst (For setup) = KTrussiumRuntime then for_requests (snd (For setup)) k w w' else []) @
     concat (map (owned_requests k w w') (Owns setup)) @
     concat (map (mapped_requests rec s k w w') (Watches setup))"

section \<open>The queue\<close>

text \<open>
  The library that delivers the events is a parameter, \<open>deliver\<close>: the requests that a change of the
  objects of one name makes under some registrations.  Its contract is that they are those above, in
  any order and any number of times; the list above is one such.
\<close>

type_synonym delivery_fn = "controller_setup \<Rightarrow> cluster rstate \<Rightarrow> NamespacedName \<Rightarrow> cluster \<Rightarrow> cluster \<Rightarrow> NamespacedName list"

locale delivery =
  fixes rec :: "EventRecorder option" and deliver :: delivery_fn
  assumes delivered: "set (deliver setup s k w w') = set (requests setup rec s k w w')"

interpretation doc_delivery: delivery rec "\<lambda>setup. requests setup rec" for rec
  by unfold_locales (rule refl)

text \<open>A worker takes a request, runs the pass, and puts the request back if it returned an error; what the
  pass changed makes its requests.\<close>

definition process ::
  "delivery_fn \<Rightarrow> EventRecorder option \<Rightarrow> NamespacedName \<Rightarrow> cluster rstate \<times> NamespacedName list \<Rightarrow>
     cluster rstate \<times> NamespacedName list"
where
  "process deliver rec k sys =
     (let (s, q) = sys;
          (err, s') = run_state (Reconcile (memory_reconciler rec) k) s;
          q = enqueue_all (deliver SetupWithManager s' k (world s) (world s')) (removeAll k q)
      in (s', if err \<noteq> None then enqueue k q else q))"

section \<open>The environment\<close>

text \<open>What the API server keeps true of what it stores.\<close>

definition well_kept :: "cluster \<Rightarrow> bool" where
  "well_kept w \<longleftrightarrow>
     (\<forall>k rt. cl_runtimes w k = Some rt \<longrightarrow>
        rt_key rt = k \<and> k \<in> set (cl_runtime_keys w) \<and>
        status_wf (Status rt) \<and> runtimeImage (Image (Spec rt)) \<noteq> '''') \<and>
     (\<forall>k secret. cl_secrets w k = Some secret \<longrightarrow> ObjectKey (Secret_Meta secret) = k)"

text \<open>The labels, annotations and owners of a resource can change without a new generation.\<close>

definition metadata_only :: "TrussiumRuntime \<Rightarrow> TrussiumRuntime \<Rightarrow> bool" where
  "metadata_only old new \<longleftrightarrow>
     new = old\<lparr>Runtime_Meta := (Runtime_Meta old)
       \<lparr>Labels := Labels (Runtime_Meta new), Annotations := Annotations (Runtime_Meta new),
        OwnerReferences := OwnerReferences (Runtime_Meta new)\<rparr>\<rparr>"

text \<open>
  A change by another client, of objects of one name.  The server gives a resource a new generation when
  its specification or its deletion timestamp changes; nobody else writes its status; and an object of an
  owned kind under the name of a resource is, before or after the change, controlled by that resource.
\<close>

definition environment_change :: "NamespacedName \<Rightarrow> cluster \<Rightarrow> cluster \<Rightarrow> bool" where
  "environment_change k w w' \<longleftrightarrow>
     only_at k w w' \<and> well_kept w' \<and>
     (case (cl_runtimes w k, cl_runtimes w' k) of
        (Some old, Some new) \<Rightarrow>
          Generation (Runtime_Meta old) = Generation (Runtime_Meta new) \<longrightarrow> metadata_only old new
      | _ \<Rightarrow> True) \<and>
     (cl_runtimes w' k \<noteq> None \<longrightarrow>
        list_all (\<lambda>kind. unchanged kind k w w' \<or>
          list_ex (\<lambda>m. k \<in> set (owner_requests m)) (metas kind k w w')) owned_kinds)"

inductive operator_step ::
  "delivery_fn \<Rightarrow> EventRecorder option \<Rightarrow> cluster rstate \<times> NamespacedName list \<Rightarrow>
     cluster rstate \<times> NamespacedName list \<Rightarrow> bool"
  for deliver :: delivery_fn and rec :: "EventRecorder option"
where
  work: "k \<in> set q \<Longrightarrow> operator_step deliver rec (s, q) (process deliver rec k (s, q))"
| edit: "environment_change k (world s) w' \<Longrightarrow>
    operator_step deliver rec (s, q)
      (s\<lparr>world := w'\<rparr>, enqueue_all (deliver SetupWithManager s k (world s) w') q)"

inductive operating :: "delivery_fn \<Rightarrow> EventRecorder option \<Rightarrow> cluster rstate \<times> NamespacedName list \<Rightarrow> bool"
  for deliver :: delivery_fn and rec :: "EventRecorder option"
where
  start: "well_kept (world s) \<Longrightarrow> operating deliver rec (s, remdups (cl_runtime_keys (world s)))"
| step: "operating deliver rec sys \<Longrightarrow> operator_step deliver rec sys sys' \<Longrightarrow> operating deliver rec sys'"

section \<open>Rest\<close>

text \<open>A request is at rest when a pass has nothing left to do for it.\<close>

definition at_rest :: "EventRecorder option \<Rightarrow> cluster \<Rightarrow> NamespacedName \<Rightarrow> bool" where
  "at_rest rec w k \<longleftrightarrow>
     (case cl_runtimes w k of
        None \<Rightarrow> True
      | Some rt \<Rightarrow>
          IsZero (DeletionTimestamp (Runtime_Meta rt)) \<longrightarrow>
            (\<forall>clk. next_status rt (memory_verdict rt w) w clk = Status rt) \<and>
            (secrets_present rt w \<longrightarrow> desired_state rt w \<and> settled_state rec rt w))"

section \<open>What rest depends on\<close>

lemma only_at_iff:
  "only_at k w w' \<longleftrightarrow>
     (\<forall>j. j \<noteq> k \<longrightarrow> cl_runtimes w' j = cl_runtimes w j \<and> cl_secrets w' j = cl_secrets w j \<and>
        list_all (\<lambda>kind. unchanged kind j w w') owned_kinds)"
  by (simp add: only_at_def)

lemma objects_cong:
  assumes "list_all (\<lambda>kind. unchanged kind (rt_key rt) w w') owned_kinds"
  shows "desired_state rt w' = desired_state rt w" and "settled_state rec rt w' = settled_state rec rt w"
    and "next_status rt v w' clk = next_status rt v w clk" and "claimable rt w' = claimable rt w"
  using assms
  by (simp_all add: desired_state_def settled_state_def next_status_def claimable_def Let_def)

lemma secrets_cong:
  assumes "\<And>n. n \<in> set (referencedSecretNames rt) \<Longrightarrow>
    (cl_secrets w' \<lparr>Key_Namespace = Namespace (Runtime_Meta rt), Key_Name = n\<rparr> = None) =
    (cl_secrets w \<lparr>Key_Namespace = Namespace (Runtime_Meta rt), Key_Name = n\<rparr> = None)"
  shows "secrets_present rt w' = secrets_present rt w" and "memory_verdict rt w' = memory_verdict rt w"
proof -
  show "secrets_present rt w' = secrets_present rt w" using assms by (simp add: secrets_present_def)
  show "memory_verdict rt w' = memory_verdict rt w" using assms by (rule memory_verdict_cong)
qed

lemma at_rest_cong:
  assumes "cl_runtimes w' k = cl_runtimes w k" and "list_all (\<lambda>kind. unchanged kind k w w') owned_kinds"
    and "\<And>rt. cl_runtimes w k = Some rt \<Longrightarrow> rt_key rt = k"
    and "\<And>rt n. cl_runtimes w k = Some rt \<Longrightarrow> n \<in> set (referencedSecretNames rt) \<Longrightarrow>
      (cl_secrets w' \<lparr>Key_Namespace = Namespace (Runtime_Meta rt), Key_Name = n\<rparr> = None) =
      (cl_secrets w \<lparr>Key_Namespace = Namespace (Runtime_Meta rt), Key_Name = n\<rparr> = None)"
  shows "at_rest rec w' k = at_rest rec w k"
proof (cases "cl_runtimes w k")
  case (Some rt)
  have "list_all (\<lambda>kind. unchanged kind (rt_key rt) w w') owned_kinds"
    using assms(2,3) Some by simp
  note objects = objects_cong [OF this]
  have "secrets_present rt w' = secrets_present rt w" "memory_verdict rt w' = memory_verdict rt w"
    using secrets_cong [of rt w' w] assms(4) [OF Some] by blast+
  with objects Some assms(1) show ?thesis unfolding at_rest_def by simp
qed (simp add: at_rest_def assms(1))

section \<open>Labels, annotations and owners of a resource do not matter\<close>

definition relabel :: "gomap \<Rightarrow> gomap \<Rightarrow> OwnerReference list \<Rightarrow> TrussiumRuntime \<Rightarrow> TrussiumRuntime" where
  "relabel l a ow rt =
     rt\<lparr>Runtime_Meta := (Runtime_Meta rt)\<lparr>Labels := l, Annotations := a, OwnerReferences := ow\<rparr>\<rparr>"

lemma relabel_fields:
  "Spec (relabel l a ow rt) = Spec rt" "Status (relabel l a ow rt) = Status rt"
  "Name (Runtime_Meta (relabel l a ow rt)) = Name (Runtime_Meta rt)"
  "Namespace (Runtime_Meta (relabel l a ow rt)) = Namespace (Runtime_Meta rt)"
  "UID (Runtime_Meta (relabel l a ow rt)) = UID (Runtime_Meta rt)"
  "Generation (Runtime_Meta (relabel l a ow rt)) = Generation (Runtime_Meta rt)"
  "DeletionTimestamp (Runtime_Meta (relabel l a ow rt)) = DeletionTimestamp (Runtime_Meta rt)"
  "rt_key (relabel l a ow rt) = rt_key rt"
  by (simp_all add: relabel_def ObjectKey_def)

lemma relabel_resources:
  "managed_meta (relabel l a ow rt) = managed_meta rt"
  "runtimeLabels (relabel l a ow rt) = runtimeLabels rt"
  "imagePullSecrets (relabel l a ow rt) = imagePullSecrets rt"
  "runtimeConfigData (relabel l a ow rt) = runtimeConfigData rt"
  "desiredReplicas (relabel l a ow rt) = desiredReplicas rt"
  "autoscalingEnabled (relabel l a ow rt) = autoscalingEnabled rt"
  "networkPolicyEnabled (relabel l a ow rt) = networkPolicyEnabled rt"
  "owner_reference (relabel l a ow rt) = owner_reference rt"
  "referencedSecretNames (relabel l a ow rt) = referencedSecretNames rt"
  "desiredReplicaCount (relabel l a ow rt) = desiredReplicaCount rt"
  unfolding fun_eq_iff resource_defs networkPolicyEnabled_def owner_reference_def referencedSecretNames_def
    desiredReplicaCount_def relabel_fields by (rule refl allI)+

lemma relabel_builders:
  "buildConfigMap (relabel l a ow rt) = buildConfigMap rt"
  "buildServiceAccount (relabel l a ow rt) = buildServiceAccount rt"
  "buildService (relabel l a ow rt) = buildService rt"
  "buildDeployment (relabel l a ow rt) = buildDeployment rt"
  "buildPodDisruptionBudget (relabel l a ow rt) = buildPodDisruptionBudget rt"
  "buildNetworkPolicy (relabel l a ow rt) = buildNetworkPolicy rt"
  "buildHorizontalPodAutoscaler (relabel l a ow rt) = buildHorizontalPodAutoscaler rt"
  unfolding buildConfigMap_def buildServiceAccount_def buildService_def buildDeployment_def
    buildPodDisruptionBudget_def buildNetworkPolicy_def buildHorizontalPodAutoscaler_def resource_defs
    relabel_fields by (rule refl)+

lemma relabel_owned:
  "owned (memory_reconciler rec) (relabel l a ow rt) = owned (memory_reconciler rec) rt"
  unfolding fun_eq_iff owned_def memory_reconciler_client memory_ref memory_SetControllerReference_def
    relabel_resources relabel_fields by blast

lemma relabel_mutations:
  "mutateConfigMap (memory_reconciler rec) (relabel l a ow rt) = mutateConfigMap (memory_reconciler rec) rt"
  "mutateServiceAccount (memory_reconciler rec) (relabel l a ow rt) =
     mutateServiceAccount (memory_reconciler rec) rt"
  "mutateService (memory_reconciler rec) (relabel l a ow rt) = mutateService (memory_reconciler rec) rt"
  "mutateDeployment (memory_reconciler rec) (relabel l a ow rt) = mutateDeployment (memory_reconciler rec) rt"
  "mutatePodDisruptionBudget (memory_reconciler rec) (relabel l a ow rt) =
     mutatePodDisruptionBudget (memory_reconciler rec) rt"
  "mutateNetworkPolicy (memory_reconciler rec) (relabel l a ow rt) =
     mutateNetworkPolicy (memory_reconciler rec) rt"
  "mutateHorizontalPodAutoscaler (memory_reconciler rec) (relabel l a ow rt) =
     mutateHorizontalPodAutoscaler (memory_reconciler rec) rt"
  unfolding fun_eq_iff mutateConfigMap_def mutateServiceAccount_def mutateService_def mutateDeployment_def
    mutatePodDisruptionBudget_def mutateNetworkPolicy_def mutateHorizontalPodAutoscaler_def
    relabel_owned relabel_resources by blast+

lemma relabel_states:
  "desired_state (relabel l a ow rt) w = desired_state rt w"
  "settled_state rec (relabel l a ow rt) w = settled_state rec rt w"
  "secrets_present (relabel l a ow rt) w = secrets_present rt w"
  "memory_verdict (relabel l a ow rt) w = memory_verdict rt w"
proof -
  have managed: "managed (relabel l a ow rt) = managed rt"
    unfolding fun_eq_iff managed_def owned_by_def relabel_resources relabel_fields by blast
  have "good_configmap (relabel l a ow rt) = good_configmap rt"
    "good_serviceaccount (relabel l a ow rt) = good_serviceaccount rt"
    "good_service (relabel l a ow rt) = good_service rt"
    "good_deployment (relabel l a ow rt) = good_deployment rt"
    "good_budget (relabel l a ow rt) = good_budget rt"
    "good_policy (relabel l a ow rt) = good_policy rt"
    "good_autoscaler (relabel l a ow rt) = good_autoscaler rt"
    unfolding fun_eq_iff good_configmap_def good_serviceaccount_def good_service_def
      good_deployment_def good_budget_def good_policy_def good_autoscaler_def managed
      relabel_resources relabel_builders by blast+
  then show "desired_state (relabel l a ow rt) w = desired_state rt w"
    unfolding desired_state_def relabel_resources relabel_fields by simp
  show "settled_state rec (relabel l a ow rt) w = settled_state rec rt w"
    unfolding settled_state_def Let_def relabel_resources relabel_builders relabel_mutations relabel_fields ..
  show "secrets_present (relabel l a ow rt) w = secrets_present rt w"
    unfolding secrets_present_def relabel_resources relabel_fields ..
  show "memory_verdict (relabel l a ow rt) w = memory_verdict rt w"
    unfolding memory_verdict_def relabel_resources relabel_fields ..
qed

lemma relabel_next_status: "next_status (relabel l a ow rt) v w clk = next_status rt v w clk"
  unfolding next_status_def buildRuntimeStatus_def applyUpgradeStatus_def buildBaseRuntimeStatus_def
    invalidReferencesStatus_def observedRuntimeStatus_def observeDeploymentRollout_def
    relabel_resources relabel_fields by (rule refl)

lemma at_rest_relabel:
  assumes "cl_runtimes w k = Some rt" and "cl_runtimes w' k = Some rt'" and "metadata_only rt rt'"
    and "rt_key rt = k" and "list_all (\<lambda>kind. unchanged kind k w w') owned_kinds"
    and "\<And>n. n \<in> set (referencedSecretNames rt) \<Longrightarrow>
      (cl_secrets w' \<lparr>Key_Namespace = Namespace (Runtime_Meta rt), Key_Name = n\<rparr> = None) =
      (cl_secrets w \<lparr>Key_Namespace = Namespace (Runtime_Meta rt), Key_Name = n\<rparr> = None)"
  shows "at_rest rec w' k = at_rest rec w k"
proof -
  from assms(3) obtain l a ow where rt': "rt' = relabel l a ow rt"
    unfolding metadata_only_def relabel_def by blast
  have "list_all (\<lambda>kind. unchanged kind (rt_key rt) w w') owned_kinds" using assms(4,5) by simp
  note objects = objects_cong [OF this]
  have "secrets_present rt w' = secrets_present rt w" "memory_verdict rt w' = memory_verdict rt w"
    using secrets_cong [of rt w' w] assms(6) by blast+
  with objects assms(1,2) show ?thesis
    unfolding at_rest_def rt' by (simp add: relabel_fields relabel_states relabel_next_status)
qed

section \<open>Passes\<close>

lemma store_status_same: "cl_runtimes w (rt_key rt) = Some rt \<Longrightarrow> store_status rt (Status rt) w = w"
  using upd_same [of "cl_runtimes w" "rt_key rt"] by (simp add: store_status_def)

lemma verdict_valid: "secrets_present rt w \<Longrightarrow> memory_verdict rt w = validReferenceValidation"
  using memory_verdict_cases [of rt w] by blast

text \<open>A pass over a request at rest does nothing.\<close>

lemma at_rest_noop:
  assumes "well_kept (world s)" and "at_rest rec (world s) k"
  shows "\<exists>s'. run_state (Reconcile (memory_reconciler rec) k) s = (None, s') \<and> world s' = world s \<and>
    recorded s' = recorded s"
proof (cases "cl_runtimes (world s) k")
  case None
  then show ?thesis using Reconcile_idle [of s k rec] by simp
next
  case (Some rt)
  show ?thesis
  proof (cases "IsZero (DeletionTimestamp (Runtime_Meta rt))")
    case False
    then show ?thesis using Some Reconcile_idle [of s k rec] by simp
  next
    case True
    let ?w = "world s"
    from assms(1) Some have k: "rt_key rt = k" by (simp add: well_kept_def)
    then have stored: "cl_runtimes ?w (rt_key rt) = Some rt" using Some by simp
    from assms(2) Some True have st: "next_status rt (memory_verdict rt ?w) ?w clk = Status rt" for clk
      by (simp add: at_rest_def)
    have quiet: "announced_events rec rt (Status rt) = []" by (simp add: announced_events_def)
    show ?thesis
    proof (cases "secrets_present rt ?w")
      case False
      from Reconcile_invalid [OF stored True this refl, of rec] show ?thesis
        unfolding k st quiet store_status_same [OF stored] by simp
    next
      case secrets: True
      with assms(2) Some True have "desired_state rt ?w" "settled_state rec rt ?w" by (simp_all add: at_rest_def)
      from memory_Reconcile [OF refl stored True secrets core_settled [OF this] refl refl] show ?thesis
        unfolding verdict_valid [OF secrets, symmetric] k st quiet store_status_same [OF stored] by simp
    qed
  qed
qed

text \<open>What any pass may change: objects of its name and the status of its resource.\<close>

definition pass_frame :: "NamespacedName \<Rightarrow> cluster \<Rightarrow> cluster \<Rightarrow> bool" where
  "pass_frame k w w' \<longleftrightarrow>
     only_at k w w' \<and> cl_secrets w' = cl_secrets w \<and> cl_runtime_keys w' = cl_runtime_keys w \<and>
     (case cl_runtimes w k of
        None \<Rightarrow> cl_runtimes w' k = None
      | Some rt \<Rightarrow> \<exists>N. status_wf N \<and> cl_runtimes w' k = Some (rt\<lparr>Status := N\<rparr>))"

lemma pass_frame_store:
  assumes "cl_runtimes w (rt_key rt) = Some rt" and "objects_at (rt_key rt) w w1" and "status_wf N"
  shows "pass_frame (rt_key rt) w (store_status rt N w1)"
  using assms by (auto simp: pass_frame_def only_at_iff objects_at_def store_status_def)

lemma pass_frame_refl: "well_kept w \<Longrightarrow> pass_frame k w w"
proof (cases "cl_runtimes w k")
  case (Some rt)
  assume "well_kept w"
  with Some have "status_wf (Status rt)" by (simp add: well_kept_def)
  with Some show ?thesis by (auto simp: pass_frame_def only_at_iff intro!: exI [of _ "Status rt"])
qed (simp add: pass_frame_def only_at_iff)

lemma pass_frame_well_kept:
  assumes "well_kept w" and frame: "pass_frame k w w'"
  shows "well_kept w'"
  unfolding well_kept_def
proof (intro conjI allI impI)
  from frame have keys: "cl_runtime_keys w' = cl_runtime_keys w" and "cl_secrets w' = cl_secrets w"
    and only: "only_at k w w'" by (simp_all add: pass_frame_def)
  with assms(1) show "cl_secrets w' j = Some x \<Longrightarrow> ObjectKey (Secret_Meta x) = j" for j x
    by (simp add: well_kept_def)
  fix j rt'
  assume rt': "cl_runtimes w' j = Some rt'"
  have "\<exists>rt. cl_runtimes w j = Some rt \<and> Runtime_Meta rt' = Runtime_Meta rt \<and> Spec rt' = Spec rt \<and> status_wf (Status rt')"
  proof (cases "j = k")
    case True
    with frame rt' show ?thesis by (auto simp: pass_frame_def split: option.splits)
  next
    case False
    with only rt' assms(1) show ?thesis by (auto simp: only_at_iff well_kept_def)
  qed
  with assms(1) keys show "rt_key rt' = j" "j \<in> set (cl_runtime_keys w')" "status_wf (Status rt')"
    "runtimeImage (Image (Spec rt')) \<noteq> ''''" by (auto simp: well_kept_def)
qed

lemma secrets_store: "cl_secrets w' = cl_secrets w \<Longrightarrow> secrets_present rt w' = secrets_present rt w"
  "cl_secrets w' = cl_secrets w \<Longrightarrow> memory_verdict rt w' = memory_verdict rt w"
  by (simp add: secrets_present_def) (rule memory_verdict_cong, simp)

lemma verdict_status: "memory_verdict (rt\<lparr>Status := N\<rparr>) w = memory_verdict rt w"
  unfolding memory_verdict_def status_blind_resources runtime_update ..

text \<open>A stored status that the pass computed is at rest, with the objects that go with it.\<close>

lemma at_rest_stored:
  assumes "status_wf (Status rt)" and "runtimeImage (Image (Spec rt)) \<noteq> ''''"
    and N: "N = next_status rt (memory_verdict rt w) w clk"
    and objects: "secrets_present rt w \<longrightarrow> desired_state rt w \<and> settled_state rec rt w"
  shows "at_rest rec (store_status rt N w) (rt_key rt)"
proof -
  let ?w = "store_status rt N w" and ?rt = "rt\<lparr>Status := N\<rparr>"
  have rt: "cl_runtimes ?w (rt_key rt) = Some ?rt" by (simp add: store_status_def)
  have v: "memory_verdict ?rt ?w = memory_verdict rt w"
    unfolding verdict_status using secrets_store(2) [of ?w w rt] by (simp add: store_status_def)
  have "next_status ?rt (memory_verdict ?rt ?w) ?w clk' = Status ?rt" for clk'
    unfolding v using next_status_stable [OF assms(1,2) N] by simp
  moreover have "secrets_present ?rt ?w \<longrightarrow> desired_state ?rt ?w \<and> settled_state rec ?rt ?w"
    using objects unfolding status_blind_states .
  ultimately show ?thesis unfolding at_rest_def rt by simp
qed

lemma wf_next_status: "status_wf (Status rt) \<Longrightarrow> status_wf (next_status rt v w clk)"
  using mem.wf_build by (simp add: next_status_def)

text \<open>The two ways in which a pass over a resource succeeds: references missing, and the objects written.\<close>

lemma pass_invalid:
  assumes kept: "well_kept (world s)" and rt: "cl_runtimes (world s) k = Some rt"
    and alive: "IsZero (DeletionTimestamp (Runtime_Meta rt))" and missing: "\<not> secrets_present rt (world s)"
  shows "\<exists>s'. run_state (Reconcile (memory_reconciler rec) k) s = (None, s') \<and>
    pass_frame k (world s) (world s') \<and> at_rest rec (world s') k \<and>
    list_all (\<lambda>kind. unchanged kind k (world s) (world s')) owned_kinds"
proof -
  let ?N = "next_status rt (memory_verdict rt (world s)) (world s) (tick (rclock s))"
  from kept rt have k: "rt_key rt = k" and wf: "status_wf (Status rt)" and img: "runtimeImage (Image (Spec rt)) \<noteq> ''''"
    by (simp_all add: well_kept_def)
  from rt k have stored: "cl_runtimes (world s) (rt_key rt) = Some rt" by simp
  have "pass_frame k (world s) (store_status rt ?N (world s))"
    using pass_frame_store [OF stored objects_at_refl wf_next_status [OF wf]] by (simp only: k)
  moreover have "at_rest rec (store_status rt ?N (world s)) k"
    using at_rest_stored [OF wf img refl] missing by (simp only: k simp_thms)
  ultimately show ?thesis
    using Reconcile_invalid [OF stored alive missing refl, of rec] by (auto simp: k store_status_def)
qed

lemma pass_takeable:
  assumes kept: "well_kept (world s)" and rt: "cl_runtimes (world s) k = Some rt"
    and alive: "IsZero (DeletionTimestamp (Runtime_Meta rt))"
    and secrets: "secrets_present rt (world s)" and free: "takeable rt (world s)"
  shows "\<exists>s'. run_state (Reconcile (memory_reconciler rec) k) s = (None, s') \<and>
    pass_frame k (world s) (world s') \<and> at_rest rec (world s') k \<and> desired_state rt (world s')"
proof -
  from kept rt have k: "rt_key rt = k" and wf: "status_wf (Status rt)" and img: "runtimeImage (Image (Spec rt)) \<noteq> ''''"
    by (simp_all add: well_kept_def)
  from rt k have stored: "cl_runtimes (world s) (rt_key rt) = Some rt" by simp
  from core_converges [OF free, of rec] obtain w' where
    w': "steps (reconcileCoreResources (memory_reconciler rec) rt) (world s) w'"
    "desired_state rt w'" "settled_state rec rt w'" "confined_change rt (world s) w'" by blast
  from w'(4) have same: "cl_runtimes w' = cl_runtimes (world s)" "cl_secrets w' = cl_secrets (world s)"
    by (simp_all add: confined_change_def)
  let ?N = "next_status rt validReferenceValidation w' (tick (rclock s))"
  have "secrets_present rt w'" using secrets secrets_store(1) [OF same(2)] by simp
  then have "?N = next_status rt (memory_verdict rt w') w' (tick (rclock s))" by (simp add: verdict_valid)
  from at_rest_stored [OF wf img this] w'(2,3) have "at_rest rec (store_status rt ?N w') k"
    by (simp only: k simp_thms)
  moreover have "pass_frame k (world s) (store_status rt ?N w')"
    using pass_frame_store [OF stored confined_objects_at [OF w'(4)] wf_next_status [OF wf]] by (simp only: k)
  ultimately show ?thesis
    using memory_Reconcile [OF refl stored alive secrets w'(1) same(1) refl] w'(2) by (auto simp: k)
qed

text \<open>
  Any pass stays within its frame; when it returns no error its request is at rest; and it returns an
  error only for a resource some object of which another controller has taken.
\<close>

lemma pass_outcome:
  assumes kept: "well_kept (world s)" and run: "run_state (Reconcile (memory_reconciler rec) k) s = (err, s')"
  shows "pass_frame k (world s) (world s') \<and> (err = None \<longrightarrow> at_rest rec (world s') k) \<and>
    (err \<noteq> None \<longrightarrow> (\<exists>rt. cl_runtimes (world s) k = Some rt \<and> IsZero (DeletionTimestamp (Runtime_Meta rt)) \<and>
      secrets_present rt (world s) \<and> \<not> takeable rt (world s)))"
proof (cases "\<exists>rt. cl_runtimes (world s) k = Some rt \<and> IsZero (DeletionTimestamp (Runtime_Meta rt))")
  case False
  then have gone: "case cl_runtimes (world s) k of None \<Rightarrow> True | Some rt \<Rightarrow> \<not> IsZero (DeletionTimestamp (Runtime_Meta rt))"
    by (auto split: option.split)
  from Reconcile_idle [OF gone, of rec] run have "err = None" "world s' = world s" by auto
  with False show ?thesis using pass_frame_refl [OF kept] by (auto simp: at_rest_def split: option.split)
next
  case True
  then obtain rt where rt: "cl_runtimes (world s) k = Some rt" and alive: "IsZero (DeletionTimestamp (Runtime_Meta rt))"
    by blast
  with kept have k: "rt_key rt = k" and wf: "status_wf (Status rt)" by (simp_all add: well_kept_def)
  consider "\<not> secrets_present rt (world s)" | "secrets_present rt (world s)" "takeable rt (world s)"
    | "secrets_present rt (world s)" "\<not> takeable rt (world s)" by blast
  then show ?thesis
  proof cases
    case 1
    from pass_invalid [OF kept rt alive 1, of rec] run show ?thesis by auto
  next
    case 2
    from pass_takeable [OF kept rt alive 2, of rec] run show ?thesis by auto
  next
    case 3
    from rt k have stored: "cl_runtimes (world s) (rt_key rt) = Some rt" by simp
    from Reconcile_conflict [OF this alive wf 3, of rec] run obtain w F where
      r: "err \<noteq> None" "objects_at (rt_key rt) (world s) w" "status_wf F" "world s' = store_status rt F w" by (auto simp: k)
    from pass_frame_store [OF stored r(2,3)] show ?thesis using r(1,4) 3 rt alive by (auto simp: k)
  qed
qed

end
