(* ===== verification/Operator_Properties.thy ===== *)
theory Operator_Properties
  imports Operator
begin

text \<open>
  What the operator guarantees as a whole: no change is lost, the work comes to an end, and the cluster
  reaches the state its resources ask for.  The invariant \<open>settled_outside_queue\<close> is proved by rule
  induction on \<open>operating\<close>; the end of the work is an instance of \<open>draining\<close>, with a weight that counts one
  pass for a queued request at rest and two for any other.  What is proved holds for every delivery of the
  events that keeps the contract \<open>delivery\<close>.
\<close>

section \<open>No change is lost\<close>

text \<open>What the watches ask for, by the registrations of the operator.\<close>

lemma set_metas: "set (metas kind k w w') = set_option (meta_at kind k w) \<union> set_option (meta_at kind k w')"
  by (auto simp: metas_def List.map_filter_def split: option.splits)

lemma list_ex_metas:
  "list_ex P (metas kind k w w') \<longleftrightarrow> (\<exists>m. (meta_at kind k w = Some m \<or> meta_at kind k w' = Some m) \<and> P m)"
  by (auto simp: list_ex_iff set_metas)

lemma in_map_filter: "y \<in> set (List.map_filter f xs) \<longleftrightarrow> (\<exists>x \<in> set xs. f x = Some y)"
  by (induction xs) (auto split: option.splits)

lemma run_mapSecret:
  "set (fst (run_state (mapSecretToRuntimes (memory_reconciler rec) m) s)) =
     {rt_key rt | rt. \<exists>key \<in> set (cl_runtime_keys (world s)). Key_Namespace key = Namespace m \<and>
        cl_runtimes (world s) key = Some rt \<and> Name m \<in> set (referencedSecretNames rt)}"
proof -
  have "fst (run_state (mapSecretToRuntimes (memory_reconciler rec) m) s) =
      map rt_key (filter (\<lambda>rt. Name m \<in> set (referencedSecretNames rt))
        (List.map_filter (\<lambda>key. if Key_Namespace key = Namespace m then cl_runtimes (world s) key else None)
           (cl_runtime_keys (world s))))"
    by (simp add: mapSecretToRuntimes_def memory_api_def secretRequests_filter)
  then show ?thesis by (auto simp: in_map_filter split: if_splits)
qed

lemma requested_owner:
  assumes "kind \<in> set owned_kinds" and "\<not> unchanged kind k w w'" and "list_ex (\<lambda>m. j \<in> set (owner_requests m)) (metas kind k w w')"
  shows "j \<in> set (requests SetupWithManager rec s k w w')"
proof -
  have "j \<in> set (owned_requests k w w' kind)" using assms(2,3) by (auto simp: owned_requests_def list_ex_iff)
  moreover have "Owns SetupWithManager = owned_kinds" by (simp add: SetupWithManager_def)
  ultimately show ?thesis using assms(1) unfolding requests_def by (metis UnCI UnI2 image_eqI set_append set_concat set_map UN_I)
qed

lemma requested_runtime:
  assumes "case (cl_runtimes w k, cl_runtimes w' k) of
      (None, None) \<Rightarrow> False
    | (Some old, Some new) \<Rightarrow> Generation (Runtime_Meta old) \<noteq> Generation (Runtime_Meta new)
    | _ \<Rightarrow> True"
  shows "k \<in> set (requests SetupWithManager rec s k w w')"
  using assms by (auto simp: requests_def SetupWithManager_def for_requests_def split: option.splits)

lemma requested_secret:
  assumes kept: "well_kept w" "well_kept w'" and rt: "cl_runtimes w' j = Some rt"
    and changed: "cl_secrets w' k \<noteq> cl_secrets w k"
    and k: "k = \<lparr>Key_Namespace = Namespace (Runtime_Meta rt), Key_Name = n\<rparr>" and n: "n \<in> set (referencedSecretNames rt)"
  shows "j \<in> set (requests SetupWithManager rec s k w w')"
proof -
  from changed obtain x where x: "cl_secrets w k = Some x \<or> cl_secrets w' k = Some x" by (metis not_None_eq)
  with kept have "ObjectKey (Secret_Meta x) = k" by (auto simp: well_kept_def)
  then have name: "Namespace (Secret_Meta x) = Namespace (Runtime_Meta rt)" "Name (Secret_Meta x) = n"
    by (simp_all add: k ObjectKey_def)
  from kept(2) rt have j: "rt_key rt = j" "j \<in> set (cl_runtime_keys w')" by (auto simp: well_kept_def)
  then have "Key_Namespace j = Namespace (Runtime_Meta rt)" by (auto simp: ObjectKey_def)
  with j rt n name have "j \<in> set (fst (run_state (mapSecretToRuntimes (memory_reconciler rec) (Secret_Meta x)) (s\<lparr>world := w'\<rparr>)))"
    unfolding run_mapSecret by auto
  moreover have "Secret_Meta x \<in> set (metas KSecret k w w')" using x by (auto simp: set_metas)
  ultimately have "j \<in> set (mapped_requests rec s k w w' (KSecret, MapSecretToRuntimes))"
    using changed by (auto simp: mapped_requests_def)
  then show ?thesis by (simp add: requests_def SetupWithManager_def)
qed

text \<open>The invariant: whatever is not in the queue is at rest.\<close>

definition settled_outside_queue :: "EventRecorder option \<Rightarrow> cluster rstate \<times> NamespacedName list \<Rightarrow> bool" where
  "settled_outside_queue rec sys \<longleftrightarrow>
     well_kept (world (fst sys)) \<and> distinct (snd sys) \<and>
     (\<forall>k. k \<notin> set (snd sys) \<longrightarrow> at_rest rec (world (fst sys)) k)"

text \<open>A change of one name leaves the other names at rest unless it removes or adds a Secret they use.\<close>

lemma at_rest_other:
  assumes kept: "well_kept w" "well_kept w'" and only: "only_at k w w'" and j: "j \<noteq> k"
    and secret: "\<And>rt. cl_runtimes w j = Some rt \<Longrightarrow>
      k \<in> (\<lambda>n. \<lparr>Key_Namespace = Namespace (Runtime_Meta rt), Key_Name = n\<rparr>) ` set (referencedSecretNames rt) \<Longrightarrow>
      cl_secrets w' k = cl_secrets w k"
  shows "at_rest rec w' j = at_rest rec w j"
proof (rule at_rest_cong)
  show "cl_runtimes w' j = cl_runtimes w j" "list_all (\<lambda>kind. unchanged kind j w w') owned_kinds"
    using only j by (simp_all add: only_at_iff)
  show "cl_runtimes w j = Some rt \<Longrightarrow> rt_key rt = j" for rt using kept(1) by (simp add: well_kept_def)
  fix rt :: TrussiumRuntime and n
  let ?key = "\<lparr>Key_Namespace = Namespace (Runtime_Meta rt), Key_Name = n\<rparr>"
  assume "cl_runtimes w j = Some rt" "n \<in> set (referencedSecretNames rt)"
  then have "cl_secrets w' ?key = cl_secrets w ?key"
    using secret only by (cases "?key = k") (auto simp: only_at_iff)
  then show "(cl_secrets w' ?key = None) = (cl_secrets w ?key = None)" by simp
qed

lemma pass_keeps_others:
  assumes "well_kept w" and "pass_frame k w w'" and "j \<noteq> k"
  shows "at_rest rec w' j = at_rest rec w j"
  using assms pass_frame_well_kept [OF assms(1,2)]
  by (intro at_rest_other) (auto simp: pass_frame_def)

text \<open>At the name that changed: without a request the resource kept its generation and its objects.\<close>

lemma edited_at_rest:
  assumes kept: "well_kept w" and change: "environment_change k w w'"
    and none: "k \<notin> set (requests SetupWithManager rec s k w w')" and rest: "at_rest rec w k"
    and secret: "\<And>rt n. cl_runtimes w' k = Some rt \<Longrightarrow>
      k = \<lparr>Key_Namespace = Namespace (Runtime_Meta rt), Key_Name = n\<rparr> \<Longrightarrow> n \<in> set (referencedSecretNames rt) \<Longrightarrow>
      cl_secrets w' k = cl_secrets w k"
  shows "at_rest rec w' k"
proof (cases "cl_runtimes w' k")
  case (Some rt')
  with none requested_runtime [of w k w' rec s] obtain rt where rt: "cl_runtimes w k = Some rt"
    and "Generation (Runtime_Meta rt) = Generation (Runtime_Meta rt')"
    by (cases "cl_runtimes w k") auto
  with change Some have meta: "metadata_only rt rt'" by (simp add: environment_change_def)
  then obtain l a ow where rt': "rt' = relabel l a ow rt" unfolding metadata_only_def relabel_def by blast
  have "list_all (\<lambda>kind. unchanged kind k w w') owned_kinds"
    using change Some none requested_owner [of _ k w w' k rec s]
    unfolding environment_change_def list_all_iff by blast
  moreover have "cl_secrets w' \<lparr>Key_Namespace = Namespace (Runtime_Meta rt), Key_Name = n\<rparr> =
      cl_secrets w \<lparr>Key_Namespace = Namespace (Runtime_Meta rt), Key_Name = n\<rparr>" (is "_ = cl_secrets w ?key")
    if "n \<in> set (referencedSecretNames rt)" for n
  proof (cases "?key = k")
    case True
    with secret [OF Some, of n] that show ?thesis by (simp add: rt' relabel_fields relabel_resources)
  next
    case False
    with change show ?thesis by (simp add: environment_change_def only_at_iff)
  qed
  ultimately have "at_rest rec w' k = at_rest rec w k"
    using kept rt by (intro at_rest_relabel [OF rt Some meta]) (auto simp: well_kept_def)
  with rest show ?thesis by simp
qed (simp add: at_rest_def)

context delivery
begin

lemma process_sound:
  assumes "settled_outside_queue rec (s, q)"
  shows "settled_outside_queue rec (process deliver rec k (s, q))"
proof -
  from assms have kept: "well_kept (world s)" and q: "distinct q" and rest: "\<And>j. j \<notin> set q \<Longrightarrow> at_rest rec (world s) j"
    by (simp_all add: settled_outside_queue_def)
  obtain err s' where run: "run_state (Reconcile (memory_reconciler rec) k) s = (err, s')" by fastforce
  let ?q = "enqueue_all (deliver SetupWithManager s' k (world s) (world s')) (removeAll k q)"
  have p: "process deliver rec k (s, q) = (s', if err \<noteq> None then enqueue k ?q else ?q)"
    by (simp add: process_def run)
  from pass_outcome [OF kept run] have frame: "pass_frame k (world s) (world s')"
    and quiet: "err = None \<Longrightarrow> at_rest rec (world s') k" by simp_all
  have "at_rest rec (world s') j" if "j \<notin> set (snd (process deliver rec k (s, q)))" for j
  proof (cases "j = k")
    case True
    with that p quiet show ?thesis by (auto split: if_splits)
  next
    case False
    with that p have "j \<notin> set q" by (auto split: if_splits)
    with rest False pass_keeps_others [OF kept frame] show ?thesis by simp
  qed
  with p q pass_frame_well_kept [OF kept frame] show ?thesis
    by (simp add: settled_outside_queue_def distinct_removeAll)
qed

lemma edit_sound:
  assumes sound: "settled_outside_queue rec (s, q)" and change: "environment_change k (world s) w'"
  shows "settled_outside_queue rec (s\<lparr>world := w'\<rparr>, enqueue_all (deliver SetupWithManager s k (world s) w') q)"
proof -
  let ?w = "world s" and ?req = "requests SetupWithManager rec s k (world s) w'"
  from sound have kept: "well_kept ?w" and q: "distinct q" and rest: "\<And>j. j \<notin> set q \<Longrightarrow> at_rest rec ?w j"
    by (simp_all add: settled_outside_queue_def)
  from change have only: "only_at k ?w w'" and kept': "well_kept w'" by (simp_all add: environment_change_def)
  have secret: "cl_secrets w' k = cl_secrets ?w k"
    if "j \<notin> set ?req" "cl_runtimes w' j = Some rt"
      "k = \<lparr>Key_Namespace = Namespace (Runtime_Meta rt), Key_Name = n\<rparr>" "n \<in> set (referencedSecretNames rt)" for j rt n
    using that requested_secret [OF kept kept'] by blast
  have "at_rest rec w' j" if j: "j \<notin> set ?req" "j \<notin> set q" for j
  proof (cases "j = k")
    case False
    then have "cl_runtimes w' j = cl_runtimes ?w j" using only by (simp add: only_at_iff)
    with secret [OF j(1)] have "at_rest rec w' j = at_rest rec ?w j"
      by (intro at_rest_other [OF kept kept' only False]) auto
    with rest j(2) show ?thesis by simp
  next
    case True
    with edited_at_rest [OF kept change] j secret rest show ?thesis by blast
  qed
  with q kept' show ?thesis by (auto simp: settled_outside_queue_def delivered)
qed

lemma operator_step_sound:
  assumes "operator_step deliver rec sys sys'" and "settled_outside_queue rec sys"
  shows "settled_outside_queue rec sys'"
  using assms by (induction rule: operator_step.induct) (auto intro: process_sound edit_sound)

lemma operating_sound: "operating deliver rec sys \<Longrightarrow> settled_outside_queue rec sys"
proof (induction rule: operating.induct)
  case (start s)
  then have "cl_runtimes (world s) k = None" if "k \<notin> set (cl_runtime_keys (world s))" for k
    using that by (cases "cl_runtimes (world s) k") (auto simp: well_kept_def)
  with start show ?case by (auto simp: settled_outside_queue_def at_rest_def)
next
  case (step sys sys')
  then show ?case by (blast intro: operator_step_sound)
qed

end

section \<open>Work comes to an end\<close>

definition all_claimable :: "cluster \<Rightarrow> bool" where
  "all_claimable w \<longleftrightarrow>
     (\<forall>k rt. cl_runtimes w k = Some rt \<longrightarrow> IsZero (DeletionTimestamp (Runtime_Meta rt)) \<longrightarrow> claimable rt w)"

lemma claimable_status: "claimable (rt\<lparr>Status := N\<rparr>) w = claimable rt w"
  unfolding claimable_def opt_free_def free_for_def status_blind_resources runtime_update ..

lemma managed_free: "managed rt m \<Longrightarrow> free_for rt m"
  by (simp add: managed_def free_for_def owned_by_def same_owner_def)

lemma present_free: "present good v \<Longrightarrow> (\<And>x. good x \<Longrightarrow> managed rt (meta x)) \<Longrightarrow> opt_free rt meta v"
  by (auto simp: present_def opt_free_def managed_free split: option.splits)

lemma good_free:
  "present (good_configmap rt) v1 \<Longrightarrow> opt_free rt ConfigMap_Meta v1"
  "present (good_serviceaccount rt) v2 \<Longrightarrow> opt_free rt ServiceAccount_Meta v2"
  "present (good_service rt) v3 \<Longrightarrow> opt_free rt Service_Meta v3"
  "present (good_deployment rt) v4 \<Longrightarrow> opt_free rt Deployment_Meta v4"
  "present (good_budget rt) v5 \<Longrightarrow> opt_free rt PDB_Meta v5"
  "present (good_policy rt) v6 \<Longrightarrow> opt_free rt NetworkPolicy_Meta v6"
  "present (good_autoscaler rt) v7 \<Longrightarrow> opt_free rt HPA_Meta v7"
  by (erule present_free, simp add: good_configmap_def good_serviceaccount_def good_service_def
      good_deployment_def good_budget_def good_policy_def good_autoscaler_def)+

lemma opt_free_None: "opt_free rt meta None"
  by (simp add: opt_free_def)

lemma desired_claimable: "desired_state rt w \<Longrightarrow> claimable rt w"
  unfolding desired_state_def claimable_def Let_def
  by (auto intro: good_free simp: opt_free_None split: if_splits)

text \<open>The objects of a claimable resource ask for no other resource.\<close>

lemma free_requests: "free_for rt m \<Longrightarrow> set (owner_requests m) \<subseteq> {rt_key rt}"
  by (auto simp: owner_requests_def free_for_def same_owner_def owner_reference_def ObjectKey_def
      split: option.splits if_splits)

lemma claimable_meta:
  assumes "claimable rt w" and "kind \<in> set owned_kinds" and "meta_at kind (rt_key rt) w = Some m"
  shows "free_for rt m"
  using assms by (auto simp: claimable_def Let_def opt_free_def)

lemma owned_requests_claimable:
  assumes "claimable rt w" and "claimable rt w'" and "kind \<in> set owned_kinds"
  shows "set (owned_requests (rt_key rt) w w' kind) \<subseteq> {rt_key rt}"
proof -
  have "set (owner_requests m) \<subseteq> {rt_key rt}" if "m \<in> set (metas kind (rt_key rt) w w')" for m
    using that claimable_meta [OF assms(1,3)] claimable_meta [OF assms(2,3)] free_requests
    unfolding set_metas by (metis Un_iff elem_set)
  then show ?thesis unfolding owned_requests_def by auto
qed

lemma requests_none: "requests SetupWithManager rec s k w w = []"
proof -
  have "unchanged kind k w w" for kind by (cases kind) simp_all
  then show ?thesis
    by (simp add: requests_def SetupWithManager_def for_requests_def owned_requests_def mapped_requests_def
        split: option.split)
qed

text \<open>A pass over a claimable resource asks for nothing but itself, and keeps the resource claimable.\<close>

lemma pass_requests:
  assumes "pass_frame (rt_key rt) w w'" and "cl_runtimes w (rt_key rt) = Some rt"
    and "claimable rt w" and "claimable rt w'"
  shows "set (requests SetupWithManager rec s (rt_key rt) w w') \<subseteq> {rt_key rt}"
proof -
  let ?k = "rt_key rt"
  have owns: "Owns SetupWithManager = owned_kinds" by (simp add: SetupWithManager_def)
  have "set (concat (map (owned_requests ?k w w') owned_kinds)) \<subseteq> {?k}"
    using owned_requests_claimable [OF assms(3,4)] by auto
  moreover have "mapped_requests rec s ?k w w' (KSecret, MapSecretToRuntimes) = []"
    using assms(1) by (simp add: mapped_requests_def pass_frame_def)
  moreover have "set (for_requests (snd (For SetupWithManager)) ?k w w') \<subseteq> {?k}"
    by (auto simp: for_requests_def split: option.splits)
  ultimately show ?thesis unfolding requests_def owns by (auto simp: SetupWithManager_def)
qed

lemma pass_claimable:
  assumes kept: "well_kept (world s)" and rt: "cl_runtimes (world s) k = Some rt"
    and alive: "IsZero (DeletionTimestamp (Runtime_Meta rt))" and free: "claimable rt (world s)"
  shows "\<exists>s'. run_state (Reconcile (memory_reconciler rec) k) s = (None, s') \<and> claimable rt (world s')"
proof (cases "secrets_present rt (world s)")
  case False
  from kept rt have "rt_key rt = k" by (simp add: well_kept_def)
  with pass_invalid [OF kept rt alive False, of rec] obtain s' where
    s': "run_state (Reconcile (memory_reconciler rec) k) s = (None, s')"
    "list_all (\<lambda>kind. unchanged kind (rt_key rt) (world s) (world s')) owned_kinds" by blast
  from objects_cong(4) [OF s'(2)] free have "claimable rt (world s')" by (simp only:)
  with s'(1) show ?thesis by blast
next
  case True
  from pass_takeable [OF kept rt alive True claimable_takeable [OF free], of rec] show ?thesis
    using desired_claimable by blast
qed

lemma all_claimable_frame:
  assumes "well_kept w" and "pass_frame k w w'" and "all_claimable w"
    and at: "\<And>rt. cl_runtimes w k = Some rt \<Longrightarrow> IsZero (DeletionTimestamp (Runtime_Meta rt)) \<Longrightarrow> claimable rt w'"
  shows "all_claimable w'"
  unfolding all_claimable_def
proof (intro allI impI)
  fix j rt'
  assume rt': "cl_runtimes w' j = Some rt'" and alive: "IsZero (DeletionTimestamp (Runtime_Meta rt'))"
  show "claimable rt' w'"
  proof (cases "j = k")
    case True
    with assms(2) rt' obtain rt N where "cl_runtimes w k = Some rt" "rt' = rt\<lparr>Status := N\<rparr>"
      by (auto simp: pass_frame_def split: option.splits)
    with at alive show ?thesis by (simp add: claimable_status)
  next
    case False
    with assms(2) rt' have same: "cl_runtimes w j = Some rt'" "list_all (\<lambda>kind. unchanged kind j w w') owned_kinds"
      by (auto simp: pass_frame_def only_at_iff)
    with assms(1) have "rt_key rt' = j" by (simp add: well_kept_def)
    with objects_cong(4) [of rt' w w'] same assms(3) alive show ?thesis by (auto simp: all_claimable_def)
  qed
qed

text \<open>A request at rest costs one pass, any other at most two.\<close>

definition weight :: "EventRecorder option \<Rightarrow> cluster rstate \<times> NamespacedName list \<Rightarrow> nat" where
  "weight rec sys = (\<Sum>k \<in> set (snd sys). if at_rest rec (world (fst sys)) k then 1 else 2)"

lemma weight_bound: "weight rec (s, q) \<le> 2 * length q"
proof -
  have "weight rec (s, q) \<le> (\<Sum>k \<in> set q. 2)" unfolding weight_def fst_conv snd_conv by (rule sum_mono) simp
  also have "\<dots> = 2 * card (set q)" by simp
  also have "\<dots> \<le> 2 * length q" using card_length [of q] by simp
  finally show ?thesis .
qed

lemma weight_positive: "snd sys \<noteq> [] \<Longrightarrow> 0 < weight rec sys"
  unfolding weight_def by (intro sum_pos) auto

text \<open>What no pass changes: the Secrets, and of the resources everything but their status.\<close>

definition same_wishes :: "cluster \<Rightarrow> cluster \<Rightarrow> bool" where
  "same_wishes w w' \<longleftrightarrow>
     cl_secrets w' = cl_secrets w \<and>
     (\<forall>k. map_option (\<lambda>rt. (Runtime_Meta rt, Spec rt)) (cl_runtimes w' k) =
          map_option (\<lambda>rt. (Runtime_Meta rt, Spec rt)) (cl_runtimes w k))"

lemma same_wishes_frame:
  assumes "pass_frame k w w'"
  shows "same_wishes w w'"
  unfolding same_wishes_def
proof (intro conjI allI)
  show "cl_secrets w' = cl_secrets w" using assms by (simp add: pass_frame_def)
  show "map_option (\<lambda>rt. (Runtime_Meta rt, Spec rt)) (cl_runtimes w' j) =
      map_option (\<lambda>rt. (Runtime_Meta rt, Spec rt)) (cl_runtimes w j)" for j
    using assms by (cases "j = k") (auto simp: pass_frame_def only_at_iff split: option.splits)
qed

lemma same_wishes_trans: "same_wishes u v \<Longrightarrow> same_wishes v w \<Longrightarrow> same_wishes u w"
  by (simp add: same_wishes_def)

definition orderly :: "EventRecorder option \<Rightarrow> cluster rstate \<times> NamespacedName list \<Rightarrow> bool" where
  "orderly rec sys \<longleftrightarrow> settled_outside_queue rec sys \<and> all_claimable (world (fst sys))"

lemma same_wishes_refl: "same_wishes w w"
  by (simp add: same_wishes_def)

context delivery
begin

text \<open>What a pass in a claimable cluster does to the queue.\<close>

lemma process_claimable:
  assumes sound: "settled_outside_queue rec (s, q)" and free: "all_claimable (world s)"
  shows "\<exists>s' q'. process deliver rec k (s, q) = (s', q') \<and> pass_frame k (world s) (world s') \<and>
    all_claimable (world s') \<and> at_rest rec (world s') k \<and> set q' \<subseteq> insert k (set q) \<and>
    (at_rest rec (world s) k \<longrightarrow> q' = removeAll k q)"
proof -
  from sound have kept: "well_kept (world s)" by (simp add: settled_outside_queue_def)
  obtain err s' where run: "run_state (Reconcile (memory_reconciler rec) k) s = (err, s')" by fastforce
  let ?req = "deliver SetupWithManager s' k (world s) (world s')"
  note out = pass_outcome [OF kept run]
  have ok: "err = None"
    using out free claimable_takeable unfolding all_claimable_def by blast
  with out have frame: "pass_frame k (world s) (world s')" and rest: "at_rest rec (world s') k" by simp_all
  have noop: "world s' = world s" if "at_rest rec (world s) k"
    using at_rest_noop [OF kept that] run by auto
  have idle: "world s' = world s" if "\<not> (\<exists>rt. cl_runtimes (world s) k = Some rt \<and> IsZero (DeletionTimestamp (Runtime_Meta rt)))"
    using that by (intro noop) (auto simp: at_rest_def split: option.split)
  have claim: "claimable rt (world s')"
    if "cl_runtimes (world s) k = Some rt" "IsZero (DeletionTimestamp (Runtime_Meta rt))" for rt
    using pass_claimable [OF kept that, of rec] that free run by (auto simp: all_claimable_def)
  have "set ?req \<subseteq> {k}"
  proof (cases "\<exists>rt. cl_runtimes (world s) k = Some rt \<and> IsZero (DeletionTimestamp (Runtime_Meta rt))")
    case True
    then obtain rt where rt: "cl_runtimes (world s) k = Some rt" "IsZero (DeletionTimestamp (Runtime_Meta rt))" by blast
    with kept have "rt_key rt = k" by (simp add: well_kept_def)
    with pass_requests [of rt "world s" "world s'" rec s'] frame rt free claim [OF rt] show ?thesis
      by (simp add: all_claimable_def delivered)
  next
    case False
    then show ?thesis using idle requests_none by (simp add: delivered)
  qed
  moreover have "?req = []" if "at_rest rec (world s) k"
    using delivered [of SetupWithManager s' k "world s" "world s"] unfolding noop [OF that] requests_none by simp
  moreover have "process deliver rec k (s, q) = (s', enqueue_all ?req (removeAll k q))"
    by (simp add: process_def run ok)
  moreover have "all_claimable (world s')" using all_claimable_frame [OF kept frame free claim] .
  moreover have "enqueue_all [] p = p" for p by (simp add: enqueue_all_def)
  ultimately show ?thesis using frame rest by auto
qed

lemma process_weight:
  assumes sound: "settled_outside_queue rec (s, q)" and free: "all_claimable (world s)" and k: "k \<in> set q"
  shows "weight rec (process deliver rec k (s, q)) < weight rec (s, q)"
proof -
  from sound have kept: "well_kept (world s)" by (simp add: settled_outside_queue_def)
  from process_claimable [OF sound free, of k] obtain s' q' where
    p: "process deliver rec k (s, q) = (s', q')" and frame: "pass_frame k (world s) (world s')"
    and rest: "at_rest rec (world s') k" and sub: "set q' \<subseteq> insert k (set q)"
    and stay: "at_rest rec (world s) k \<longrightarrow> q' = removeAll k q" by blast
  let ?c = "\<lambda>w j. if at_rest rec w j then 1 else 2 :: nat"
  let ?Q = "set q - {k}"
  have others: "sum (?c (world s')) ?Q = sum (?c (world s)) ?Q"
    using pass_keeps_others [OF kept frame] by (intro sum.cong) auto
  have total: "sum (?c (world s)) (set q) = ?c (world s) k + sum (?c (world s)) ?Q"
    using k by (simp add: sum.remove)
  show ?thesis
  proof (cases "at_rest rec (world s) k")
    case True
    with stay have "set q' = ?Q" by auto
    with others total True show ?thesis by (simp add: p weight_def)
  next
    case False
    have "sum (?c (world s')) (set q') \<le> sum (?c (world s')) (insert k ?Q)"
      using sub by (intro sum_mono2) auto
    also have "\<dots> = ?c (world s') k + sum (?c (world s')) ?Q" by (rule sum.insert) simp_all
    also have "\<dots> = 1 + sum (?c (world s)) ?Q" using rest others by simp
    finally show ?thesis using total False by (simp add: p weight_def)
  qed
qed

lemma process_orderly:
  assumes "orderly rec sys" and "k \<in> set (snd sys)"
  shows "orderly rec (process deliver rec k sys) \<and>
    weight rec (process deliver rec k sys) < weight rec sys \<and>
    same_wishes (world (fst sys)) (world (fst (process deliver rec k sys)))"
proof (cases sys)
  case (Pair s q)
  with assms have sound: "settled_outside_queue rec (s, q)" and free: "all_claimable (world s)" and k: "k \<in> set q"
    by (simp_all add: orderly_def)
  from process_claimable [OF sound free, of k] process_sound [OF sound, of k]
    process_weight [OF sound free k] show ?thesis
    using same_wishes_frame by (auto simp: Pair orderly_def)
qed

end

text \<open>The passes of the operator drain its queue, and leave what is asked for as it was.\<close>

sublocale delivery \<subseteq> passes: draining "process deliver rec"
    "\<lambda>sys. orderly rec sys \<and> same_wishes w (world (fst sys))" "weight rec" for w
proof
  fix sys :: "cluster rstate \<times> NamespacedName list" and k
  assume "orderly rec sys \<and> same_wishes w (world (fst sys))" and "k \<in> set (snd sys)"
  then show "orderly rec (process deliver rec k sys) \<and> same_wishes w (world (fst (process deliver rec k sys)))"
    "weight rec (process deliver rec k sys) < weight rec sys"
    using process_orderly same_wishes_trans by blast+
qed (rule weight_positive)

context delivery
begin

lemma operating_orderly: "operating deliver rec (s, q) \<Longrightarrow> all_claimable (world s) \<Longrightarrow> orderly rec (s, q)"
  using operating_sound by (simp add: orderly_def)

lemma passes_at_most:
  assumes "orderly rec (s, q)" and "(pass_step (process deliver rec) ^^ n) (s, q) sys"
  shows "n \<le> 2 * length q"
  using passes.passes_bounded [OF assms(2) conjI [OF assms(1) same_wishes_refl]] weight_bound [of rec s q] by simp

lemma drains:
  assumes "orderly rec (s, q)"
  obtains s' where "work (process deliver rec) (2 * length q) (s, q) = (s', [])"
    "same_wishes (world s) (world s')" "orderly rec (s', [])"
proof -
  let ?r = "work (process deliver rec) (2 * length q) (s, q)"
  have r: "snd ?r = [] \<and> orderly rec ?r \<and> same_wishes (world s) (world (fst ?r))"
    using passes.work_drains [OF conjI [OF assms same_wishes_refl] weight_bound] by simp
  then have "?r = (fst ?r, [])" by (metis prod.collapse)
  with r show ?thesis using that [of "fst ?r"] by metis
qed

end

lemma work_operating: "operating deliver rec sys \<Longrightarrow> operating deliver rec (work (process deliver rec) n sys)"
proof (induction n arbitrary: sys)
  case (Suc n)
  show ?case
  proof (cases "snd sys")
    case Nil
    with Suc.prems show ?thesis by (cases sys) simp
  next
    case (Cons k q)
    then have "operator_step deliver rec (fst sys, snd sys) (process deliver rec k (fst sys, snd sys))"
      by (intro operator_step.work) simp
    then have "operator_step deliver rec sys (process deliver rec k sys)" by (simp only: prod.collapse)
    from Suc.IH [OF operating.step [OF Suc.prems this]] Cons show ?thesis by (cases sys) simp
  qed
qed simp

section \<open>What a status at rest says\<close>

text \<open>What a pass observes of the objects under a name.\<close>

definition observed_at :: "NamespacedName \<Rightarrow> cluster \<Rightarrow> runtimeObservation" where
  "observed_at k w = \<lparr>Obs_Deployment = cl_deployments w k, Obs_Service = cl_services w k\<rparr>"

lemma next_status_built:
  "next_status rt val w clk =
     preserveRuntimeConditionTransitionTimes memory_api (Status rt)
       (fst (buildRuntimeStatus memory_api rt (observed_at (rt_key rt) w) val clk))"
  by (simp add: next_status_def observed_at_def)

lemma content_status:
  "condition_content M s t = condition_content M s' t \<Longrightarrow> condition_status M s t = condition_status M s' t"
  by (cases "runtimeCondition M s t"; cases "runtimeCondition M s' t")
    (simp_all add: condition_content_def condition_status_def)

lemma next_status_condition:
  assumes "status_wf (Status rt)" and "t \<noteq> conditionTypeUpgrading"
  shows "condition_status memory_api (next_status rt val w clk) t =
    condition_status memory_api (fst (buildBaseRuntimeStatus memory_api rt (observed_at (rt_key rt) w) val clk)) t"
proof -
  let ?b = "buildRuntimeStatus memory_api rt (observed_at (rt_key rt) w) val clk"
  have "condition_status memory_api (next_status rt val w clk) t = condition_status memory_api (fst ?b) t"
    unfolding next_status_built by (intro content_status mem.preserve_content mem.wf_build assms(1))
  with assms(2) show ?thesis by (simp add: buildRuntimeStatus_def mem.upgrade_other_status)
qed

lemma next_status_fields:
  "ObservedGeneration (next_status rt val w clk) = Generation (Runtime_Meta rt)"
  "ReadyReplicas (next_status rt val w clk) =
     (case cl_deployments w (rt_key rt) of None \<Rightarrow> 0 | Some d \<Rightarrow> DS_ReadyReplicas (Deployment_Status d))"
  "AvailableReplicas (next_status rt val w clk) =
     (case cl_deployments w (rt_key rt) of None \<Rightarrow> 0 | Some d \<Rightarrow> DS_AvailableReplicas (Deployment_Status d))"
  "DesiredImage (next_status rt val w clk) = runtimeImage (Image (Spec rt))"
  "CurrentImage (next_status rt val w clk) = deploymentCurrentImage (cl_deployments w (rt_key rt))"
  "Endpoint (next_status rt val w clk) = runtimeServiceEndpoint (cl_services w (rt_key rt))"
  by (simp_all add: next_status_def build_fields)

lemma next_status_reports:
  assumes "status_wf (Status rt)"
  shows "condition_status memory_api (next_status rt val w clk) conditionTypeConfigurationValid = Some (truth (Valid val))"
    and "condition_status memory_api (next_status rt val w clk) conditionTypeReady =
      Some (truth (runtime_ready rt (observed_at (rt_key rt) w) val))"
    and "condition_status memory_api (next_status rt val w clk) conditionTypeDegraded =
      Some (truth (runtime_degraded rt (observed_at (rt_key rt) w) val))"
  using assms
  by (simp_all add: next_status_condition mem.base_valid mem.base_ready mem.base_degraded)

section \<open>Properties\<close>

definition sample_delivery :: delivery_fn where
  "sample_delivery setup = requests setup None"

lemma sample_delivers: "delivery None sample_delivery"
  by (simp add: delivery_def sample_delivery_def)

lemma sample_well_kept: "well_kept (sample_cluster names)"
  using sample_status_wf [of "''demo''"] sample_image [of "''demo''"] sample_runtime_key
  by (auto simp: well_kept_def sample_cluster_def sample_secret_def ObjectKey_def object_meta_def split: if_splits)

lemma sample_claimable: "all_claimable (sample_cluster names)"
  by (auto simp: all_claimable_def claimable_def opt_free_def sample_cluster_def)

lemma sample_operating: "operating sample_delivery None (sample_state (sample_cluster names), [sample_key])"
  using operating.start [of "sample_state (sample_cluster names)"] sample_well_kept
  by (simp add: sample_state_def sample_cluster_def)

definition sample_end :: "cluster rstate \<times> NamespacedName list" where
  "sample_end = work (process sample_delivery None) 2 (sample_state (sample_cluster [''creds'', ''pull'']), [sample_key])"

lemma sample_drained: "snd sample_end = []"
proof -
  have "orderly None (sample_state (sample_cluster [''creds'', ''pull'']), [sample_key])"
    using delivery.operating_orderly [OF sample_delivers sample_operating] sample_claimable
    by (simp add: sample_state_def)
  from delivery.drains [OF sample_delivers this] show ?thesis by (simp add: sample_end_def) (metis snd_conv)
qed

lemma sample_survives:
  obtains rt where "cl_runtimes (world (fst sample_end)) sample_key = Some rt"
    "IsZero (DeletionTimestamp (Runtime_Meta rt))"
proof -
  have "orderly None (sample_state (sample_cluster [''creds'', ''pull'']), [sample_key])"
    using delivery.operating_orderly [OF sample_delivers sample_operating] sample_claimable
    by (simp add: sample_state_def)
  from delivery.drains [OF sample_delivers this]
  have "same_wishes (sample_cluster [''creds'', ''pull'']) (world (fst sample_end))"
    by (simp add: sample_end_def sample_state_def) (metis fst_conv)
  then have "map_option (\<lambda>rt. (Runtime_Meta rt, Spec rt)) (cl_runtimes (world (fst sample_end)) sample_key) =
      Some (Runtime_Meta (sample_runtime ''demo''), Spec (sample_runtime ''demo''))"
    by (simp add: same_wishes_def sample_cluster_def)
  with that show ?thesis by (auto simp: sample_hypotheses)
qed










text \<open>A NetworkPolicy of another controller under the name of a resource with network isolation.\<close>

definition isolated_runtime :: TrussiumRuntime where
  "isolated_runtime = (sample_runtime ''demo'')
     \<lparr>Spec := sample_spec\<lparr>RuntimeNetworkPolicy := Some \<lparr>NetworkPolicy_Enabled = True, NetworkPolicy_Ingress =
        [\<lparr>Rule_NamespaceSelector = match_labels fmempty, Rule_PodSelector = None\<rparr>]\<rparr>\<rparr>\<rparr>"

definition contested_cluster :: cluster where
  "contested_cluster = (sample_cluster [''creds'', ''pull''])
     \<lparr>cl_runtimes := (\<lambda>k. if k = sample_key then Some isolated_runtime else None),
      cl_policies := (\<lambda>k. if k = sample_key then Some foreign_policy else None)\<rparr>"

lemma isolated_runtime_fields:
  "rt_key isolated_runtime = sample_key" "Status isolated_runtime = Status (sample_runtime ''demo'')"
  "IsZero (DeletionTimestamp (Runtime_Meta isolated_runtime))" "runtimeImage (Image (Spec isolated_runtime)) \<noteq> ''''"
  "secrets_present isolated_runtime contested_cluster" "networkPolicyEnabled isolated_runtime"
  using sample_hypotheses(2,3) sample_runtime_key sample_image [of "''demo''"]
  by (auto simp: isolated_runtime_def contested_cluster_def secrets_present_def set_referencedSecretNames
      sample_runtime_def sample_spec_def networkPolicyEnabled_def sample_cluster_def)


end
