(* ===== verification/Manager.thy ===== *)
theory Manager
  imports Controller
begin

text \<open>
  \<open>cmd/main.go\<close> and \<open>api/v1alpha1/groupversion_info.go\<close>: the command line, the options of the
  manager and the start of the process.

  The package \<open>flag\<close> of the standard library is modelled as it parses the command line; the flags
  that \<open>zap\<close> binds are a parameter.  \<open>controller-runtime\<close> is a parameter too: the outcome of each call
  that \<open>main\<close> makes on it.  Logging is left out.
\<close>

section \<open>The scheme\<close>

record GroupVersion =
  Group :: string
  Version :: string

definition runtimeGroupVersion :: GroupVersion where
  "runtimeGroupVersion = \<lparr>Group = ''runtime.trussium.io'', Version = ''v1alpha1''\<rparr>"

type_synonym scheme = "(GroupVersion \<times> string) list"

text \<open>\<open>metav1.AddToGroupVersion\<close> is a parameter: what it registers for a group.\<close>

definition addKnownTypes :: "(GroupVersion \<Rightarrow> string list) \<Rightarrow> scheme \<Rightarrow> goerror + scheme" where
  "addKnownTypes addToGroupVersion sch =
     (let sch = sch @ [(runtimeGroupVersion, ''TrussiumRuntime''),
                       (runtimeGroupVersion, ''TrussiumRuntimeList'')];
          sch = sch @ map (Pair runtimeGroupVersion) (addToGroupVersion runtimeGroupVersion)
      in Inr sch)"

section \<open>The command line\<close>

record flags =
  metricsAddr :: string
  probeAddr :: string
  enableLeaderElection :: bool
  secureMetrics :: bool
  webhookCertPath :: string
  webhookCertName :: string
  webhookCertKey :: string
  metricsCertPath :: string
  metricsCertName :: string
  metricsCertKey :: string
  enableHTTP2 :: bool
  watchNamespace :: string

definition default_flags :: flags where
  "default_flags =
     \<lparr>metricsAddr = ''0'', probeAddr = '':8081'', enableLeaderElection = False, secureMetrics = True,
      webhookCertPath = '''', webhookCertName = ''tls.crt'', webhookCertKey = ''tls.key'',
      metricsCertPath = '''', metricsCertName = ''tls.crt'', metricsCertKey = ''tls.key'',
      enableHTTP2 = False, watchNamespace = ''''\<rparr>"

datatype flag_setter =
  StringVar "string \<Rightarrow> flags \<Rightarrow> flags" | BoolVar "bool \<Rightarrow> flags \<Rightarrow> flags"

definition flag_table :: "(string \<times> flag_setter) list" where
  "flag_table =
     [(''metrics-bind-address'', StringVar (\<lambda>v f. f\<lparr>metricsAddr := v\<rparr>)),
      (''health-probe-bind-address'', StringVar (\<lambda>v f. f\<lparr>probeAddr := v\<rparr>)),
      (''leader-elect'', BoolVar (\<lambda>v f. f\<lparr>enableLeaderElection := v\<rparr>)),
      (''metrics-secure'', BoolVar (\<lambda>v f. f\<lparr>secureMetrics := v\<rparr>)),
      (''webhook-cert-path'', StringVar (\<lambda>v f. f\<lparr>webhookCertPath := v\<rparr>)),
      (''webhook-cert-name'', StringVar (\<lambda>v f. f\<lparr>webhookCertName := v\<rparr>)),
      (''webhook-cert-key'', StringVar (\<lambda>v f. f\<lparr>webhookCertKey := v\<rparr>)),
      (''metrics-cert-path'', StringVar (\<lambda>v f. f\<lparr>metricsCertPath := v\<rparr>)),
      (''metrics-cert-name'', StringVar (\<lambda>v f. f\<lparr>metricsCertName := v\<rparr>)),
      (''metrics-cert-key'', StringVar (\<lambda>v f. f\<lparr>metricsCertKey := v\<rparr>)),
      (''enable-http2'', BoolVar (\<lambda>v f. f\<lparr>enableHTTP2 := v\<rparr>)),
      (''watch-namespace'', StringVar (\<lambda>v f. f\<lparr>watchNamespace := v\<rparr>))]"

definition ParseBool :: "string \<Rightarrow> bool option" where
  "ParseBool s =
     (if s \<in> {''1'', ''t'', ''T'', ''TRUE'', ''true'', ''True''} then Some True
      else if s \<in> {''0'', ''f'', ''F'', ''FALSE'', ''false'', ''False''} then Some False
      else None)"

text \<open>
  One argument that begins with a dash: its name and, after an equals sign that is not its first
  character, its value.  \<open>None\<close> is bad flag syntax.
\<close>

definition split_flag :: "string \<Rightarrow> (string \<times> string option) option" where
  "split_flag arg =
     (let name = (if take 2 arg = ''--'' then drop 2 arg else drop 1 arg) in
      if name = '''' \<or> hd name = CHR ''-'' \<or> hd name = CHR ''='' then None
      else if CHR ''='' \<in> set name
      then Some (takeWhile (\<lambda>c. c \<noteq> CHR ''='') name, Some (tl (dropWhile (\<lambda>c. c \<noteq> CHR ''='') name)))
      else Some (name, None))"

text \<open>What the parser does when it fails: \<open>flag.ExitOnError\<close> ends the process with 2, or with 0 when
  help was asked for.\<close>

datatype parse_failure = FlagError | HelpRequested

text \<open>
  The flags other packages bind: whether a name is bound, whether it takes no argument, and whether it
  accepts a value.
\<close>

record bound_flags =
  bound :: "string \<Rightarrow> bool"
  is_bool :: "string \<Rightarrow> bool"
  accepts :: "string \<Rightarrow> string \<Rightarrow> bool"

fun Parse :: "bound_flags \<Rightarrow> string list \<Rightarrow> flags \<Rightarrow> parse_failure + flags" where
  "Parse z [] f = Inr f"
| "Parse z (arg # args) f =
     (if length arg < 2 \<or> hd arg \<noteq> CHR ''-'' then Inr f
      else if arg = ''--'' then Inr f
      else
        case split_flag arg of
          None \<Rightarrow> Inl FlagError
        | Some (name, val) \<Rightarrow>
            (case map_of flag_table name of
               Some (BoolVar setter) \<Rightarrow>
                 (case val of
                    None \<Rightarrow> Parse z args (setter True f)
                  | Some v \<Rightarrow>
                      (case ParseBool v of None \<Rightarrow> Inl FlagError | Some b \<Rightarrow> Parse z args (setter b f)))
             | Some (StringVar setter) \<Rightarrow>
                 (case val of
                    Some v \<Rightarrow> Parse z args (setter v f)
                  | None \<Rightarrow>
                      (case args of [] \<Rightarrow> Inl FlagError | v # args' \<Rightarrow> Parse z args' (setter v f)))
             | None \<Rightarrow>
                 if \<not> bound z name then
                   (if name = ''help'' \<or> name = ''h'' then Inl HelpRequested else Inl FlagError)
                 else if is_bool z name then
                   (if accepts z name (case val of None \<Rightarrow> ''true'' | Some v \<Rightarrow> v)
                    then Parse z args f else Inl FlagError)
                 else
                   (case val of
                      Some v \<Rightarrow> if accepts z name v then Parse z args f else Inl FlagError
                    | None \<Rightarrow>
                        (case args of
                           [] \<Rightarrow> Inl FlagError
                         | v # args' \<Rightarrow>
                             if accepts z name v then Parse z args' f else Inl FlagError))))"

section \<open>The options of the manager\<close>

datatype tls_option = disableHTTP2

record tls_config =
  NextProtos :: "string list"

fun apply_tls_option :: "tls_option \<Rightarrow> tls_config \<Rightarrow> tls_config" where
  "apply_tls_option disableHTTP2 c = c\<lparr>NextProtos := [''http/1.1'']\<rparr>"

record webhook_options =
  Webhook_TLSOpts :: "tls_option list"
  Webhook_CertDir :: string
  Webhook_CertName :: string
  Webhook_KeyName :: string

datatype filter_provider = WithAuthenticationAndAuthorization

record metrics_options =
  BindAddress :: string
  SecureServing :: bool
  Metrics_TLSOpts :: "tls_option list"
  FilterProvider :: "filter_provider option"
  Metrics_CertDir :: string
  Metrics_CertName :: string
  Metrics_KeyName :: string

record manager_options =
  Manager_Metrics :: metrics_options
  WebhookServer :: webhook_options
  HealthProbeBindAddress :: string
  LeaderElection :: bool
  LeaderElectionID :: string
  DefaultNamespaces :: "string list option"

definition tlsOpts :: "flags \<Rightarrow> tls_option list" where
  "tlsOpts f = (if \<not> enableHTTP2 f then [disableHTTP2] else [])"

definition webhookServerOptions :: "flags \<Rightarrow> webhook_options" where
  "webhookServerOptions f =
     (let opts = \<lparr>Webhook_TLSOpts = tlsOpts f, Webhook_CertDir = '''', Webhook_CertName = '''',
                  Webhook_KeyName = ''''\<rparr>
      in if 0 < length (webhookCertPath f)
         then opts\<lparr>Webhook_CertDir := webhookCertPath f, Webhook_CertName := webhookCertName f,
                   Webhook_KeyName := webhookCertKey f\<rparr>
         else opts)"

definition metricsServerOptions :: "flags \<Rightarrow> metrics_options" where
  "metricsServerOptions f =
     (let opts = \<lparr>BindAddress = metricsAddr f, SecureServing = secureMetrics f,
                  Metrics_TLSOpts = tlsOpts f, FilterProvider = None, Metrics_CertDir = '''',
                  Metrics_CertName = '''', Metrics_KeyName = ''''\<rparr>;
          opts = (if secureMetrics f
                  then opts\<lparr>FilterProvider := Some WithAuthenticationAndAuthorization\<rparr> else opts)
      in if 0 < length (metricsCertPath f)
         then opts\<lparr>Metrics_CertDir := metricsCertPath f, Metrics_CertName := metricsCertName f,
                   Metrics_KeyName := metricsCertKey f\<rparr>
         else opts)"

definition managerOptions :: "flags \<Rightarrow> manager_options" where
  "managerOptions f =
     (let opts = \<lparr>Manager_Metrics = metricsServerOptions f, WebhookServer = webhookServerOptions f,
                  HealthProbeBindAddress = probeAddr f, LeaderElection = enableLeaderElection f,
                  LeaderElectionID = ''d4fd4c09.trussium.io'', DefaultNamespaces = None\<rparr>
      in if watchNamespace f \<noteq> '''' then opts\<lparr>DefaultNamespaces := Some [watchNamespace f]\<rparr> else opts)"

section \<open>main\<close>

datatype manager_call =
  GetConfigOrDie | NewManager manager_options | SetupController controller_setup | AddHealthzCheck string
  | AddReadyzCheck string | Start

text \<open>The calls that succeeded or failed, in order, and the exit code.  \<open>GetConfigOrDie\<close> itself exits with
  1 when there is no configuration for the cluster; \<open>Start\<close> returns when the manager stops.\<close>

fun run_calls :: "(manager_call \<Rightarrow> goerror option) \<Rightarrow> manager_call list \<Rightarrow> manager_call list \<times> int" where
  "run_calls api [] = ([], 0)"
| "run_calls api (c # cs) =
     (case api c of
        Some err \<Rightarrow> ([c], 1)
      | None \<Rightarrow> (case run_calls api cs of (made, code) \<Rightarrow> (c # made, code)))"

definition main :: "bound_flags \<Rightarrow> (manager_call \<Rightarrow> goerror option) \<Rightarrow> string list \<Rightarrow> manager_call list \<times> int"
where
  "main z api args =
     (case Parse z args default_flags of
        Inl FlagError \<Rightarrow> ([], 2)
      | Inl HelpRequested \<Rightarrow> ([], 0)
      | Inr f \<Rightarrow>
          run_calls api
            [GetConfigOrDie, NewManager (managerOptions f), SetupController SetupWithManager,
             AddHealthzCheck ''healthz'', AddReadyzCheck ''readyz'', Start])"

section \<open>Properties\<close>

text \<open>The TLS configuration a server ends up with: its own, changed by the options in turn.\<close>

definition tls_of :: "tls_option list \<Rightarrow> tls_config \<Rightarrow> tls_config" where
  "tls_of opts own = fold apply_tls_option opts own"


text \<open>A command line that spells out every flag.\<close>

definition render_flag :: "string \<Rightarrow> string \<Rightarrow> string" where
  "render_flag name v = ''--'' @ name @ ''='' @ v"

definition render_bool :: "bool \<Rightarrow> string" where
  "render_bool b = (if b then ''true'' else ''false'')"

definition render :: "flags \<Rightarrow> string list" where
  "render f =
     [render_flag ''metrics-bind-address'' (metricsAddr f),
      render_flag ''health-probe-bind-address'' (probeAddr f),
      render_flag ''leader-elect'' (render_bool (enableLeaderElection f)),
      render_flag ''metrics-secure'' (render_bool (secureMetrics f)),
      render_flag ''webhook-cert-path'' (webhookCertPath f),
      render_flag ''webhook-cert-name'' (webhookCertName f),
      render_flag ''webhook-cert-key'' (webhookCertKey f),
      render_flag ''metrics-cert-path'' (metricsCertPath f),
      render_flag ''metrics-cert-name'' (metricsCertName f),
      render_flag ''metrics-cert-key'' (metricsCertKey f),
      render_flag ''enable-http2'' (render_bool (enableHTTP2 f)),
      render_flag ''watch-namespace'' (watchNamespace f)]"

lemma split_render:
  assumes "name \<noteq> ''''" "hd name \<noteq> CHR ''-''" "CHR ''='' \<notin> set name"
  shows "split_flag (render_flag name v) = Some (name, Some v)"
proof -
  have "hd (name @ CHR ''='' # v) = hd name" "hd name \<noteq> CHR ''=''"
    using assms by (cases name; auto)+
  then show ?thesis
    using assms takeWhile_separator [of "CHR ''=''" name v] dropWhile_separator [of "CHR ''=''" name v]
    by (simp add: split_flag_def render_flag_def)
qed

lemma parse_render:
  assumes "name \<noteq> ''''" "hd name \<noteq> CHR ''-''" "CHR ''='' \<notin> set name"
  shows "map_of flag_table name = Some (StringVar setter) \<Longrightarrow>
      Parse z (render_flag name v # args) f = Parse z args (setter v f)"
    and "map_of flag_table name = Some (BoolVar bsetter) \<Longrightarrow>
      Parse z (render_flag name (render_bool b) # args) f = Parse z args (bsetter b f)"
proof -
  have dash: "\<not> length (render_flag name v) < 2" "hd (render_flag name v) = CHR ''-''"
    "render_flag name v \<noteq> ''--''" for v
    using assms(1) by (simp_all add: render_flag_def)
  note split = split_render [OF assms]
  show "map_of flag_table name = Some (StringVar setter) \<Longrightarrow>
      Parse z (render_flag name v # args) f = Parse z args (setter v f)"
    by (simp add: dash split)
  show "map_of flag_table name = Some (BoolVar bsetter) \<Longrightarrow>
      Parse z (render_flag name (render_bool b) # args) f = Parse z args (bsetter b f)"
    by (simp add: dash split ParseBool_def render_bool_def)
qed

text \<open>C37: a command line that spells out every flag is read back exactly, whatever the values are, also when
  they begin with a dash or contain an equals sign.\<close>

theorem flags_roundtrip: "Parse z (render f) default_flags = Inr f"
  by (simp add: render_def parse_render flag_table_def del: Parse.simps(2))

lemma run_calls_spec:
  "run_calls api cs =
     (case List.find (\<lambda>c. api c \<noteq> None) cs of
        None \<Rightarrow> (cs, 0)
      | Some c \<Rightarrow> (takeWhile (\<lambda>d. api d = None) cs @ [c], 1))"
  by (induction cs) (auto split: option.splits)

text \<open>The process starts the manager only when everything before it succeeded.  It exits with 2 on a bad
  command line and with 0 after printing help, without calling anything; otherwise the calls are made in
  order up to the first that fails, and the exit code is 1 exactly when one failed.\<close>

theorem main_starts_when_ready:
  "main z api args =
     (case Parse z args default_flags of
        Inl FlagError \<Rightarrow> ([], 2)
      | Inl HelpRequested \<Rightarrow> ([], 0)
      | Inr f \<Rightarrow>
          (let cs = [GetConfigOrDie, NewManager (managerOptions f), SetupController SetupWithManager,
                     AddHealthzCheck ''healthz'', AddReadyzCheck ''readyz'', Start]
           in case List.find (\<lambda>c. api c \<noteq> None) cs of
                None \<Rightarrow> (cs, 0)
              | Some c \<Rightarrow> (takeWhile (\<lambda>d. api d = None) cs @ [c], 1))) \<and>
   (Start \<in> set (fst (main z api args)) \<longleftrightarrow>
      (\<exists>f. Parse z args default_flags = Inr f \<and> api (NewManager (managerOptions f)) = None) \<and>
      api GetConfigOrDie = None \<and> api (SetupController SetupWithManager) = None \<and> api (AddHealthzCheck ''healthz'') = None \<and>
      api (AddReadyzCheck ''readyz'') = None)"
proof (rule conjI)
  show "Start \<in> set (fst (main z api args)) \<longleftrightarrow>
      (\<exists>f. Parse z args default_flags = Inr f \<and> api (NewManager (managerOptions f)) = None) \<and>
      api GetConfigOrDie = None \<and> api (SetupController SetupWithManager) = None \<and> api (AddHealthzCheck ''healthz'') = None \<and>
      api (AddReadyzCheck ''readyz'') = None"
    by (auto simp: main_def split: sum.splits parse_failure.splits option.splits)
qed (simp add: main_def run_calls_spec Let_def split: sum.split parse_failure.split)

end
