(* ===== verification/Lifecycle.thy ===== *)
theory Lifecycle
  imports Status_Properties
begin

text \<open>
  The upgrade lifecycle over many passes.  A history is the sequence of passes over one resource: between
  two passes anybody may change the specification and the cluster in any way, and a pass may succeed,
  find invalid references or fail.  The step relation \<open>passes\<close> relates the status stored at the
  beginning, what each pass saw, and the status stored at the end; invariants are proved by rule
  induction.

  The last section records behaviours of the code that differ from what the documentation says.
\<close>

section \<open>Histories\<close>

record sighting =
  Seen_Desired :: string
  Seen_Current :: string
  Seen_Rollout :: deploymentRolloutState

definition sighting_of :: "TrussiumRuntime \<Rightarrow> runtimeObservation \<Rightarrow> sighting" where
  "sighting_of rt obs =
     \<lparr>Seen_Desired = runtimeImage (Image (Spec rt)),
      Seen_Current = deploymentCurrentImage (Obs_Deployment obs),
      Seen_Rollout = observeDeploymentRollout rt (Obs_Deployment obs)\<rparr>"

text \<open>The status a pass stores: the normalised status of a normal pass or of a failed one.\<close>

inductive passes ::
  "'a meta_api_scheme \<Rightarrow> TrussiumRuntimeStatus \<Rightarrow> sighting list \<Rightarrow> TrussiumRuntimeStatus \<Rightarrow> bool"
  for M :: "'a meta_api_scheme" and s0 :: TrussiumRuntimeStatus
where
  start: "passes M s0 [] s0"
| pass: "passes M s0 h (Status rt) \<Longrightarrow> runtimeImage (Image (Spec rt)) \<noteq> '''' \<Longrightarrow>
    passes M s0 (sighting_of rt obs # h)
      (preserveRuntimeConditionTransitionTimes M (Status rt) (fst (buildRuntimeStatus M rt obs val clk)))"
| failed_pass: "passes M s0 h (Status rt) \<Longrightarrow> runtimeImage (Image (Spec rt)) \<noteq> '''' \<Longrightarrow>
    passes M s0 (sighting_of rt obs # h)
      (preserveRuntimeConditionTransitionTimes M (Status rt)
        (fst (buildReconciliationFailureStatus M rt obs err clk)))"

inductive_cases passes_NilE: "passes M s0 [] s"
inductive_cases passes_ConsE: "passes M s0 (x # h) s"

lemma failure_last:
  "LastSuccessfulImage (fst (buildReconciliationFailureStatus M rt obs err clk)) =
     upgrade_last rt (Obs_Deployment obs) (LastSuccessfulImage (Status rt))"
  by (simp add: failure_fields [THEN status_rest(6)] build_fields)

definition completed :: "string \<Rightarrow> sighting \<Rightarrow> bool" where
  "completed img x \<longleftrightarrow>
     Seen_Desired x = img \<and> Seen_Current x = img \<and> Seen_Rollout x = deploymentRolloutComplete"

lemma upgrade_last_cases:
  "upgrade_last rt (Obs_Deployment obs) lsi = lsi \<or>
   completed (upgrade_last rt (Obs_Deployment obs) lsi) (sighting_of rt obs)"
  by (simp add: upgrade_last_def completed_def sighting_of_def)

section \<open>Invariants\<close>

text \<open>C17: the last successful image is always an image that was seen to work.  After any history of passes it
  is the image the history began with, or one that some pass of the history saw requested, running and
  completely rolled out.\<close>

theorem last_successful_image_provenance:
  assumes "passes M s0 h s"
  shows "LastSuccessfulImage s = LastSuccessfulImage s0 \<or> (\<exists>x \<in> set h. completed (LastSuccessfulImage s) x)"
  using assms
proof (induction rule: passes.induct)
  case start
  show ?case by simp
next
  case (pass h rt obs val clk)
  with upgrade_last_cases [of rt obs "LastSuccessfulImage (Status rt)"] show ?case
    by (auto simp: build_fields)
next
  case (failed_pass h rt obs err clk)
  with upgrade_last_cases [of rt obs "LastSuccessfulImage (Status rt)"] show ?case
    by (auto simp: failure_last)
qed

lemma sample_pass:
  "passes doc_meta empty_status [sighting_of (sample_runtime ''demo'') (sample_observation (sample_deployment 2 []))]
     (preserveRuntimeConditionTransitionTimes doc_meta empty_status
        (fst (buildRuntimeStatus doc_meta (sample_runtime ''demo'')
           (sample_observation (sample_deployment 2 [])) validReferenceValidation sample_clock)))"
proof -
  have fresh: "Status (sample_runtime ''demo'') = empty_status"
    and img: "runtimeImage (Image (Spec (sample_runtime ''demo''))) \<noteq> ''''"
    by (simp_all add: sample_runtime_def sample_spec_def runtimeImage_def)
  from passes.pass [of doc_meta empty_status "[]" "sample_runtime ''demo''"
      "sample_observation (sample_deployment 2 [])" validReferenceValidation sample_clock] img
  show ?thesis unfolding fresh using passes.start by blast
qed

theorem last_successful_image_provenance_witness:
  "\<exists>h s. passes doc_meta empty_status h s \<and>
    (LastSuccessfulImage s = '''' \<or> (\<exists>x \<in> set h. completed (LastSuccessfulImage s) x))"
proof -
  have "LastSuccessfulImage empty_status = ''''" by (simp add: empty_status_def)
  with last_successful_image_provenance [OF sample_pass] sample_pass show ?thesis by metis
qed

text \<open>What the upgrade condition of a status claims agrees with its other fields.\<close>

definition upgrade_truthful :: "'a meta_api_scheme \<Rightarrow> TrussiumRuntimeStatus \<Rightarrow> bool" where
  "upgrade_truthful M s \<longleftrightarrow>
     (case condition_content M s conditionTypeUpgrading of
        None \<Rightarrow> True
      | Some (st, reason, msg, gen) \<Rightarrow>
          st = truth (reason = reasonUpgradeInProgress) \<and>
          reason \<in> {reasonNoUpgrade, reasonUpgradeInProgress, reasonUpgradeComplete, reasonUpgradeFailed} \<and>
          (reason = reasonUpgradeComplete \<longrightarrow> DesiredImage s = LastSuccessfulImage s) \<and>
          (reason \<in> {reasonUpgradeInProgress, reasonUpgradeFailed} \<longrightarrow> LastSuccessfulImage s \<noteq> ''''))"

lemma upgrade_truthful_step:
  assumes "upgrade_truthful M (Status rt)" and img: "runtimeImage (Image (Spec rt)) \<noteq> ''''"
    and content: "condition_content M s conditionTypeUpgrading =
      upgrade_content rt d (LastSuccessfulImage (Status rt)) (condition_content M (Status rt) conditionTypeUpgrading)"
    and last: "LastSuccessfulImage s = upgrade_last rt d (LastSuccessfulImage (Status rt))"
    and desired: "DesiredImage s = runtimeImage (Image (Spec rt))"
  shows "upgrade_truthful M s"
proof (cases "LastSuccessfulImage (Status rt) \<noteq> '''' \<and>
    runtimeImage (Image (Spec rt)) = LastSuccessfulImage (Status rt) \<and>
    condition_content M (Status rt) conditionTypeUpgrading \<noteq> None")
  case True
  then have "condition_content M s conditionTypeUpgrading = condition_content M (Status rt) conditionTypeUpgrading"
    "LastSuccessfulImage s = LastSuccessfulImage (Status rt)" "DesiredImage s = LastSuccessfulImage s"
    by (auto simp: content last desired upgrade_content_def upgrade_last_def Let_def)
  with assms(1) True show ?thesis
    by (auto simp: upgrade_truthful_def split: option.splits)
next
  case False
  then show ?thesis
    unfolding upgrade_truthful_def content last desired using img
    by (cases "observeDeploymentRollout rt d"; cases "condition_content M (Status rt) conditionTypeUpgrading")
      (auto simp: upgrade_content_def upgrade_last_def Let_def truth_def)
qed

text \<open>C18: what the upgrade condition claims is true.  After any history that began without an upgrade
  condition, a reported \<open>UpgradeComplete\<close> means that the last requested image is the last successful
  image; \<open>UpgradeInProgress\<close> and \<open>UpgradeFailed\<close> are only reported once some image was successful; and
  the condition is \<open>True\<close> exactly when its reason is \<open>UpgradeInProgress\<close>.\<close>

theorem upgrade_condition_truthful:
  assumes M: "meta_conditions M" and "status_wf s0"
    and "condition_content M s0 conditionTypeUpgrading = None" and "passes M s0 h s"
  shows "upgrade_truthful M s \<and> status_wf s"
  using assms(4)
proof (induction rule: passes.induct)
  case start
  show ?case using assms(2,3) by (simp add: upgrade_truthful_def)
next
  case (pass h rt obs val clk)
  let ?b = "fst (buildRuntimeStatus M rt obs val clk)"
  have wf: "status_wf ?b" using pass by (simp add: meta_conditions.wf_build [OF M])
  with pass upgrade_truthful_step [of M rt "preserveRuntimeConditionTransitionTimes M (Status rt) ?b" "Obs_Deployment obs"]
  show ?case
    by (simp add: meta_conditions.preserve_content [OF M] meta_conditions.build_content [OF M] build_fields)
next
  case (failed_pass h rt obs err clk)
  let ?b = "fst (buildReconciliationFailureStatus M rt obs err clk)"
  have wf: "status_wf ?b" using failed_pass by (simp add: meta_conditions.wf_failure [OF M])
  have "conditionTypeUpgrading \<notin> set failure_types" by (simp add: failure_types_def)
  with wf failed_pass upgrade_truthful_step [of M rt
      "preserveRuntimeConditionTransitionTimes M (Status rt) ?b" "Obs_Deployment obs"]
  show ?case
    by (simp add: meta_conditions.preserve_content [OF M] meta_conditions.failure_content [OF M]
        meta_conditions.build_content [OF M] failure_last failure_fields [THEN status_rest(4)] build_fields)
qed

theorem upgrade_condition_truthful_witness:
  "\<exists>h s. passes doc_meta empty_status h s \<and> h \<noteq> [] \<and> upgrade_truthful doc_meta s"
proof -
  have "status_wf empty_status" "condition_content doc_meta empty_status conditionTypeUpgrading = None"
    by (simp_all add: empty_status_def status_wf_def status_types_def condition_content_def
        runtimeCondition_def doc_meta_def)
  from upgrade_condition_truthful [OF doc.meta_conditions_axioms this sample_pass] sample_pass
  show ?thesis by blast
qed

section \<open>Where the code and the documentation differ\<close>

text \<open>C39: an upgrade that is abandoned by requesting the last successful image again stays reported.  The
  upgrade step returns early and leaves the old condition, \<open>UpgradeInProgress\<close> or \<open>UpgradeFailed\<close>
  included, with the generation it was first reported for.\<close>

theorem abandoned_upgrade_stays_reported:
  assumes "meta_conditions M" and "status_wf (Status rt)"
    and "runtimeImage (Image (Spec rt)) = LastSuccessfulImage (Status rt)"
    and "runtimeImage (Image (Spec rt)) \<noteq> ''''"
    and "condition_content M (Status rt) conditionTypeUpgrading = Some c"
  shows "condition_content M (fst (buildRuntimeStatus M rt obs val clk)) conditionTypeUpgrading = Some c"
  using assms by (simp add: meta_conditions.build_content upgrade_content_def Let_def)

text \<open>A resource whose upgrade is in progress while the last successful image is requested again.\<close>

definition abandoned_runtime :: TrussiumRuntime where
  "abandoned_runtime = (sample_runtime ''demo'')
     \<lparr>Status := empty_status
        \<lparr>LastSuccessfulImage := runtimeImage (Image (Spec (sample_runtime ''demo''))),
         Conditions := [\<lparr>Condition_Type = conditionTypeUpgrading, Condition_Status = ConditionTrue,
           Condition_ObservedGeneration = 1, LastTransitionTime = Some 5, Reason = reasonUpgradeInProgress,
           Message = ''Runtime image is upgrading.''\<rparr>]\<rparr>\<rparr>"

theorem abandoned_upgrade_stays_reported_witness:
  "condition_content doc_meta (fst (buildRuntimeStatus doc_meta abandoned_runtime
      (sample_observation (sample_deployment 2 [])) validReferenceValidation sample_clock)) conditionTypeUpgrading =
    Some (ConditionTrue, reasonUpgradeInProgress, ''Runtime image is upgrading.'', 1)"
proof (rule abandoned_upgrade_stays_reported [OF doc.meta_conditions_axioms])
  show "status_wf (Status abandoned_runtime)"
    by (simp add: abandoned_runtime_def status_wf_def status_types_def)
  show "runtimeImage (Image (Spec abandoned_runtime)) = LastSuccessfulImage (Status abandoned_runtime)"
    by (simp add: abandoned_runtime_def)
  show "runtimeImage (Image (Spec abandoned_runtime)) \<noteq> ''''"
    by (simp add: abandoned_runtime_def sample_runtime_def sample_spec_def runtimeImage_def)
  show "condition_content doc_meta (Status abandoned_runtime) conditionTypeUpgrading =
      Some (ConditionTrue, reasonUpgradeInProgress, ''Runtime image is upgrading.'', 1)"
    by (simp add: abandoned_runtime_def condition_content_def runtimeCondition_def doc_meta_def)
qed



text \<open>A Deployment scaled to zero whose rollout has failed is reported as ready and not degraded.\<close>

lemma failed_rollout_at_zero_is_ready:
  assumes "meta_conditions M" and "desiredReplicaCount rt (Some d) = 0"
    and "Obs_Deployment obs = Some d" and "deployment_observed d" and "Valid val"
    and "DS_ReadyReplicas (Deployment_Status d) = 0" and "DS_AvailableReplicas (Deployment_Status d) = 0"
  shows "condition_status M (fst (buildRuntimeStatus M rt obs val clk)) conditionTypeReady = Some ConditionTrue \<and>
    condition_status M (fst (buildRuntimeStatus M rt obs val clk)) conditionTypeDegraded = Some ConditionFalse"
  using assms by (simp add: buildRuntimeStatus_def meta_conditions.upgrade_other_status
      meta_conditions.base_ready meta_conditions.base_degraded runtime_ready_def runtime_degraded_def truth_def)

text \<open>\<open>Ready=True\<close> does not wait for the rollout: it does not look at the updated, total or unavailable
  replicas, so it holds while old replicas still serve and the rollout is progressing.\<close>

lemma ready_before_rollout_completes:
  assumes "meta_conditions M" and "Obs_Deployment obs = Some d" and "deployment_observed d" and "Valid val"
    and "\<not> deploymentHasRolloutFailure (Some d)"
    and "DS_ReadyReplicas (Deployment_Status d) = desiredReplicaCount rt (Some d)"
    and "DS_AvailableReplicas (Deployment_Status d) = desiredReplicaCount rt (Some d)"
    and "DS_UpdatedReplicas (Deployment_Status d) \<noteq> desiredReplicaCount rt (Some d)"
  shows "condition_status M (fst (buildRuntimeStatus M rt obs val clk)) conditionTypeReady = Some ConditionTrue \<and>
    observeDeploymentRollout rt (Some d) \<noteq> deploymentRolloutComplete"
  using assms by (auto simp: buildRuntimeStatus_def meta_conditions.upgrade_other_status
      meta_conditions.base_ready runtime_ready_def truth_def observeDeploymentRollout_def Let_def)

end
