(* ===== verification/Go_Heap.thy ===== *)
theory Go_Heap
  imports Go_Prelude
begin

text \<open>
  Memory as the sources with pointers use it: a list of cells, an address being an index and
  allocation adding a cell at the end.  A pointer or a map is \<open>None\<close> (nil) or an address, a slice is
  \<open>None\<close> or a window of a backing array.  The contract of a deep copy is the locale \<open>deep_copy\<close>: a
  \<open>view\<close> gives the value a Go value denotes and the cells it reaches, and a copy denotes the same
  value in cells that are all new.  The statements a deep-copy function is made of (assignment, copies
  through a pointer, a slice, a map, and fields one after the other) keep the contract.
\<close>

section \<open>Memory\<close>

type_synonym ptr = "nat option"
type_synonym slice = "(nat \<times> nat \<times> nat) option"

text \<open>One kind of cell of the memory: its constructor and the matching destructor.\<close>

record ('c, 'x) cell_type =
  mk :: "'x \<Rightarrow> 'c"
  dest :: "'c \<Rightarrow> 'x option"

locale cell_kind =
  fixes K :: "('c, 'x) cell_type"
  assumes dest_mk [simp]: "dest K (mk K x) = Some x"

definition load :: "('c, 'x) cell_type \<Rightarrow> nat \<Rightarrow> 'c list \<Rightarrow> 'x option" where
  "load K a h = (if a < length h then dest K (h ! a) else None)"

definition alloc :: "'c \<Rightarrow> 'c list \<Rightarrow> nat \<times> 'c list" where
  "alloc c h = (length h, h @ [c])"

text \<open>What a value read from memory at an address depends on.\<close>

definition same_at :: "nat set \<Rightarrow> 'c list \<Rightarrow> 'c list \<Rightarrow> bool" where
  "same_at A h h' \<longleftrightarrow> (\<forall>a \<in> A. a < length h' \<and> h' ! a = h ! a)"

lemma same_at_mono: "same_at A h h' \<Longrightarrow> B \<subseteq> A \<Longrightarrow> same_at B h h'"
  by (auto simp: same_at_def)

lemma same_at_Un [simp]: "same_at (A \<union> B) h h' \<longleftrightarrow> same_at A h h' \<and> same_at B h h'"
  by (auto simp: same_at_def)

lemma same_at_insert [simp]: "same_at (insert a A) h h' \<longleftrightarrow> a < length h' \<and> h' ! a = h ! a \<and> same_at A h h'"
  by (auto simp: same_at_def)

lemma same_at_append: "A \<subseteq> {..<length h} \<Longrightarrow> same_at A h (h @ d)"
  by (auto simp: same_at_def nth_append)

lemma same_at_write: "a \<notin> A \<Longrightarrow> A \<subseteq> {..<length h} \<Longrightarrow> same_at A h (h[a := c])"
  unfolding same_at_def by (metis length_list_update lessThan_iff nth_list_update_neq subsetD)

lemma load_same: "load K a h = Some x \<Longrightarrow> a < length h' \<Longrightarrow> h' ! a = h ! a \<Longrightarrow> load K a h' = Some x"
  by (auto simp: load_def split: if_splits)

lemma load_bound: "load K a h = Some x \<Longrightarrow> a < length h"
  by (auto simp: load_def split: if_splits)

text \<open>What the rest of the program may do to the memory.\<close>

datatype 'c memory_op = Write nat 'c | Allocate 'c

fun perform :: "'c memory_op \<Rightarrow> 'c list \<Rightarrow> 'c list" where
  "perform (Write a c) h = h[a := c]"
| "perform (Allocate c) h = snd (alloc c h)"

definition perform_all :: "'c memory_op list \<Rightarrow> 'c list \<Rightarrow> 'c list" where
  "perform_all ops h = fold perform ops h"

fun avoids :: "nat set \<Rightarrow> 'c memory_op \<Rightarrow> bool" where
  "avoids A (Write a c) = (a \<notin> A)"
| "avoids A (Allocate c) = True"

lemma same_at_trans: "same_at A h1 h2 \<Longrightarrow> same_at A h2 h3 \<Longrightarrow> same_at A h1 h3"
  by (auto simp: same_at_def)

lemma perform_same: "avoids A x \<Longrightarrow> A \<subseteq> {..<length h} \<Longrightarrow> same_at A h (perform x h)"
  by (cases x) (auto simp: alloc_def intro: same_at_append same_at_write)

lemma perform_all_same:
  "list_all (avoids A) ops \<Longrightarrow> A \<subseteq> {..<length h} \<Longrightarrow> same_at A h (perform_all ops h)"
proof (induction ops arbitrary: h)
  case Nil
  then show ?case by (auto simp: perform_all_def same_at_def)
next
  case (Cons x ops)
  have len: "length h \<le> length (perform x h)" by (cases x) (simp_all add: alloc_def)
  have "same_at A h (perform x h)" using Cons.prems by (simp add: perform_same)
  moreover have "same_at A (perform x h) (perform_all ops (perform x h))"
    using Cons len by (intro Cons.IH) auto
  ultimately show ?case by (auto simp: perform_all_def intro: same_at_trans)
qed

section \<open>The contract of a deep copy\<close>

locale deep_copy =
  fixes view :: "'x \<Rightarrow> 'c list \<Rightarrow> ('v \<times> nat set) option"
    and copy :: "'x \<Rightarrow> 'c list \<Rightarrow> ('x \<times> 'c list) option"
  assumes view_bounds: "view x h = Some (v, A) \<Longrightarrow> A \<subseteq> {..<length h}"
    and view_same: "view x h = Some (v, A) \<Longrightarrow> same_at A h h' \<Longrightarrow> view x h' = Some (v, A)"
    and copy_fresh: "view x h = Some (v, A) \<Longrightarrow>
      \<exists>y d B. copy x h = Some (y, h @ d) \<and> view y (h @ d) = Some (v, B) \<and> B \<subseteq> {length h..<length (h @ d)}"
begin

lemma view_append: "view x h = Some (v, A) \<Longrightarrow> view x (h @ d) = Some (v, A)"
  using view_bounds view_same same_at_append by blast

lemma view_survives:
  assumes "view x h = Some (v, A)" and "list_all (avoids A) ops"
  shows "view x (perform_all ops h) = Some (v, A)"
  using assms view_bounds [OF assms(1)] view_same perform_all_same by blast

text \<open>The copy denotes the value of the original, and neither sees what is written through the other.\<close>

lemma copy_isolated:
  assumes "view x h = Some (v, A)"
  shows "\<exists>y d B. copy x h = Some (y, h @ d) \<and> A \<inter> B = {} \<and>
    view x (h @ d) = Some (v, A) \<and> view y (h @ d) = Some (v, B) \<and>
    (\<forall>ops. list_all (avoids A) ops \<longrightarrow> view x (perform_all ops (h @ d)) = Some (v, A)) \<and>
    (\<forall>ops. list_all (avoids B) ops \<longrightarrow> view y (perform_all ops (h @ d)) = Some (v, B))"
proof -
  from copy_fresh [OF assms] obtain y d B where
    c: "copy x h = Some (y, h @ d)" "view y (h @ d) = Some (v, B)" "B \<subseteq> {length h..<length (h @ d)}" by blast
  have A: "A \<inter> B = {}" using view_bounds [OF assms] c(3) by fastforce
  have x: "view x (h @ d) = Some (v, A)" using assms by (rule view_append)
  show ?thesis
    by (intro exI conjI allI impI) (rule c(1) A x c(2) view_survives [OF x] view_survives [OF c(2)]; assumption?)+
qed

end

section \<open>Assignment\<close>

definition view_value :: "'x \<Rightarrow> 'c list \<Rightarrow> ('x \<times> nat set) option" where
  "view_value x h = Some (x, {})"

definition assign :: "'x \<Rightarrow> 'c list \<Rightarrow> ('x \<times> 'c list) option" where
  "assign x h = Some (x, h)"

interpretation assigned: deep_copy view_value assign
  by unfold_locales (auto simp: view_value_def assign_def)

section \<open>Pointers\<close>

definition view_ptr :: "('c, 'x) cell_type \<Rightarrow> ('x \<Rightarrow> 'c list \<Rightarrow> ('v \<times> nat set) option) \<Rightarrow>
  ptr \<Rightarrow> 'c list \<Rightarrow> ('v option \<times> nat set) option"
where
  "view_ptr K view p h =
     (case p of
        None \<Rightarrow> Some (None, {})
      | Some a \<Rightarrow> do { x \<leftarrow> load K a h; (v, A) \<leftarrow> view x h; Some (Some v, insert a A) })"

text \<open>
  \<open>*out = new(T)\<close> and then the copy of what \<open>in\<close> points to, which starts with \<open>*out = *in\<close>; a nil
  pointer is left alone.
\<close>

definition copy_ptr :: "('c, 'x) cell_type \<Rightarrow> ('x \<Rightarrow> 'c list \<Rightarrow> ('x \<times> 'c list) option) \<Rightarrow>
  ptr \<Rightarrow> 'c list \<Rightarrow> (ptr \<times> 'c list) option"
where
  "copy_ptr K into p h =
     (case p of
        None \<Rightarrow> Some (None, h)
      | Some a \<Rightarrow>
          do { x \<leftarrow> load K a h;
               let (b, h1) = alloc (mk K x) h;
               (y, h2) \<leftarrow> into x h1;
               Some (Some b, h2[b := mk K y]) })"

lemma deep_copy_ptr:
  assumes K: "cell_kind K" and C: "deep_copy view into"
  shows "deep_copy (view_ptr K view) (copy_ptr K into)"
proof
  fix p h v A
  assume v: "view_ptr K view p h = Some (v, A)"
  then show "A \<subseteq> {..<length h}"
    using deep_copy.view_bounds [OF C] load_bound
    by (fastforce simp: view_ptr_def bind_eq_Some_conv split: option.splits)
  show "view_ptr K view p h' = Some (v, A)" if "same_at A h h'" for h'
  proof (cases p)
    case None
    with v show ?thesis by (simp add: view_ptr_def)
  next
    case (Some a)
    with v obtain x u A' where x: "load K a h = Some x" "view x h = Some (u, A')" "v = Some u" "A = insert a A'"
      by (auto simp: view_ptr_def bind_eq_Some_conv)
    with that have "load K a h' = Some x" "view x h' = Some (u, A')"
      using load_same [OF x(1), of h'] deep_copy.view_same [OF C x(2), of h'] by simp_all
    with Some x show ?thesis by (simp add: view_ptr_def)
  qed
  show "\<exists>q d B. copy_ptr K into p h = Some (q, h @ d) \<and> view_ptr K view q (h @ d) = Some (v, B) \<and>
      B \<subseteq> {length h..<length (h @ d)}"
  proof (cases p)
    case None
    with v show ?thesis by (auto simp: copy_ptr_def view_ptr_def)
  next
    case (Some a)
    from v obtain x u A' where x: "load K a h = Some x" and u: "view x h = Some (u, A')" "v = Some u"
      by (auto simp: view_ptr_def Some bind_eq_Some_conv)
    let ?h1 = "h @ [mk K x]"
    obtain y d B where y: "into x ?h1 = Some (y, ?h1 @ d)" "view y (?h1 @ d) = Some (u, B)"
      "B \<subseteq> {length ?h1..<length (?h1 @ d)}"
      using deep_copy.copy_fresh [OF C deep_copy.view_append [OF C u(1)]] by blast
    let ?h2 = "h @ mk K y # d"
    have w: "(?h1 @ d)[length h := mk K y] = ?h2" by (simp add: list_update_append)
    have "same_at B (?h1 @ d) ((?h1 @ d)[length h := mk K y])"
      using y(3) by (intro same_at_write) auto
    then have "view y ?h2 = Some (u, B)" using deep_copy.view_same [OF C y(2)] unfolding w by blast
    moreover have "load K (length h) ?h2 = Some y" by (simp add: load_def cell_kind.dest_mk [OF K])
    ultimately have "view_ptr K view (Some (length h)) ?h2 = Some (v, insert (length h) B)"
      by (simp add: view_ptr_def u(2))
    moreover have "copy_ptr K into p h = Some (Some (length h), ?h2)"
      using x y(1) w by (simp add: copy_ptr_def Some alloc_def)
    moreover have "insert (length h) B \<subseteq> {length h..<length ?h2}" using y(3) by auto
    ultimately show ?thesis by blast
  qed
qed

lemma view_ptr_nil: "view_ptr K view None h = Some (None, {})"
  by (simp add: view_ptr_def)

section \<open>Slices\<close>

fun view_elems :: "('x \<Rightarrow> 'c list \<Rightarrow> ('v \<times> nat set) option) \<Rightarrow> 'x list \<Rightarrow> 'c list \<Rightarrow> ('v list \<times> nat set) option"
where
  "view_elems view [] h = Some ([], {})"
| "view_elems view (x # xs) h =
     do { (v, A) \<leftarrow> view x h; (vs, B) \<leftarrow> view_elems view xs h; Some (v # vs, A \<union> B) }"

text \<open>The loop \<open>for i := range *in { (*in)[i].DeepCopyInto(&(*out)[i]) }\<close>.\<close>

fun copy_elems :: "('x \<Rightarrow> 'c list \<Rightarrow> ('x \<times> 'c list) option) \<Rightarrow> 'x list \<Rightarrow> 'c list \<Rightarrow> ('x list \<times> 'c list) option"
where
  "copy_elems into [] h = Some ([], h)"
| "copy_elems into (x # xs) h =
     do { (y, h1) \<leftarrow> into x h; (ys, h2) \<leftarrow> copy_elems into xs h1; Some (y # ys, h2) }"

text \<open>The elements a slice shows of its array.\<close>

definition window :: "nat \<Rightarrow> nat \<Rightarrow> 'x list \<Rightarrow> 'x list option" where
  "window i n xs = (if i + n \<le> length xs then Some (take n (drop i xs)) else None)"

definition load_slice :: "('c, 'x list) cell_type \<Rightarrow> slice \<Rightarrow> 'c list \<Rightarrow> 'x list option" where
  "load_slice K s h =
     (case s of None \<Rightarrow> Some [] | Some (a, i, n) \<Rightarrow> do { xs \<leftarrow> load K a h; window i n xs })"

definition slice_cells :: "slice \<Rightarrow> nat set" where
  "slice_cells s = (case s of None \<Rightarrow> {} | Some (a, _) \<Rightarrow> {a})"

definition view_slice :: "('c, 'x list) cell_type \<Rightarrow> ('x \<Rightarrow> 'c list \<Rightarrow> ('v \<times> nat set) option) \<Rightarrow>
  slice \<Rightarrow> 'c list \<Rightarrow> ('v list \<times> nat set) option"
where
  "view_slice K view s h =
     do { xs \<leftarrow> load_slice K s h; (vs, A) \<leftarrow> view_elems view xs h; Some (vs, slice_cells s \<union> A) }"

text \<open>
  \<open>*out = make([]T, len(*in))\<close> and then the elements, one after the other; a nil slice is left alone.
  The new array is filled once the elements are copied: nothing reads it before.
\<close>

definition copy_slice :: "('c, 'x list) cell_type \<Rightarrow> ('x \<Rightarrow> 'c list \<Rightarrow> ('x \<times> 'c list) option) \<Rightarrow>
  slice \<Rightarrow> 'c list \<Rightarrow> (slice \<times> 'c list) option"
where
  "copy_slice K into s h =
     (case s of
        None \<Rightarrow> Some (None, h)
      | Some _ \<Rightarrow>
          do { xs \<leftarrow> load_slice K s h;
               let (b, h1) = alloc (mk K xs) h;
               (ys, h2) \<leftarrow> copy_elems into xs h1;
               Some (Some (b, 0, length ys), h2[b := mk K ys]) })"

lemma view_elems_append:
  assumes C: "deep_copy view into" and "view_elems view xs h = Some (vs, A)"
  shows "view_elems view xs (h @ d) = Some (vs, A)"
  using assms(2)
proof (induction xs arbitrary: vs A)
  case (Cons x xs)
  then obtain u us A1 A2 where x: "view x h = Some (u, A1)" and "view_elems view xs h = Some (us, A2)"
    "vs = u # us" "A = A1 \<union> A2" by (auto simp: bind_eq_Some_conv)
  with Cons.IH show ?case using deep_copy.view_append [OF C x, of d] by simp
qed simp

lemma deep_copy_elems:
  assumes C: "deep_copy view into"
  shows "deep_copy (view_elems view) (copy_elems into)"
proof
  fix xs h v A
  assume v: "view_elems view xs h = Some (v, A)"
  from v show "A \<subseteq> {..<length h}"
    by (induction xs arbitrary: v A) (auto simp: bind_eq_Some_conv dest: deep_copy.view_bounds [OF C])
  show "view_elems view xs h' = Some (v, A)" if "same_at A h h'" for h'
    using v that
    by (induction xs arbitrary: v A) (auto simp: bind_eq_Some_conv dest: deep_copy.view_same [OF C])
  show "\<exists>ys d B. copy_elems into xs h = Some (ys, h @ d) \<and> view_elems view ys (h @ d) = Some (v, B) \<and>
      B \<subseteq> {length h..<length (h @ d)}"
    using v
  proof (induction xs arbitrary: h v A)
    case Nil
    then show ?case by (auto intro: exI [of _ "[]"])
  next
    case (Cons x xs)
    then obtain u vs A1 A2 where x: "view x h = Some (u, A1)" and xs: "view_elems view xs h = Some (vs, A2)"
      and v: "v = u # vs" by (auto simp: bind_eq_Some_conv)
    obtain y d B1 where y: "into x h = Some (y, h @ d)" "view y (h @ d) = Some (u, B1)"
      "B1 \<subseteq> {length h..<length (h @ d)}" using deep_copy.copy_fresh [OF C x] by blast
    have "view_elems view xs (h @ d) = Some (vs, A2)"
      using xs by (rule view_elems_append [OF C])
    from Cons.IH [OF this] obtain ys e B2 where ys: "copy_elems into xs (h @ d) = Some (ys, h @ d @ e)"
      "view_elems view ys (h @ d @ e) = Some (vs, B2)" "B2 \<subseteq> {length (h @ d)..<length (h @ d @ e)}"
      by auto
    have "view y (h @ d @ e) = Some (u, B1)" using deep_copy.view_append [OF C y(2), of e] by simp
    then show ?case using y ys v
      by (intro exI [of _ "y # ys"] exI [of _ "d @ e"] exI [of _ "B1 \<union> B2"]) auto
  qed
qed

lemma load_slice_same:
  "load_slice K s h = Some xs \<Longrightarrow> same_at (slice_cells s) h h' \<Longrightarrow> load_slice K s h' = Some xs"
  using load_same by (fastforce simp: load_slice_def slice_cells_def bind_eq_Some_conv split: option.splits prod.splits)

lemma load_slice_bound: "load_slice K s h = Some xs \<Longrightarrow> slice_cells s \<subseteq> {..<length h}"
  by (auto simp: load_slice_def slice_cells_def bind_eq_Some_conv dest: load_bound split: option.splits)

lemma load_slice_new:
  assumes "cell_kind K"
  shows "load_slice K (Some (length h, 0, length ys)) (h @ mk K ys # d) = Some ys"
  by (simp add: load_slice_def load_def window_def cell_kind.dest_mk [OF assms])

lemma deep_copy_slice:
  assumes K: "cell_kind K" and C: "deep_copy view into"
  shows "deep_copy (view_slice K view) (copy_slice K into)"
proof
  note E = deep_copy_elems [OF C]
  fix s h v A
  assume v: "view_slice K view s h = Some (v, A)"
  then obtain xs A' where xs: "load_slice K s h = Some xs" "view_elems view xs h = Some (v, A')"
    "A = slice_cells s \<union> A'" by (auto simp: view_slice_def bind_eq_Some_conv)
  from xs show "A \<subseteq> {..<length h}" using load_slice_bound deep_copy.view_bounds [OF E] by blast
  show "view_slice K view s h' = Some (v, A)" if "same_at A h h'" for h'
    using that xs load_slice_same [OF xs(1), of h'] deep_copy.view_same [OF E xs(2), of h']
    by (simp add: view_slice_def)
  show "\<exists>q d B. copy_slice K into s h = Some (q, h @ d) \<and> view_slice K view q (h @ d) = Some (v, B) \<and>
      B \<subseteq> {length h..<length (h @ d)}"
  proof (cases s)
    case None
    then show ?thesis using v xs by (auto simp: copy_slice_def slice_cells_def load_slice_def)
  next
    case (Some w)
    let ?h1 = "h @ [mk K xs]"
    obtain ys d B where ys: "copy_elems into xs ?h1 = Some (ys, ?h1 @ d)"
      "view_elems view ys (?h1 @ d) = Some (v, B)" "B \<subseteq> {length ?h1..<length (?h1 @ d)}"
      using deep_copy.copy_fresh [OF E deep_copy.view_append [OF E xs(2)]] by blast
    let ?h2 = "h @ mk K ys # d"
    have w: "(?h1 @ d)[length h := mk K ys] = ?h2" by (simp add: list_update_append)
    have "same_at B (?h1 @ d) ((?h1 @ d)[length h := mk K ys])"
      using ys(3) by (intro same_at_write) auto
    then have "view_elems view ys ?h2 = Some (v, B)"
      using deep_copy.view_same [OF E ys(2)] unfolding w by blast
    then have "view_slice K view (Some (length h, 0, length ys)) ?h2 = Some (v, insert (length h) B)"
      by (simp add: view_slice_def load_slice_new [OF K] slice_cells_def)
    moreover have "copy_slice K into s h = Some (Some (length h, 0, length ys), ?h2)"
      using xs(1) ys(1) w by (simp add: copy_slice_def Some alloc_def)
    moreover have "insert (length h) B \<subseteq> {length h..<length ?h2}" using ys(3) by auto
    ultimately show ?thesis by blast
  qed
qed

section \<open>Maps\<close>

text \<open>The loop \<open>for key, val := range *in { (*out)[key] = val }\<close> over the keys in some order.\<close>

definition copy_entries :: "('k, 'v) fmap \<Rightarrow> 'k list \<Rightarrow> ('k, 'v) fmap" where
  "copy_entries m ks =
     fold (\<lambda>k out. case fmlookup m k of None \<Rightarrow> out | Some v \<Rightarrow> fmupd k v out) ks fmempty"

lemma lookup_copy_entries:
  "fmlookup (fold (\<lambda>k out. case fmlookup m k of None \<Rightarrow> out | Some v \<Rightarrow> fmupd k v out) ks out) j =
     (if j \<in> set ks \<and> fmlookup m j \<noteq> None then fmlookup m j else fmlookup out j)"
  by (induction ks arbitrary: out) (auto split: option.split)

text \<open>Whatever the order, the entries make up the map.\<close>

lemma copy_entries_all: "set ks = fset (fmdom m) \<Longrightarrow> copy_entries m ks = m"
proof (rule fmap_ext)
  fix j
  assume "set ks = fset (fmdom m)"
  then have "fmlookup m j = None" if "j \<notin> set ks" using that by (simp add: fmdom_notD)
  then show "fmlookup (copy_entries m ks) j = fmlookup m j"
    unfolding copy_entries_def lookup_copy_entries by auto
qed

text \<open>\<open>*out = make(map[K]V, len(*in))\<close> and the loop; a nil map is left alone.\<close>

definition copy_map :: "('c, ('k::linorder, 'v) fmap) cell_type \<Rightarrow> ptr \<Rightarrow> 'c list \<Rightarrow> (ptr \<times> 'c list) option" where
  "copy_map K p h =
     (case p of
        None \<Rightarrow> Some (None, h)
      | Some a \<Rightarrow>
          do { m \<leftarrow> load K a h;
               let (b, h1) = alloc (mk K fmempty) h;
               Some (Some b, h1[b := mk K (copy_entries m (sorted_list_of_set (fset (fmdom m))))]) })"

definition view_map :: "('c, ('k, 'v) fmap) cell_type \<Rightarrow> ptr \<Rightarrow> 'c list \<Rightarrow> (('k, 'v) fmap \<times> nat set) option" where
  "view_map K p h =
     (case p of None \<Rightarrow> Some (fmempty, {}) | Some a \<Rightarrow> do { m \<leftarrow> load K a h; Some (m, {a}) })"

lemma deep_copy_map:
  assumes K: "cell_kind K"
  shows "deep_copy (view_map K) (copy_map K)"
proof
  fix p h v A
  assume v: "view_map K p h = Some (v, A)"
  then show "A \<subseteq> {..<length h}"
    by (auto simp: view_map_def bind_eq_Some_conv dest: load_bound split: option.splits)
  show "view_map K p h' = Some (v, A)" if "same_at A h h'" for h'
    using v that by (auto simp: view_map_def bind_eq_Some_conv split: option.splits dest: load_same)
  have "copy_entries m (sorted_list_of_set (fset (fmdom m))) = m" for m :: "('k::linorder, 'v) fmap"
    by (rule copy_entries_all) simp
  then show "\<exists>q d B. copy_map K p h = Some (q, h @ d) \<and> view_map K q (h @ d) = Some (v, B) \<and>
      B \<subseteq> {length h..<length (h @ d)}"
    using v cell_kind.dest_mk [OF K]
    by (cases p) (auto simp: copy_map_def view_map_def bind_eq_Some_conv alloc_def load_def)
qed

section \<open>Fields one after the other\<close>

definition view_both :: "('x \<Rightarrow> 'c list \<Rightarrow> ('v \<times> nat set) option) \<Rightarrow> ('y \<Rightarrow> 'c list \<Rightarrow> ('u \<times> nat set) option) \<Rightarrow>
  'x \<times> 'y \<Rightarrow> 'c list \<Rightarrow> (('v \<times> 'u) \<times> nat set) option"
where
  "view_both V U p h =
     do { (v, A) \<leftarrow> V (fst p) h; (u, B) \<leftarrow> U (snd p) h; Some ((v, u), A \<union> B) }"

definition copy_both :: "('x \<Rightarrow> 'c list \<Rightarrow> ('x \<times> 'c list) option) \<Rightarrow> ('y \<Rightarrow> 'c list \<Rightarrow> ('y \<times> 'c list) option) \<Rightarrow>
  'x \<times> 'y \<Rightarrow> 'c list \<Rightarrow> (('x \<times> 'y) \<times> 'c list) option"
where
  "copy_both C D p h =
     do { (x, h1) \<leftarrow> C (fst p) h; (y, h2) \<leftarrow> D (snd p) h1; Some ((x, y), h2) }"

lemma deep_copy_both:
  assumes C: "deep_copy V C" and D: "deep_copy U D"
  shows "deep_copy (view_both V U) (copy_both C D)"
proof
  fix p h v A
  assume "view_both V U p h = Some (v, A)"
  then obtain v1 v2 A1 A2 where v: "V (fst p) h = Some (v1, A1)" "U (snd p) h = Some (v2, A2)"
    "v = (v1, v2)" "A = A1 \<union> A2" by (auto simp: view_both_def bind_eq_Some_conv)
  then show "A \<subseteq> {..<length h}" using deep_copy.view_bounds [OF C] deep_copy.view_bounds [OF D] by blast
  show "view_both V U p h' = Some (v, A)" if "same_at A h h'" for h'
    using that deep_copy.view_same [OF C v(1), of h'] deep_copy.view_same [OF D v(2), of h'] v(3,4)
    by (simp add: view_both_def)
  from deep_copy.copy_fresh [OF C v(1)] obtain x d B1 where x: "C (fst p) h = Some (x, h @ d)"
    "V x (h @ d) = Some (v1, B1)" "B1 \<subseteq> {length h..<length (h @ d)}" by blast
  from deep_copy.copy_fresh [OF D deep_copy.view_append [OF D v(2)]] obtain y e B2 where
    y: "D (snd p) (h @ d) = Some (y, (h @ d) @ e)" "U y ((h @ d) @ e) = Some (v2, B2)"
    "B2 \<subseteq> {length (h @ d)..<length ((h @ d) @ e)}" by blast
  have "V x ((h @ d) @ e) = Some (v1, B1)" using x(2) by (rule deep_copy.view_append [OF C])
  then show "\<exists>q d B. copy_both C D p h = Some (q, h @ d) \<and> view_both V U q (h @ d) = Some (v, B) \<and>
      B \<subseteq> {length h..<length (h @ d)}"
    using x y v(3)
    by (intro exI [of _ "(x, y)"] exI [of _ "d @ e"] exI [of _ "B1 \<union> B2"])
      (auto simp: copy_both_def view_both_def)
qed

text \<open>
  A struct: \<open>parts\<close> takes out of it the fields that need a copy and \<open>put\<close> assigns them to the struct;
  \<open>val\<close> makes up the value it denotes.
\<close>

definition view_struct :: "('s \<Rightarrow> 'x) \<Rightarrow> ('s \<Rightarrow> 'v \<Rightarrow> 'u) \<Rightarrow> ('x \<Rightarrow> 'c list \<Rightarrow> ('v \<times> nat set) option) \<Rightarrow>
  's \<Rightarrow> 'c list \<Rightarrow> ('u \<times> nat set) option"
where
  "view_struct parts val V s h = do { (v, A) \<leftarrow> V (parts s) h; Some (val s v, A) }"

lemma deep_copy_struct:
  assumes C: "deep_copy V C"
    and into: "\<And>s h. into s h = do { (x, h1) \<leftarrow> C (parts s) h; Some (put x s, h1) }"
    and put: "\<And>s x. parts (put x s) = x" "\<And>s x v. val (put x s) v = val s v"
  shows "deep_copy (view_struct parts val V) into"
proof
  fix s h v A
  assume "view_struct parts val V s h = Some (v, A)"
  then obtain u where u: "V (parts s) h = Some (u, A)" "v = val s u"
    by (auto simp: view_struct_def bind_eq_Some_conv)
  then show "A \<subseteq> {..<length h}" using deep_copy.view_bounds [OF C] by blast
  show "view_struct parts val V s h' = Some (v, A)" if "same_at A h h'" for h'
    using deep_copy.view_same [OF C u(1) that] u(2) by (simp add: view_struct_def)
  show "\<exists>q d B. into s h = Some (q, h @ d) \<and> view_struct parts val V q (h @ d) = Some (v, B) \<and>
      B \<subseteq> {length h..<length (h @ d)}"
    using deep_copy.copy_fresh [OF C u(1)] u(2) by (auto simp: into view_struct_def put)
qed

lemmas struct_simps = copy_both_def case_prod_unfold

end
