(* ===== verification/Deep_Copy.thy ===== *)
theory Deep_Copy
  imports Go_Heap Api_Types
begin

text \<open>
  The generated deep copies, \<open>api/v1alpha1/zz_generated.deepcopy.go\<close>, on the memory of \<open>Go_Heap\<close>.
  The structs of \<open>Api_Types\<close> are values; here is what lies in memory, the struct \<open>T\<close> being the record
  \<open>T_go\<close> with the pointers, slices and maps of the Go declaration as addresses (a struct without any
  is the record of \<open>Api_Types\<close> itself).  \<open>T_DeepCopyInto\<close> takes the struct \<open>in\<close> points to and returns
  what it stores in \<open>*out\<close>; a result \<open>None\<close> stands for the dereference of an address that holds no
  such value.  \<open>view_T\<close> is the value of \<open>Api_Types\<close> the struct denotes, a nil map or slice denoting the
  empty one.

  The structs of the Kubernetes libraries and their deep copies are not sources of the operator: a
  library struct is a value of the type \<open>'l\<close>, its \<open>DeepCopyInto\<close> a field of \<open>deepcopy_api\<close>, its
  meaning a field of \<open>library_views\<close>, and the contract is the locale \<open>deepcopy_library\<close>.
\<close>

section \<open>The structs in memory\<close>

record TypeMeta =
  Kind :: string
  APIVersion :: string

record ListMeta =
  ResourceVersion :: string
  Continue :: string
  RemainingItemCount :: "int64 option"

record PodMetadataSpec_go =
  PodMetadata_Labels_go :: ptr
  PodMetadata_Annotations_go :: ptr

record ProviderSpec_go =
  Provider_Type_go :: string
  Model_go :: string
  BaseURL_go :: ptr
  CredentialsSecretRef_go :: ptr

record RuntimeImageSpec_go =
  Repository_go :: string
  Tag_go :: ptr
  Digest_go :: ptr
  PullPolicy_go :: string

record 'l RuntimeNetworkPolicyIngressRule_go =
  NamespaceSelector_go :: 'l
  PodSelector_go :: ptr

record RuntimeNetworkPolicySpec_go =
  NetworkPolicy_Enabled_go :: bool
  NetworkPolicy_Ingress_go :: slice

record RuntimeSettingsSpec_go =
  ProviderRequestTimeoutSeconds_go :: ptr
  StreamIdleTimeoutSeconds_go :: ptr
  ShutdownDrainTimeoutSeconds_go :: ptr

record SchedulingSpec_go =
  NodeSelector_go :: ptr
  Tolerations_go :: slice
  Affinity_go :: ptr

record 'l TrussiumRuntimeSpec_go =
  Image_go :: RuntimeImageSpec_go
  Replicas_go :: ptr
  ImagePullSecrets_go :: slice
  Provider_go :: ProviderSpec_go
  Runtime_go :: ptr
  Service_go :: RuntimeServiceSpec
  NetworkPolicy_go :: ptr
  Autoscaling_go :: ptr
  Resources_go :: 'l
  PodMetadata_go :: ptr
  Scheduling_go :: ptr

record TrussiumRuntimeStatus_go =
  ObservedGeneration_go :: int64
  ReadyReplicas_go :: int32
  AvailableReplicas_go :: int32
  DesiredImage_go :: string
  CurrentImage_go :: string
  LastSuccessfulImage_go :: string
  Endpoint_go :: string
  Conditions_go :: slice

record 'l TrussiumRuntime_go =
  TypeMeta_go :: TypeMeta
  ObjectMeta_go :: 'l
  Spec_go :: "'l TrussiumRuntimeSpec_go"
  Status_go :: TrussiumRuntimeStatus_go

record 'l TrussiumRuntimeList_go =
  List_TypeMeta_go :: TypeMeta
  ListMeta_go :: 'l
  Items_go :: slice

text \<open>The cells: one constructor per type the sources allocate, and one for what a library allocates.\<close>

datatype 'l cell =
    is_String: StringCell (the_String: string)
  | is_Int32: Int32Cell (the_Int32: int32)
  | is_Map: MapCell (the_Map: gomap)
  | is_NamedReference: NamedReferenceCell (the_NamedReference: NamedReference)
  | is_NamedReferences: NamedReferencesCell (the_NamedReferences: "NamedReference list")
  | is_SecretKeyReference: SecretKeyReferenceCell (the_SecretKeyReference: SecretKeyReference)
  | is_PodMetadata: PodMetadataCell (the_PodMetadata: PodMetadataSpec_go)
  | is_Provider: ProviderCell (the_Provider: ProviderSpec_go)
  | is_Autoscaling: AutoscalingCell (the_Autoscaling: RuntimeAutoscalingSpec)
  | is_Image: ImageCell (the_Image: RuntimeImageSpec_go)
  | is_Rule: RuleCell (the_Rule: "'l RuntimeNetworkPolicyIngressRule_go")
  | is_Rules: RulesCell (the_Rules: "'l RuntimeNetworkPolicyIngressRule_go list")
  | is_NetworkPolicy: NetworkPolicyCell (the_NetworkPolicy: RuntimeNetworkPolicySpec_go)
  | is_Service: ServiceCell (the_Service: RuntimeServiceSpec)
  | is_Settings: SettingsCell (the_Settings: RuntimeSettingsSpec_go)
  | is_Scheduling: SchedulingCell (the_Scheduling: SchedulingSpec_go)
  | is_Runtime: RuntimeCell (the_Runtime: "'l TrussiumRuntime_go")
  | is_Runtimes: RuntimesCell (the_Runtimes: "'l TrussiumRuntime_go list")
  | is_RuntimeList: RuntimeListCell (the_RuntimeList: "'l TrussiumRuntimeList_go")
  | is_Spec: SpecCell (the_Spec: "'l TrussiumRuntimeSpec_go")
  | is_Status: StatusCell (the_Status: TrussiumRuntimeStatus_go)
  | is_Conditions: ConditionsCell (the_Conditions: "Condition list")
  | is_Library: LibraryCell (the_Library: 'l)
  | is_Libraries: LibrariesCell (the_Libraries: "'l list")

type_synonym 'l heap = "'l cell list"

definition kind_of :: "('x \<Rightarrow> 'l cell) \<Rightarrow> ('l cell \<Rightarrow> bool) \<Rightarrow> ('l cell \<Rightarrow> 'x) \<Rightarrow> ('l cell, 'x) cell_type" where
  "kind_of con is sel = \<lparr>mk = con, dest = (\<lambda>c. if is c then Some (sel c) else None)\<rparr>"

lemma cell_kind_of: "(\<And>x. is (con x)) \<Longrightarrow> (\<And>x. sel (con x) = x) \<Longrightarrow> cell_kind (kind_of con is sel)"
  by unfold_locales (simp add: kind_of_def)

abbreviation "KString \<equiv> kind_of StringCell is_String the_String"
abbreviation "KInt32 \<equiv> kind_of Int32Cell is_Int32 the_Int32"
abbreviation "KMap \<equiv> kind_of MapCell is_Map the_Map"
abbreviation "KNamedReference \<equiv> kind_of NamedReferenceCell is_NamedReference the_NamedReference"
abbreviation "KNamedReferences \<equiv> kind_of NamedReferencesCell is_NamedReferences the_NamedReferences"
abbreviation "KSecretKeyReference \<equiv> kind_of SecretKeyReferenceCell is_SecretKeyReference the_SecretKeyReference"
abbreviation "KPodMetadata \<equiv> kind_of PodMetadataCell is_PodMetadata the_PodMetadata"
abbreviation "KProvider \<equiv> kind_of ProviderCell is_Provider the_Provider"
abbreviation "KAutoscaling \<equiv> kind_of AutoscalingCell is_Autoscaling the_Autoscaling"
abbreviation "KImage \<equiv> kind_of ImageCell is_Image the_Image"
abbreviation "KRule \<equiv> kind_of RuleCell is_Rule the_Rule"
abbreviation "KRules \<equiv> kind_of RulesCell is_Rules the_Rules"
abbreviation "KRuntimeNetworkPolicy \<equiv> kind_of NetworkPolicyCell is_NetworkPolicy the_NetworkPolicy"
abbreviation "KRuntimeService \<equiv> kind_of ServiceCell is_Service the_Service"
abbreviation "KSettings \<equiv> kind_of SettingsCell is_Settings the_Settings"
abbreviation "KScheduling \<equiv> kind_of SchedulingCell is_Scheduling the_Scheduling"
abbreviation "KRuntime \<equiv> kind_of RuntimeCell is_Runtime the_Runtime"
abbreviation "KRuntimes \<equiv> kind_of RuntimesCell is_Runtimes the_Runtimes"
abbreviation "KRuntimeList \<equiv> kind_of RuntimeListCell is_RuntimeList the_RuntimeList"
abbreviation "KSpec \<equiv> kind_of SpecCell is_Spec the_Spec"
abbreviation "KStatus \<equiv> kind_of StatusCell is_Status the_Status"
abbreviation "KConditions \<equiv> kind_of ConditionsCell is_Conditions the_Conditions"
abbreviation "KLibrary \<equiv> kind_of LibraryCell is_Library the_Library"
abbreviation "KLibraries \<equiv> kind_of LibrariesCell is_Libraries the_Libraries"

lemma cell_kinds [simp]:
  "cell_kind KString" "cell_kind KInt32" "cell_kind KMap" "cell_kind KNamedReference"
  "cell_kind KNamedReferences" "cell_kind KSecretKeyReference" "cell_kind KPodMetadata" "cell_kind KProvider"
  "cell_kind KAutoscaling" "cell_kind KImage" "cell_kind KRule" "cell_kind KRules"
  "cell_kind KRuntimeNetworkPolicy" "cell_kind KRuntimeService" "cell_kind KSettings" "cell_kind KScheduling"
  "cell_kind KRuntime" "cell_kind KRuntimes" "cell_kind KRuntimeList" "cell_kind KSpec" "cell_kind KStatus"
  "cell_kind KConditions" "cell_kind KLibrary" "cell_kind KLibraries"
  by (simp_all add: cell_kind_of)

section \<open>The libraries\<close>

record 'l deepcopy_api =
  LabelSelector_DeepCopyInto :: "'l \<Rightarrow> 'l heap \<Rightarrow> ('l \<times> 'l heap) option"
  Toleration_DeepCopyInto :: "'l \<Rightarrow> 'l heap \<Rightarrow> ('l \<times> 'l heap) option"
  Affinity_DeepCopyInto :: "'l \<Rightarrow> 'l heap \<Rightarrow> ('l \<times> 'l heap) option"
  ResourceRequirements_DeepCopyInto :: "'l \<Rightarrow> 'l heap \<Rightarrow> ('l \<times> 'l heap) option"
  ObjectMeta_DeepCopyInto :: "'l \<Rightarrow> 'l heap \<Rightarrow> ('l \<times> 'l heap) option"
  ListMeta_DeepCopyInto :: "'l \<Rightarrow> 'l heap \<Rightarrow> ('l \<times> 'l heap) option"
  Condition_DeepCopyInto :: "Condition \<Rightarrow> 'l heap \<Rightarrow> (Condition \<times> 'l heap) option"

record 'l library_views =
  view_LabelSelector :: "'l \<Rightarrow> 'l heap \<Rightarrow> (LabelSelector \<times> nat set) option"
  view_Toleration :: "'l \<Rightarrow> 'l heap \<Rightarrow> (Toleration \<times> nat set) option"
  view_Affinity :: "'l \<Rightarrow> 'l heap \<Rightarrow> (Affinity \<times> nat set) option"
  view_ResourceRequirements :: "'l \<Rightarrow> 'l heap \<Rightarrow> (ResourceRequirements \<times> nat set) option"
  view_ObjectMeta :: "'l \<Rightarrow> 'l heap \<Rightarrow> (ObjectMeta \<times> nat set) option"
  view_ListMeta :: "'l \<Rightarrow> 'l heap \<Rightarrow> (ListMeta \<times> nat set) option"

locale deepcopy_library =
  fixes L :: "'l deepcopy_api" and V :: "'l library_views"
  assumes copies_LabelSelector: "deep_copy (view_LabelSelector V) (LabelSelector_DeepCopyInto L)"
    and copies_Toleration: "deep_copy (view_Toleration V) (Toleration_DeepCopyInto L)"
    and copies_Affinity: "deep_copy (view_Affinity V) (Affinity_DeepCopyInto L)"
    and copies_ResourceRequirements:
      "deep_copy (view_ResourceRequirements V) (ResourceRequirements_DeepCopyInto L)"
    and copies_ObjectMeta: "deep_copy (view_ObjectMeta V) (ObjectMeta_DeepCopyInto L)"
    and copies_ListMeta: "deep_copy (view_ListMeta V) (ListMeta_DeepCopyInto L)"
    and copies_Condition: "deep_copy view_value (Condition_DeepCopyInto L)"

section \<open>The copies\<close>

text \<open>\<open>DeepCopy\<close> of every struct: nil for nil, and otherwise \<open>out := new(T); in.DeepCopyInto(out)\<close>.\<close>

definition NamedReference_DeepCopyInto :: "NamedReference \<Rightarrow> 'l heap \<Rightarrow> (NamedReference \<times> 'l heap) option" where
  "NamedReference_DeepCopyInto x h = assign x h"

definition NamedReference_DeepCopy :: "ptr \<Rightarrow> 'l heap \<Rightarrow> (ptr \<times> 'l heap) option" where
  "NamedReference_DeepCopy p h = copy_ptr KNamedReference NamedReference_DeepCopyInto p h"

definition PodMetadataSpec_DeepCopyInto :: "PodMetadataSpec_go \<Rightarrow> 'l heap \<Rightarrow> (PodMetadataSpec_go \<times> 'l heap) option"
where
  "PodMetadataSpec_DeepCopyInto x h =
     do { (labels, h) \<leftarrow> copy_map KMap (PodMetadata_Labels_go x) h;
          (annotations, h) \<leftarrow> copy_map KMap (PodMetadata_Annotations_go x) h;
          Some (x\<lparr>PodMetadata_Labels_go := labels, PodMetadata_Annotations_go := annotations\<rparr>, h) }"

definition PodMetadataSpec_DeepCopy :: "ptr \<Rightarrow> 'l heap \<Rightarrow> (ptr \<times> 'l heap) option" where
  "PodMetadataSpec_DeepCopy p h = copy_ptr KPodMetadata PodMetadataSpec_DeepCopyInto p h"

definition ProviderSpec_DeepCopyInto :: "ProviderSpec_go \<Rightarrow> 'l heap \<Rightarrow> (ProviderSpec_go \<times> 'l heap) option" where
  "ProviderSpec_DeepCopyInto x h =
     do { (base, h) \<leftarrow> copy_ptr KString assign (BaseURL_go x) h;
          (ref, h) \<leftarrow> copy_ptr KSecretKeyReference assign (CredentialsSecretRef_go x) h;
          Some (x\<lparr>BaseURL_go := base, CredentialsSecretRef_go := ref\<rparr>, h) }"

definition ProviderSpec_DeepCopy :: "ptr \<Rightarrow> 'l heap \<Rightarrow> (ptr \<times> 'l heap) option" where
  "ProviderSpec_DeepCopy p h = copy_ptr KProvider ProviderSpec_DeepCopyInto p h"

definition RuntimeAutoscalingSpec_DeepCopyInto ::
  "RuntimeAutoscalingSpec \<Rightarrow> 'l heap \<Rightarrow> (RuntimeAutoscalingSpec \<times> 'l heap) option"
where
  "RuntimeAutoscalingSpec_DeepCopyInto x h = assign x h"

definition RuntimeAutoscalingSpec_DeepCopy :: "ptr \<Rightarrow> 'l heap \<Rightarrow> (ptr \<times> 'l heap) option" where
  "RuntimeAutoscalingSpec_DeepCopy p h = copy_ptr KAutoscaling RuntimeAutoscalingSpec_DeepCopyInto p h"

definition RuntimeImageSpec_DeepCopyInto :: "RuntimeImageSpec_go \<Rightarrow> 'l heap \<Rightarrow> (RuntimeImageSpec_go \<times> 'l heap) option"
where
  "RuntimeImageSpec_DeepCopyInto x h =
     do { (tag, h) \<leftarrow> copy_ptr KString assign (Tag_go x) h;
          (digest, h) \<leftarrow> copy_ptr KString assign (Digest_go x) h;
          Some (x\<lparr>Tag_go := tag, Digest_go := digest\<rparr>, h) }"

definition RuntimeImageSpec_DeepCopy :: "ptr \<Rightarrow> 'l heap \<Rightarrow> (ptr \<times> 'l heap) option" where
  "RuntimeImageSpec_DeepCopy p h = copy_ptr KImage RuntimeImageSpec_DeepCopyInto p h"

definition RuntimeNetworkPolicyIngressRule_DeepCopyInto :: "'l deepcopy_api \<Rightarrow>
  'l RuntimeNetworkPolicyIngressRule_go \<Rightarrow> 'l heap \<Rightarrow> ('l RuntimeNetworkPolicyIngressRule_go \<times> 'l heap) option"
where
  "RuntimeNetworkPolicyIngressRule_DeepCopyInto L x h =
     do { (namespaces, h) \<leftarrow> LabelSelector_DeepCopyInto L (NamespaceSelector_go x) h;
          (pods, h) \<leftarrow> copy_ptr KLibrary (LabelSelector_DeepCopyInto L) (PodSelector_go x) h;
          Some (x\<lparr>NamespaceSelector_go := namespaces, PodSelector_go := pods\<rparr>, h) }"

definition RuntimeNetworkPolicyIngressRule_DeepCopy ::
  "'l deepcopy_api \<Rightarrow> ptr \<Rightarrow> 'l heap \<Rightarrow> (ptr \<times> 'l heap) option"
where
  "RuntimeNetworkPolicyIngressRule_DeepCopy L p h =
     copy_ptr KRule (RuntimeNetworkPolicyIngressRule_DeepCopyInto L) p h"

definition RuntimeNetworkPolicySpec_DeepCopyInto :: "'l deepcopy_api \<Rightarrow>
  RuntimeNetworkPolicySpec_go \<Rightarrow> 'l heap \<Rightarrow> (RuntimeNetworkPolicySpec_go \<times> 'l heap) option"
where
  "RuntimeNetworkPolicySpec_DeepCopyInto L x h =
     do { (ingress, h) \<leftarrow> copy_slice KRules (RuntimeNetworkPolicyIngressRule_DeepCopyInto L)
            (NetworkPolicy_Ingress_go x) h;
          Some (x\<lparr>NetworkPolicy_Ingress_go := ingress\<rparr>, h) }"

definition RuntimeNetworkPolicySpec_DeepCopy :: "'l deepcopy_api \<Rightarrow> ptr \<Rightarrow> 'l heap \<Rightarrow> (ptr \<times> 'l heap) option" where
  "RuntimeNetworkPolicySpec_DeepCopy L p h =
     copy_ptr KRuntimeNetworkPolicy (RuntimeNetworkPolicySpec_DeepCopyInto L) p h"

definition RuntimeServiceSpec_DeepCopyInto :: "RuntimeServiceSpec \<Rightarrow> 'l heap \<Rightarrow> (RuntimeServiceSpec \<times> 'l heap) option"
where
  "RuntimeServiceSpec_DeepCopyInto x h = assign x h"

definition RuntimeServiceSpec_DeepCopy :: "ptr \<Rightarrow> 'l heap \<Rightarrow> (ptr \<times> 'l heap) option" where
  "RuntimeServiceSpec_DeepCopy p h = copy_ptr KRuntimeService RuntimeServiceSpec_DeepCopyInto p h"

definition RuntimeSettingsSpec_DeepCopyInto ::
  "RuntimeSettingsSpec_go \<Rightarrow> 'l heap \<Rightarrow> (RuntimeSettingsSpec_go \<times> 'l heap) option"
where
  "RuntimeSettingsSpec_DeepCopyInto x h =
     do { (request, h) \<leftarrow> copy_ptr KInt32 assign (ProviderRequestTimeoutSeconds_go x) h;
          (idle, h) \<leftarrow> copy_ptr KInt32 assign (StreamIdleTimeoutSeconds_go x) h;
          (drain, h) \<leftarrow> copy_ptr KInt32 assign (ShutdownDrainTimeoutSeconds_go x) h;
          Some (x\<lparr>ProviderRequestTimeoutSeconds_go := request, StreamIdleTimeoutSeconds_go := idle,
                  ShutdownDrainTimeoutSeconds_go := drain\<rparr>, h) }"

definition RuntimeSettingsSpec_DeepCopy :: "ptr \<Rightarrow> 'l heap \<Rightarrow> (ptr \<times> 'l heap) option" where
  "RuntimeSettingsSpec_DeepCopy p h = copy_ptr KSettings RuntimeSettingsSpec_DeepCopyInto p h"

definition SchedulingSpec_DeepCopyInto :: "'l deepcopy_api \<Rightarrow>
  SchedulingSpec_go \<Rightarrow> 'l heap \<Rightarrow> (SchedulingSpec_go \<times> 'l heap) option"
where
  "SchedulingSpec_DeepCopyInto L x h =
     do { (selector, h) \<leftarrow> copy_map KMap (NodeSelector_go x) h;
          (tolerations, h) \<leftarrow> copy_slice KLibraries (Toleration_DeepCopyInto L) (Tolerations_go x) h;
          (affinity, h) \<leftarrow> copy_ptr KLibrary (Affinity_DeepCopyInto L) (Affinity_go x) h;
          Some (x\<lparr>NodeSelector_go := selector, Tolerations_go := tolerations, Affinity_go := affinity\<rparr>, h) }"

definition SchedulingSpec_DeepCopy :: "'l deepcopy_api \<Rightarrow> ptr \<Rightarrow> 'l heap \<Rightarrow> (ptr \<times> 'l heap) option" where
  "SchedulingSpec_DeepCopy L p h = copy_ptr KScheduling (SchedulingSpec_DeepCopyInto L) p h"

definition SecretKeyReference_DeepCopyInto :: "SecretKeyReference \<Rightarrow> 'l heap \<Rightarrow> (SecretKeyReference \<times> 'l heap) option"
where
  "SecretKeyReference_DeepCopyInto x h = assign x h"

definition SecretKeyReference_DeepCopy :: "ptr \<Rightarrow> 'l heap \<Rightarrow> (ptr \<times> 'l heap) option" where
  "SecretKeyReference_DeepCopy p h = copy_ptr KSecretKeyReference SecretKeyReference_DeepCopyInto p h"

definition TrussiumRuntimeSpec_DeepCopyInto :: "'l deepcopy_api \<Rightarrow>
  'l TrussiumRuntimeSpec_go \<Rightarrow> 'l heap \<Rightarrow> ('l TrussiumRuntimeSpec_go \<times> 'l heap) option"
where
  "TrussiumRuntimeSpec_DeepCopyInto L x h =
     do { (image, h) \<leftarrow> RuntimeImageSpec_DeepCopyInto (Image_go x) h;
          (replicas, h) \<leftarrow> copy_ptr KInt32 assign (Replicas_go x) h;
          (pulls, h) \<leftarrow> copy_slice KNamedReferences assign (ImagePullSecrets_go x) h;
          (provider, h) \<leftarrow> ProviderSpec_DeepCopyInto (Provider_go x) h;
          (runtime, h) \<leftarrow> copy_ptr KSettings RuntimeSettingsSpec_DeepCopyInto (Runtime_go x) h;
          (service, h) \<leftarrow> assign (Service_go x) h;
          (policy, h) \<leftarrow> copy_ptr KRuntimeNetworkPolicy (RuntimeNetworkPolicySpec_DeepCopyInto L) (NetworkPolicy_go x) h;
          (autoscaling, h) \<leftarrow> copy_ptr KAutoscaling assign (Autoscaling_go x) h;
          (resources, h) \<leftarrow> ResourceRequirements_DeepCopyInto L (Resources_go x) h;
          (metadata, h) \<leftarrow> copy_ptr KPodMetadata PodMetadataSpec_DeepCopyInto (PodMetadata_go x) h;
          (scheduling, h) \<leftarrow> copy_ptr KScheduling (SchedulingSpec_DeepCopyInto L) (Scheduling_go x) h;
          Some (x\<lparr>Image_go := image, Replicas_go := replicas, ImagePullSecrets_go := pulls,
                  Provider_go := provider, Runtime_go := runtime, Service_go := service,
                  NetworkPolicy_go := policy, Autoscaling_go := autoscaling, Resources_go := resources,
                  PodMetadata_go := metadata, Scheduling_go := scheduling\<rparr>, h) }"

definition TrussiumRuntimeSpec_DeepCopy :: "'l deepcopy_api \<Rightarrow> ptr \<Rightarrow> 'l heap \<Rightarrow> (ptr \<times> 'l heap) option" where
  "TrussiumRuntimeSpec_DeepCopy L p h = copy_ptr KSpec (TrussiumRuntimeSpec_DeepCopyInto L) p h"

definition TrussiumRuntimeStatus_DeepCopyInto :: "'l deepcopy_api \<Rightarrow>
  TrussiumRuntimeStatus_go \<Rightarrow> 'l heap \<Rightarrow> (TrussiumRuntimeStatus_go \<times> 'l heap) option"
where
  "TrussiumRuntimeStatus_DeepCopyInto L x h =
     do { (conditions, h) \<leftarrow> copy_slice KConditions (Condition_DeepCopyInto L) (Conditions_go x) h;
          Some (x\<lparr>Conditions_go := conditions\<rparr>, h) }"

definition TrussiumRuntimeStatus_DeepCopy :: "'l deepcopy_api \<Rightarrow> ptr \<Rightarrow> 'l heap \<Rightarrow> (ptr \<times> 'l heap) option" where
  "TrussiumRuntimeStatus_DeepCopy L p h = copy_ptr KStatus (TrussiumRuntimeStatus_DeepCopyInto L) p h"

definition TrussiumRuntime_DeepCopyInto :: "'l deepcopy_api \<Rightarrow>
  'l TrussiumRuntime_go \<Rightarrow> 'l heap \<Rightarrow> ('l TrussiumRuntime_go \<times> 'l heap) option"
where
  "TrussiumRuntime_DeepCopyInto L x h =
     do { (meta, h) \<leftarrow> ObjectMeta_DeepCopyInto L (ObjectMeta_go x) h;
          (spec, h) \<leftarrow> TrussiumRuntimeSpec_DeepCopyInto L (Spec_go x) h;
          (status, h) \<leftarrow> TrussiumRuntimeStatus_DeepCopyInto L (Status_go x) h;
          Some (x\<lparr>ObjectMeta_go := meta, Spec_go := spec, Status_go := status\<rparr>, h) }"

definition TrussiumRuntime_DeepCopy :: "'l deepcopy_api \<Rightarrow> ptr \<Rightarrow> 'l heap \<Rightarrow> (ptr \<times> 'l heap) option" where
  "TrussiumRuntime_DeepCopy L p h = copy_ptr KRuntime (TrussiumRuntime_DeepCopyInto L) p h"

definition TrussiumRuntimeList_DeepCopyInto :: "'l deepcopy_api \<Rightarrow>
  'l TrussiumRuntimeList_go \<Rightarrow> 'l heap \<Rightarrow> ('l TrussiumRuntimeList_go \<times> 'l heap) option"
where
  "TrussiumRuntimeList_DeepCopyInto L x h =
     do { (meta, h) \<leftarrow> ListMeta_DeepCopyInto L (ListMeta_go x) h;
          (items, h) \<leftarrow> copy_slice KRuntimes (TrussiumRuntime_DeepCopyInto L) (Items_go x) h;
          Some (x\<lparr>ListMeta_go := meta, Items_go := items\<rparr>, h) }"

definition TrussiumRuntimeList_DeepCopy :: "'l deepcopy_api \<Rightarrow> ptr \<Rightarrow> 'l heap \<Rightarrow> (ptr \<times> 'l heap) option" where
  "TrussiumRuntimeList_DeepCopy L p h = copy_ptr KRuntimeList (TrussiumRuntimeList_DeepCopyInto L) p h"

text \<open>
  A \<open>runtime.Object\<close>: the nil interface, or an interface that holds a pointer, which may itself be nil.
  The two are different values of Go, and only the first is equal to \<open>nil\<close>.
\<close>

datatype runtime_Object = nil_Object | RuntimeObject ptr | RuntimeListObject ptr

definition TrussiumRuntime_DeepCopyObject ::
  "'l deepcopy_api \<Rightarrow> ptr \<Rightarrow> 'l heap \<Rightarrow> (runtime_Object \<times> 'l heap) option"
where
  "TrussiumRuntime_DeepCopyObject L p h =
     do { (c, h) \<leftarrow> TrussiumRuntime_DeepCopy L p h;
          Some (if c \<noteq> None then RuntimeObject c else nil_Object, h) }"

definition TrussiumRuntimeList_DeepCopyObject ::
  "'l deepcopy_api \<Rightarrow> ptr \<Rightarrow> 'l heap \<Rightarrow> (runtime_Object \<times> 'l heap) option"
where
  "TrussiumRuntimeList_DeepCopyObject L p h =
     do { (c, h) \<leftarrow> TrussiumRuntimeList_DeepCopy L p h;
          Some (if c \<noteq> None then RuntimeListObject c else nil_Object, h) }"

section \<open>What the structs denote\<close>

definition view_PodMetadataSpec :: "PodMetadataSpec_go \<Rightarrow> 'l heap \<Rightarrow> (PodMetadataSpec \<times> nat set) option" where
  "view_PodMetadataSpec =
     view_struct (\<lambda>x. (PodMetadata_Labels_go x, PodMetadata_Annotations_go x))
       (\<lambda>x (labels, annotations). \<lparr>PodMetadata_Labels = labels, PodMetadata_Annotations = annotations\<rparr>)
       (view_both (view_map KMap) (view_map KMap))"

definition view_ProviderSpec :: "ProviderSpec_go \<Rightarrow> 'l heap \<Rightarrow> (ProviderSpec \<times> nat set) option" where
  "view_ProviderSpec =
     view_struct (\<lambda>x. (BaseURL_go x, CredentialsSecretRef_go x))
       (\<lambda>x (base, ref). \<lparr>Provider_Type = Provider_Type_go x, Model = Model_go x, BaseURL = base,
          CredentialsSecretRef = ref\<rparr>)
       (view_both (view_ptr KString view_value) (view_ptr KSecretKeyReference view_value))"

definition view_RuntimeImageSpec :: "RuntimeImageSpec_go \<Rightarrow> 'l heap \<Rightarrow> (RuntimeImageSpec \<times> nat set) option" where
  "view_RuntimeImageSpec =
     view_struct (\<lambda>x. (Tag_go x, Digest_go x))
       (\<lambda>x (tag, digest). \<lparr>Repository = Repository_go x, Tag = tag, Digest = digest, PullPolicy = PullPolicy_go x\<rparr>)
       (view_both (view_ptr KString view_value) (view_ptr KString view_value))"

definition view_Rule :: "'l library_views \<Rightarrow>
  'l RuntimeNetworkPolicyIngressRule_go \<Rightarrow> 'l heap \<Rightarrow> (RuntimeNetworkPolicyIngressRule \<times> nat set) option"
where
  "view_Rule V =
     view_struct (\<lambda>x. (NamespaceSelector_go x, PodSelector_go x))
       (\<lambda>x (namespaces, pods). \<lparr>Rule_NamespaceSelector = namespaces, Rule_PodSelector = pods\<rparr>)
       (view_both (view_LabelSelector V) (view_ptr KLibrary (view_LabelSelector V)))"

definition view_NetworkPolicySpec :: "'l library_views \<Rightarrow>
  RuntimeNetworkPolicySpec_go \<Rightarrow> 'l heap \<Rightarrow> (RuntimeNetworkPolicySpec \<times> nat set) option"
where
  "view_NetworkPolicySpec V =
     view_struct NetworkPolicy_Ingress_go
       (\<lambda>x ingress. \<lparr>NetworkPolicy_Enabled = NetworkPolicy_Enabled_go x, NetworkPolicy_Ingress = ingress\<rparr>)
       (view_slice KRules (view_Rule V))"

definition view_RuntimeSettingsSpec ::
  "RuntimeSettingsSpec_go \<Rightarrow> 'l heap \<Rightarrow> (RuntimeSettingsSpec \<times> nat set) option"
where
  "view_RuntimeSettingsSpec =
     view_struct (\<lambda>x. (ProviderRequestTimeoutSeconds_go x, StreamIdleTimeoutSeconds_go x, ShutdownDrainTimeoutSeconds_go x))
       (\<lambda>x (request, idle, drain). \<lparr>ProviderRequestTimeoutSeconds = request, StreamIdleTimeoutSeconds = idle,
          ShutdownDrainTimeoutSeconds = drain\<rparr>)
       (view_both (view_ptr KInt32 view_value)
          (view_both (view_ptr KInt32 view_value) (view_ptr KInt32 view_value)))"

definition view_SchedulingSpec :: "'l library_views \<Rightarrow>
  SchedulingSpec_go \<Rightarrow> 'l heap \<Rightarrow> (SchedulingSpec \<times> nat set) option"
where
  "view_SchedulingSpec V =
     view_struct (\<lambda>x. (NodeSelector_go x, Tolerations_go x, Affinity_go x))
       (\<lambda>x (selector, tolerations, affinity). \<lparr>NodeSelector = selector, Tolerations = tolerations,
          Scheduling_Affinity = affinity\<rparr>)
       (view_both (view_map KMap)
          (view_both (view_slice KLibraries (view_Toleration V)) (view_ptr KLibrary (view_Affinity V))))"

definition view_Spec :: "'l library_views \<Rightarrow>
  'l TrussiumRuntimeSpec_go \<Rightarrow> 'l heap \<Rightarrow> (TrussiumRuntimeSpec \<times> nat set) option"
where
  "view_Spec V =
     view_struct (\<lambda>x. (Image_go x, Replicas_go x, ImagePullSecrets_go x, Provider_go x, Runtime_go x, Service_go x,
          NetworkPolicy_go x, Autoscaling_go x, Resources_go x, PodMetadata_go x, Scheduling_go x))
       (\<lambda>x (image, replicas, pulls, provider, runtime, service, policy, autoscaling, resources, metadata,
             scheduling).
          \<lparr>Image = image, Spec_Replicas = replicas, ImagePullSecrets = pulls, Provider = provider,
           Runtime = runtime, RuntimeService = service, RuntimeNetworkPolicy = policy, Autoscaling = autoscaling,
           Resources = resources, PodMetadata = metadata, Scheduling = scheduling\<rparr>)
       (view_both view_RuntimeImageSpec (view_both (view_ptr KInt32 view_value)
         (view_both (view_slice KNamedReferences view_value) (view_both view_ProviderSpec
         (view_both (view_ptr KSettings view_RuntimeSettingsSpec) (view_both view_value
         (view_both (view_ptr KRuntimeNetworkPolicy (view_NetworkPolicySpec V))
         (view_both (view_ptr KAutoscaling view_value) (view_both (view_ResourceRequirements V)
         (view_both (view_ptr KPodMetadata view_PodMetadataSpec)
           (view_ptr KScheduling (view_SchedulingSpec V))))))))))))"

definition view_Status :: "TrussiumRuntimeStatus_go \<Rightarrow> 'l heap \<Rightarrow> (TrussiumRuntimeStatus \<times> nat set) option" where
  "view_Status =
     view_struct Conditions_go
       (\<lambda>x conditions. \<lparr>ObservedGeneration = ObservedGeneration_go x, ReadyReplicas = ReadyReplicas_go x,
          AvailableReplicas = AvailableReplicas_go x, DesiredImage = DesiredImage_go x,
          CurrentImage = CurrentImage_go x, LastSuccessfulImage = LastSuccessfulImage_go x,
          Endpoint = Endpoint_go x, Conditions = conditions\<rparr>)
       (view_slice KConditions view_value)"

definition view_Runtime :: "'l library_views \<Rightarrow>
  'l TrussiumRuntime_go \<Rightarrow> 'l heap \<Rightarrow> ((TypeMeta \<times> TrussiumRuntime) \<times> nat set) option"
where
  "view_Runtime V =
     view_struct (\<lambda>x. (ObjectMeta_go x, Spec_go x, Status_go x))
       (\<lambda>x (meta, spec, status). (TypeMeta_go x, \<lparr>Runtime_Meta = meta, Spec = spec, Status = status\<rparr>))
       (view_both (view_ObjectMeta V) (view_both (view_Spec V) view_Status))"

definition view_RuntimeList :: "'l library_views \<Rightarrow> 'l TrussiumRuntimeList_go \<Rightarrow> 'l heap \<Rightarrow>
  ((TypeMeta \<times> ListMeta \<times> (TypeMeta \<times> TrussiumRuntime) list) \<times> nat set) option"
where
  "view_RuntimeList V =
     view_struct (\<lambda>x. (ListMeta_go x, Items_go x)) (\<lambda>x (meta, items). (List_TypeMeta_go x, meta, items))
       (view_both (view_ListMeta V) (view_slice KRuntimes (view_Runtime V)))"

section \<open>The copies keep the contract\<close>

lemmas deep_copy_fields = deep_copy_both deep_copy_ptr deep_copy_slice deep_copy_map cell_kinds
  assigned.deep_copy_axioms

lemma assigns:
  "NamedReference_DeepCopyInto = assign" "RuntimeAutoscalingSpec_DeepCopyInto = assign"
  "RuntimeServiceSpec_DeepCopyInto = assign" "SecretKeyReference_DeepCopyInto = assign"
  by (simp_all add: fun_eq_iff NamedReference_DeepCopyInto_def RuntimeAutoscalingSpec_DeepCopyInto_def
      RuntimeServiceSpec_DeepCopyInto_def SecretKeyReference_DeepCopyInto_def)

lemma copies_PodMetadataSpec: "deep_copy view_PodMetadataSpec PodMetadataSpec_DeepCopyInto"
  unfolding view_PodMetadataSpec_def
  by (rule deep_copy_struct [where
        put = "\<lambda>(l, a) x. x\<lparr>PodMetadata_Labels_go := l, PodMetadata_Annotations_go := a\<rparr>"],
      (rule deep_copy_fields)+)
    (auto simp: PodMetadataSpec_DeepCopyInto_def struct_simps)

lemma copies_ProviderSpec: "deep_copy view_ProviderSpec ProviderSpec_DeepCopyInto"
  unfolding view_ProviderSpec_def
  by (rule deep_copy_struct [where put = "\<lambda>(u, r) x. x\<lparr>BaseURL_go := u, CredentialsSecretRef_go := r\<rparr>"],
      (rule deep_copy_fields)+)
    (auto simp: ProviderSpec_DeepCopyInto_def struct_simps)

lemma copies_RuntimeImageSpec: "deep_copy view_RuntimeImageSpec RuntimeImageSpec_DeepCopyInto"
  unfolding view_RuntimeImageSpec_def
  by (rule deep_copy_struct [where put = "\<lambda>(t, d) x. x\<lparr>Tag_go := t, Digest_go := d\<rparr>"],
      (rule deep_copy_fields)+)
    (auto simp: RuntimeImageSpec_DeepCopyInto_def struct_simps)

lemma copies_RuntimeSettingsSpec: "deep_copy view_RuntimeSettingsSpec RuntimeSettingsSpec_DeepCopyInto"
  unfolding view_RuntimeSettingsSpec_def
  by (rule deep_copy_struct [where put = "\<lambda>(r, i, d) x. x\<lparr>ProviderRequestTimeoutSeconds_go := r,
        StreamIdleTimeoutSeconds_go := i, ShutdownDrainTimeoutSeconds_go := d\<rparr>"],
      (rule deep_copy_fields)+)
    (auto simp: RuntimeSettingsSpec_DeepCopyInto_def struct_simps)

context deepcopy_library
begin

lemma copies_Rule: "deep_copy (view_Rule V) (RuntimeNetworkPolicyIngressRule_DeepCopyInto L)"
  unfolding view_Rule_def
  by (rule deep_copy_struct [where put = "\<lambda>(n, p) x. x\<lparr>NamespaceSelector_go := n, PodSelector_go := p\<rparr>"],
      (rule copies_LabelSelector deep_copy_fields)+)
    (auto simp: RuntimeNetworkPolicyIngressRule_DeepCopyInto_def struct_simps)

lemma copies_NetworkPolicySpec: "deep_copy (view_NetworkPolicySpec V) (RuntimeNetworkPolicySpec_DeepCopyInto L)"
  unfolding view_NetworkPolicySpec_def
  by (rule deep_copy_struct [where put = "\<lambda>i x. x\<lparr>NetworkPolicy_Ingress_go := i\<rparr>"],
      (rule copies_Rule deep_copy_fields)+)
    (auto simp: RuntimeNetworkPolicySpec_DeepCopyInto_def struct_simps)

lemma copies_SchedulingSpec: "deep_copy (view_SchedulingSpec V) (SchedulingSpec_DeepCopyInto L)"
  unfolding view_SchedulingSpec_def
  by (rule deep_copy_struct [where
        put = "\<lambda>(s, t, a) x. x\<lparr>NodeSelector_go := s, Tolerations_go := t, Affinity_go := a\<rparr>"],
      (rule copies_Toleration copies_Affinity deep_copy_fields)+)
    (auto simp: SchedulingSpec_DeepCopyInto_def struct_simps)

lemma copies_Status: "deep_copy view_Status (TrussiumRuntimeStatus_DeepCopyInto L)"
  unfolding view_Status_def
  by (rule deep_copy_struct [where put = "\<lambda>c x. x\<lparr>Conditions_go := c\<rparr>"],
      (rule copies_Condition deep_copy_fields)+)
    (auto simp: TrussiumRuntimeStatus_DeepCopyInto_def struct_simps)

lemma copies_Spec: "deep_copy (view_Spec V) (TrussiumRuntimeSpec_DeepCopyInto L)"
  unfolding view_Spec_def
  by (rule deep_copy_struct [where put = "\<lambda>(image, replicas, pulls, provider, runtime, service, policy,
        autoscaling, resources, metadata, scheduling) x. x\<lparr>Image_go := image, Replicas_go := replicas,
          ImagePullSecrets_go := pulls, Provider_go := provider, Runtime_go := runtime, Service_go := service,
          NetworkPolicy_go := policy, Autoscaling_go := autoscaling, Resources_go := resources,
          PodMetadata_go := metadata, Scheduling_go := scheduling\<rparr>"],
      (rule copies_RuntimeImageSpec copies_ProviderSpec copies_RuntimeSettingsSpec
        copies_NetworkPolicySpec copies_ResourceRequirements copies_PodMetadataSpec copies_SchedulingSpec deep_copy_fields)+)
    (auto simp: TrussiumRuntimeSpec_DeepCopyInto_def struct_simps)

lemma copies_Runtime: "deep_copy (view_Runtime V) (TrussiumRuntime_DeepCopyInto L)"
  unfolding view_Runtime_def
  by (rule deep_copy_struct [where put = "\<lambda>(m, s, t) x. x\<lparr>ObjectMeta_go := m, Spec_go := s, Status_go := t\<rparr>"],
      (rule copies_ObjectMeta copies_Spec copies_Status deep_copy_fields)+)
    (auto simp: TrussiumRuntime_DeepCopyInto_def struct_simps)

lemma copies_RuntimeList: "deep_copy (view_RuntimeList V) (TrussiumRuntimeList_DeepCopyInto L)"
  unfolding view_RuntimeList_def
  by (rule deep_copy_struct [where put = "\<lambda>(m, i) x. x\<lparr>ListMeta_go := m, Items_go := i\<rparr>"],
      (rule copies_ListMeta copies_Runtime deep_copy_fields)+)
    (auto simp: TrussiumRuntimeList_DeepCopyInto_def struct_simps)

end

section \<open>Isolation\<close>

text \<open>\<open>DeepCopy\<close> of every struct returns a copy that is isolated from the original.\<close>

sublocale deepcopy_library \<subseteq> runtime_copy: deep_copy "view_ptr KRuntime (view_Runtime V)" "TrussiumRuntime_DeepCopy L"
  unfolding TrussiumRuntime_DeepCopy_def [abs_def] by (intro deep_copy_ptr cell_kinds copies_Runtime)

sublocale deepcopy_library \<subseteq> list_copy: deep_copy "view_ptr KRuntimeList (view_RuntimeList V)"
    "TrussiumRuntimeList_DeepCopy L"
  unfolding TrussiumRuntimeList_DeepCopy_def [abs_def] by (intro deep_copy_ptr cell_kinds copies_RuntimeList)

sublocale deepcopy_library \<subseteq> spec_copy: deep_copy "view_ptr KSpec (view_Spec V)" "TrussiumRuntimeSpec_DeepCopy L"
  unfolding TrussiumRuntimeSpec_DeepCopy_def [abs_def] by (intro deep_copy_ptr cell_kinds copies_Spec)

sublocale deepcopy_library \<subseteq> status_copy: deep_copy "view_ptr KStatus view_Status" "TrussiumRuntimeStatus_DeepCopy L"
  unfolding TrussiumRuntimeStatus_DeepCopy_def [abs_def] by (intro deep_copy_ptr cell_kinds copies_Status)

sublocale deepcopy_library \<subseteq> rule_copy: deep_copy "view_ptr KRule (view_Rule V)"
    "RuntimeNetworkPolicyIngressRule_DeepCopy L"
  unfolding RuntimeNetworkPolicyIngressRule_DeepCopy_def [abs_def] by (intro deep_copy_ptr cell_kinds copies_Rule)

sublocale deepcopy_library \<subseteq> policy_copy: deep_copy "view_ptr KRuntimeNetworkPolicy (view_NetworkPolicySpec V)"
    "RuntimeNetworkPolicySpec_DeepCopy L"
  unfolding RuntimeNetworkPolicySpec_DeepCopy_def [abs_def] by (intro deep_copy_ptr cell_kinds copies_NetworkPolicySpec)

sublocale deepcopy_library \<subseteq> scheduling_copy: deep_copy "view_ptr KScheduling (view_SchedulingSpec V)"
    "SchedulingSpec_DeepCopy L"
  unfolding SchedulingSpec_DeepCopy_def [abs_def] by (intro deep_copy_ptr cell_kinds copies_SchedulingSpec)

interpretation image_copy: deep_copy "view_ptr KImage view_RuntimeImageSpec" RuntimeImageSpec_DeepCopy
  unfolding RuntimeImageSpec_DeepCopy_def [abs_def] by (intro deep_copy_ptr cell_kinds copies_RuntimeImageSpec)

interpretation provider_copy: deep_copy "view_ptr KProvider view_ProviderSpec" ProviderSpec_DeepCopy
  unfolding ProviderSpec_DeepCopy_def [abs_def] by (intro deep_copy_ptr cell_kinds copies_ProviderSpec)

interpretation settings_copy: deep_copy "view_ptr KSettings view_RuntimeSettingsSpec" RuntimeSettingsSpec_DeepCopy
  unfolding RuntimeSettingsSpec_DeepCopy_def [abs_def] by (intro deep_copy_ptr cell_kinds copies_RuntimeSettingsSpec)

interpretation metadata_copy: deep_copy "view_ptr KPodMetadata view_PodMetadataSpec" PodMetadataSpec_DeepCopy
  unfolding PodMetadataSpec_DeepCopy_def [abs_def] by (intro deep_copy_ptr cell_kinds copies_PodMetadataSpec)

lemma copies_plain_values:
  "deep_copy (view_ptr KNamedReference view_value) NamedReference_DeepCopy"
  "deep_copy (view_ptr KAutoscaling view_value) RuntimeAutoscalingSpec_DeepCopy"
  "deep_copy (view_ptr KRuntimeService view_value) RuntimeServiceSpec_DeepCopy"
  "deep_copy (view_ptr KSecretKeyReference view_value) SecretKeyReference_DeepCopy"
  by (simp_all add: assigns deep_copy_ptr assigned.deep_copy_axioms NamedReference_DeepCopy_def [abs_def]
      RuntimeAutoscalingSpec_DeepCopy_def [abs_def] RuntimeServiceSpec_DeepCopy_def [abs_def]
      SecretKeyReference_DeepCopy_def [abs_def])

text \<open>Nil stays nil and a pointer, slice or map that is not nil stays so.\<close>

lemma copy_nil:
  "copy_ptr K into p h = Some (q, h') \<Longrightarrow> (q = None) = (p = None)"
  "copy_slice K' into' s h = Some (t, h') \<Longrightarrow> (t = None) = (s = None)"
  "copy_map K'' p h = Some (q, h') \<Longrightarrow> (q = None) = (p = None)"
  by (auto simp: copy_ptr_def copy_slice_def copy_map_def bind_eq_Some_conv alloc_def split: option.splits)

section \<open>An instance of the libraries\<close>

text \<open>
  Library structs in memory: a \<open>LabelSelector\<close> has a map and a slice of its own, the others are
  carried as values.
\<close>

datatype library_struct =
    LabelSelectorStruct ptr slice
  | RequirementStruct (the_Requirement: LabelSelectorRequirement)
  | TolerationStruct Toleration
  | AffinityStruct Affinity
  | ResourcesStruct ResourceRequirements
  | ObjectMetaStruct ObjectMeta
  | ListMetaStruct ListMeta

definition view_flat :: "('x \<Rightarrow> 'v option) \<Rightarrow> 'x \<Rightarrow> 'c list \<Rightarrow> ('v \<times> nat set) option" where
  "view_flat f x h = do { v \<leftarrow> f x; Some (v, {}) }"

lemma deep_copy_flat: "deep_copy (view_flat f) assign"
  by unfold_locales (auto simp: view_flat_def assign_def bind_eq_Some_conv)

fun selector_parts :: "library_struct \<Rightarrow> ptr \<times> slice" where
  "selector_parts (LabelSelectorStruct m e) = (m, e)"
| "selector_parts _ = (None, None)"

definition doc_LabelSelector :: "library_struct \<Rightarrow> library_struct heap \<Rightarrow> (library_struct \<times> library_struct heap) option"
where
  "doc_LabelSelector x h =
     do { (m, h) \<leftarrow> copy_map KMap (fst (selector_parts x)) h;
          (e, h) \<leftarrow> copy_slice KLibraries assign (snd (selector_parts x)) h;
          Some (LabelSelectorStruct m e, h) }"

definition doc_deepcopy :: "library_struct deepcopy_api" where
  "doc_deepcopy =
     \<lparr>LabelSelector_DeepCopyInto = doc_LabelSelector, Toleration_DeepCopyInto = assign,
      Affinity_DeepCopyInto = assign, ResourceRequirements_DeepCopyInto = assign,
      ObjectMeta_DeepCopyInto = assign, ListMeta_DeepCopyInto = assign, Condition_DeepCopyInto = assign\<rparr>"

definition doc_views :: "library_struct library_views" where
  "doc_views =
     \<lparr>view_LabelSelector = view_struct selector_parts
        (\<lambda>x (m, e). \<lparr>MatchLabels = m, MatchExpressions = map the_Requirement e\<rparr>)
        (view_both (view_map KMap) (view_slice KLibraries view_value)),
      view_Toleration = view_flat (\<lambda>x. case x of TolerationStruct v \<Rightarrow> Some v | _ \<Rightarrow> None),
      view_Affinity = view_flat (\<lambda>x. case x of AffinityStruct v \<Rightarrow> Some v | _ \<Rightarrow> None),
      view_ResourceRequirements = view_flat (\<lambda>x. case x of ResourcesStruct v \<Rightarrow> Some v | _ \<Rightarrow> None),
      view_ObjectMeta = view_flat (\<lambda>x. case x of ObjectMetaStruct v \<Rightarrow> Some v | _ \<Rightarrow> None),
      view_ListMeta = view_flat (\<lambda>x. case x of ListMetaStruct v \<Rightarrow> Some v | _ \<Rightarrow> None)\<rparr>"

interpretation doc: deepcopy_library doc_deepcopy doc_views
proof (rule deepcopy_library.intro)
  show "deep_copy (view_LabelSelector doc_views) (LabelSelector_DeepCopyInto doc_deepcopy)"
    unfolding doc_views_def doc_deepcopy_def library_views.simps deepcopy_api.simps
    by (rule deep_copy_struct [where put = "\<lambda>(m, e) x. LabelSelectorStruct m e"], (rule deep_copy_fields)+)
      (auto simp: doc_LabelSelector_def struct_simps)
qed (simp_all add: doc_views_def doc_deepcopy_def deep_copy_flat assigned.deep_copy_axioms)

section \<open>Properties\<close>

text \<open>A resource in memory, with a tag, a replica count, an image pull Secret and a condition.\<close>

definition sample_heap :: "library_struct heap" where
  "sample_heap =
     [StringCell ''1.4.0'', Int32Cell 2, NamedReferencesCell [\<lparr>NamedReference_Name = ''pull''\<rparr>],
      ConditionsCell [\<lparr>Condition_Type = ''Available'', Condition_Status = ''True'',
        Condition_ObservedGeneration = 1, LastTransitionTime = Some 7, Reason = ''RuntimeAvailable'', Message = ''''\<rparr>],
      RuntimeCell
        \<lparr>TypeMeta_go = \<lparr>Kind = ''TrussiumRuntime'', APIVersion = ''runtime.trussium.io/v1alpha1''\<rparr>,
         ObjectMeta_go = ObjectMetaStruct (object_meta ''demo'' ''trussium'' fmempty),
         Spec_go =
           \<lparr>Image_go = \<lparr>Repository_go = ''ghcr.io/trussium'', Tag_go = Some 0, Digest_go = None,
              PullPolicy_go = ''Always''\<rparr>,
            Replicas_go = Some 1, ImagePullSecrets_go = Some (2, 0, 1),
            Provider_go = \<lparr>Provider_Type_go = ''openai'', Model_go = ''m'', BaseURL_go = None,
              CredentialsSecretRef_go = None\<rparr>,
            Runtime_go = None, Service_go = \<lparr>RuntimeService_Type = ''ClusterIP'', RuntimeService_Port = 9000\<rparr>,
            NetworkPolicy_go = None, Autoscaling_go = None,
            Resources_go = ResourcesStruct \<lparr>Limits = fmempty, Requests = fmempty, Claims = []\<rparr>,
            PodMetadata_go = None, Scheduling_go = None\<rparr>,
         Status_go =
           \<lparr>ObservedGeneration_go = 1, ReadyReplicas_go = 2, AvailableReplicas_go = 2,
            DesiredImage_go = '''', CurrentImage_go = '''', LastSuccessfulImage_go = '''', Endpoint_go = '''',
            Conditions_go = Some (3, 0, 1)\<rparr>\<rparr>]"

lemmas view_defs = view_ptr_def view_struct_def view_both_def view_value_def view_slice_def view_map_def
  view_flat_def load_def load_slice_def window_def slice_cells_def kind_of_def view_Runtime_def view_Spec_def
  view_Status_def view_RuntimeImageSpec_def view_ProviderSpec_def

lemma sample_heap_view:
  "\<exists>v. view_ptr KRuntime (view_Runtime doc_views) (Some 4) sample_heap = Some (Some v, {0, 1, 2, 3, 4})"
  by (simp add: view_defs sample_heap_def doc_views_def insert_commute)

text \<open>C11: a deep copy of a resource is isolated from the original.  For a resource that lies in memory in any
  way, \<open>DeepCopy\<close> returns a pointer to a resource that denotes the same value, the type and object
  metadata, the specification and the status included; it changes no cell that existed before and shares
  none with the original; and whatever is allocated or written afterwards, the original keeps its value
  as long as its own cells are not written, and the copy as long as its own are not.\<close>

theorem runtime_deep_copy_isolated:
  assumes "deepcopy_library L V"
    and "view_ptr KRuntime (view_Runtime V) (Some p) h = Some (Some v, A)"
  shows "\<exists>q d B. TrussiumRuntime_DeepCopy L (Some p) h = Some (Some q, h @ d) \<and> A \<inter> B = {} \<and>
    view_ptr KRuntime (view_Runtime V) (Some q) (h @ d) = Some (Some v, B) \<and>
    (\<forall>ops. list_all (avoids A) ops \<longrightarrow>
       view_ptr KRuntime (view_Runtime V) (Some p) (perform_all ops (h @ d)) = Some (Some v, A)) \<and>
    (\<forall>ops. list_all (avoids B) ops \<longrightarrow>
       view_ptr KRuntime (view_Runtime V) (Some q) (perform_all ops (h @ d)) = Some (Some v, B))"
proof -
  from deepcopy_library.copies_Runtime [OF assms(1)]
  have "deep_copy (view_ptr KRuntime (view_Runtime V)) (TrussiumRuntime_DeepCopy L)"
    unfolding TrussiumRuntime_DeepCopy_def [abs_def] by (intro deep_copy_ptr cell_kinds)
  from deep_copy.copy_isolated [OF this assms(2)] obtain r d B where
    r: "TrussiumRuntime_DeepCopy L (Some p) h = Some (r, h @ d)" "A \<inter> B = {}"
    "view_ptr KRuntime (view_Runtime V) r (h @ d) = Some (Some v, B)"
    "\<forall>ops. list_all (avoids A) ops \<longrightarrow>
       view_ptr KRuntime (view_Runtime V) (Some p) (perform_all ops (h @ d)) = Some (Some v, A)"
    "\<forall>ops. list_all (avoids B) ops \<longrightarrow>
       view_ptr KRuntime (view_Runtime V) r (perform_all ops (h @ d)) = Some (Some v, B)" by blast
  moreover obtain q where "r = Some q"
    using copy_nil(1) [OF r(1) [unfolded TrussiumRuntime_DeepCopy_def]] by auto
  ultimately show ?thesis by blast
qed

theorem runtime_deep_copy_isolated_witness:
  "\<exists>q d v B. TrussiumRuntime_DeepCopy doc_deepcopy (Some 4) sample_heap = Some (Some q, sample_heap @ d) \<and>
    view_ptr KRuntime (view_Runtime doc_views) (Some q)
      (perform_all [Write 0 (StringCell ''2.0.0''), Write 3 (ConditionsCell [])] (sample_heap @ d)) = Some (Some v, B)"
proof -
  from sample_heap_view obtain v where
    v: "view_ptr KRuntime (view_Runtime doc_views) (Some 4) sample_heap = Some (Some v, {0, 1, 2, 3, 4})" by blast
  from runtime_deep_copy_isolated [OF doc.deepcopy_library_axioms v] obtain q d B where
    q: "TrussiumRuntime_DeepCopy doc_deepcopy (Some 4) sample_heap = Some (Some q, sample_heap @ d)"
    "{0, 1, 2, 3, 4} \<inter> B = {}"
    "\<forall>ops. list_all (avoids B) ops \<longrightarrow>
       view_ptr KRuntime (view_Runtime doc_views) (Some q) (perform_all ops (sample_heap @ d)) = Some (Some v, B)"
    by blast
  from q(2) have "list_all (avoids B) [Write 0 (StringCell ''2.0.0''), Write 3 (ConditionsCell [])]" by simp
  with q(1,3) show ?thesis by blast
qed

text \<open>The object interface is nil exactly for nil.  \<open>DeepCopyObject\<close> of a nil pointer is the nil
  interface and never an interface that holds a nil pointer, which would not compare equal to nil; for a
  list that lies in memory it holds a pointer to an isolated copy of the list and of every item.\<close>

theorem deep_copy_object:
  assumes "deepcopy_library L V"
    and "view_ptr KRuntimeList (view_RuntimeList V) (Some p) h = Some (Some v, A)"
  shows "TrussiumRuntime_DeepCopyObject L None h = Some (nil_Object, h) \<and>
    TrussiumRuntimeList_DeepCopyObject L None h = Some (nil_Object, h) \<and>
    (\<exists>q d B. TrussiumRuntimeList_DeepCopyObject L (Some p) h = Some (RuntimeListObject (Some q), h @ d) \<and>
       A \<inter> B = {} \<and> view_ptr KRuntimeList (view_RuntimeList V) (Some q) (h @ d) = Some (Some v, B))"
proof -
  from deepcopy_library.copies_RuntimeList [OF assms(1)]
  have "deep_copy (view_ptr KRuntimeList (view_RuntimeList V)) (TrussiumRuntimeList_DeepCopy L)"
    unfolding TrussiumRuntimeList_DeepCopy_def [abs_def] by (intro deep_copy_ptr cell_kinds)
  from deep_copy.copy_isolated [OF this assms(2)] obtain r d B where
    r: "TrussiumRuntimeList_DeepCopy L (Some p) h = Some (r, h @ d)" "A \<inter> B = {}"
    "view_ptr KRuntimeList (view_RuntimeList V) r (h @ d) = Some (Some v, B)" by blast
  moreover obtain q where "r = Some q"
    using copy_nil(1) [OF r(1) [unfolded TrussiumRuntimeList_DeepCopy_def]] by auto
  moreover have "TrussiumRuntime_DeepCopy L None h = Some (None, h)" "TrussiumRuntimeList_DeepCopy L None h = Some (None, h)"
    by (simp_all add: TrussiumRuntime_DeepCopy_def TrussiumRuntimeList_DeepCopy_def copy_ptr_def)
  ultimately show ?thesis
    by (auto simp: TrussiumRuntime_DeepCopyObject_def TrussiumRuntimeList_DeepCopyObject_def)
qed

definition sample_list_heap :: "library_struct heap" where
  "sample_list_heap = sample_heap @
     [RuntimesCell [the_Runtime (sample_heap ! 4)],
      RuntimeListCell
        \<lparr>List_TypeMeta_go = \<lparr>Kind = ''TrussiumRuntimeList'', APIVersion = ''runtime.trussium.io/v1alpha1''\<rparr>,
         ListMeta_go = ListMetaStruct \<lparr>ResourceVersion = ''12'', Continue = '''', RemainingItemCount = None\<rparr>,
         Items_go = Some (5, 0, 1)\<rparr>]"

theorem deep_copy_object_witness:
  "\<exists>q d. TrussiumRuntimeList_DeepCopyObject doc_deepcopy (Some 6) sample_list_heap =
    Some (RuntimeListObject (Some q), sample_list_heap @ d)"
proof -
  have "\<exists>v A. view_ptr KRuntimeList (view_RuntimeList doc_views) (Some 6) sample_list_heap = Some (Some v, A)"
    by (simp add: view_defs view_RuntimeList_def sample_list_heap_def sample_heap_def doc_views_def)
  then show ?thesis using deep_copy_object [OF doc.deepcopy_library_axioms] by blast
qed

text \<open>Nil stays nil, although a nil and an empty slice or map denote the same value.\<close>

lemma spec_copy_keeps_nil:
  assumes "TrussiumRuntimeSpec_DeepCopyInto L x h = Some (y, h')"
  shows "(Replicas_go y = None) = (Replicas_go x = None)"
    "(ImagePullSecrets_go y = None) = (ImagePullSecrets_go x = None)"
    "(Runtime_go y = None) = (Runtime_go x = None)"
    "(NetworkPolicy_go y = None) = (NetworkPolicy_go x = None)"
    "(Autoscaling_go y = None) = (Autoscaling_go x = None)"
    "(PodMetadata_go y = None) = (PodMetadata_go x = None)"
    "(Scheduling_go y = None) = (Scheduling_go x = None)"
  using assms by (auto simp: TrussiumRuntimeSpec_DeepCopyInto_def bind_eq_Some_conv simp flip: not_None_eq
      dest: copy_nil(1) copy_nil(2))

lemma scheduling_copy_keeps_nil:
  assumes "SchedulingSpec_DeepCopyInto L x h = Some (y, h')"
  shows "(NodeSelector_go y = None) = (NodeSelector_go x = None)"
    "(Tolerations_go y = None) = (Tolerations_go x = None)"
    "(Affinity_go y = None) = (Affinity_go x = None)"
  using assms by (auto simp: SchedulingSpec_DeepCopyInto_def bind_eq_Some_conv dest: copy_nil)

lemma status_copy_keeps_nil:
  "TrussiumRuntimeStatus_DeepCopyInto L x h = Some (y, h') \<Longrightarrow> (Conditions_go y = None) = (Conditions_go x = None)"
  by (auto simp: TrussiumRuntimeStatus_DeepCopyInto_def bind_eq_Some_conv dest: copy_nil)

end
