(* ===== verification/Status_Memory.thy ===== *)
theory Status_Memory
  imports Deep_Copy Runtime_Status
begin

text \<open>
  The status functions of \<open>runtime_status.go\<close> that work in place, on the memory of \<open>Go_Heap\<close>.  The
  conditions of a status are a slice, so two copies of a status struct share them; \<open>copyRuntimeStatus\<close>
  clones the slice, \<open>setRuntimeCondition\<close> then writes to its elements and
  \<open>preserveRuntimeConditionTransitionTimes\<close> to the elements of another clone.  The theorems show that the
  functions of \<open>Runtime_Status\<close>, which know nothing of sharing, describe them: each refines its value
  function and leaves the status it started from as it was.
\<close>

section \<open>Slices of conditions\<close>

definition copyRuntimeStatus_go :: "TrussiumRuntimeStatus_go \<Rightarrow> 'l heap \<Rightarrow> (TrussiumRuntimeStatus_go \<times> 'l heap) option"
where
  "copyRuntimeStatus_go status h =
     do { (conditions, h) \<leftarrow> copy_slice KConditions assign (Conditions_go status) h;
          Some (status\<lparr>Conditions_go := conditions\<rparr>, h) }"

text \<open>An element of a slice, and an assignment to it.\<close>

definition store_elem :: "slice \<Rightarrow> nat \<Rightarrow> Condition \<Rightarrow> 'l heap \<Rightarrow> 'l heap option" where
  "store_elem s k x h =
     (case s of
        None \<Rightarrow> None
      | Some (a, i, n) \<Rightarrow>
          if k < n then do { xs \<leftarrow> load KConditions a h; Some (h[a := ConditionsCell (xs[i + k := x])]) }
          else None)"

text \<open>One turn of the loop: \<open>desiredCondition\<close> is the address of an element of the slice.\<close>

definition preserve_turn ::
  "'a meta_api_scheme \<Rightarrow> TrussiumRuntimeStatus_go \<Rightarrow> slice \<Rightarrow> nat \<Rightarrow> 'l heap \<Rightarrow> 'l heap option"
where
  "preserve_turn M currentStatus s index h =
     do { desiredConditions \<leftarrow> load_slice KConditions s h;
          currentConditions \<leftarrow> load_slice KConditions (Conditions_go currentStatus) h;
          let desired = desiredConditions ! index;
          case FindStatusCondition M currentConditions (Condition_Type desired) of
            None \<Rightarrow> Some h
          | Some current \<Rightarrow>
              if Condition_Status current \<noteq> Condition_Status desired then Some h
              else store_elem s index (desired\<lparr>LastTransitionTime := LastTransitionTime current\<rparr>) h }"

fun preserve_loop ::
  "'a meta_api_scheme \<Rightarrow> TrussiumRuntimeStatus_go \<Rightarrow> slice \<Rightarrow> nat list \<Rightarrow> 'l heap \<Rightarrow> 'l heap option"
where
  "preserve_loop M currentStatus s [] h = Some h"
| "preserve_loop M currentStatus s (index # indices) h =
     do { h \<leftarrow> preserve_turn M currentStatus s index h; preserve_loop M currentStatus s indices h }"

definition slice_len :: "slice \<Rightarrow> nat" where
  "slice_len s = (case s of None \<Rightarrow> 0 | Some (_, _, n) \<Rightarrow> n)"

definition preserveRuntimeConditionTransitionTimes_go ::
  "'a meta_api_scheme \<Rightarrow> TrussiumRuntimeStatus_go \<Rightarrow> TrussiumRuntimeStatus_go \<Rightarrow> 'l heap \<Rightarrow>
     (TrussiumRuntimeStatus_go \<times> 'l heap) option"
where
  "preserveRuntimeConditionTransitionTimes_go M currentStatus desiredStatus h =
     do { (normalizedStatus, h) \<leftarrow> copyRuntimeStatus_go desiredStatus h;
          h \<leftarrow> preserve_loop M currentStatus (Conditions_go normalizedStatus)
                 [0..<slice_len (Conditions_go normalizedStatus)] h;
          Some (normalizedStatus, h) }"

section \<open>Copying\<close>

interpretation clone: deep_copy view_Status copyRuntimeStatus_go
  unfolding view_Status_def
  by (rule deep_copy_struct [where put = "\<lambda>c x. x\<lparr>Conditions_go := c\<rparr>"], (rule deep_copy_fields)+)
    (auto simp: copyRuntimeStatus_go_def struct_simps)

lemma view_elems_value: "view_elems view_value xs h = Some (xs, {})"
  by (induction xs) (simp_all add: view_value_def)

lemma view_conditions:
  "view_slice KConditions view_value s h = Some (cs, A) \<longleftrightarrow> load_slice KConditions s h = Some cs \<and> A = slice_cells s"
  by (auto simp: view_slice_def view_elems_value bind_eq_Some_conv)

definition status_value :: "TrussiumRuntimeStatus_go \<Rightarrow> Condition list \<Rightarrow> TrussiumRuntimeStatus" where
  "status_value x cs =
     \<lparr>ObservedGeneration = ObservedGeneration_go x, ReadyReplicas = ReadyReplicas_go x,
      AvailableReplicas = AvailableReplicas_go x, DesiredImage = DesiredImage_go x,
      CurrentImage = CurrentImage_go x, LastSuccessfulImage = LastSuccessfulImage_go x,
      Endpoint = Endpoint_go x, Conditions = cs\<rparr>"

lemma view_Status_iff:
  "view_Status x h = Some (v, A) \<longleftrightarrow>
     (\<exists>cs. load_slice KConditions (Conditions_go x) h = Some cs \<and> v = status_value x cs \<and>
        A = slice_cells (Conditions_go x))"
  by (auto simp: view_Status_def view_struct_def bind_eq_Some_conv view_conditions status_value_def)

lemma status_value_simps [simp]:
  "Conditions (status_value x cs) = cs" "status_value (x\<lparr>Conditions_go := s\<rparr>) cs = status_value x cs"
  "(status_value x cs)\<lparr>Conditions := ds\<rparr> = status_value x ds"
  by (simp_all add: status_value_def)

lemma copyRuntimeStatus_go_Some:
  assumes "load_slice KConditions (Conditions_go x) h = Some cs"
  shows "\<exists>s d. copyRuntimeStatus_go x h = Some (x\<lparr>Conditions_go := s\<rparr>, h @ d) \<and>
    load_slice KConditions s (h @ d) = Some cs \<and> slice_len s = length cs \<and>
    slice_cells s \<subseteq> {length h..<length (h @ d)}"
proof (cases "Conditions_go x")
  case None
  with assms show ?thesis
    by (auto simp: copyRuntimeStatus_go_def copy_slice_def load_slice_def slice_len_def slice_cells_def)
next
  case (Some w)
  have "copy_elems assign cs g = Some (cs, g)" for g :: "'a heap"
    by (induction cs) (simp_all add: assign_def)
  then have "copyRuntimeStatus_go x h =
      Some (x\<lparr>Conditions_go := Some (length h, 0, length cs)\<rparr>, h @ [ConditionsCell cs])"
    using assms Some by (simp add: copyRuntimeStatus_go_def copy_slice_def alloc_def kind_of_def)
  moreover have "load_slice KConditions (Some (length h, 0, length cs)) (h @ [ConditionsCell cs]) = Some cs"
    by (simp add: load_slice_def load_def window_def kind_of_def)
  ultimately show ?thesis by (auto simp: slice_len_def slice_cells_def)
qed

section \<open>The loop\<close>

lemma store_elem_Some:
  assumes "load_slice KConditions s h = Some xs" and "k < length xs"
  shows "\<exists>h'. store_elem s k x h = Some h' \<and> load_slice KConditions s h' = Some (xs[k := x]) \<and>
    length h' = length h \<and> (\<forall>a. a \<notin> slice_cells s \<longrightarrow> h' ! a = h ! a)"
proof -
  from assms obtain a i n ys where s: "s = Some (a, i, n)" and ys: "load KConditions a h = Some ys"
    and "i + n \<le> length ys" "xs = take n (drop i ys)"
    by (auto simp: load_slice_def window_def bind_eq_Some_conv split: option.splits if_splits)
  moreover from this have "take n (drop i (ys[i + k := x])) = xs[k := x]"
    using assms(2) by (simp add: drop_update_swap take_update_swap)
  moreover have "load KConditions a (h[a := ConditionsCell (ys[i + k := x])]) = Some (ys[i + k := x])"
    using load_bound [OF ys] by (simp add: load_def kind_of_def)
  ultimately show ?thesis
    using assms(2) by (auto simp: store_elem_def load_slice_def window_def slice_cells_def)
qed

definition kept :: "'a meta_api_scheme \<Rightarrow> Condition list \<Rightarrow> Condition \<Rightarrow> Condition" where
  "kept M cs desired =
     (case FindStatusCondition M cs (Condition_Type desired) of
        None \<Rightarrow> desired
      | Some current \<Rightarrow>
          if Condition_Status current \<noteq> Condition_Status desired then desired
          else desired\<lparr>LastTransitionTime := LastTransitionTime current\<rparr>)"

lemma preserve_turn_Some:
  assumes "load_slice KConditions s h = Some ds" and "load_slice KConditions (Conditions_go cur) h = Some cs"
    and "slice_cells s \<inter> slice_cells (Conditions_go cur) = {}" and "k < length ds"
  shows "\<exists>h'. preserve_turn M cur s k h = Some h' \<and> load_slice KConditions s h' = Some (ds[k := kept M cs (ds ! k)]) \<and>
    load_slice KConditions (Conditions_go cur) h' = Some cs \<and>
    length h' = length h \<and> (\<forall>a. a \<notin> slice_cells s \<longrightarrow> h' ! a = h ! a)"
proof -
  have nothing: ?thesis if "preserve_turn M cur s k h = Some h" "kept M cs (ds ! k) = ds ! k"
    using that assms by simp
  show ?thesis
  proof (cases "FindStatusCondition M cs (Condition_Type (ds ! k))")
    case None
    then show ?thesis using nothing assms(1,2) by (simp add: preserve_turn_def kept_def)
  next
    case (Some c)
    show ?thesis
    proof (cases "Condition_Status c = Condition_Status (ds ! k)")
      case False
      then show ?thesis using Some nothing assms(1,2) by (simp add: preserve_turn_def kept_def)
    next
      case True
      with Some have kept: "kept M cs (ds ! k) = (ds ! k)\<lparr>LastTransitionTime := LastTransitionTime c\<rparr>"
        by (simp add: kept_def)
      obtain h' where h': "store_elem s k (kept M cs (ds ! k)) h = Some h'"
        "load_slice KConditions s h' = Some (ds[k := kept M cs (ds ! k)])" "length h' = length h"
        "\<forall>a. a \<notin> slice_cells s \<longrightarrow> h' ! a = h ! a" using store_elem_Some [OF assms(1,4)] by blast
      have "same_at (slice_cells (Conditions_go cur)) h h'"
        using h'(3,4) assms(3) load_slice_bound [OF assms(2)] by (auto simp: same_at_def)
      from load_slice_same [OF assms(2) this] show ?thesis
        using Some True kept h' assms(1,2) by (simp add: preserve_turn_def)
    qed
  qed
qed

lemma preserve_loop_Some:
  assumes "load_slice KConditions s h = Some ds" and "load_slice KConditions (Conditions_go cur) h = Some cs"
    and "slice_cells s \<inter> slice_cells (Conditions_go cur) = {}" and "k \<le> length ds"
  shows "\<exists>h'. preserve_loop M cur s [k..<length ds] h = Some h' \<and>
    load_slice KConditions s h' = Some (take k ds @ map (kept M cs) (drop k ds)) \<and>
    length h' = length h \<and> (\<forall>a. a \<notin> slice_cells s \<longrightarrow> h' ! a = h ! a)"
  using assms
proof (induction "length ds - k" arbitrary: k ds h)
  case 0
  then show ?case by simp
next
  case (Suc m)
  then have k: "k < length ds" by simp
  let ?ds = "ds[k := kept M cs (ds ! k)]"
  from preserve_turn_Some [OF Suc.prems(1-3) k, of M] obtain h1 where
    h1: "preserve_turn M cur s k h = Some h1" "load_slice KConditions s h1 = Some ?ds"
    "load_slice KConditions (Conditions_go cur) h1 = Some cs" "length h1 = length h"
    "\<forall>a. a \<notin> slice_cells s \<longrightarrow> h1 ! a = h ! a" by blast
  have "m = length ?ds - Suc k" using Suc(2) by simp
  from Suc(1) [OF this h1(2,3) Suc.prems(3)] k obtain h2 where
    h2: "preserve_loop M cur s [Suc k..<length ds] h1 = Some h2"
    "load_slice KConditions s h2 = Some (take (Suc k) ?ds @ map (kept M cs) (drop (Suc k) ?ds))"
    "length h2 = length h1" "\<forall>a. a \<notin> slice_cells s \<longrightarrow> h2 ! a = h1 ! a" by auto
  have "take (Suc k) ?ds @ map (kept M cs) (drop (Suc k) ?ds) = take k ds @ map (kept M cs) (drop k ds)"
    using k by (simp add: take_Suc_conv_app_nth Cons_nth_drop_Suc [symmetric])
  with h1 h2 k show ?case by (simp add: upt_rec [of k])
qed

section \<open>Setting conditions in place\<close>

text \<open>
  \<open>meta.SetStatusCondition\<close> takes the address of a slice of conditions.  Its documentation says what
  the slice holds afterwards; as Go code it can only write to the array of that slice or to new memory.
\<close>

locale condition_memory =
  fixes M :: "'a meta_api_scheme"
    and set_go :: "slice \<Rightarrow> Condition \<Rightarrow> instant \<Rightarrow> 'l heap \<Rightarrow> (slice \<times> 'l heap) option"
  assumes set_go_refines: "load_slice KConditions s h = Some cs \<Longrightarrow>
    \<exists>t h'. set_go s c now h = Some (t, h') \<and> load_slice KConditions t h' = Some (SetStatusCondition M cs c now) \<and>
      length h \<le> length h' \<and> (\<forall>a < length h. a \<notin> slice_cells s \<longrightarrow> h' ! a = h ! a) \<and>
      slice_cells t \<subseteq> slice_cells s \<union> {length h..<length h'}"

definition setRuntimeCondition_go ::
  "(slice \<Rightarrow> Condition \<Rightarrow> instant \<Rightarrow> 'l heap \<Rightarrow> (slice \<times> 'l heap) option) \<Rightarrow>
     int64 \<Rightarrow> string \<Rightarrow> string \<Rightarrow> string \<Rightarrow> string \<Rightarrow> TrussiumRuntimeStatus_go \<times> clock \<Rightarrow> 'l heap \<Rightarrow>
     ((TrussiumRuntimeStatus_go \<times> clock) \<times> 'l heap) option"
where
  "setRuntimeCondition_go set_go observedGeneration conditionType conditionStatus reason message b h =
     do { (conditions, h) \<leftarrow> set_go (Conditions_go (fst b))
            \<lparr>Condition_Type = conditionType, Condition_Status = conditionStatus,
             Condition_ObservedGeneration = observedGeneration, LastTransitionTime = None,
             Reason = reason, Message = message\<rparr> (snd b 0) h;
          Some (((fst b)\<lparr>Conditions_go := conditions\<rparr>, tick (snd b)), h) }"

text \<open>A sequence of such calls, as a branch of \<open>buildBaseRuntimeStatus\<close> makes them, in memory and on values.\<close>

type_synonym condition_call = "int64 \<times> string \<times> string \<times> string \<times> string"

fun set_conditions_go ::
  "(slice \<Rightarrow> Condition \<Rightarrow> instant \<Rightarrow> 'l heap \<Rightarrow> (slice \<times> 'l heap) option) \<Rightarrow> condition_call list \<Rightarrow>
     TrussiumRuntimeStatus_go \<times> clock \<Rightarrow> 'l heap \<Rightarrow> ((TrussiumRuntimeStatus_go \<times> clock) \<times> 'l heap) option"
where
  "set_conditions_go set_go [] b h = Some (b, h)"
| "set_conditions_go set_go ((gen, t, st, reason, msg) # cs) b h =
     do { (b, h) \<leftarrow> setRuntimeCondition_go set_go gen t st reason msg b h; set_conditions_go set_go cs b h }"

fun set_conditions :: "'a meta_api_scheme \<Rightarrow> condition_call list \<Rightarrow> build \<Rightarrow> build" where
  "set_conditions M [] b = b"
| "set_conditions M ((gen, t, st, reason, msg) # cs) b =
     set_conditions M cs (setRuntimeCondition M gen t st reason msg b)"

context condition_memory
begin

lemma set_conditions_refines:
  assumes "load_slice KConditions (Conditions_go x) h = Some cs" and "n \<le> length h"
    and "slice_cells (Conditions_go x) \<subseteq> {n..<length h}"
  shows "\<exists>y clk' h' ds. set_conditions_go set_go sets (x, clk) h = Some ((y, clk'), h') \<and>
    load_slice KConditions (Conditions_go y) h' = Some ds \<and>
    set_conditions M sets (status_value x cs, clk) = (status_value y ds, clk') \<and>
    n \<le> length h' \<and> (\<forall>a < n. h' ! a = h ! a) \<and> slice_cells (Conditions_go y) \<subseteq> {n..<length h'}"
  using assms
proof (induction sets arbitrary: x clk h cs)
  case Nil
  then show ?case by auto
next
  case (Cons call sets)
  obtain gen t st reason msg where call: "call = (gen, t, st, reason, msg)" by (cases call)
  let ?c = "\<lparr>Condition_Type = t, Condition_Status = st, Condition_ObservedGeneration = gen,
    LastTransitionTime = None, Reason = reason, Message = msg\<rparr>"
  from set_go_refines [OF Cons.prems(1), of ?c "clk 0"] obtain s' h1 where
    h1: "set_go (Conditions_go x) ?c (clk 0) h = Some (s', h1)"
    "load_slice KConditions s' h1 = Some (SetStatusCondition M cs ?c (clk 0))" "length h \<le> length h1"
    "\<forall>a < length h. a \<notin> slice_cells (Conditions_go x) \<longrightarrow> h1 ! a = h ! a"
    "slice_cells s' \<subseteq> slice_cells (Conditions_go x) \<union> {length h..<length h1}" by blast
  let ?x = "x\<lparr>Conditions_go := s'\<rparr>"
  have "slice_cells (Conditions_go ?x) \<subseteq> {n..<length h1}"
    using h1(3,5) Cons.prems(2,3) by fastforce
  with Cons.IH [of ?x h1 "SetStatusCondition M cs ?c (clk 0)" "tick clk"] h1(2,3) Cons.prems(2)
  obtain y clk' h' ds where y: "set_conditions_go set_go sets (?x, tick clk) h1 = Some ((y, clk'), h')"
    "load_slice KConditions (Conditions_go y) h' = Some ds"
    "set_conditions M sets (status_value ?x (SetStatusCondition M cs ?c (clk 0)), tick clk) = (status_value y ds, clk')"
    "n \<le> length h'" "\<forall>a < n. h' ! a = h1 ! a" "slice_cells (Conditions_go y) \<subseteq> {n..<length h'}"
    by auto
  have "\<forall>a < n. h1 ! a = h ! a"
    using h1(4) Cons.prems(2,3) by (meson atLeastLessThan_iff leD order_less_le_trans subsetD)
  moreover have "setRuntimeCondition M gen t st reason msg (status_value x cs, clk) =
      (status_value ?x (SetStatusCondition M cs ?c (clk 0)), tick clk)"
    by (simp add: setRuntimeCondition.simps)
  ultimately show ?case using y h1(1) by (simp add: call setRuntimeCondition_go_def)
qed

end

text \<open>
  An instance: the conditions are put back into the array of the slice while they fit, as an update in
  place or an \<open>append\<close> within the capacity does, and into a new array otherwise.
\<close>

definition doc_set_go :: "slice \<Rightarrow> Condition \<Rightarrow> instant \<Rightarrow> 'l heap \<Rightarrow> (slice \<times> 'l heap) option" where
  "doc_set_go s c now h =
     do { cs \<leftarrow> load_slice KConditions s h;
          let ds = doc_set cs c now;
          let fresh = Some (Some (length h, 0, length ds), h @ [ConditionsCell ds]);
          case s of
            None \<Rightarrow> fresh
          | Some (a, i, n) \<Rightarrow>
              do { xs \<leftarrow> load KConditions a h;
                   if i + length ds \<le> length xs
                   then Some (Some (a, i, length ds),
                     h[a := ConditionsCell (take i xs @ ds @ drop (i + length ds) xs)])
                   else fresh } }"

lemma load_fresh: "load_slice KConditions (Some (length h, 0, length ds)) (h @ [ConditionsCell ds]) = Some ds"
  by (simp add: load_slice_def load_def window_def kind_of_def)

interpretation doc_conditions: condition_memory doc_meta doc_set_go
proof
  fix s cs c now and h :: "'l heap"
  assume cs: "load_slice KConditions s h = Some cs"
  let ?ds = "doc_set cs c now"
  let ?P = "\<lambda>t h'. load_slice KConditions t h' = Some (SetStatusCondition doc_meta cs c now) \<and>
      length h \<le> length h' \<and> (\<forall>a < length h. a \<notin> slice_cells s \<longrightarrow> h' ! a = h ! a) \<and>
      slice_cells t \<subseteq> slice_cells s \<union> {length h..<length h'}"
  have fresh: "?P (Some (length h, 0, length ?ds)) (h @ [ConditionsCell ?ds])"
    by (auto simp: load_fresh doc_meta_def slice_cells_def nth_append)
  show "\<exists>t h'. doc_set_go s c now h = Some (t, h') \<and> ?P t h'"
  proof (cases s)
    case None
    with cs fresh show ?thesis by (simp add: doc_set_go_def Let_def)
  next
    case (Some w)
    obtain a i n where w: "w = (a, i, n)" by (cases w)
    from cs obtain xs where xs: "load KConditions a h = Some xs"
      by (auto simp: Some w load_slice_def bind_eq_Some_conv)
    show ?thesis
    proof (cases "i + length ?ds \<le> length xs")
      case False
      with cs xs fresh show ?thesis by (simp add: doc_set_go_def Some w Let_def)
    next
      case True
      with cs xs load_bound [OF xs] show ?thesis
        by (simp add: doc_set_go_def Some w Let_def doc_meta_def load_slice_def load_def window_def kind_of_def slice_cells_def)
    qed
  qed
qed

section \<open>Properties\<close>

text \<open>C12: building a status does not disturb the one it started from.  For a status that lies in memory in any
  way, the copy that \<open>copyRuntimeStatus\<close> makes and any sequence of conditions set on it in place
  succeed; the result denotes what the value functions compute; and the status that was copied, which
  the pass later compares with and takes its Events from, keeps its value and shares no memory with the
  new one.\<close>

theorem status_built_on_a_copy:
  assumes "condition_memory M set_go" and "view_Status x h = Some (v, A)"
  shows "\<exists>y h1 z clk' h2 w B. copyRuntimeStatus_go x h = Some (y, h1) \<and>
    set_conditions_go set_go sets (y, clk) h1 = Some ((z, clk'), h2) \<and>
    view_Status z h2 = Some (w, B) \<and> set_conditions M sets (copyRuntimeStatus v, clk) = (w, clk') \<and>
    view_Status x h2 = Some (v, A) \<and> A \<inter> B = {}"
proof -
  from assms(2) obtain cs where cs: "load_slice KConditions (Conditions_go x) h = Some cs"
    and v: "v = status_value x cs" and A: "A = slice_cells (Conditions_go x)" by (auto simp: view_Status_iff)
  from copyRuntimeStatus_go_Some [OF cs] obtain s d where
    s: "copyRuntimeStatus_go x h = Some (x\<lparr>Conditions_go := s\<rparr>, h @ d)"
    "load_slice KConditions s (h @ d) = Some cs" "slice_cells s \<subseteq> {length h..<length (h @ d)}" by blast
  from condition_memory.set_conditions_refines [OF assms(1), of "x\<lparr>Conditions_go := s\<rparr>" "h @ d" cs "length h" sets clk] s
  obtain z clk' h2 ds where
    z: "set_conditions_go set_go sets (x\<lparr>Conditions_go := s\<rparr>, clk) (h @ d) = Some ((z, clk'), h2)"
    "load_slice KConditions (Conditions_go z) h2 = Some ds"
    "set_conditions M sets (v, clk) = (status_value z ds, clk')" "length h \<le> length h2"
    "\<forall>a < length h. h2 ! a = (h @ d) ! a" "slice_cells (Conditions_go z) \<subseteq> {length h..<length h2}"
    by (auto simp: v)
  have "same_at A h h2"
    using z(4,5) clone.view_bounds [OF assms(2)] by (auto simp: same_at_def nth_append)
  from clone.view_same [OF assms(2) this] have "view_Status x h2 = Some (v, A)" .
  moreover have "A \<inter> slice_cells (Conditions_go z) = {}"
    using clone.view_bounds [OF assms(2)] z(6) by fastforce
  ultimately show ?thesis using s(1) z(1-3) by (auto simp: view_Status_iff copyRuntimeStatus_def)
qed

definition sample_status_heap :: "unit heap" where
  "sample_status_heap =
     [ConditionsCell [\<lparr>Condition_Type = ''Ready'', Condition_Status = ''False'', Condition_ObservedGeneration = 1,
        LastTransitionTime = Some 7, Reason = ''a'', Message = ''b''\<rparr>]]"

definition sample_status_go :: TrussiumRuntimeStatus_go where
  "sample_status_go =
     \<lparr>ObservedGeneration_go = 1, ReadyReplicas_go = 0, AvailableReplicas_go = 0, DesiredImage_go = '''',
      CurrentImage_go = '''', LastSuccessfulImage_go = '''', Endpoint_go = '''', Conditions_go = Some (0, 0, 1)\<rparr>"

lemma sample_status_view:
  "view_Status sample_status_go sample_status_heap =
     Some (status_value sample_status_go (the_Conditions (hd sample_status_heap)), {0})"
  by (simp add: view_Status_iff sample_status_go_def sample_status_heap_def load_slice_def load_def window_def
      kind_of_def slice_cells_def)

theorem status_built_on_a_copy_witness:
  "\<exists>y h1 z h2. copyRuntimeStatus_go sample_status_go sample_status_heap = Some (y, h1) \<and>
    set_conditions_go doc_set_go [(2, ''Ready'', ''True'', ''c'', ''d'')] (y, \<lambda>_. 9) h1 = Some (z, h2) \<and>
    view_Status sample_status_go h2 = view_Status sample_status_go sample_status_heap"
  using status_built_on_a_copy [OF doc_conditions.condition_memory_axioms sample_status_view,
      where sets = "[(2, ''Ready'', ''True'', ''c'', ''d'')]" and clk = "\<lambda>_. 9"]
  unfolding sample_status_view by blast

text \<open>C13: normalising a status does not disturb its arguments.  Run in place on a clone of the desired
  conditions, the loop of \<open>preserveRuntimeConditionTransitionTimes\<close> finishes with the status the value
  function computes, in new memory, and both the current and the desired status keep their values, even
  when the two share their conditions.\<close>

theorem preserve_in_memory:
  assumes "view_Status cur h = Some (C, A)" and "view_Status des h = Some (D, B)"
  shows "\<exists>z h' E. preserveRuntimeConditionTransitionTimes_go M cur des h = Some (z, h') \<and>
    view_Status z h' = Some (preserveRuntimeConditionTransitionTimes M C D, E) \<and>
    view_Status cur h' = Some (C, A) \<and> view_Status des h' = Some (D, B) \<and> E \<inter> (A \<union> B) = {}"
proof -
  from assms obtain cs ds where cs: "load_slice KConditions (Conditions_go cur) h = Some cs" "C = status_value cur cs"
    and ds: "load_slice KConditions (Conditions_go des) h = Some ds" "D = status_value des ds"
    by (auto simp: view_Status_iff)
  note bounds = clone.view_bounds [OF assms(1)] clone.view_bounds [OF assms(2)]
  from copyRuntimeStatus_go_Some [OF ds(1)] obtain s d where
    s: "copyRuntimeStatus_go des h = Some (des\<lparr>Conditions_go := s\<rparr>, h @ d)"
    "load_slice KConditions s (h @ d) = Some ds" "slice_len s = length ds"
    "slice_cells s \<subseteq> {length h..<length (h @ d)}" by blast
  have cur: "load_slice KConditions (Conditions_go cur) (h @ d) = Some cs"
    using clone.view_append [OF assms(1), of d] cs(2) by (auto simp: view_Status_iff status_value_def)
  have "slice_cells s \<inter> slice_cells (Conditions_go cur) = {}"
    using s(4) load_slice_bound [OF cs(1)] by fastforce
  from preserve_loop_Some [OF s(2) cur this, of 0 M] obtain h' where
    h': "preserve_loop M cur s [0..<length ds] (h @ d) = Some h'"
    "load_slice KConditions s h' = Some (map (kept M cs) ds)" "length h' = length (h @ d)"
    "\<forall>a. a \<notin> slice_cells s \<longrightarrow> h' ! a = (h @ d) ! a" by auto
  have "a < length h' \<and> h' ! a = h ! a" if "a < length h" for a
  proof -
    from that s(4) have "a \<notin> slice_cells s" by fastforce
    with h'(3,4) that show ?thesis by (simp add: nth_append)
  qed
  then have "same_at (A \<union> B) h h'" using bounds by (auto simp: same_at_def)
  then have "view_Status cur h' = Some (C, A)" "view_Status des h' = Some (D, B)"
    using clone.view_same [OF assms(1)] clone.view_same [OF assms(2)] by simp_all
  moreover have "preserveRuntimeConditionTransitionTimes M C D = status_value des (map (kept M cs) ds)"
    by (simp add: preserveRuntimeConditionTransitionTimes_def copyRuntimeStatus_def runtimeCondition_def
        cs(2) ds(2) kept_def [abs_def])
  moreover have "slice_cells s \<inter> (A \<union> B) = {}" using s(4) bounds by fastforce
  ultimately show ?thesis
    using s(1,3) h'(1,2) by (auto simp: preserveRuntimeConditionTransitionTimes_go_def view_Status_iff)
qed

theorem preserve_in_memory_witness:
  "\<exists>z h'. preserveRuntimeConditionTransitionTimes_go doc_meta sample_status_go sample_status_go sample_status_heap =
      Some (z, h') \<and> view_Status sample_status_go h' = view_Status sample_status_go sample_status_heap"
  using preserve_in_memory [OF sample_status_view sample_status_view, of doc_meta]
  unfolding sample_status_view by blast

end
