(* ===== verification/Spec2Isabelle.thy ===== *)
theory Spec2Isabelle
  imports Resource_Properties Status_Properties Controller_Properties Operator_Properties Manager Lifecycle
    Deep_Copy Status_Memory
begin

text \<open>
  Verification of the Trussium operator, a Kubernetes controller in Go that runs the Trussium runtime
  from a custom resource, \<open>TrussiumRuntime\<close>.

  \<^bold>\<open>The program.\<close>  The process \<open>cmd/main.go\<close> reads its flags, builds a manager and registers one
  reconciler.  The manager watches the custom resources (when their generation changes), the seven kinds
  of objects the operator owns, and Secrets, which \<open>mapSecretToRuntimes\<close> maps to the resources that
  reference them.  For every request the reconciler reads the resource, checks that the referenced
  Secrets exist, creates or updates the managed objects in a fixed order, observes the Deployment and
  the Service, writes the status when it changed, and announces changes of conditions as Events.  It
  keeps no state of its own between two passes: everything it remembers is in the cluster, in the
  status of the resource in particular.

  \<^bold>\<open>The theories.\<close>  In the order of their imports:

  \<^item> \<open>Go_Prelude\<close>: Go's values and the parts of its standard library the sources use; shared lemmas.
  \<^item> \<open>Kube_Types\<close>: the Kubernetes objects the sources read and build, as records.
  \<^item> \<open>Api_Types\<close>: \<open>api/v1alpha1/trussiumruntime_types.go\<close>, the custom resource, with the defaults and
    the validation its \<open>+kubebuilder\<close> markers declare (\<open>default_spec\<close>, \<open>admitted_spec\<close>).
  \<^item> \<open>Sha256\<close>: \<open>sha256.Sum256\<close> and \<open>hex.EncodeToString\<close>, executable.
  \<^item> \<open>Runtime_Resources\<close>: \<open>internal/controller/runtime_resources.go\<close>, one definition per function:
    labels, image, defaults, configuration data and checksum, and the builders of the ConfigMap,
    ServiceAccount, Service, Deployment, PodDisruptionBudget, NetworkPolicy and
    HorizontalPodAutoscaler.
  \<^item> \<open>Kube_Library\<close>: the libraries that are not part of the repository, as the record \<open>kube_api\<close> of
    functions that every definition takes as an argument, and the state \<open>rstate\<close> of the reconciler's
    effects: the outside world, the clock, the client calls in order, the Events, the metrics.
  \<^item> \<open>Runtime_Status\<close>, \<open>Status_Facts\<close>, \<open>Status_Stability\<close>: \<open>internal/controller/runtime_status.go\<close>,
    the facts about each builder, and the proof that building a status twice is building it once.
  \<^item> \<open>Runtime_Events\<close>: \<open>internal/controller/runtime_events.go\<close> and its specification
    \<open>transition_events\<close>.
  \<^item> \<open>Controller\<close>: \<open>internal/controller/trussiumruntime_controller.go\<close> and \<open>metrics.go\<close>: \<open>Reconcile\<close>
    with every function it calls, \<open>mapSecretToRuntimes\<close>, \<open>SetupWithManager\<close>, the RBAC markers.
  \<^item> \<open>Effects\<close>, \<open>Controller_Facts\<close>: which calls and Events a computation may produce, by a relation
    between states that composes, and the outcome of each step of a pass.
  \<^item> \<open>Cluster\<close>, \<open>Convergence\<close>: an API server and client that behave as documented, and what passes of
    the reconciler achieve on it.
  \<^item> \<open>Pass_Outcomes\<close>: every outcome of a pass on that cluster, the unsuccessful ones included.
  \<^item> \<open>Work_Queue\<close>, \<open>Operator\<close>, \<open>Operator_Properties\<close>: the operator as a whole: the requests that changes
    make under the registrations of \<open>SetupWithManager\<close>, the work queue, and an inductive relation in which
    passes of workers and changes by other clients follow each other in any order.
  \<^item> \<open>Go_Heap\<close>, \<open>Deep_Copy\<close>, \<open>Status_Memory\<close>: memory with pointers, slices and maps;
    \<open>api/v1alpha1/zz_generated.deepcopy.go\<close> on it; and the functions of \<open>runtime_status.go\<close> that change a
    status in place, which refine those of \<open>Runtime_Status\<close>.
  \<^item> \<open>Manager\<close>: \<open>cmd/main.go\<close> and \<open>api/v1alpha1/groupversion_info.go\<close>.
  \<^item> \<open>Resource_Properties\<close>, \<open>Status_Properties\<close>, \<open>Controller_Properties\<close>, \<open>Operator_Properties\<close>, \<open>Lifecycle\<close>
    (and the ends of \<open>Manager\<close>, \<open>Deep_Copy\<close> and \<open>Status_Memory\<close>): the properties, each after a text that
    states it, with a witness where it has hypotheses.

  \<^bold>\<open>Correspondence.\<close>  A Go function is the definition of the same name; a method that has effects is a
  computation of the state monad over \<open>rstate\<close>.  A range loop over a slice is a recursive function or
  the list function that does the same; a range loop over a map visits \<open>range_keys\<close>, and the properties
  show that the order makes no difference.  An early return is a branch, an error a value of the sum
  \<open>goerror + 'a\<close> or of \<open>goerror option\<close>.  \<open>int32\<close> and \<open>int64\<close> are words: the conversion and addition in
  \<open>terminationGracePeriodSeconds\<close> are those of the code, and its freedom from overflow is a theorem.
  Dereferencing a nil pointer would be a panic: \<open>buildNetworkPolicy\<close> returns an option for that reason,
  and \<open>reconcileNetworkPolicy\<close> only calls it where there is a policy.  All loops are structural
  recursions: there is no fuel in the model of the code, and every function of it is total.  The number
  of passes that \<open>work\<close> runs is bounded by twice the length of the queue, and that this is enough to
  empty the queue is a theorem.

  Outside of \<open>Deep_Copy\<close> and \<open>Status_Memory\<close> structs are values: what is changed in place is returned.
  That this describes code in which two structs may share the array of a slice is what these two theories
  show for the copies the code makes.  There a struct \<open>T\<close> in memory is the record \<open>T_go\<close>, whose pointers,
  slices and maps are addresses, and a \<open>view\<close> gives the value of \<open>Api_Types\<close> it denotes together with the
  cells it reaches.

  \<^bold>\<open>Interfaces.\<close>  \<open>meta_conditions\<close> (\<open>Kube_Library\<close>) is the documented contract of the condition helpers
  of \<open>apimachinery\<close>, interpreted on \<open>doc_meta\<close>; \<open>condition_store\<close> (\<open>Runtime_Status\<close>) is what setting a
  condition promises; \<open>effect_preorder\<close> (\<open>Effects\<close>) is what makes effects compose, interpreted on
  \<open>trace\<close>; \<open>object_store\<close>, its extension \<open>settling\<close>, and \<open>owner_references\<close> (\<open>Cluster\<close>) are the
  contracts of \<open>CreateOrUpdate\<close>, of the controller's mutations and of \<open>SetControllerReference\<close>,
  interpreted for all seven managed kinds.  \<open>deep_copy\<close> (\<open>Go_Heap\<close>) is the contract of a deep copy, kept by
  assignment and by the copies of pointers, slices, maps and structs; \<open>deepcopy_library\<close> (\<open>Deep_Copy\<close>)
  asks it of the library structs and gives it, as sublocales, to those of the operator;
  \<open>condition_memory\<close> (\<open>Status_Memory\<close>) is the contract of \<open>SetStatusCondition\<close> on memory.  \<open>delivery\<close>
  (\<open>Operator\<close>) is the contract of the watches of \<open>controller-runtime\<close>, and \<open>draining\<close> (\<open>Work_Queue\<close>) that
  of a worker whose passes come to an end, which \<open>delivery\<close> gives to the passes of the operator.

  \<^bold>\<open>What is proved.\<close>

  \<^item> Resources: the rendered image identifies the image; operator labels cannot be overridden; selectors
    select the Pods of their own runtime only; the checksum follows the configuration and nothing
    else; no configuration carries credentials; replica counts and grace periods stay in their bounds;
    the defaults in the code are those of the schema; a NetworkPolicy admits exactly what was asked.
  \<^item> Status: what \<open>Ready\<close> means; that exactly one of \<open>Ready\<close>, \<open>Progressing\<close> and \<open>Degraded\<close> holds; how
    the rollout decides them; that all six conditions are present, once each, in a status of the current generation;
    that transition times are honest; how the last successful image moves, in one step and over any
    history of passes.
  \<^item> Reconciler: its calls are confined to the request; writes are ordered and stop at the first error;
    a missing Secret blocks every write; a resource that is gone is left alone; failures are announced;
    Events follow transitions; contents of Secrets are irrelevant; one pass reaches the desired state
    and a second pass changes nothing; the permissions of the markers suffice; the Secret watch is
    exact; metrics count every pass once.
  \<^item> Operator: whatever is not in the queue has nothing left to do, so no change is lost, and its
    stored status is true of the cluster as it is; without changes by others at most two passes per
    request are possible, in any order; the queue is emptied and every resource has the objects it asks for; a pass fails exactly when another controller has taken one of
    them.
  \<^item> Memory: a deep copy denotes the value of the original and neither sees what is written through the
    other; building and normalising a status in place compute what the value functions compute and leave
    the previous status alone.
  \<^item> Process: closed defaults of the servers, the round trip of the command line, the order of the start.

  Properties of the reconciler that hold whatever the cluster answers take an arbitrary client, whose
  every call may change the world: other writers may interleave with the pass at each call.  The
  hypothesis \<open>get_respects_key\<close>, where it appears, says that \<open>Get\<close> returns the object that was asked
  for.  Convergence is proved on the cluster of \<open>Cluster\<close>, in which nobody else writes during a pass; in
  \<open>Operator\<close> other clients write between passes.

  \<^bold>\<open>What is not modelled.\<close>  \<open>test/utils\<close> and the tests are not part of the program.  Log
  lines are left out.  Every path of \<open>Reconcile\<close> returns the zero \<open>ctrl.Result\<close>, so only its error is
  kept.  The cache, leader election and the backoff of retries of \<open>controller-runtime\<close> are behind
  the parameters: a pass reads the cluster as it is, and a failed request is back in the queue at once.
  Resource versions and the conflicts they cause are answers the arbitrary client
  may give, not something \<open>Cluster\<close> produces.  Kubernetes' own defaulting of the managed objects is not
  modelled, apart from the generation of a Deployment.  The changes other clients may make in \<open>Operator\<close>
  are those of \<open>environment_change\<close>: a change that no watch can notice, such as a status written by hand or
  an object under the name of a resource that never had a controller, is not among them.

  \<^bold>\<open>Next.\<close>  Conflicting resource versions and stale reads of the cache; the rollout of a Deployment as a
  step of the environment, and that a resource becomes ready; defaulting of managed objects by the API
  server.
\<close>

end
